(* ===== verification/Bpf_Prelude.thy ===== *)
theory Bpf_Prelude
  imports Main "HOL-Library.Word"
begin

text \<open>
  Shared vocabulary of the development: the machine integers of the Rust sources as words, the
  casts and shifts they use, and the lemmas that move word arithmetic to natural numbers where no
  wrap-around happens.

  Rust's \<^verbatim>\<open>wrapping_add\<close>, \<^verbatim>\<open>wrapping_sub\<close>, \<^verbatim>\<open>wrapping_mul\<close> are \<open>+\<close>, \<open>-\<close>, \<open>*\<close> on words; a plain \<open>+\<close>,
  \<open>-\<close>, \<open>*\<close> wraps as well, because the programs are built in release mode with overflow checks off.
  \<^verbatim>\<open>x as u64\<close> of an unsigned value is \<open>ucast\<close>, \<^verbatim>\<open>x as i32 as i64 as u64\<close> is \<open>scast\<close>; \<^verbatim>\<open>>>\<close> on
  unsigned values is \<open>drop_bit\<close>, \<^verbatim>\<open><<\<close> is \<open>push_bit\<close>.
\<close>

unbundle bit_operations_syntax

type_synonym u8 = "8 word"
type_synonym u16 = "16 word"
type_synonym u32 = "32 word"
type_synonym u64 = "64 word"
type_synonym i32 = "32 word"
type_synonym i64 = "64 word"

named_theorems unat_lims \<open>facts that read words as natural numbers\<close>

subsection \<open>Words as natural numbers\<close>

lemma unat_drop_bit [unat_lims]: "unat (drop_bit n (x :: 'a::len word)) = unat x div 2 ^ n"
  unfolding unat_drop_bit_eq by (rule drop_bit_nat_def)

lemma unat_add_lt:
  fixes x y :: "'a::len word"
  assumes "unat x + unat y < 2 ^ LENGTH('a)"
  shows "unat (x + y) = unat x + unat y"
  using assms by (simp add: unat_word_ariths)

lemma unat_mult_lt:
  fixes x y :: "'a::len word"
  assumes "unat x * unat y < 2 ^ LENGTH('a)"
  shows "unat (x * y) = unat x * unat y"
  using assms by (simp add: unat_word_ariths)

lemma unat_mult_u64: "unat x * unat y < 2 ^ 64 \<Longrightarrow> unat (x * y :: u64) = unat x * unat y"
  by (simp add: unat_mult_lt)

lemma unat_mult_u32: "unat x * unat y < 2 ^ 32 \<Longrightarrow> unat (x * y :: u32) = unat x * unat y"
  by (simp add: unat_mult_lt)

lemma unat_sub_le:
  fixes x y :: "'a::len word"
  assumes "y \<le> x"
  shows "unat (x - y) = unat x - unat y"
  using assms by (simp add: unat_sub)

lemma unat_push_bit_lt:
  fixes x :: "'a::len word"
  assumes "unat x * 2 ^ n < 2 ^ LENGTH('a)"
  shows "unat (push_bit n x) = unat x * 2 ^ n"
  using assms unfolding unsigned_push_bit_eq
  by (simp add: take_bit_nat_eq_self push_bit_nat_def)

lemma unat_max [unat_lims]: "unat (max x y) = max (unat x) (unat (y :: 'a::len word))"
  by (simp add: max_def word_le_nat_alt)

lemma unat_min [unat_lims]: "unat (min x y) = min (unat x) (unat (y :: 'a::len word))"
  by (simp add: min_def word_le_nat_alt)

lemma unat_u32_lt: "unat (x :: u32) < 4294967296"
  using unsigned_less [of x] by simp

lemma unat_u64_lt: "unat (x :: u64) < 18446744073709551616"
  using unsigned_less [of x] by simp

lemma unat_u8_lt: "unat (x :: u8) < 256"
  using unsigned_less [of x] by simp

lemma unat_u16_lt: "unat (x :: u16) < 65536"
  using unsigned_less [of x] by simp

lemma unat_ucast_up:
  fixes x :: "'a::len word"
  assumes "LENGTH('a) \<le> LENGTH('b::len)"
  shows "unat (ucast x :: 'b word) = unat x"
proof -
  have "unat x < 2 ^ LENGTH('b)"
    by (rule order_less_le_trans [OF unsigned_less]) (simp add: assms)
  then show ?thesis by (simp add: unsigned_ucast_eq take_bit_nat_eq_self)
qed

lemma unat_ucast_32_64 [simp]: "unat (ucast (x :: u32) :: u64) = unat x"
  by (rule unat_ucast_up) simp

lemma unat_ucast_8_32 [simp]: "unat (ucast (x :: u8) :: u32) = unat x"
  by (rule unat_ucast_up) simp

lemma unat_ucast_16_32 [simp]: "unat (ucast (x :: u16) :: u32) = unat x"
  by (rule unat_ucast_up) simp

lemma unat_ucast_64_32:
  assumes "unat (x :: u64) < 2 ^ 32"
  shows "unat (ucast x :: u32) = unat x"
  using assms by (simp add: unsigned_ucast_eq take_bit_nat_eq_self)

text \<open>Counters: an increment below a bound and a decrement from a positive value do not wrap.\<close>

lemma unat_inc:
  fixes x y :: "'a::len word"
  assumes "x < y"
  shows "unat (x + 1) = Suc (unat x)" and "x + 1 \<le> y"
proof -
  have "unat x < unat y" using assms by (simp add: word_less_nat_alt)
  then have "Suc (unat x) < 2 ^ LENGTH('a)" by (metis Suc_leI order_le_less_trans unsigned_less)
  then have "unat x + unat (1 :: 'a word) < 2 ^ LENGTH('a)" by simp
  then show u: "unat (x + 1) = Suc (unat x)" by (simp add: unat_add_lt)
  show "x + 1 \<le> y" using \<open>unat x < unat y\<close> by (simp add: word_le_nat_alt u)
qed

lemma unat_pred: "unat (x :: 'a::len word) = Suc n \<Longrightarrow> unat (x - 1) = n"
  by (subst unat_sub_le) (auto simp: word_le_nat_alt)

text \<open>A signed reading of a small value.\<close>

lemma sint_small:
  fixes x :: "'a::len word"
  assumes "unat x < 2 ^ (LENGTH('a) - 1)"
  shows "sint x = int (unat x)"
proof -
  have "int (unat x) < int (2 ^ (LENGTH('a) - 1))" using assms by (simp only: of_nat_less_iff)
  then have u: "uint x < 2 ^ (LENGTH('a) - Suc 0)" by simp
  have l: "- (2 ^ (LENGTH('a) - Suc 0)) \<le> uint x" by (rule order_trans [of _ 0]) simp_all
  have "sint x = uint x" unfolding sint_uint by (rule signed_take_bit_int_eq_self [OF l u])
  then show ?thesis by simp
qed

text \<open>A test of the high bits of a word, as in \<^verbatim>\<open>x & (!0 << n) == 0\<close>.\<close>

lemma and_not_mask_eq_0_iff:
  fixes x :: "'a::len word"
  shows "x AND NOT (mask n) = 0 \<longleftrightarrow> unat x < 2 ^ n"
proof -
  have "x AND NOT (mask n) = 0 \<longleftrightarrow> take_bit n x = x"
    by (auto simp: bit_eq_iff bit_simps dest: bit_imp_le_length)
  also have "\<dots> \<longleftrightarrow> take_bit n (unat x) = unat x"
    by (metis unsigned_take_bit_eq word_unat_eq_iff)
  also have "\<dots> \<longleftrightarrow> unat x < 2 ^ n"
    by (rule take_bit_nat_eq_self_iff)
  finally show ?thesis .
qed

end
