(* ===== verification/Bpf_Isa.thy ===== *)
theory Bpf_Isa
  imports Bpf_Prelude "HOL-Library.Signed_Division"
begin

text \<open>
  The BPF instructions that the naked functions of the \<^verbatim>\<open>verifier_*.rs\<close> programs are written in, as an
  interpreter. A program is the list of its instructions in the order of the source, with its labels
  in place (a label \<^verbatim>\<open>l0_7\<close> is \<open>Lab 0\<close>, the number after the underscore only makes it unique in the
  file). A register is its number, \<^verbatim>\<open>w3\<close> being register 3 in width \<open>W32\<close>.

  Everything outside of the program is a parameter: the environment \<open>'w isa_env\<close> holds the helper
  functions, which return a value and leave arbitrary values in the argument registers \<open>r1\<close> to \<open>r5\<close>, and
  the loads from the context, which the kernel rewrites to loads of the kernel's own fields. Memory is
  a partial function from addresses to bytes; an access to an address outside of it is a fault. The
  helpers these programs call (the time and the random number) leave memory alone.

  An instruction that the kernel refuses wherever it can be reached (a division by the constant zero, a
  shift by the width or more, a write to the frame pointer) and the end of the program without
  \<^verbatim>\<open>exit\<close> are the outcome \<open>Illegal\<close>: tests use such an instruction to mark code that must not be reached.

  Every taken jump uses one unit of fuel; straight-line code uses none.
\<close>

section \<open>Instructions\<close>

datatype width = W32 | W64

datatype operand = Reg nat | Imm int

datatype alu = MOV | ADD | SUB | MUL | DIV | MOD | SDIV | SMOD | BAND | BOR | BXOR | LSH | RSH | ARSH

datatype jcond = JEQ | JNE | JLT | JLE | JGT | JGE | JSLT | JSLE | JSGT | JSGE | JSET

datatype target = L nat | Off nat

datatype insn =
    Alu width alu nat operand
  | Neg width nat
  | Movsx width nat nat nat
  | Swap nat nat
  | Trunc nat nat
  | Lddw nat int
  | Ldx nat nat nat int
  | Ldsx nat nat nat int
  | Stx nat nat int operand
  | Jmp width jcond nat operand target
  | Goto target
  | Lab nat
  | Call nat
  | Exit

type_synonym prog = "insn list"

section \<open>Arithmetic\<close>

text \<open>Division by zero gives zero and the remainder the dividend; signed division truncates and wraps.\<close>

fun alu_op :: "alu \<Rightarrow> 'a::len word \<Rightarrow> 'a word \<Rightarrow> 'a word" where
  "alu_op MOV a b = b"
| "alu_op ADD a b = a + b"
| "alu_op SUB a b = a - b"
| "alu_op MUL a b = a * b"
| "alu_op DIV a b = (if b = 0 then 0 else a div b)"
| "alu_op MOD a b = (if b = 0 then a else a mod b)"
| "alu_op SDIV a b = (if b = 0 then 0 else word_of_int (sint a sdiv sint b))"
| "alu_op SMOD a b = (if b = 0 then a else word_of_int (sint a smod sint b))"
| "alu_op BAND a b = a AND b"
| "alu_op BOR a b = a OR b"
| "alu_op BXOR a b = a XOR b"
| "alu_op LSH a b = push_bit (unat b mod LENGTH('a)) a"
| "alu_op RSH a b = drop_bit (unat b mod LENGTH('a)) a"
| "alu_op ARSH a b = signed_drop_bit (unat b mod LENGTH('a)) a"

text \<open>A 32-bit operation clears the upper half of the register.\<close>

fun alu_val :: "width \<Rightarrow> alu \<Rightarrow> u64 \<Rightarrow> u64 \<Rightarrow> u64" where
  "alu_val W64 f a b = alu_op f a b"
| "alu_val W32 f a b = ucast (alu_op f (ucast a :: u32) (ucast b))"

fun jump_op :: "jcond \<Rightarrow> 'a::len word \<Rightarrow> 'a word \<Rightarrow> bool" where
  "jump_op JEQ a b = (a = b)"
| "jump_op JNE a b = (a \<noteq> b)"
| "jump_op JLT a b = (a < b)"
| "jump_op JLE a b = (a \<le> b)"
| "jump_op JGT a b = (a > b)"
| "jump_op JGE a b = (a \<ge> b)"
| "jump_op JSLT a b = (sint a < sint b)"
| "jump_op JSLE a b = (sint a \<le> sint b)"
| "jump_op JSGT a b = (sint a > sint b)"
| "jump_op JSGE a b = (sint a \<ge> sint b)"
| "jump_op JSET a b = (a AND b \<noteq> 0)"

fun jump_val :: "width \<Rightarrow> jcond \<Rightarrow> u64 \<Rightarrow> u64 \<Rightarrow> bool" where
  "jump_val W64 c a b = jump_op c a b"
| "jump_val W32 c a b = jump_op c (ucast a :: u32) (ucast b)"

text \<open>Sign extension of the lower 8, 16 or 32 bits to the width, and the lower bits alone.\<close>

definition sext :: "nat \<Rightarrow> u64 \<Rightarrow> u64" where
  "sext n v = (if bit v (n - 1) then take_bit n v - push_bit n 1 else take_bit n v)"

fun movsx_val :: "width \<Rightarrow> nat \<Rightarrow> u64 \<Rightarrow> u64" where
  "movsx_val W64 n v = sext n v"
| "movsx_val W32 n v = take_bit 32 (sext n v)"

text \<open>The lower \<open>n\<close> bits with their bytes in the opposite order.\<close>

fun swap_bytes :: "nat \<Rightarrow> u64 \<Rightarrow> u64" where
  "swap_bytes 0 v = 0"
| "swap_bytes (Suc k) v = push_bit (8 * k) (take_bit 8 v) OR swap_bytes k (drop_bit 8 v)"

section \<open>Machine\<close>

type_synonym memory = "u64 \<Rightarrow> u8 option"

record 'w isa_state =
  regs :: "nat \<Rightarrow> u64"
  mem :: memory
  host :: 'w

record 'w isa_env =
  helper :: "nat \<Rightarrow> 'w \<Rightarrow> u64 \<times> (nat \<Rightarrow> u64) \<times> 'w"
  ctx_load :: "u64 \<Rightarrow> nat \<Rightarrow> u64 option"

datatype trap = Fault | Illegal | Timeout

datatype outcome = Ret u64 | Trap trap

text \<open>Loads and stores of \<open>n\<close> bytes, least significant byte first.\<close>

fun load :: "nat \<Rightarrow> memory \<Rightarrow> u64 \<Rightarrow> u64 option" where
  "load 0 m a = Some 0"
| "load (Suc n) m a =
     (case m a of
        None \<Rightarrow> None
      | Some b \<Rightarrow> (case load n m (a + 1) of None \<Rightarrow> None | Some v \<Rightarrow> Some (ucast b OR push_bit 8 v)))"

fun store :: "nat \<Rightarrow> memory \<Rightarrow> u64 \<Rightarrow> u64 \<Rightarrow> memory option" where
  "store 0 m a v = Some m"
| "store (Suc n) m a v =
     (case m a of
        None \<Rightarrow> None
      | Some _ \<Rightarrow> store n (m(a := Some (ucast v))) (a + 1) (drop_bit 8 v))"

definition read_mem :: "'w isa_env \<Rightarrow> nat \<Rightarrow> memory \<Rightarrow> u64 \<Rightarrow> u64 option" where
  "read_mem E n m a = (case ctx_load E a n of Some v \<Rightarrow> Some v | None \<Rightarrow> load n m a)"

text \<open>An immediate operand is a 32-bit value, sign-extended.\<close>

fun op_val :: "'w isa_state \<Rightarrow> operand \<Rightarrow> u64" where
  "op_val s (Reg r) = regs s r"
| "op_val s (Imm i) = scast (word_of_int i :: u32)"

definition call_helper :: "'w isa_env \<Rightarrow> nat \<Rightarrow> 'w isa_state \<Rightarrow> 'w isa_state" where
  "call_helper E f s =
     s\<lparr>regs := (\<lambda>r. if r = 0 then fst (helper E f (host s))
                   else if r \<le> 5 then fst (snd (helper E f (host s))) r else regs s r),
       host := snd (snd (helper E f (host s)))\<rparr>"

text \<open>The code after a label, and the code after skipping \<open>n\<close> instruction slots.\<close>

fun after :: "nat \<Rightarrow> prog \<Rightarrow> prog" where
  "after l [] = []"
| "after l (i # is) = (if i = Lab l then is else after l is)"

fun skip :: "nat \<Rightarrow> prog \<Rightarrow> prog" where
  "skip n [] = []"
| "skip n (i # is) =
     (if n = 0 then i # is
      else case i of Lab _ \<Rightarrow> skip n is | Lddw _ _ \<Rightarrow> skip (n - 2) is | _ \<Rightarrow> skip (n - 1) is)"

fun jump_to :: "target \<Rightarrow> prog \<Rightarrow> prog \<Rightarrow> prog" where
  "jump_to (L l) P is = after l P"
| "jump_to (Off n) P is = skip n is"

text \<open>Constants that the kernel accepts in an instruction; register 10 is the read-only frame pointer.\<close>

fun legal :: "width \<Rightarrow> alu \<Rightarrow> operand \<Rightarrow> bool" where
  "legal w f (Reg r) = True"
| "legal w f (Imm i) =
     (if f \<in> {DIV, MOD, SDIV, SMOD} then i \<noteq> 0
      else if f \<in> {LSH, RSH, ARSH} then 0 \<le> i \<and> i < (if w = W32 then 32 else 64)
      else True)"

definition write_reg :: "nat \<Rightarrow> u64 \<Rightarrow> 'w isa_state \<Rightarrow> trap + 'w isa_state" where
  "write_reg d v s = (if d < 10 then Inr (s\<lparr>regs := (regs s)(d := v)\<rparr>) else Inl Illegal)"

text \<open>The effect of an instruction that does not jump.\<close>

fun effect :: "'w isa_env \<Rightarrow> insn \<Rightarrow> 'w isa_state \<Rightarrow> trap + 'w isa_state" where
  "effect E (Alu w f d x) s =
     (if legal w f x then write_reg d (alu_val w f (regs s d) (op_val s x)) s else Inl Illegal)"
| "effect E (Neg w d) s = write_reg d (alu_val w SUB 0 (regs s d)) s"
| "effect E (Movsx w k d r) s = write_reg d (movsx_val w k (regs s r)) s"
| "effect E (Swap k d) s = write_reg d (swap_bytes (k div 8) (regs s d)) s"
| "effect E (Trunc k d) s = write_reg d (take_bit k (regs s d)) s"
| "effect E (Lddw d i) s = write_reg d (word_of_int i) s"
| "effect E (Ldx k d r i) s =
     (case read_mem E k (mem s) (regs s r + word_of_int i) of
        None \<Rightarrow> Inl Fault
      | Some v \<Rightarrow> write_reg d v s)"
| "effect E (Ldsx k d r i) s =
     (case read_mem E k (mem s) (regs s r + word_of_int i) of
        None \<Rightarrow> Inl Fault
      | Some v \<Rightarrow> write_reg d (sext (8 * k) v) s)"
| "effect E (Stx k r i x) s =
     (case store k (mem s) (regs s r + word_of_int i) (op_val s x) of
        None \<Rightarrow> Inl Fault
      | Some m \<Rightarrow> Inr (s\<lparr>mem := m\<rparr>))"
| "effect E (Call f) s = Inr (call_helper E f s)"
| "effect E (Lab l) s = Inr s"
| "effect E _ s = Inl Illegal"

function (sequential) exec :: "nat \<Rightarrow> 'w isa_env \<Rightarrow> prog \<Rightarrow> prog \<Rightarrow> 'w isa_state \<Rightarrow> outcome" where
  "exec n E P [] s = Trap Illegal"
| "exec n E P (Exit # is) s = Ret (regs s 0)"
| "exec n E P (Goto t # is) s =
     (case n of 0 \<Rightarrow> Trap Timeout | Suc m \<Rightarrow> exec m E P (jump_to t P is) s)"
| "exec n E P (Jmp w c r x t # is) s =
     (if jump_val w c (regs s r) (op_val s x)
      then (case n of 0 \<Rightarrow> Trap Timeout | Suc m \<Rightarrow> exec m E P (jump_to t P is) s)
      else exec n E P is s)"
| "exec n E P (i # is) s = (case effect E i s of Inl e \<Rightarrow> Trap e | Inr s' \<Rightarrow> exec n E P is s')"
  by pat_completeness auto
termination
  by (relation "measures [\<lambda>(n, E, P, is, s). n, \<lambda>(n, E, P, is, s). length is]") auto

text \<open>A test runs the program with fuel for eight jumps and compares the lower half of \<open>r0\<close>.\<close>

definition run :: "'w isa_env \<Rightarrow> prog \<Rightarrow> 'w isa_state \<Rightarrow> outcome" where
  "run E P s = exec (Suc (Suc (Suc (Suc (Suc (Suc (Suc (Suc 0)))))))) E P P s"

definition returns :: "'w isa_env \<Rightarrow> prog \<Rightarrow> 'w isa_state \<Rightarrow> int \<Rightarrow> bool" where
  "returns E P s v = (case run E P s of Ret x \<Rightarrow> (ucast x :: u32) = word_of_int v | _ \<Rightarrow> False)"

text \<open>
  What a \<^verbatim>\<open>test_tags!\<close> entry promises of a program: that it is accepted and returns the value of
  \<^verbatim>\<open>__retval\<close>, or that it is refused.
\<close>

datatype verdict = Success int | Failure

type_synonym test = "prog \<times> verdict"

fun meets :: "'w isa_env \<Rightarrow> 'w isa_state \<Rightarrow> test \<Rightarrow> bool" where
  "meets E s (p, Success v) = returns E p s v"
| "meets E s (p, Failure) = True"

definition rejected :: "test list \<Rightarrow> prog list" where
  "rejected ts = map fst (filter (\<lambda>(p, v). v = Failure) ts)"

text \<open>A concrete environment and state for examples: no context, and zeroed memory everywhere.\<close>

definition blank_env :: "unit isa_env" where
  "blank_env = \<lparr>helper = \<lambda>f w. (0, \<lambda>r. 0, w), ctx_load = \<lambda>a k. None\<rparr>"

definition blank_state :: "u64 \<Rightarrow> unit isa_state" where
  "blank_state v = \<lparr>regs = \<lambda>r. v, mem = \<lambda>a. Some 0, host = ()\<rparr>"

section \<open>Symbolic execution\<close>

abbreviation result :: "'w isa_env \<Rightarrow> nat \<Rightarrow> 'w isa_state \<Rightarrow> u64" where
  "result E f s \<equiv> fst (helper E f (host s))"

named_theorems test_ok \<open>what the test programs return\<close>

lemmas isa_simps = returns_def run_def call_helper_def read_mem_def write_reg_def

lemma ucast_half [simp]: "(ucast (ucast (x :: u32) :: u64) :: u32) = x"
  by (rule bit_word_eqI) (simp add: bit_simps)

lemma ucast_minus_1 [simp]: "(ucast (- 1 :: u64) :: u32) = - 1"
  by (rule bit_word_eqI) (simp add: bit_simps)

lemma ucast_minus_1_up [simp]: "(ucast (- 1 :: u32) :: u64) = 4294967295"
  by (simp add: unsigned_minus_1_eq_mask mask_eq_exp_minus_1)

lemma smod_1 [simp]: "a smod (1 :: int) = 0"
  by (simp add: signed_modulo_int_def)

text \<open>The upper half after a 32-bit operation.\<close>

lemma drop_half [simp]: "drop_bit 32 (ucast (x :: u32) :: u64) = 0"
  by (rule bit_word_eqI) (auto simp: bit_simps dest: bit_imp_le_length)

end
