(* ===== verification/Bpf_Values.thy ===== *)
theory Bpf_Values
  imports Bpf_Isa
begin

text \<open>
  Facts on the values in registers that the lemmas about test programs share: how wide a loaded, swapped
  or sign-extended value is, bounds of the truncated quotient and remainder (the bounds the kernel's
  verifier tracks), the few values that a masked register can have, and when an access to memory
  succeeds.
\<close>

section \<open>Widths\<close>


lemma bit_swap_bytes: "bit (swap_bytes k v) n \<Longrightarrow> n < 8 * k"
  by (induction k arbitrary: v) (fastforce simp: bit_simps)+

lemma drop_swap_bytes [simp]: "8 * k \<le> m \<Longrightarrow> drop_bit m (swap_bytes k v) = 0"
  by (rule bit_word_eqI) (auto simp: bit_simps dest: bit_swap_bytes)

lemma bit_load: "load k m a = Some v \<Longrightarrow> bit v n \<Longrightarrow> n < 8 * k"
  by (induction k arbitrary: a v n) (fastforce simp: bit_simps split: option.splits dest: bit_imp_le_length)+

lemma drop_load: "load k m a = Some v \<Longrightarrow> 8 * k \<le> n \<Longrightarrow> drop_bit n v = 0"
  by (rule bit_word_eqI) (auto simp: bit_simps dest: bit_load)

section \<open>Truncated division\<close>

lemma nonneg_mod_abs: "0 \<le> a \<Longrightarrow> 0 \<le> a mod \<bar>c :: int\<bar>"
  by (cases "c = 0") simp_all

lemma sdiv_mono:
  assumes "a \<le> b" "0 < c" shows "a sdiv c \<le> b sdiv (c :: int)"
proof (cases "a \<le> 0 \<and> 0 \<le> b")
  case True
  then have "0 \<le> - a div c" "0 \<le> b div c" using assms by (simp_all add: pos_imp_zdiv_nonneg_iff)
  then show ?thesis using True assms by (auto simp: signed_divide_int_def sgn_if)
next
  case False
  then show ?thesis using assms
    by (auto simp: signed_divide_int_def sgn_if intro: zdiv_mono1)
qed

lemma abs_sdiv_le: "\<bar>a sdiv c\<bar> \<le> \<bar>a :: int\<bar>"
  using sdiv_int_range [of a c] by auto

lemma smod_nonneg: "0 \<le> a \<Longrightarrow> 0 \<le> a smod (c :: int)"
  by (auto simp: signed_modulo_int_def sgn_if nonneg_mod_abs)

lemma smod_nonpos: "a \<le> 0 \<Longrightarrow> a smod (c :: int) \<le> 0"
  using nonneg_mod_abs [of "- a" c] by (auto simp: signed_modulo_int_def sgn_if)

lemma abs_smod_less: "c \<noteq> 0 \<Longrightarrow> \<bar>a smod c\<bar> < \<bar>c :: int\<bar>"
  by (auto simp: signed_modulo_int_def abs_mult sgn_if)

lemma abs_smod_le: "\<bar>a smod c\<bar> \<le> \<bar>a :: int\<bar>"
  using nonneg_mod_abs [of "\<bar>a\<bar>" c] zmod_le_nonneg_dividend [of "\<bar>a\<bar>" "\<bar>c\<bar>"]
  by (simp add: signed_modulo_int_def abs_mult abs_sgn_eq)

lemma smod_small: "\<bar>a\<bar> < \<bar>c\<bar> \<Longrightarrow> a smod c = (a :: int)"
  by (auto simp: signed_modulo_int_def sgn_if)

lemma sint_word_of_int:
  "- (2 ^ (LENGTH('a) - 1)) \<le> i \<Longrightarrow> i < 2 ^ (LENGTH('a) - 1) \<Longrightarrow> sint (word_of_int i :: 'a::len word) = i"
  by (simp add: sint_sbintrunc' signed_take_bit_int_eq_self)

lemma sdiv_range:
  assumes "- M \<le> a" "a < M" "c \<noteq> - 1"
  shows "- M \<le> a sdiv c \<and> a sdiv c < (M :: int)"
proof (cases "\<bar>c\<bar> \<le> 1")
  case True
  then have "c = 0 \<or> c = 1" using assms(3) by linarith
  then show ?thesis using assms by (auto simp: sdiv_int_div_0)
next
  case False
  have "\<bar>a sdiv c\<bar> \<le> \<bar>a\<bar> div \<bar>c\<bar>" by (simp add: signed_divide_int_def abs_mult abs_sgn_eq pos_imp_zdiv_nonneg_iff)
  also have "\<dots> \<le> \<bar>a\<bar> div 2" using False by (intro zdiv_mono2) auto
  also have "\<dots> < M" using assms by linarith
  finally show ?thesis by linarith
qed

lemma sint_sdiv:
  "c \<noteq> - 1 \<Longrightarrow> sint (word_of_int (sint a sdiv c) :: 'a::len word) = sint (a :: 'a word) sdiv c"
  using sdiv_range [OF sint_ge sint_lt, of c a] by (intro sint_word_of_int) simp_all

lemma sint_sdiv_neg:
  "c \<noteq> 1 \<Longrightarrow> sint (- word_of_int (sint a sdiv c) :: 'a::len word) = - (sint (a :: 'a word) sdiv c)"
  using sint_sdiv [of "- c" a] by simp

lemma smod_bounds:
  "c \<noteq> 0 \<Longrightarrow> (0 \<le> a \<longrightarrow> 0 \<le> a smod c) \<and> (a \<le> 0 \<longrightarrow> a smod c \<le> 0) \<and> \<bar>a smod c\<bar> < \<bar>c\<bar> \<and>
   (\<bar>a\<bar> < \<bar>c\<bar> \<longrightarrow> a smod c = (a :: int))"
  by (simp add: smod_nonneg smod_nonpos abs_smod_less smod_small)

lemma smod_range: "- M \<le> a \<Longrightarrow> a < M \<Longrightarrow> - M \<le> a smod c \<and> a smod c < (M :: int)"
  using abs_smod_le [of a c] smod_nonneg [of a c] smod_nonpos [of a c] by linarith

lemma sint_smod: "sint (word_of_int (sint a smod c) :: 'a::len word) = sint (a :: 'a word) smod c"
  using smod_range [OF sint_ge sint_lt, of a c] by (intro sint_word_of_int) simp_all

section \<open>Masked and extended values\<close>

lemma and_exp: "x AND 2 ^ n = (if bit x n then 2 ^ n else (0 :: 'a::len word))"
  by (rule bit_word_eqI) (auto simp: bit_simps)

lemma and_8: "x AND 8 = (if bit x 3 then 8 else (0 :: 'a::len word))"
  using and_exp [of x 3] by simp


lemma and_1: "x AND 1 = (if bit x 0 then 1 else (0 :: 'a::len word))"
  using and_exp [of x 0] by simp

lemma sext_eq:
  assumes "0 < n" "n \<le> 64" shows "sext n v = word_of_int (signed_take_bit (n - 1) (uint v))"
proof -
  have "take_bit n v = word_of_int (take_bit n (uint v))"
    by (rule bit_word_eqI) (simp add: bit_simps)
  moreover have "bit v (n - 1) = bit (uint v) (n - 1)" using assms by (auto simp: bit_uint_iff)
  ultimately show ?thesis using assms
    by (simp add: sext_def signed_take_bit_eq_take_bit_minus push_bit_eq_mult)
qed

lemma sint_sext: "0 < n \<Longrightarrow> n \<le> 64 \<Longrightarrow> sint (sext n v) = signed_take_bit (n - 1) (uint v)"
  by (simp add: sext_eq sint_sbintrunc' signed_take_bit_signed_take_bit)

lemma sint_ucast_sext:
  "0 < n \<Longrightarrow> n \<le> 32 \<Longrightarrow> sint (ucast (sext n v) :: u32) = signed_take_bit (n - 1) (uint v)"
  by (simp add: sext_eq sint_sbintrunc' signed_take_bit_signed_take_bit unsigned_of_int signed_take_bit_take_bit)

lemma ucast_take_32 [simp]: "(ucast (take_bit 32 x :: u64) :: u32) = ucast x"
  by (rule bit_word_eqI) (simp add: bit_simps)

lemma sext_range:
  assumes "0 < n" shows "- (2 ^ (n - 1)) \<le> signed_take_bit (n - 1) i \<and> signed_take_bit (n - 1) i < (2 ^ (n - 1) :: int)"
  by (simp add: signed_take_bit_int_less_exp signed_take_bit_int_greater_eq_minus_exp)

lemma below_4 [simp]: "(x :: u64) < 4 \<longleftrightarrow> x \<le> 3" "(y :: u32) < 4 \<longleftrightarrow> y \<le> 3"
  by (auto simp: word_le_nat_alt word_less_nat_alt)

lemma small_word: "unat x < n \<Longrightarrow> x \<in> set (map of_nat [0..<n])"
  by (auto intro!: image_eqI [of _ _ "unat x"])

lemma and_15_cases:
  "x AND 15 = 0 \<or> x AND 15 = 1 \<or> x AND 15 = 2 \<or> x AND 15 = 3 \<or> x AND 15 = 4 \<or> x AND 15 = 5 \<or>
   x AND 15 = 6 \<or> x AND 15 = 7 \<or> x AND 15 = 8 \<or> x AND 15 = 9 \<or> x AND 15 = 10 \<or> x AND 15 = 11 \<or>
   x AND 15 = 12 \<or> x AND 15 = 13 \<or> x AND 15 = 14 \<or> x AND 15 = 15" for x :: u64
proof -
  have "unat (x AND 15) < 16" using word_and_le1 [of x 15] by (simp add: word_le_nat_alt)
  from small_word [OF this] show ?thesis by (simp add: upt_rec)
qed

lemma and_6_bound: "x AND 6 < (7 :: u32)"
  using word_and_le1 [of x 6] by (simp add: word_le_nat_alt word_less_nat_alt)

lemma rsh_28_bound: "drop_bit 28 x < (16 :: u32)"
  using unsigned_less [of x, where 'a = nat] by (simp add: word_less_nat_alt unat_drop_bit_eq drop_bit_eq_div unat_div)

lemma arsh_31: "signed_drop_bit 31 x = (if bit x 31 then - 1 else (0 :: u32))"
  by (rule bit_word_eqI) (auto simp: bit_simps Suc_le_eq)

lemma arsh_63: "signed_drop_bit 63 x = (if bit x 63 then - 1 else (0 :: u64))"
  by (rule bit_word_eqI) (auto simp: bit_simps Suc_le_eq)

section \<open>Memory\<close>

definition mapped :: "memory \<Rightarrow> u64 \<Rightarrow> nat \<Rightarrow> bool" where
  "mapped m a k = (\<forall>i < k. m (a + of_nat i) \<noteq> None)"

lemma mapped_Suc: "mapped m a (Suc k) \<longleftrightarrow> m a \<noteq> None \<and> mapped m (a + 1) k"
  by (auto simp: mapped_def less_Suc_eq_0_disj ac_simps)

lemma mapped_dom: "dom m = dom m' \<Longrightarrow> mapped m a k = mapped m' a k"
  by (auto simp: mapped_def domIff set_eq_iff)

lemma mapped_less: "mapped m a k \<Longrightarrow> j \<le> k \<Longrightarrow> mapped m a j"
  by (simp add: mapped_def)

lemma load_mapped: "mapped m a k \<Longrightarrow> \<exists>v. load k m a = Some v"
  by (induction k arbitrary: a) (fastforce simp: mapped_Suc)+

lemma store_mapped: "mapped m a k \<Longrightarrow> \<exists>m'. store k m a v = Some m' \<and> dom m' = dom m"
proof (induction k arbitrary: m a v)
  case (Suc k)
  have d: "dom (m(a := Some (ucast v))) = dom m" using Suc.prems by (auto simp: mapped_Suc)
  then have "mapped (m(a := Some (ucast v))) (a + 1) k"
    using Suc.prems mapped_dom [OF d] by (simp add: mapped_Suc)
  from Suc.IH [OF this] show ?case using Suc.prems d by (fastforce simp: mapped_Suc)
qed simp

text \<open>The stack frame: the 512 bytes below the frame pointer are memory.\<close>

definition stack_ok :: "'w isa_env \<Rightarrow> 'w isa_state \<Rightarrow> bool" where
  "stack_ok E s \<longleftrightarrow>
     mapped (mem s) (regs s 10 - 512) 512 \<and>
     (\<forall>i < 512. list_all (\<lambda>k. ctx_load E (regs s 10 - 512 + of_nat i) k = None) [1, 2, 4, 8])"

lemma stack_slot:
  assumes "stack_ok E s" "j < 512" "j + k \<le> 512"
  shows "mapped (mem s) (regs s 10 - 512 + of_nat j) k"
    "list_all (\<lambda>n. ctx_load E (regs s 10 - 512 + of_nat j) n = None) [1, 2, 4, 8]"
  using assms
  by (auto simp: stack_ok_def mapped_def add.assoc simp flip: of_nat_add)

text \<open>A word that is stored into the frame can be loaded again, in parts too, and the loads are narrow.\<close>

lemma stack_word:
  assumes "stack_ok E s" "0 < k" "k \<le> 4"
  shows "\<exists>m' x. store 4 (mem s) (regs s 10 - 4) v = Some m' \<and> load k m' (regs s 10 - 4) = Some x \<and> drop_bit 32 x = 0"
proof -
  have "mapped (mem s) (regs s 10 - 4) 4" using stack_slot (1) [OF assms(1), of 508 4] by simp
  from store_mapped [OF this, of v] obtain m' where m: "store 4 (mem s) (regs s 10 - 4) v = Some m'"
    and d: "dom m' = dom (mem s)" by blast
  have "mapped m' (regs s 10 - 4) k"
    using \<open>mapped (mem s) _ 4\<close> assms mapped_dom [OF d] by (simp add: mapped_less)
  then obtain x where "load k m' (regs s 10 - 4) = Some x" using load_mapped by blast
  with m show ?thesis using drop_load [of k m' _ x 32] assms by auto
qed

end
