(* ===== verification/Equiv_Alu.thy ===== *)
theory Equiv_Alu
  imports Bpf_Values
begin

text \<open>
  The arithmetic of the symbolic executor \<^verbatim>\<open>src/equiv/bpfsym.py\<close>, which the equivalence checker uses to
  compare two BPF objects: the decoder of instructions, the arithmetic and byte-swap operations, the
  conditions of jumps, and the part of the main loop that executes them.

  A term of the solver stands for its value under an arbitrary assignment of the symbolic inputs; the
  modelled functions build terms and never look into them. The operations of the solver on bit vectors
  are a parameter (record \<open>solver\<close>, one for each width), and \<open>bv_spec\<close> is their meaning in the SMT-LIB
  theory of bit vectors. Extraction, extension and concatenation are casts. Registers hold data or a
  pointer into a named region, and \<^verbatim>\<open>Bail\<close> is the left summand.
\<close>

section \<open>The solver\<close>

record 'v solver =
  bvadd :: "'v \<Rightarrow> 'v \<Rightarrow> 'v"
  bvsub :: "'v \<Rightarrow> 'v \<Rightarrow> 'v"
  bvmul :: "'v \<Rightarrow> 'v \<Rightarrow> 'v"
  bvudiv :: "'v \<Rightarrow> 'v \<Rightarrow> 'v"
  bvsdiv :: "'v \<Rightarrow> 'v \<Rightarrow> 'v"
  bvurem :: "'v \<Rightarrow> 'v \<Rightarrow> 'v"
  bvsrem :: "'v \<Rightarrow> 'v \<Rightarrow> 'v"
  bvand :: "'v \<Rightarrow> 'v \<Rightarrow> 'v"
  bvor :: "'v \<Rightarrow> 'v \<Rightarrow> 'v"
  bvxor :: "'v \<Rightarrow> 'v \<Rightarrow> 'v"
  bvshl :: "'v \<Rightarrow> 'v \<Rightarrow> 'v"
  bvlshr :: "'v \<Rightarrow> 'v \<Rightarrow> 'v"
  bvashr :: "'v \<Rightarrow> 'v \<Rightarrow> 'v"
  bvneg :: "'v \<Rightarrow> 'v"
  bvult :: "'v \<Rightarrow> 'v \<Rightarrow> bool"
  bvslt :: "'v \<Rightarrow> 'v \<Rightarrow> bool"

text \<open>
  The SMT-LIB meaning: division by zero is all ones (or one, for a negative dividend of the signed
  division), the remainder by zero is the dividend, and a shift by the width or more loses all bits.
\<close>

definition bv_spec :: "'a::len word solver \<Rightarrow> bool" where
  "bv_spec Z \<longleftrightarrow> (\<forall>a b.
     bvadd Z a b = a + b \<and> bvsub Z a b = a - b \<and> bvmul Z a b = a * b \<and>
     bvudiv Z a b = (if b = 0 then - 1 else a div b) \<and>
     bvsdiv Z a b = (if b = 0 then (if sint a < 0 then 1 else - 1) else word_of_int (sint a sdiv sint b)) \<and>
     bvurem Z a b = (if b = 0 then a else a mod b) \<and>
     bvsrem Z a b = (if b = 0 then a else word_of_int (sint a smod sint b)) \<and>
     bvand Z a b = a AND b \<and> bvor Z a b = a OR b \<and> bvxor Z a b = a XOR b \<and>
     bvshl Z a b = push_bit (unat b) a \<and>
     bvlshr Z a b = drop_bit (unat b) a \<and>
     bvashr Z a b = signed_drop_bit (unat b) a \<and>
     bvneg Z a = - a \<and>
     bvult Z a b = (a < b) \<and> bvslt Z a b = (sint a < sint b))"

section \<open>Values\<close>

datatype bail =
    Pointer_as_data string
  | Pointer_difference
  | Alu_opcode nat
  | Swap_width int
  | Pointer_scalar_compare
  | Pointer_compare
  | Jmp_opcode nat
  | Stack_argument
  | Pseudo_src nat
  | Unaligned
  | Truncated

datatype val = Data u64 | Ptr string u64

fun need_data :: "val \<Rightarrow> bail + u64" where
  "need_data (Data v) = Inr v"
| "need_data (Ptr r off) = Inl (Pointer_as_data r)"

definition bv64 :: "int \<Rightarrow> u64" where
  "bv64 x = word_of_int (x mod 2 ^ 64)"

definition lo32 :: "u64 \<Rightarrow> u32" where
  "lo32 v = ucast v"

definition zext64 :: "u32 \<Rightarrow> u64" where
  "zext64 v = ucast v"

section \<open>Arithmetic\<close>

text \<open>\<^verbatim>\<open>SignExt(64 - n, Extract(n - 1, 0, v))\<close>\<close>

definition sign_extract :: "nat \<Rightarrow> u64 \<Rightarrow> u64" where
  "sign_extract n v =
     (if n = 8 then scast (ucast v :: u8) else if n = 16 then scast (ucast v :: u16) else scast (ucast v :: u32))"

text \<open>The operations on data, at one width; a zero divisor is handled before the solver's division.\<close>

definition data_op :: "'a::len word solver \<Rightarrow> nat \<Rightarrow> int \<Rightarrow> 'a word \<Rightarrow> 'a word \<Rightarrow> bail + 'a word" where
  "data_op Z code soff a b =
     (let m = bvand Z b (of_nat (LENGTH('a) - 1))
      in if code = 0 then Inr (bvadd Z a b)
      else if code = 1 then Inr (bvsub Z a b)
      else if code = 2 then Inr (bvmul Z a b)
      else if code = 3 then Inr (if b = 0 then 0 else if soff = 1 then bvsdiv Z a b else bvudiv Z a b)
      else if code = 4 then Inr (bvor Z a b)
      else if code = 5 then Inr (bvand Z a b)
      else if code = 6 then Inr (bvshl Z a m)
      else if code = 7 then Inr (bvlshr Z a m)
      else if code = 8 then Inr (bvneg Z a)
      else if code = 9 then Inr (if b = 0 then a else if soff = 1 then bvsrem Z a b else bvurem Z a b)
      else if code = 10 then Inr (bvxor Z a b)
      else if code = 12 then Inr (bvashr Z a m)
      else Inl (Alu_opcode code))"

definition sym_mov :: "bool \<Rightarrow> val \<Rightarrow> int \<Rightarrow> bail + val" where
  "sym_mov is64 src_val soff =
     (if is64 \<and> soff = 1 then Inr src_val
      else case src_val of
        Data v \<Rightarrow>
          Inr (Data (if soff \<in> {8, 16, 32}
                     then (let x = sign_extract (nat soff) v in if is64 then x else zext64 (lo32 x))
                     else if is64 then v else zext64 (lo32 v)))
      | Ptr r off \<Rightarrow> if is64 then Inr src_val else Inl (Pointer_as_data r))"

definition sym_data :: "u32 solver \<Rightarrow> u64 solver \<Rightarrow> nat \<Rightarrow> bool \<Rightarrow> val \<Rightarrow> val \<Rightarrow> int \<Rightarrow> bail + val" where
  "sym_data Z32 Z64 code is64 dst src_val soff =
     (case need_data dst of Inl e \<Rightarrow> Inl e
      | Inr a \<Rightarrow> (case need_data src_val of Inl e \<Rightarrow> Inl e
        | Inr b \<Rightarrow>
            if is64 then map_sum id Data (data_op Z64 code soff a b)
            else map_sum id (Data \<circ> zext64) (data_op Z32 code soff (lo32 a) (lo32 b))))"

definition sym_alu :: "u32 solver \<Rightarrow> u64 solver \<Rightarrow> nat \<Rightarrow> bool \<Rightarrow> val \<Rightarrow> val \<Rightarrow> int \<Rightarrow> bail + val" where
  "sym_alu Z32 Z64 code is64 dst src_val soff =
     (if code = 11 then sym_mov is64 src_val soff
      else case (dst, src_val) of
        (Ptr r p, Data b) \<Rightarrow>
          if code = 0 \<and> is64 then Inr (Ptr r (bvadd Z64 p b))
          else if code = 1 \<and> is64 then Inr (Ptr r (bvsub Z64 p b))
          else sym_data Z32 Z64 code is64 dst src_val soff
      | (Data a, Ptr r q) \<Rightarrow>
          if code = 0 \<and> is64 then Inr (Ptr r (bvadd Z64 q a))
          else sym_data Z32 Z64 code is64 dst src_val soff
      | (Ptr r p, Ptr r' q) \<Rightarrow>
          if code = 1 \<and> is64 then (if r' \<noteq> r then Inl Pointer_difference else Inr (Data (bvsub Z64 p q)))
          else sym_data Z32 Z64 code is64 dst src_val soff
      | (Data a, Data b) \<Rightarrow> sym_data Z32 Z64 code is64 dst src_val soff)"

text \<open>\<^verbatim>\<open>Concat\<close>: the first byte is the most significant one.\<close>

definition concat_bytes :: "u8 list \<Rightarrow> u64" where
  "concat_bytes bs = foldl (\<lambda>v b. push_bit 8 v OR ucast b) 0 bs"

definition endian_op :: "nat \<Rightarrow> bool \<Rightarrow> u64 \<Rightarrow> int \<Rightarrow> bail + u64" where
  "endian_op opc is64_cls v width =
     (if width \<notin> {16, 32, 64} then Inl (Swap_width width)
      else let low = take_bit (nat width) v;
               swapped = concat_bytes (map (\<lambda>k. ucast (drop_bit (8 * k) low)) [0..<nat width div 8])
           in Inr (if is64_cls \<or> bit opc 3 then swapped else low))"

section \<open>Conditions\<close>

definition cmp_op :: "'a::len word solver \<Rightarrow> nat \<Rightarrow> 'a word \<Rightarrow> 'a word \<Rightarrow> bail + bool" where
  "cmp_op Z code a b =
     (if code = 1 then Inr (a = b)
      else if code = 2 then Inr (bvult Z b a)
      else if code = 3 then Inr (\<not> bvult Z a b)
      else if code = 4 then Inr (bvand Z a b \<noteq> 0)
      else if code = 5 then Inr (a \<noteq> b)
      else if code = 6 then Inr (bvslt Z b a)
      else if code = 7 then Inr (\<not> bvslt Z a b)
      else if code = 10 then Inr (bvult Z a b)
      else if code = 11 then Inr (\<not> bvult Z b a)
      else if code = 12 then Inr (bvslt Z a b)
      else if code = 13 then Inr (\<not> bvslt Z b a)
      else Inl (Jmp_opcode code))"

definition sym_cond :: "u32 solver \<Rightarrow> u64 solver \<Rightarrow> nat \<Rightarrow> bool \<Rightarrow> val \<Rightarrow> val \<Rightarrow> bail + bool" where
  "sym_cond Z32 Z64 code is32 dstv srcv =
     (let cmp = \<lambda>a b. if is32 then cmp_op Z32 code (lo32 a) (lo32 b) else cmp_op Z64 code a b
      in case (dstv, srcv) of
        (Data a, Data b) \<Rightarrow> cmp a b
      | (Ptr r p, Ptr r' q) \<Rightarrow> if r = r' then cmp p q else Inl Pointer_compare
      | (Ptr r p, Data b) \<Rightarrow>
          if code = 1 then Inr False
          else if code = 5 then Inr True
          else Inl Pointer_scalar_compare
      | (Data a, Ptr r q) \<Rightarrow> Inl Pointer_compare)"

section \<open>Instructions\<close>

text \<open>An instruction without relocation, as the decoder leaves it.\<close>

record sym_insn =
  i_op :: nat
  i_dst :: nat
  i_src :: nat
  i_off :: int
  i_imm :: int
  i_imm64 :: u64

definition from_bytes :: "u8 list \<Rightarrow> nat" where
  "from_bytes bs = foldr (\<lambda>b n. unat b + 256 * n) bs 0"

definition from_bytes_signed :: "u8 list \<Rightarrow> int" where
  "from_bytes_signed bs =
     (let n = int (from_bytes bs); m = 2 ^ (8 * length bs) in if 2 * n < m then n else n - m)"

definition decode_insn :: "u8 list \<Rightarrow> sym_insn" where
  "decode_insn bs =
     \<lparr>i_op = unat (bs ! 0), i_dst = unat (bs ! 1 AND 15), i_src = unat (drop_bit 4 (bs ! 1)),
      i_off = from_bytes_signed (take 2 (drop 2 bs)), i_imm = from_bytes_signed (take 4 (drop 4 bs)),
      i_imm64 = 0\<rparr>"

function decode_loop :: "u8 list \<Rightarrow> bail + sym_insn option list" where
  "decode_loop bs =
     (if length bs < 8 then Inr []
      else let ins = decode_insn (take 8 bs)
           in if i_op ins = 24
              then if length bs < 16 then Inl Truncated
                   else let hi = from_bytes (take 4 (drop 12 bs))
                        in map_sum id
                             (\<lambda>r. Some (ins\<lparr>i_imm64 := word_of_int (i_imm ins mod 2 ^ 32) OR push_bit 32 (of_nat hi)\<rparr>)
                                  # None # r)
                             (decode_loop (drop 16 bs))
              else map_sum id (\<lambda>r. Some ins # r) (decode_loop (drop 8 bs)))"
  by pat_completeness auto
termination by (relation "measure length") auto

definition decode :: "u8 list \<Rightarrow> bail + sym_insn option list" where
  "decode bs = (if length bs mod 8 \<noteq> 0 then Inl Unaligned else decode_loop bs)"

declare decode_loop.simps [simp del]

type_synonym sym_regs = "nat \<Rightarrow> val"

definition src_operand :: "sym_insn \<Rightarrow> bool \<Rightarrow> sym_regs \<Rightarrow> val" where
  "src_operand ins is64 rs =
     (if bit (i_op ins) 3 then rs (i_src ins)
      else if is64 then Data (bv64 (i_imm ins))
      else Data (zext64 (word_of_int (i_imm ins))))"

text \<open>
  One round of the main loop for \<^verbatim>\<open>ld_imm64\<close>, the byte swaps and the arithmetic instructions: the registers
  and by how much the program counter advances. \<open>None\<close> stands for the instructions of the other branches.
\<close>

definition sym_step ::
    "u32 solver \<Rightarrow> u64 solver \<Rightarrow> sym_insn \<Rightarrow> sym_regs \<Rightarrow> (bail + sym_regs \<times> nat) option" where
  "sym_step Z32 Z64 ins rs =
     (let d = i_dst ins; cls = i_op ins mod 8; code = i_op ins div 16
      in if d > 10 \<or> i_src ins > 10 then Some (Inl Stack_argument)
      else if i_op ins = 24
      then Some (if i_src ins \<noteq> 0 then Inl (Pseudo_src (i_src ins)) else Inr (rs(d := Data (i_imm64 ins)), 2))
      else if cls \<in> {4, 7} \<and> code = 13
      then Some (case need_data (rs d) of Inl e \<Rightarrow> Inl e
                 | Inr v \<Rightarrow> map_sum id (\<lambda>x. (rs(d := Data x), 1)) (endian_op (i_op ins) (cls = 7) v (i_imm ins)))
      else if cls \<in> {4, 7}
      then Some (map_sum id (\<lambda>x. (rs(d := x), 1))
                  (sym_alu Z32 Z64 code (cls = 7) (rs d)
                    (if code = 8 then Data 0 else src_operand ins (cls = 7) rs) (i_off ins)))
      else None)"

text \<open>The condition of a conditional jump (class 5, or class 6 for 32 bits).\<close>

definition sym_jump :: "u32 solver \<Rightarrow> u64 solver \<Rightarrow> sym_insn \<Rightarrow> sym_regs \<Rightarrow> bail + bool" where
  "sym_jump Z32 Z64 ins rs =
     (let cls = i_op ins mod 8
      in sym_cond Z32 Z64 (i_op ins div 16) (cls = 6) (rs (i_dst ins)) (src_operand ins (cls = 5) rs))"

end
