(* ===== verification/Equiv_Props.thy ===== *)
theory Equiv_Props
  imports Equiv_Alu
begin

text \<open>
  The executor against the interpreter of \<open>Bpf_Isa\<close>: an encoder from the interpreter's instructions to the
  bytes of an object file (the format of the BPF instruction set), and the proof that decoding and
  executing these bytes computes what the interpreter computes.
\<close>

section \<open>Encoding\<close>

fun alu_code :: "alu \<Rightarrow> nat \<times> u16" where
  "alu_code MOV = (11, 0)"
| "alu_code ADD = (0, 0)"
| "alu_code SUB = (1, 0)"
| "alu_code MUL = (2, 0)"
| "alu_code DIV = (3, 0)"
| "alu_code MOD = (9, 0)"
| "alu_code SDIV = (3, 1)"
| "alu_code SMOD = (9, 1)"
| "alu_code BAND = (5, 0)"
| "alu_code BOR = (4, 0)"
| "alu_code BXOR = (10, 0)"
| "alu_code LSH = (6, 0)"
| "alu_code RSH = (7, 0)"
| "alu_code ARSH = (12, 0)"

fun jump_code :: "jcond \<Rightarrow> nat" where
  "jump_code JEQ = 1"
| "jump_code JGT = 2"
| "jump_code JGE = 3"
| "jump_code JSET = 4"
| "jump_code JNE = 5"
| "jump_code JSGT = 6"
| "jump_code JSGE = 7"
| "jump_code JLT = 10"
| "jump_code JLE = 11"
| "jump_code JSLT = 12"
| "jump_code JSLE = 13"

definition imm_bytes :: "u32 \<Rightarrow> u8 list" where
  "imm_bytes i = [ucast i, ucast (drop_bit 8 i), ucast (drop_bit 16 i), ucast (drop_bit 24 i)]"

definition insn_bytes :: "nat \<Rightarrow> nat \<Rightarrow> nat \<Rightarrow> u16 \<Rightarrow> u32 \<Rightarrow> u8 list" where
  "insn_bytes opc d r off i =
     [of_nat opc, of_nat (d + 16 * r), ucast off, ucast (drop_bit 8 off)] @ imm_bytes i"

fun operand_bytes :: "nat \<Rightarrow> nat \<Rightarrow> u16 \<Rightarrow> operand \<Rightarrow> u8 list option" where
  "operand_bytes opc d off (Reg r) = (if d \<le> 10 \<and> r \<le> 10 then Some (insn_bytes (opc + 8) d r off 0) else None)"
| "operand_bytes opc d off (Imm i) = (if d \<le> 10 then Some (insn_bytes opc d 0 off (word_of_int i)) else None)"

definition width_class :: "nat \<Rightarrow> width \<Rightarrow> nat" where
  "width_class c w = (if w = W64 then c else if c = 7 then 4 else 6)"

fun encode :: "insn \<Rightarrow> u8 list option" where
  "encode (Alu w f d x) =
     operand_bytes (16 * fst (alu_code f) + width_class 7 w) d (snd (alu_code f)) x"
| "encode (Neg w d) = (if d \<le> 10 then Some (insn_bytes (128 + width_class 7 w) d 0 0 0) else None)"
| "encode (Movsx w k d r) =
     (if k \<in> {8, 16, 32} \<and> d \<le> 10 \<and> r \<le> 10
      then Some (insn_bytes (184 + width_class 7 w) d r (of_nat k) 0) else None)"
| "encode (Swap k d) = (if k \<in> {16, 32, 64} \<and> d \<le> 10 then Some (insn_bytes 215 d 0 0 (of_nat k)) else None)"
| "encode (Trunc k d) = (if k \<in> {16, 32, 64} \<and> d \<le> 10 then Some (insn_bytes 212 d 0 0 (of_nat k)) else None)"
| "encode (Lddw d i) =
     (if d \<le> 10
      then Some (insn_bytes 24 d 0 0 (word_of_int i) @ insn_bytes 0 0 0 0 (word_of_int (i div 2 ^ 32)))
      else None)"
| "encode (Jmp w c r x (Off n)) =
     (if n < 2 ^ 15 then operand_bytes (16 * jump_code c + width_class 5 w) r (of_nat n) x else None)"
| "encode _ = None"

section \<open>Decoding\<close>

lemma sint_unat:
  "sint (x :: 'a::len word) =
     (if 2 * int (unat x) < 2 ^ LENGTH('a) then int (unat x) else int (unat x) - 2 ^ LENGTH('a))"
proof -
  have p: "(2 :: int) ^ LENGTH('a) = 2 * 2 ^ (LENGTH('a) - 1)" by (simp flip: power_Suc)
  have u: "int (unat x) = sint x mod 2 ^ LENGTH('a)" by (simp add: uint_sint take_bit_eq_mod)
  have r: "- (2 ^ (LENGTH('a) - 1)) \<le> sint x" "sint x < 2 ^ (LENGTH('a) - 1)" by (rule sint_ge, rule sint_lt)
  show ?thesis
  proof (cases "sint x < 0")
    case True
    then have "(sint x + 2 ^ LENGTH('a)) mod 2 ^ LENGTH('a) = sint x + 2 ^ LENGTH('a)"
      using r p by (intro mod_pos_pos_trivial) auto
    then show ?thesis using u r p True by simp
  next
    case False
    then have "sint x mod 2 ^ LENGTH('a) = sint x" using r p by (intro mod_pos_pos_trivial) auto
    then show ?thesis using u r p by simp
  qed
qed

lemma unat_byte: "unat (ucast x :: u8) = unat x mod 256"
  by (simp add: unsigned_ucast_eq take_bit_eq_mod)

lemma byte_digits:
  "n < 256 \<Longrightarrow> n mod 256 = (n :: nat)"
  "m mod 256 + 256 * (m div 256) = (m :: nat)"
  by simp_all

lemma from_bytes_imm [simp]: "from_bytes (imm_bytes i) = unat i"
proof -
  have d: "unat i div 65536 = unat i div 256 div 256" "unat i div 16777216 = unat i div 256 div 256 div 256"
    by (simp_all add: div_mult2_eq [symmetric])
  have "unat i div 256 div 256 div 256 < 256"
    using unat_u32_lt [of i] by (simp add: div_mult2_eq [symmetric] less_mult_imp_div_less)
  then show ?thesis
    by (simp add: from_bytes_def imm_bytes_def unat_byte unat_drop_bit d byte_digits)
qed

lemma from_bytes_off [simp]: "from_bytes [ucast x, ucast (drop_bit 8 (x :: u16))] = unat x"
proof -
  have "unat x div 256 < 256" using unat_u16_lt [of x] by (simp add: less_mult_imp_div_less)
  then show ?thesis by (simp add: from_bytes_def unat_byte unat_drop_bit byte_digits)
qed

lemma signed_imm [simp]: "from_bytes_signed (imm_bytes i) = sint i"
proof -
  have "length (imm_bytes i) = 4" by (simp add: imm_bytes_def)
  then show ?thesis by (simp add: from_bytes_signed_def sint_unat Let_def)
qed

lemma signed_off [simp]: "from_bytes_signed [ucast x, ucast (drop_bit 8 (x :: u16))] = sint x"
  by (simp add: from_bytes_signed_def sint_unat Let_def)

lemma length_imm [simp]: "length (imm_bytes i) = 4"
  by (simp add: imm_bytes_def)

lemma length_insn [simp]: "length (insn_bytes opc d r off i) = 8"
  by (simp add: insn_bytes_def)

lemma nibbles:
  assumes "d \<le> 10" "r \<le> 10"
  shows "unat (of_nat (d + 16 * r) AND 15 :: u8) = d" "unat (drop_bit 4 (of_nat (d + 16 * r) :: u8)) = r"
proof -
  have u: "unat (of_nat (d + 16 * r) :: u8) = d + 16 * r"
    using assms by (simp add: unat_of_nat del: of_nat_add of_nat_mult)
  have "unat (of_nat (d + 16 * r) AND mask 4 :: u8) = (d + 16 * r) mod 16"
    by (simp only: unsigned_take_bit_eq u flip: take_bit_eq_mask) (simp add: take_bit_eq_mod)
  then show "unat (of_nat (d + 16 * r) AND 15 :: u8) = d" using assms by (simp add: mask_eq_exp_minus_1)
  show "unat (drop_bit 4 (of_nat (d + 16 * r) :: u8)) = r" using assms by (simp only: unat_drop_bit u) simp
qed

lemma decode_insn_bytes:
  "opc < 256 \<Longrightarrow> d \<le> 10 \<Longrightarrow> r \<le> 10 \<Longrightarrow> decode_insn (insn_bytes opc d r off i) =
     \<lparr>i_op = opc, i_dst = d, i_src = r, i_off = sint off, i_imm = sint i, i_imm64 = 0\<rparr>"
  using nibbles [of d r] by (simp add: decode_insn_def insn_bytes_def unat_of_nat del: of_nat_add of_nat_mult)

lemma decode_one:
  "opc < 256 \<Longrightarrow> opc \<noteq> 24 \<Longrightarrow> d \<le> 10 \<Longrightarrow> r \<le> 10 \<Longrightarrow> decode (insn_bytes opc d r off i) =
     Inr [Some \<lparr>i_op = opc, i_dst = d, i_src = r, i_off = sint off, i_imm = sint i, i_imm64 = 0\<rparr>]"
  by (simp add: decode_def decode_loop.simps [of "insn_bytes _ _ _ _ _"] decode_loop.simps [of "[]"] decode_insn_bytes)

lemma drop_insn [simp]: "drop 4 (insn_bytes opc d r off i) = imm_bytes i"
  by (simp add: insn_bytes_def)

lemma halves:
  "word_of_int (sint (word_of_int i :: u32) mod 2 ^ 32) OR push_bit 32 (word_of_nat (unat (word_of_int (i div 2 ^ 32) :: u32))) =
   (word_of_int i :: u64)"
proof -
  have "sint (word_of_int i :: u32) mod 2 ^ 32 = take_bit 32 i"
    using take_bit_signed_take_bit [of 32 31 i] by (simp add: sint_sbintrunc' take_bit_eq_mod)
  moreover have "word_of_nat (unat (word_of_int (i div 2 ^ 32) :: u32)) = (word_of_int (take_bit 32 (drop_bit 32 i)) :: u64)"
    by (simp add: unsigned_of_int drop_bit_eq_div)
  moreover have "word_of_int (take_bit 32 i) OR push_bit 32 (word_of_int (take_bit 32 (drop_bit 32 i))) = (word_of_int i :: u64)"
    by (rule bit_word_eqI) (auto simp: bit_simps)
  ultimately show ?thesis by simp
qed

lemma decode_lddw:
  "d \<le> 10 \<Longrightarrow> decode (insn_bytes 24 d 0 0 (word_of_int i) @ insn_bytes 0 0 0 0 (word_of_int (i div 2 ^ 32))) =
     Inr [Some \<lparr>i_op = 24, i_dst = d, i_src = 0, i_off = 0, i_imm = sint (word_of_int i :: u32),
                i_imm64 = word_of_int i\<rparr>, None]"
  using halves [of i]
  by (simp add: decode_def decode_loop.simps [of "insn_bytes _ _ _ _ _ @ _"] decode_loop.simps [of "[]"] decode_insn_bytes)

section \<open>Operations\<close>

lemma shift_amount:
  "unat (b AND 31 :: u32) = unat b mod 32" "unat (c AND 63 :: u64) = unat c mod 64"
proof -
  have "unat (take_bit 5 b) = unat b mod 32" "unat (take_bit 6 c) = unat c mod 64"
    by (simp_all only: unsigned_take_bit_eq) (simp_all add: take_bit_eq_mod)
  then show "unat (b AND 31) = unat b mod 32" "unat (c AND 63) = unat c mod 64"
    by (simp_all add: take_bit_eq_mask mask_eq_exp_minus_1)
qed

lemma data_op_alu:
  assumes "bv_spec Z" "unat (b AND of_nat (LENGTH('a) - 1)) = unat b mod LENGTH('a)" "f \<noteq> MOV"
  shows "data_op Z (fst (alu_code f)) (sint (snd (alu_code f))) a b = Inr (alu_op f a (b :: 'a::len word))"
  using assms by (cases f) (simp_all add: data_op_def bv_spec_def)

lemma cmp_op_jump: "bv_spec Z \<Longrightarrow> cmp_op Z (jump_code c) a b = Inr (jump_op c a b)"
  by (cases c) (auto simp: cmp_op_def bv_spec_def)

lemma sym_alu_data:
  assumes "bv_spec Z32" "bv_spec Z64"
  shows "sym_alu Z32 Z64 (fst (alu_code f)) (w = W64) (Data a) (Data b) (sint (snd (alu_code f))) =
    Inr (Data (alu_val w f a b))"
proof (cases "f = MOV")
  case True
  then show ?thesis by (cases w) (simp_all add: sym_alu_def sym_mov_def zext64_def lo32_def)
next
  case False
  then have "fst (alu_code f) \<noteq> 11" by (cases f) simp_all
  then show ?thesis
    using data_op_alu [OF assms(1), of "lo32 b" f "lo32 a"] data_op_alu [OF assms(2), of b f a] False
    by (cases w) (simp_all add: sym_alu_def sym_data_def shift_amount zext64_def lo32_def)
qed

lemma sym_neg:
  assumes "bv_spec Z32" "bv_spec Z64"
  shows "sym_alu Z32 Z64 8 (w = W64) (Data a) b 0 = Inr (Data (alu_val w SUB 0 a)) \<or> b \<noteq> Data 0"
  using assms by (cases w) (auto simp: sym_alu_def sym_data_def data_op_def bv_spec_def zext64_def lo32_def)

lemma sign_extract: "k \<in> {8, 16, 32} \<Longrightarrow> sign_extract k v = sext k v"
proof -
  have "scast (ucast v :: u8) = sext 8 v" "scast (ucast v :: u16) = sext 16 v" "scast (ucast v :: u32) = sext 32 v"
    by (simp_all add: sext_eq scast_eq sint_uint unsigned_ucast_eq signed_take_bit_take_bit)
  then show "k \<in> {8, 16, 32} \<Longrightarrow> sign_extract k v = sext k v" by (auto simp: sign_extract_def)
qed

lemma ucast_low [simp]: "ucast (ucast (x :: u64) :: u32) = take_bit 32 x"
  by (rule bit_word_eqI) (auto simp: bit_simps)

lemma sym_movsx:
  "k \<in> {8, 16, 32} \<Longrightarrow> sym_alu Z32 Z64 11 (w = W64) x (Data v) (int k) = Inr (Data (movsx_val w k v))"
  by (cases w) (auto simp: sym_alu_def sym_mov_def sign_extract zext64_def lo32_def)

lemma concat_swap:
  "foldl (\<lambda>v b. push_bit 8 v OR ucast b) x (map (\<lambda>k. ucast (drop_bit (8 * k) v) :: u8) [0..<n]) =
   push_bit (8 * n) x OR swap_bytes n (v :: u64)"
proof (induction n arbitrary: x v)
  case (Suc n)
  have "[0..<Suc n] = 0 # map Suc [0..<n]" by (simp add: map_Suc_upt upt_conv_Cons del: upt_Suc)
  moreover have "ucast (ucast v :: u8) = take_bit 8 v" by (rule bit_word_eqI) (auto simp: bit_simps)
  ultimately show ?case
    using Suc.IH [of "push_bit 8 x OR take_bit 8 v" "drop_bit 8 v"]
    by (simp add: comp_def add.commute or.assoc del: upt_Suc)
qed simp

lemma swap_take: "swap_bytes n (take_bit m v) = swap_bytes n v" if "8 * n \<le> m"
  using that
proof (induction n arbitrary: m v)
  case (Suc n)
  have "drop_bit 8 (take_bit m v) = take_bit (m - 8) (drop_bit 8 v)" by (simp add: drop_bit_take_bit)
  then show ?case using Suc by (simp add: min_def)
qed simp

lemma endian_swap: "k \<in> {16, 32, 64} \<Longrightarrow> endian_op opc True v (int k) = Inr (swap_bytes (k div 8) v)"
  by (auto simp: endian_op_def concat_bytes_def concat_swap swap_take simp del: upt_rec_numeral swap_bytes.simps)

lemma endian_trunc: "k \<in> {16, 32, 64} \<Longrightarrow> endian_op 212 False v (int k) = Inr (take_bit k v)"
  by (auto simp: endian_op_def bit_simps)

section \<open>Steps\<close>

lemma bv64_eq [simp]: "bv64 x = word_of_int x"
  by (simp add: bv64_def word_of_int_eq_iff take_bit_eq_mod)

lemma ucast_scast [simp]: "(ucast (scast (x :: u32) :: u64) :: u32) = x"
  by (rule bit_word_eqI) (simp add: bit_simps)

lemma opcode:
  assumes "c \<in> {4, 5, 6, 7}" "n < 16"
  shows "(16 * n + c) mod 8 = c" "(16 * n + c) div 16 = n" "\<not> bit (16 * n + c) 3" "16 * n + c < 248"
    "(16 * n + c + 8) mod 8 = c" "(16 * n + c + 8) div 16 = n" "bit (16 * n + c + 8) 3"
    "16 * n + c \<noteq> 24" "16 * n + c + 8 \<noteq> (24 :: nat)"
proof -
  have c: "c < 8" "4 \<le> c" using assms(1) by auto
  then have d: "(16 * n + c) div 8 = 2 * n" "(16 * n + c + 8) div 8 = 2 * n + 1"
    by (auto intro!: div_nat_eqI)
  show "\<not> bit (16 * n + c) 3" "bit (16 * n + c + 8) 3" by (simp_all add: bit_iff_odd d)
  show "(16 * n + c) mod 8 = c" "(16 * n + c + 8) mod 8 = c"
    using c d by (simp_all add: modulo_nat_def)
  show "(16 * n + c) div 16 = n" "(16 * n + c + 8) div 16 = n" using c by (auto intro!: div_nat_eqI)
  show "16 * n + c < 248" using c assms(2) by linarith
  show "16 * n + c \<noteq> 24" "16 * n + c + 8 \<noteq> 24" using c by (cases n; simp; cases "n - 1"; simp)+
qed

lemma class_cases: "width_class 7 w \<in> {4, 5, 6, 7}" "width_class 5 w \<in> {4, 5, 6, 7}"
  by (cases w; simp add: width_class_def)+

text \<open>Decoding the bytes of an instruction with an operand gives back its fields and its operand.\<close>

lemma decode_operand:
  assumes "operand_bytes (16 * n + c) d off x = Some bs" "c \<in> {4, 5, 6, 7}" "n < 16"
  obtains ins where "decode bs = Inr [Some ins]" "i_op ins mod 8 = c" "i_op ins div 16 = n" "i_op ins \<noteq> 24"
    "i_dst ins = d" "d \<le> 10" "i_src ins \<le> 10" "i_off ins = sint off"
    "src_operand ins True (Data \<circ> regs s) = Data (op_val s x)"
    "\<exists>v. src_operand ins False (Data \<circ> regs s) = Data v \<and> (ucast v :: u32) = ucast (op_val s x)"
proof (cases x)
  case (Reg r)
  have dec: "decode bs = Inr [Some \<lparr>i_op = 16 * n + c + 8, i_dst = d, i_src = r, i_off = sint off, i_imm = 0, i_imm64 = 0\<rparr>]"
    "d \<le> 10" "r \<le> 10"
    using assms(1) Reg opcode [OF assms(2,3)] decode_one [of "16 * n + c + 8" d r off 0] by (auto split: if_splits)
  then show ?thesis
    by (intro that [OF dec(1)]) (simp_all add: src_operand_def opcode [OF assms(2,3)] Reg)
next
  case (Imm i)
  have dec: "decode bs = Inr [Some \<lparr>i_op = 16 * n + c, i_dst = d, i_src = 0, i_off = sint off,
    i_imm = sint (word_of_int i :: u32), i_imm64 = 0\<rparr>]" "d \<le> 10"
    using assms(1) Imm opcode [OF assms(2,3)] decode_one [of "16 * n + c" d 0 off "word_of_int i"]
    by (auto split: if_splits)
  then show ?thesis
    by (intro that [OF dec(1)]) (simp_all add: src_operand_def zext64_def opcode [OF assms(2,3)] Imm)
qed

lemma alu_val_low: "(ucast b :: u32) = ucast b' \<Longrightarrow> alu_val W32 f a b = alu_val W32 f a b'"
  by simp

lemma jump_val_low: "(ucast b :: u32) = ucast b' \<Longrightarrow> jump_val W32 c a b = jump_val W32 c a b'"
  by simp

lemma alu_code_range: "fst (alu_code f) < 16" "fst (alu_code f) \<noteq> 8" "fst (alu_code f) \<noteq> 13"
  by (cases f; simp)+

lemma jump_code_range: "jump_code c < 16"
  by (cases c) simp_all

lemma update_data: "(Data \<circ> rs)(d := Data v) = Data \<circ> rs(d := v)"
  by auto

text \<open>The executor follows the interpreter on an instruction: the bytes decode to one instruction, and its step
  leaves the registers that the interpreter leaves.\<close>

definition follows :: "u32 solver \<Rightarrow> u64 solver \<Rightarrow> u8 list \<Rightarrow> (nat \<Rightarrow> u64) \<Rightarrow> (nat \<Rightarrow> u64) \<Rightarrow> bool" where
  "follows Z32 Z64 bs rs rs' \<longleftrightarrow>
     (\<exists>ins t. decode bs = Inr (Some ins # t) \<and>
       sym_step Z32 Z64 ins (Data \<circ> rs) = Some (Inr (Data \<circ> rs', Suc (length t))))"

lemma follows_alu:
  assumes "bv_spec Z32" "bv_spec Z64" "encode (Alu w f d x) = Some bs"
  shows "follows Z32 Z64 bs (regs s) ((regs s)(d := alu_val w f (regs s d) (op_val s x)))"
proof -
  obtain ins where i: "decode bs = Inr [Some ins]" "i_op ins mod 8 = width_class 7 w"
    "i_op ins div 16 = fst (alu_code f)" "i_op ins \<noteq> 24" "i_dst ins = d" "d \<le> 10" "i_src ins \<le> 10"
    "i_off ins = sint (snd (alu_code f))" "src_operand ins True (Data \<circ> regs s) = Data (op_val s x)"
    "\<exists>v. src_operand ins False (Data \<circ> regs s) = Data v \<and> (ucast v :: u32) = ucast (op_val s x)"
    by (rule decode_operand [OF assms(3) [unfolded encode.simps] class_cases(1) alu_code_range(1), where s = s])
  have c: "width_class 7 w \<in> {4, 7}" "(width_class 7 w = 7) = (w = W64)" by (cases w; simp add: width_class_def)+
  obtain v where v: "src_operand ins (w = W64) (Data \<circ> regs s) = Data v"
    "alu_val w f (regs s d) v = alu_val w f (regs s d) (op_val s x)"
    using i(9,10) by (cases w) (auto simp del: alu_val.simps dest: alu_val_low [of _ _ f "regs s d"])
  have "sym_step Z32 Z64 ins (Data \<circ> regs s) =
    Some (map_sum id (\<lambda>x. ((Data \<circ> regs s)(d := x), 1))
      (sym_alu Z32 Z64 (fst (alu_code f)) (w = W64) (Data (regs s d)) (Data v) (sint (snd (alu_code f)))))"
    using c i(2-8) v(1) alu_code_range [of f] by (simp add: sym_step_def Let_def)
  then show ?thesis
    using i(1) by (simp add: follows_def sym_alu_data [OF assms(1,2)] v(2) update_data)
qed

lemma follows_neg:
  assumes "bv_spec Z32" "bv_spec Z64" "encode (Neg w d) = Some bs"
  shows "follows Z32 Z64 bs rs (rs(d := alu_val w SUB 0 (rs d)))"
  using assms(3) sym_neg [OF assms(1,2), of w "rs d" "Data 0"]
  by (cases w)
    (auto simp: follows_def width_class_def decode_one sym_step_def update_data simp del: fun_upd_apply split: if_splits)

lemma follows_movsx:
  assumes "encode (Movsx w k d r) = Some bs"
  shows "follows Z32 Z64 bs rs (rs(d := movsx_val w k (rs r)))"
proof -
  have k: "k \<in> {8, 16, 32}" using assms by (simp split: if_splits)
  then have "sint (of_nat k :: u16) = int k" by auto
  then show ?thesis
    using assms sym_movsx [OF k, of Z32 Z64 w "Data (rs d)" "rs r"]
    by (cases w)
      (auto simp: follows_def width_class_def decode_one sym_step_def src_operand_def bit_iff_odd update_data
        simp del: movsx_val.simps split: if_splits)
qed

lemma follows_swap:
  assumes "encode (Swap k d) = Some bs"
  shows "follows Z32 Z64 bs rs (rs(d := swap_bytes (k div 8) (rs d)))"
proof -
  have k: "k \<in> {16, 32, 64}" using assms by (simp split: if_splits)
  then have "sint (of_nat k :: u32) = int k" by auto
  then show ?thesis
    using assms endian_swap [OF k, of 215 "rs d"]
    by (auto simp: follows_def decode_one sym_step_def update_data simp del: swap_bytes.simps split: if_splits)
qed

lemma follows_trunc:
  assumes "encode (Trunc k d) = Some bs"
  shows "follows Z32 Z64 bs rs (rs(d := take_bit k (rs d)))"
proof -
  have k: "k \<in> {16, 32, 64}" using assms by (simp split: if_splits)
  then have "sint (of_nat k :: u32) = int k" by auto
  then show ?thesis
    using assms endian_trunc [OF k, of "rs d"]
    by (auto simp: follows_def decode_one sym_step_def update_data split: if_splits)
qed

lemma follows_lddw:
  "encode (Lddw d i) = Some bs \<Longrightarrow> follows Z32 Z64 bs rs (rs(d := word_of_int i))"
  using decode_lddw [of d i] by (auto simp: follows_def sym_step_def update_data split: if_splits)

lemma jump_condition:
  assumes "bv_spec Z32" "bv_spec Z64" "encode (Jmp w c r x (Off n)) = Some bs"
  shows "\<exists>ins. decode bs = Inr [Some ins] \<and> i_off ins = int n \<and>
    sym_jump Z32 Z64 ins (Data \<circ> regs s) = Inr (jump_val w c (regs s r) (op_val s x))"
proof -
  have n: "n < 2 ^ 15" "operand_bytes (16 * jump_code c + width_class 5 w) r (of_nat n) x = Some bs"
    using assms(3) by (simp_all split: if_splits)
  obtain ins where i: "decode bs = Inr [Some ins]" "i_op ins mod 8 = width_class 5 w"
    "i_op ins div 16 = jump_code c" "i_op ins \<noteq> 24" "i_dst ins = r" "r \<le> 10" "i_src ins \<le> 10"
    "i_off ins = sint (of_nat n :: u16)" "src_operand ins True (Data \<circ> regs s) = Data (op_val s x)"
    "\<exists>v. src_operand ins False (Data \<circ> regs s) = Data v \<and> (ucast v :: u32) = ucast (op_val s x)"
    by (rule decode_operand [OF n(2) class_cases(2) jump_code_range, where s = s])
  obtain v where v: "src_operand ins (w = W64) (Data \<circ> regs s) = Data v"
    "jump_val w c (regs s r) v = jump_val w c (regs s r) (op_val s x)"
    using i(9,10) by (cases w) (auto simp del: jump_val.simps dest: jump_val_low [of _ _ c "regs s r"])
  have "(width_class 5 w = 6) = (w = W32)" "(width_class 5 w = 5) = (w = W64)"
    by (cases w; simp add: width_class_def)+
  then have "sym_jump Z32 Z64 ins (Data \<circ> regs s) = Inr (jump_val w c (regs s r) v)"
    using i(2,3,5) v(1) cmp_op_jump [OF assms(1)] cmp_op_jump [OF assms(2)]
    by (cases w) (simp_all add: sym_jump_def sym_cond_def lo32_def)
  moreover have "sint (of_nat n :: u16) = int n" using n(1) by (simp add: sint_small unat_of_nat)
  ultimately show ?thesis using i(1,8) v(2) by simp
qed

lemma write_reg_regs: "write_reg d v s = Inr s' \<Longrightarrow> regs s' = (regs s)(d := v)"
  by (auto simp: write_reg_def split: if_splits)

lemma follows_effect:
  assumes "bv_spec Z32" "bv_spec Z64" "encode i = Some bs" "effect E i s = Inr s'"
  shows "follows Z32 Z64 bs (regs s) (regs s')"
proof (cases i)
  case (Alu w f d x)
  then show ?thesis using assms follows_alu [OF assms(1,2), of w f d x bs s]
    by (auto dest!: write_reg_regs simp del: encode.simps alu_val.simps split: if_splits)
next
  case (Neg w d)
  then show ?thesis using assms follows_neg [OF assms(1,2), of w d bs "regs s"]
    by (auto dest!: write_reg_regs simp del: encode.simps alu_val.simps)
next
  case (Movsx w k d r)
  then show ?thesis using assms follows_movsx [of w k d r bs Z32 Z64 "regs s"]
    by (auto dest!: write_reg_regs simp del: encode.simps movsx_val.simps)
next
  case (Swap k d)
  then show ?thesis using assms follows_swap [of k d bs Z32 Z64 "regs s"]
    by (auto dest!: write_reg_regs simp del: encode.simps)
next
  case (Trunc k d)
  then show ?thesis using assms follows_trunc [of k d bs Z32 Z64 "regs s"]
    by (auto dest!: write_reg_regs simp del: encode.simps)
next
  case (Lddw d v)
  then show ?thesis using assms follows_lddw [of d v bs Z32 Z64 "regs s"]
    by (auto dest!: write_reg_regs simp del: encode.simps)
qed (use assms in auto)

section \<open>Properties\<close>

text \<open>
  C8. The arithmetic of the symbolic executor is that of the BPF instruction set, for every assignment of
  the symbolic inputs and every solver that implements the SMT-LIB bit vectors: the bytes of an
  arithmetic, sign-extending, byte-swapping or constant-loading instruction decode to one instruction
  whose step leaves in the registers what the interpreter leaves, division by zero, overflow and shift
  counts included; and the bytes of a conditional jump decode to one whose condition is the interpreter's
  and whose offset is the encoded one.
\<close>

theorem executor_follows:
  assumes "bv_spec Z32" "bv_spec Z64"
  shows "(encode i = Some bs \<and> effect E i s = Inr s' \<longrightarrow> follows Z32 Z64 bs (regs s) (regs s')) \<and>
    (encode (Jmp w c r x (Off n)) = Some js \<longrightarrow>
      (\<exists>ins. decode js = Inr [Some ins] \<and> i_off ins = int n \<and>
        sym_jump Z32 Z64 ins (Data \<circ> regs s) = Inr (jump_val w c (regs s r) (op_val s x))))"
  using follows_effect [OF assms] jump_condition [OF assms] by blast

text \<open>A solver that computes on words.\<close>

definition word_solver :: "'a::len word solver" where
  "word_solver =
     \<lparr>bvadd = (+), bvsub = (-), bvmul = (*),
      bvudiv = (\<lambda>a b. if b = 0 then - 1 else a div b),
      bvsdiv = (\<lambda>a b. if b = 0 then (if sint a < 0 then 1 else - 1) else word_of_int (sint a sdiv sint b)),
      bvurem = (\<lambda>a b. if b = 0 then a else a mod b),
      bvsrem = (\<lambda>a b. if b = 0 then a else word_of_int (sint a smod sint b)),
      bvand = (AND), bvor = (OR), bvxor = (XOR),
      bvshl = (\<lambda>a b. push_bit (unat b) a), bvlshr = (\<lambda>a b. drop_bit (unat b) a),
      bvashr = (\<lambda>a b. signed_drop_bit (unat b) a), bvneg = uminus,
      bvult = (<), bvslt = (\<lambda>a b. sint a < sint b)\<rparr>"

theorem executor_follows_witness:
  "bv_spec (word_solver :: u32 solver) \<and> bv_spec (word_solver :: u64 solver) \<and>
   encode (Alu W32 SDIV 1 (Imm (- 2))) = Some [52, 1, 1, 0, 254, 255, 255, 255] \<and>
   follows word_solver word_solver [52, 1, 1, 0, 254, 255, 255, 255]
     (regs (blank_state 41)) ((regs (blank_state 41))(1 := 4294967276)) \<and>
   (\<exists>ins. decode [29, 33, 5, 0, 0, 0, 0, 0] = Inr [Some ins] \<and> i_off ins = 5 \<and>
     sym_jump word_solver word_solver ins (Data \<circ> regs (blank_state 41)) = Inr True)"
proof -
  have spec: "bv_spec (word_solver :: u32 solver)" "bv_spec (word_solver :: u64 solver)"
    by (simp_all add: bv_spec_def word_solver_def)
  have enc: "encode (Alu W32 SDIV 1 (Imm (- 2))) = Some [52, 1, 1, 0, 254, 255, 255, 255]"
    "encode (Jmp W64 JEQ 1 (Reg 2) (Off 5)) = Some [29, 33, 5, 0, 0, 0, 0, 0]"
    by (simp_all add: insn_bytes_def imm_bytes_def width_class_def)
  have eff: "effect blank_env (Alu W32 SDIV 1 (Imm (- 2))) (blank_state 41) =
      Inr ((blank_state 41)\<lparr>regs := (regs (blank_state 41))(1 := 4294967276)\<rparr>)"
    "jump_val W64 JEQ (regs (blank_state 41) 1) (op_val (blank_state 41) (Reg 2)) = True"
    by (simp_all add: write_reg_def blank_state_def)
  show ?thesis
    using executor_follows [OF spec, of "Alu W32 SDIV 1 (Imm (- 2))" "[52, 1, 1, 0, 254, 255, 255, 255]"
        blank_env "blank_state 41" "(blank_state 41)\<lparr>regs := (regs (blank_state 41))(1 := 4294967276)\<rparr>"
        W64 JEQ 1 "Reg 2" 5 "[29, 33, 5, 0, 0, 0, 0, 0]"] spec enc eff
    by simp
qed

end
