(* ===== verification/Verifier_Sdiv.thy ===== *)
theory Verifier_Sdiv
  imports Bpf_Values
begin

text \<open>
  The programs of \<^verbatim>\<open>src/progs/verifier_sdiv.rs\<close>:
  signed division and remainder, with operands of every sign, by zero and of the most negative number by minus one.
  Every naked function is a list of instructions, and the entries of \<^verbatim>\<open>test_tags!\<close> are the table of
  tests at the end.
\<close>

section \<open>Programs\<close>

definition sdiv32_non_zero_imm_1 :: prog where
  "sdiv32_non_zero_imm_1 =
    [Alu W32 MOV 0 (Imm (-41)), Alu W32 SDIV 0 (Imm 2), Exit]"

definition sdiv32_non_zero_imm_2 :: prog where
  "sdiv32_non_zero_imm_2 =
    [Alu W32 MOV 0 (Imm 41), Alu W32 SDIV 0 (Imm (-2)), Exit]"

definition sdiv32_non_zero_imm_3 :: prog where
  "sdiv32_non_zero_imm_3 =
    [Alu W32 MOV 0 (Imm (-41)), Alu W32 SDIV 0 (Imm (-2)), Exit]"

definition sdiv32_non_zero_imm_4 :: prog where
  "sdiv32_non_zero_imm_4 =
    [Alu W32 MOV 0 (Imm (-42)), Alu W32 SDIV 0 (Imm 2), Exit]"

definition sdiv32_non_zero_imm_5 :: prog where
  "sdiv32_non_zero_imm_5 =
    [Alu W32 MOV 0 (Imm 42), Alu W32 SDIV 0 (Imm (-2)), Exit]"

definition sdiv32_non_zero_imm_6 :: prog where
  "sdiv32_non_zero_imm_6 =
    [Alu W32 MOV 0 (Imm (-42)), Alu W32 SDIV 0 (Imm (-2)), Exit]"

definition sdiv32_non_zero_imm_7 :: prog where
  "sdiv32_non_zero_imm_7 =
    [Alu W32 MOV 0 (Imm 42), Alu W32 SDIV 0 (Imm 2), Exit]"

definition sdiv32_non_zero_imm_8 :: prog where
  "sdiv32_non_zero_imm_8 =
    [Alu W32 MOV 0 (Imm 41), Alu W32 SDIV 0 (Imm 2), Exit]"

definition sdiv32_non_zero_reg_1 :: prog where
  "sdiv32_non_zero_reg_1 =
    [Alu W32 MOV 0 (Imm (-41)), Alu W32 MOV 1 (Imm 2), Alu W32 SDIV 0 (Reg 1), Exit]"

definition sdiv32_non_zero_reg_2 :: prog where
  "sdiv32_non_zero_reg_2 =
    [Alu W32 MOV 0 (Imm 41), Alu W32 MOV 1 (Imm (-2)), Alu W32 SDIV 0 (Reg 1), Exit]"

definition sdiv32_non_zero_reg_3 :: prog where
  "sdiv32_non_zero_reg_3 =
    [Alu W32 MOV 0 (Imm (-41)), Alu W32 MOV 1 (Imm (-2)), Alu W32 SDIV 0 (Reg 1), Exit]"

definition sdiv32_non_zero_reg_4 :: prog where
  "sdiv32_non_zero_reg_4 =
    [Alu W32 MOV 0 (Imm (-42)), Alu W32 MOV 1 (Imm 2), Alu W32 SDIV 0 (Reg 1), Exit]"

definition sdiv32_non_zero_reg_5 :: prog where
  "sdiv32_non_zero_reg_5 =
    [Alu W32 MOV 0 (Imm 42), Alu W32 MOV 1 (Imm (-2)), Alu W32 SDIV 0 (Reg 1), Exit]"

definition sdiv32_non_zero_reg_6 :: prog where
  "sdiv32_non_zero_reg_6 =
    [Alu W32 MOV 0 (Imm (-42)), Alu W32 MOV 1 (Imm (-2)), Alu W32 SDIV 0 (Reg 1), Exit]"

definition sdiv32_non_zero_reg_7 :: prog where
  "sdiv32_non_zero_reg_7 =
    [Alu W32 MOV 0 (Imm 42), Alu W32 MOV 1 (Imm 2), Alu W32 SDIV 0 (Reg 1), Exit]"

definition sdiv32_non_zero_reg_8 :: prog where
  "sdiv32_non_zero_reg_8 =
    [Alu W32 MOV 0 (Imm 41), Alu W32 MOV 1 (Imm 2), Alu W32 SDIV 0 (Reg 1), Exit]"

definition sdiv64_non_zero_imm_1 :: prog where
  "sdiv64_non_zero_imm_1 =
    [Alu W64 MOV 0 (Imm (-41)), Alu W64 SDIV 0 (Imm 2), Exit]"

definition sdiv64_non_zero_imm_2 :: prog where
  "sdiv64_non_zero_imm_2 =
    [Alu W64 MOV 0 (Imm 41), Alu W64 SDIV 0 (Imm (-2)), Exit]"

definition sdiv64_non_zero_imm_3 :: prog where
  "sdiv64_non_zero_imm_3 =
    [Alu W64 MOV 0 (Imm (-41)), Alu W64 SDIV 0 (Imm (-2)), Exit]"

definition sdiv64_non_zero_imm_4 :: prog where
  "sdiv64_non_zero_imm_4 =
    [Alu W64 MOV 0 (Imm (-42)), Alu W64 SDIV 0 (Imm 2), Exit]"

definition sdiv64_non_zero_imm_5 :: prog where
  "sdiv64_non_zero_imm_5 =
    [Alu W64 MOV 0 (Imm 42), Alu W64 SDIV 0 (Imm (-2)), Exit]"

definition sdiv64_non_zero_imm_6 :: prog where
  "sdiv64_non_zero_imm_6 =
    [Alu W64 MOV 0 (Imm (-42)), Alu W64 SDIV 0 (Imm (-2)), Exit]"

definition sdiv64_non_zero_reg_1 :: prog where
  "sdiv64_non_zero_reg_1 =
    [Alu W64 MOV 0 (Imm (-41)), Alu W64 MOV 1 (Imm 2), Alu W64 SDIV 0 (Reg 1), Exit]"

definition sdiv64_non_zero_reg_2 :: prog where
  "sdiv64_non_zero_reg_2 =
    [Alu W64 MOV 0 (Imm 41), Alu W64 MOV 1 (Imm (-2)), Alu W64 SDIV 0 (Reg 1), Exit]"

definition sdiv64_non_zero_reg_3 :: prog where
  "sdiv64_non_zero_reg_3 =
    [Alu W64 MOV 0 (Imm (-41)), Alu W64 MOV 1 (Imm (-2)), Alu W64 SDIV 0 (Reg 1), Exit]"

definition sdiv64_non_zero_reg_4 :: prog where
  "sdiv64_non_zero_reg_4 =
    [Alu W64 MOV 0 (Imm (-42)), Alu W64 MOV 1 (Imm 2), Alu W64 SDIV 0 (Reg 1), Exit]"

definition sdiv64_non_zero_reg_5 :: prog where
  "sdiv64_non_zero_reg_5 =
    [Alu W64 MOV 0 (Imm 42), Alu W64 MOV 1 (Imm (-2)), Alu W64 SDIV 0 (Reg 1), Exit]"

definition sdiv64_non_zero_reg_6 :: prog where
  "sdiv64_non_zero_reg_6 =
    [Alu W64 MOV 0 (Imm (-42)), Alu W64 MOV 1 (Imm (-2)), Alu W64 SDIV 0 (Reg 1), Exit]"

definition smod32_non_zero_imm_1 :: prog where
  "smod32_non_zero_imm_1 =
    [Alu W32 MOV 0 (Imm (-41)), Alu W32 SMOD 0 (Imm 2), Exit]"

definition smod32_non_zero_imm_2 :: prog where
  "smod32_non_zero_imm_2 =
    [Alu W32 MOV 0 (Imm 41), Alu W32 SMOD 0 (Imm (-2)), Exit]"

definition smod32_non_zero_imm_3 :: prog where
  "smod32_non_zero_imm_3 =
    [Alu W32 MOV 0 (Imm (-41)), Alu W32 SMOD 0 (Imm (-2)), Exit]"

definition smod32_non_zero_imm_4 :: prog where
  "smod32_non_zero_imm_4 =
    [Alu W32 MOV 0 (Imm (-42)), Alu W32 SMOD 0 (Imm 2), Exit]"

definition smod32_non_zero_imm_5 :: prog where
  "smod32_non_zero_imm_5 =
    [Alu W32 MOV 0 (Imm 42), Alu W32 SMOD 0 (Imm (-2)), Exit]"

definition smod32_non_zero_imm_6 :: prog where
  "smod32_non_zero_imm_6 =
    [Alu W32 MOV 0 (Imm (-42)), Alu W32 SMOD 0 (Imm (-2)), Exit]"

definition smod32_non_zero_reg_1 :: prog where
  "smod32_non_zero_reg_1 =
    [Alu W32 MOV 0 (Imm (-41)), Alu W32 MOV 1 (Imm 2), Alu W32 SMOD 0 (Reg 1), Exit]"

definition smod32_non_zero_reg_2 :: prog where
  "smod32_non_zero_reg_2 =
    [Alu W32 MOV 0 (Imm 41), Alu W32 MOV 1 (Imm (-2)), Alu W32 SMOD 0 (Reg 1), Exit]"

definition smod32_non_zero_reg_3 :: prog where
  "smod32_non_zero_reg_3 =
    [Alu W32 MOV 0 (Imm (-41)), Alu W32 MOV 1 (Imm (-2)), Alu W32 SMOD 0 (Reg 1), Exit]"

definition smod32_non_zero_reg_4 :: prog where
  "smod32_non_zero_reg_4 =
    [Alu W32 MOV 0 (Imm (-42)), Alu W32 MOV 1 (Imm 2), Alu W32 SMOD 0 (Reg 1), Exit]"

definition smod32_non_zero_reg_5 :: prog where
  "smod32_non_zero_reg_5 =
    [Alu W32 MOV 0 (Imm 42), Alu W32 MOV 1 (Imm (-2)), Alu W32 SMOD 0 (Reg 1), Exit]"

definition smod32_non_zero_reg_6 :: prog where
  "smod32_non_zero_reg_6 =
    [Alu W32 MOV 0 (Imm (-42)), Alu W32 MOV 1 (Imm (-2)), Alu W32 SMOD 0 (Reg 1), Exit]"

definition smod64_non_zero_imm_1 :: prog where
  "smod64_non_zero_imm_1 =
    [Alu W64 MOV 0 (Imm (-41)), Alu W64 SMOD 0 (Imm 2), Exit]"

definition smod64_non_zero_imm_2 :: prog where
  "smod64_non_zero_imm_2 =
    [Alu W64 MOV 0 (Imm 41), Alu W64 SMOD 0 (Imm (-2)), Exit]"

definition smod64_non_zero_imm_3 :: prog where
  "smod64_non_zero_imm_3 =
    [Alu W64 MOV 0 (Imm (-41)), Alu W64 SMOD 0 (Imm (-2)), Exit]"

definition smod64_non_zero_imm_4 :: prog where
  "smod64_non_zero_imm_4 =
    [Alu W64 MOV 0 (Imm (-42)), Alu W64 SMOD 0 (Imm 2), Exit]"

definition smod64_non_zero_imm_5 :: prog where
  "smod64_non_zero_imm_5 =
    [Alu W64 MOV 0 (Imm 42), Alu W64 SMOD 0 (Imm (-2)), Exit]"

definition smod64_non_zero_imm_6 :: prog where
  "smod64_non_zero_imm_6 =
    [Alu W64 MOV 0 (Imm (-42)), Alu W64 SMOD 0 (Imm (-2)), Exit]"

definition smod64_non_zero_imm_7 :: prog where
  "smod64_non_zero_imm_7 =
    [Alu W64 MOV 0 (Imm 42), Alu W64 SMOD 0 (Imm 2), Exit]"

definition smod64_non_zero_imm_8 :: prog where
  "smod64_non_zero_imm_8 =
    [Alu W64 MOV 0 (Imm 41), Alu W64 SMOD 0 (Imm 2), Exit]"

definition smod64_non_zero_reg_1 :: prog where
  "smod64_non_zero_reg_1 =
    [Alu W64 MOV 0 (Imm (-41)), Alu W64 MOV 1 (Imm 2), Alu W64 SMOD 0 (Reg 1), Exit]"

definition smod64_non_zero_reg_2 :: prog where
  "smod64_non_zero_reg_2 =
    [Alu W64 MOV 0 (Imm 41), Alu W64 MOV 1 (Imm (-2)), Alu W64 SMOD 0 (Reg 1), Exit]"

definition smod64_non_zero_reg_3 :: prog where
  "smod64_non_zero_reg_3 =
    [Alu W64 MOV 0 (Imm (-41)), Alu W64 MOV 1 (Imm (-2)), Alu W64 SMOD 0 (Reg 1), Exit]"

definition smod64_non_zero_reg_4 :: prog where
  "smod64_non_zero_reg_4 =
    [Alu W64 MOV 0 (Imm (-42)), Alu W64 MOV 1 (Imm 2), Alu W64 SMOD 0 (Reg 1), Exit]"

definition smod64_non_zero_reg_5 :: prog where
  "smod64_non_zero_reg_5 =
    [Alu W64 MOV 0 (Imm 42), Alu W64 MOV 1 (Imm (-2)), Alu W64 SMOD 0 (Reg 1), Exit]"

definition smod64_non_zero_reg_6 :: prog where
  "smod64_non_zero_reg_6 =
    [Alu W64 MOV 0 (Imm (-42)), Alu W64 MOV 1 (Imm (-2)), Alu W64 SMOD 0 (Reg 1), Exit]"

definition smod64_non_zero_reg_7 :: prog where
  "smod64_non_zero_reg_7 =
    [Alu W64 MOV 0 (Imm 42), Alu W64 MOV 1 (Imm 2), Alu W64 SMOD 0 (Reg 1), Exit]"

definition smod64_non_zero_reg_8 :: prog where
  "smod64_non_zero_reg_8 =
    [Alu W64 MOV 0 (Imm 41), Alu W64 MOV 1 (Imm 2), Alu W64 SMOD 0 (Reg 1), Exit]"

definition sdiv32_zero_divisor :: prog where
  "sdiv32_zero_divisor =
    [Alu W32 MOV 0 (Imm 42), Alu W32 MOV 1 (Imm 0), Alu W32 MOV 2 (Imm (-1)), Alu W32 SDIV 2 (Reg 1),
     Alu W32 MOV 0 (Reg 2), Exit]"

definition sdiv64_zero_divisor :: prog where
  "sdiv64_zero_divisor =
    [Alu W64 MOV 0 (Imm 42), Alu W64 MOV 1 (Imm 0), Alu W64 MOV 2 (Imm (-1)), Alu W64 SDIV 2 (Reg 1),
     Alu W64 MOV 0 (Reg 2), Exit]"

definition smod32_zero_divisor :: prog where
  "smod32_zero_divisor =
    [Alu W32 MOV 0 (Imm 42), Alu W32 MOV 1 (Imm 0), Alu W32 MOV 2 (Imm (-1)), Alu W32 SMOD 2 (Reg 1),
     Alu W32 MOV 0 (Reg 2), Exit]"

definition smod64_zero_divisor :: prog where
  "smod64_zero_divisor =
    [Alu W64 MOV 0 (Imm 42), Alu W64 MOV 1 (Imm 0), Alu W64 MOV 2 (Imm (-1)), Alu W64 SMOD 2 (Reg 1),
     Alu W64 MOV 0 (Reg 2), Exit]"

definition sdiv64_overflow_rr :: prog where
  "sdiv64_overflow_rr =
    [Lddw 2 (-9223372036854775808), Alu W64 MOV 3 (Imm (-1)), Alu W64 MOV 4 (Reg 2), Alu W64 SDIV 2 (Reg 3),
     Alu W64 MOV 0 (Imm 0), Jmp W64 JNE 2 (Reg 4) (Off 1), Alu W64 MOV 0 (Imm 1), Exit]"

definition sdiv64_rr_divisor_neg_1 :: prog where
  "sdiv64_rr_divisor_neg_1 =
    [Alu W64 MOV 2 (Imm 5), Alu W64 MOV 3 (Imm (-1)), Alu W64 SDIV 2 (Reg 3), Alu W64 MOV 0 (Reg 2), Exit]"

definition sdiv64_overflow_ri :: prog where
  "sdiv64_overflow_ri =
    [Lddw 2 (-9223372036854775808), Alu W64 MOV 4 (Reg 2), Alu W64 SDIV 2 (Imm (-1)), Alu W64 MOV 0 (Imm 0),
     Jmp W64 JNE 2 (Reg 4) (Off 1), Alu W64 MOV 0 (Imm 1), Exit]"

definition sdiv64_ri_divisor_neg_1 :: prog where
  "sdiv64_ri_divisor_neg_1 =
    [Alu W64 MOV 2 (Imm 5), Alu W64 MOV 4 (Reg 2), Alu W64 SDIV 2 (Imm (-1)), Alu W64 MOV 0 (Reg 2), Exit]"

definition sdiv32_overflow_rr :: prog where
  "sdiv32_overflow_rr =
    [Alu W32 MOV 2 (Imm (-2147483648)), Alu W32 MOV 3 (Imm (-1)), Alu W32 MOV 4 (Reg 2), Alu W32 SDIV 2 (Reg 3),
     Alu W64 MOV 0 (Imm 0), Jmp W32 JNE 2 (Reg 4) (Off 1), Alu W64 MOV 0 (Imm 1), Exit]"

definition sdiv32_rr_divisor_neg_1 :: prog where
  "sdiv32_rr_divisor_neg_1 =
    [Alu W32 MOV 2 (Imm (-5)), Alu W32 MOV 3 (Imm (-1)), Alu W32 MOV 4 (Reg 2), Alu W32 SDIV 2 (Reg 3),
     Alu W32 MOV 0 (Reg 2), Exit]"

definition sdiv32_overflow_ri :: prog where
  "sdiv32_overflow_ri =
    [Alu W32 MOV 2 (Imm (-2147483648)), Alu W32 MOV 4 (Reg 2), Alu W32 SDIV 2 (Imm (-1)), Alu W64 MOV 0 (Imm 0),
     Jmp W32 JNE 2 (Reg 4) (Off 1), Alu W64 MOV 0 (Imm 1), Exit]"

definition sdiv32_ri_divisor_neg_1 :: prog where
  "sdiv32_ri_divisor_neg_1 =
    [Alu W32 MOV 2 (Imm 5), Alu W32 MOV 4 (Reg 2), Alu W32 SDIV 2 (Imm (-1)), Alu W32 MOV 0 (Reg 2), Exit]"

definition smod64_overflow_rr :: prog where
  "smod64_overflow_rr =
    [Lddw 2 (-9223372036854775808), Alu W64 MOV 3 (Imm (-1)), Alu W64 MOV 4 (Reg 2), Alu W64 SMOD 2 (Reg 3),
     Alu W64 MOV 0 (Reg 2), Exit]"

definition smod64_rr_divisor_neg_1 :: prog where
  "smod64_rr_divisor_neg_1 =
    [Alu W64 MOV 2 (Imm 5), Alu W64 MOV 3 (Imm (-1)), Alu W64 MOV 4 (Reg 2), Alu W64 SMOD 2 (Reg 3),
     Alu W64 MOV 0 (Reg 2), Exit]"

definition smod64_overflow_ri :: prog where
  "smod64_overflow_ri =
    [Lddw 2 (-9223372036854775808), Alu W64 MOV 4 (Reg 2), Alu W64 SMOD 2 (Imm (-1)), Alu W64 MOV 0 (Reg 2), Exit]"

definition smod64_ri_divisor_neg_1 :: prog where
  "smod64_ri_divisor_neg_1 =
    [Alu W64 MOV 2 (Imm 5), Alu W64 MOV 4 (Reg 2), Alu W64 SMOD 2 (Imm (-1)), Alu W64 MOV 0 (Reg 2), Exit]"

definition smod32_overflow_rr :: prog where
  "smod32_overflow_rr =
    [Alu W32 MOV 2 (Imm (-2147483648)), Alu W32 MOV 3 (Imm (-1)), Alu W32 MOV 4 (Reg 2), Alu W32 SMOD 2 (Reg 3),
     Alu W64 MOV 0 (Reg 2), Exit]"

definition smod32_rr_divisor_neg_1 :: prog where
  "smod32_rr_divisor_neg_1 =
    [Alu W32 MOV 2 (Imm (-5)), Alu W32 MOV 3 (Imm (-1)), Alu W32 MOV 4 (Reg 2), Alu W32 SMOD 2 (Reg 3),
     Alu W64 MOV 0 (Reg 2), Exit]"

definition smod32_overflow_ri :: prog where
  "smod32_overflow_ri =
    [Alu W32 MOV 2 (Imm (-2147483648)), Alu W32 MOV 4 (Reg 2), Alu W32 SMOD 2 (Imm (-1)), Alu W64 MOV 0 (Reg 2), Exit]"

definition smod32_ri_divisor_neg_1 :: prog where
  "smod32_ri_divisor_neg_1 =
    [Alu W32 MOV 2 (Imm 5), Alu W32 MOV 4 (Reg 2), Alu W32 SMOD 2 (Imm (-1)), Alu W32 MOV 0 (Reg 2), Exit]"

definition sdiv32_int_min_div_2_imm :: prog where
  "sdiv32_int_min_div_2_imm =
    [Alu W32 MOV 0 (Imm (-2147483648)), Alu W32 SDIV 0 (Imm 2), Exit]"

definition sdiv32_int_min_div_2_reg :: prog where
  "sdiv32_int_min_div_2_reg =
    [Alu W32 MOV 0 (Imm (-2147483648)), Alu W32 MOV 1 (Imm 2), Alu W32 SDIV 0 (Reg 1), Exit]"

definition smod32_int_min_mod_2_imm :: prog where
  "smod32_int_min_mod_2_imm =
    [Alu W32 MOV 0 (Imm (-2147483648)), Alu W32 SMOD 0 (Imm 2), Exit]"

definition smod32_int_min_mod_neg2_imm :: prog where
  "smod32_int_min_mod_neg2_imm =
    [Alu W32 MOV 0 (Imm (-2147483648)), Alu W32 SMOD 0 (Imm (-2)), Exit]"

section \<open>Tests\<close>






section \<open>Runs\<close>

lemma sdiv32_non_zero_imm_1_ok [test_ok]: "returns E sdiv32_non_zero_imm_1 s (-20)"
  by (simp add: sdiv32_non_zero_imm_1_def isa_simps)

lemma sdiv32_non_zero_imm_2_ok [test_ok]: "returns E sdiv32_non_zero_imm_2 s (-20)"
  by (simp add: sdiv32_non_zero_imm_2_def isa_simps)

lemma sdiv32_non_zero_imm_3_ok [test_ok]: "returns E sdiv32_non_zero_imm_3 s 20"
  by (simp add: sdiv32_non_zero_imm_3_def isa_simps)

lemma sdiv32_non_zero_imm_4_ok [test_ok]: "returns E sdiv32_non_zero_imm_4 s (-21)"
  by (simp add: sdiv32_non_zero_imm_4_def isa_simps)

lemma sdiv32_non_zero_imm_5_ok [test_ok]: "returns E sdiv32_non_zero_imm_5 s (-21)"
  by (simp add: sdiv32_non_zero_imm_5_def isa_simps)

lemma sdiv32_non_zero_imm_6_ok [test_ok]: "returns E sdiv32_non_zero_imm_6 s 21"
  by (simp add: sdiv32_non_zero_imm_6_def isa_simps)

lemma sdiv32_non_zero_imm_7_ok [test_ok]: "returns E sdiv32_non_zero_imm_7 s 21"
  by (simp add: sdiv32_non_zero_imm_7_def isa_simps)

lemma sdiv32_non_zero_imm_8_ok [test_ok]: "returns E sdiv32_non_zero_imm_8 s 20"
  by (simp add: sdiv32_non_zero_imm_8_def isa_simps)

lemma sdiv32_non_zero_reg_1_ok [test_ok]: "returns E sdiv32_non_zero_reg_1 s (-20)"
  by (simp add: sdiv32_non_zero_reg_1_def isa_simps)

lemma sdiv32_non_zero_reg_2_ok [test_ok]: "returns E sdiv32_non_zero_reg_2 s (-20)"
  by (simp add: sdiv32_non_zero_reg_2_def isa_simps)

lemma sdiv32_non_zero_reg_3_ok [test_ok]: "returns E sdiv32_non_zero_reg_3 s 20"
  by (simp add: sdiv32_non_zero_reg_3_def isa_simps)

lemma sdiv32_non_zero_reg_4_ok [test_ok]: "returns E sdiv32_non_zero_reg_4 s (-21)"
  by (simp add: sdiv32_non_zero_reg_4_def isa_simps)

lemma sdiv32_non_zero_reg_5_ok [test_ok]: "returns E sdiv32_non_zero_reg_5 s (-21)"
  by (simp add: sdiv32_non_zero_reg_5_def isa_simps)

lemma sdiv32_non_zero_reg_6_ok [test_ok]: "returns E sdiv32_non_zero_reg_6 s 21"
  by (simp add: sdiv32_non_zero_reg_6_def isa_simps)

lemma sdiv32_non_zero_reg_7_ok [test_ok]: "returns E sdiv32_non_zero_reg_7 s 21"
  by (simp add: sdiv32_non_zero_reg_7_def isa_simps)

lemma sdiv32_non_zero_reg_8_ok [test_ok]: "returns E sdiv32_non_zero_reg_8 s 20"
  by (simp add: sdiv32_non_zero_reg_8_def isa_simps)

lemma sdiv64_non_zero_imm_1_ok [test_ok]: "returns E sdiv64_non_zero_imm_1 s (-20)"
  by (simp add: sdiv64_non_zero_imm_1_def isa_simps)

lemma sdiv64_non_zero_imm_2_ok [test_ok]: "returns E sdiv64_non_zero_imm_2 s (-20)"
  by (simp add: sdiv64_non_zero_imm_2_def isa_simps)

lemma sdiv64_non_zero_imm_3_ok [test_ok]: "returns E sdiv64_non_zero_imm_3 s 20"
  by (simp add: sdiv64_non_zero_imm_3_def isa_simps)

lemma sdiv64_non_zero_imm_4_ok [test_ok]: "returns E sdiv64_non_zero_imm_4 s (-21)"
  by (simp add: sdiv64_non_zero_imm_4_def isa_simps)

lemma sdiv64_non_zero_imm_5_ok [test_ok]: "returns E sdiv64_non_zero_imm_5 s (-21)"
  by (simp add: sdiv64_non_zero_imm_5_def isa_simps)

lemma sdiv64_non_zero_imm_6_ok [test_ok]: "returns E sdiv64_non_zero_imm_6 s 21"
  by (simp add: sdiv64_non_zero_imm_6_def isa_simps)

lemma sdiv64_non_zero_reg_1_ok [test_ok]: "returns E sdiv64_non_zero_reg_1 s (-20)"
  by (simp add: sdiv64_non_zero_reg_1_def isa_simps)

lemma sdiv64_non_zero_reg_2_ok [test_ok]: "returns E sdiv64_non_zero_reg_2 s (-20)"
  by (simp add: sdiv64_non_zero_reg_2_def isa_simps)

lemma sdiv64_non_zero_reg_3_ok [test_ok]: "returns E sdiv64_non_zero_reg_3 s 20"
  by (simp add: sdiv64_non_zero_reg_3_def isa_simps)

lemma sdiv64_non_zero_reg_4_ok [test_ok]: "returns E sdiv64_non_zero_reg_4 s (-21)"
  by (simp add: sdiv64_non_zero_reg_4_def isa_simps)

lemma sdiv64_non_zero_reg_5_ok [test_ok]: "returns E sdiv64_non_zero_reg_5 s (-21)"
  by (simp add: sdiv64_non_zero_reg_5_def isa_simps)

lemma sdiv64_non_zero_reg_6_ok [test_ok]: "returns E sdiv64_non_zero_reg_6 s 21"
  by (simp add: sdiv64_non_zero_reg_6_def isa_simps)

lemma smod32_non_zero_imm_1_ok [test_ok]: "returns E smod32_non_zero_imm_1 s (-1)"
  by (simp add: smod32_non_zero_imm_1_def isa_simps)

lemma smod32_non_zero_imm_2_ok [test_ok]: "returns E smod32_non_zero_imm_2 s 1"
  by (simp add: smod32_non_zero_imm_2_def isa_simps)

lemma smod32_non_zero_imm_3_ok [test_ok]: "returns E smod32_non_zero_imm_3 s (-1)"
  by (simp add: smod32_non_zero_imm_3_def isa_simps)

lemma smod32_non_zero_imm_4_ok [test_ok]: "returns E smod32_non_zero_imm_4 s 0"
  by (simp add: smod32_non_zero_imm_4_def isa_simps)

lemma smod32_non_zero_imm_5_ok [test_ok]: "returns E smod32_non_zero_imm_5 s 0"
  by (simp add: smod32_non_zero_imm_5_def isa_simps)

lemma smod32_non_zero_imm_6_ok [test_ok]: "returns E smod32_non_zero_imm_6 s 0"
  by (simp add: smod32_non_zero_imm_6_def isa_simps)

lemma smod32_non_zero_reg_1_ok [test_ok]: "returns E smod32_non_zero_reg_1 s (-1)"
  by (simp add: smod32_non_zero_reg_1_def isa_simps)

lemma smod32_non_zero_reg_2_ok [test_ok]: "returns E smod32_non_zero_reg_2 s 1"
  by (simp add: smod32_non_zero_reg_2_def isa_simps)

lemma smod32_non_zero_reg_3_ok [test_ok]: "returns E smod32_non_zero_reg_3 s (-1)"
  by (simp add: smod32_non_zero_reg_3_def isa_simps)

lemma smod32_non_zero_reg_4_ok [test_ok]: "returns E smod32_non_zero_reg_4 s 0"
  by (simp add: smod32_non_zero_reg_4_def isa_simps)

lemma smod32_non_zero_reg_5_ok [test_ok]: "returns E smod32_non_zero_reg_5 s 0"
  by (simp add: smod32_non_zero_reg_5_def isa_simps)

lemma smod32_non_zero_reg_6_ok [test_ok]: "returns E smod32_non_zero_reg_6 s 0"
  by (simp add: smod32_non_zero_reg_6_def isa_simps)

lemma smod64_non_zero_imm_1_ok [test_ok]: "returns E smod64_non_zero_imm_1 s (-1)"
  by (simp add: smod64_non_zero_imm_1_def isa_simps)

lemma smod64_non_zero_imm_2_ok [test_ok]: "returns E smod64_non_zero_imm_2 s 1"
  by (simp add: smod64_non_zero_imm_2_def isa_simps)

lemma smod64_non_zero_imm_3_ok [test_ok]: "returns E smod64_non_zero_imm_3 s (-1)"
  by (simp add: smod64_non_zero_imm_3_def isa_simps)

lemma smod64_non_zero_imm_4_ok [test_ok]: "returns E smod64_non_zero_imm_4 s 0"
  by (simp add: smod64_non_zero_imm_4_def isa_simps)

lemma smod64_non_zero_imm_5_ok [test_ok]: "returns E smod64_non_zero_imm_5 s 0"
  by (simp add: smod64_non_zero_imm_5_def isa_simps)

lemma smod64_non_zero_imm_6_ok [test_ok]: "returns E smod64_non_zero_imm_6 s 0"
  by (simp add: smod64_non_zero_imm_6_def isa_simps)

lemma smod64_non_zero_imm_7_ok [test_ok]: "returns E smod64_non_zero_imm_7 s 0"
  by (simp add: smod64_non_zero_imm_7_def isa_simps)

lemma smod64_non_zero_imm_8_ok [test_ok]: "returns E smod64_non_zero_imm_8 s 1"
  by (simp add: smod64_non_zero_imm_8_def isa_simps)

lemma smod64_non_zero_reg_1_ok [test_ok]: "returns E smod64_non_zero_reg_1 s (-1)"
  by (simp add: smod64_non_zero_reg_1_def isa_simps)

lemma smod64_non_zero_reg_2_ok [test_ok]: "returns E smod64_non_zero_reg_2 s 1"
  by (simp add: smod64_non_zero_reg_2_def isa_simps)

lemma smod64_non_zero_reg_3_ok [test_ok]: "returns E smod64_non_zero_reg_3 s (-1)"
  by (simp add: smod64_non_zero_reg_3_def isa_simps)

lemma smod64_non_zero_reg_4_ok [test_ok]: "returns E smod64_non_zero_reg_4 s 0"
  by (simp add: smod64_non_zero_reg_4_def isa_simps)

lemma smod64_non_zero_reg_5_ok [test_ok]: "returns E smod64_non_zero_reg_5 s 0"
  by (simp add: smod64_non_zero_reg_5_def isa_simps)

lemma smod64_non_zero_reg_6_ok [test_ok]: "returns E smod64_non_zero_reg_6 s 0"
  by (simp add: smod64_non_zero_reg_6_def isa_simps)

lemma smod64_non_zero_reg_7_ok [test_ok]: "returns E smod64_non_zero_reg_7 s 0"
  by (simp add: smod64_non_zero_reg_7_def isa_simps)

lemma smod64_non_zero_reg_8_ok [test_ok]: "returns E smod64_non_zero_reg_8 s 1"
  by (simp add: smod64_non_zero_reg_8_def isa_simps)

lemma sdiv32_zero_divisor_ok [test_ok]: "returns E sdiv32_zero_divisor s 0"
  by (simp add: sdiv32_zero_divisor_def isa_simps)

lemma sdiv64_zero_divisor_ok [test_ok]: "returns E sdiv64_zero_divisor s 0"
  by (simp add: sdiv64_zero_divisor_def isa_simps)

lemma smod32_zero_divisor_ok [test_ok]: "returns E smod32_zero_divisor s (-1)"
  by (simp add: smod32_zero_divisor_def isa_simps)

lemma smod64_zero_divisor_ok [test_ok]: "returns E smod64_zero_divisor s (-1)"
  by (simp add: smod64_zero_divisor_def isa_simps)

lemma sdiv64_overflow_rr_ok [test_ok]: "returns E sdiv64_overflow_rr s 1"
  by (simp add: sdiv64_overflow_rr_def isa_simps)

lemma sdiv64_rr_divisor_neg_1_ok [test_ok]: "returns E sdiv64_rr_divisor_neg_1 s (-5)"
  by (simp add: sdiv64_rr_divisor_neg_1_def isa_simps)

lemma sdiv64_overflow_ri_ok [test_ok]: "returns E sdiv64_overflow_ri s 1"
  by (simp add: sdiv64_overflow_ri_def isa_simps)

lemma sdiv64_ri_divisor_neg_1_ok [test_ok]: "returns E sdiv64_ri_divisor_neg_1 s (-5)"
  by (simp add: sdiv64_ri_divisor_neg_1_def isa_simps)

lemma sdiv32_overflow_rr_ok [test_ok]: "returns E sdiv32_overflow_rr s 1"
  by (simp add: sdiv32_overflow_rr_def isa_simps)

lemma sdiv32_rr_divisor_neg_1_ok [test_ok]: "returns E sdiv32_rr_divisor_neg_1 s 5"
  by (simp add: sdiv32_rr_divisor_neg_1_def isa_simps)

lemma sdiv32_overflow_ri_ok [test_ok]: "returns E sdiv32_overflow_ri s 1"
  by (simp add: sdiv32_overflow_ri_def isa_simps)

lemma sdiv32_ri_divisor_neg_1_ok [test_ok]: "returns E sdiv32_ri_divisor_neg_1 s (-5)"
  by (simp add: sdiv32_ri_divisor_neg_1_def isa_simps)

lemma smod64_overflow_rr_ok [test_ok]: "returns E smod64_overflow_rr s 0"
  by (simp add: smod64_overflow_rr_def isa_simps)

lemma smod64_rr_divisor_neg_1_ok [test_ok]: "returns E smod64_rr_divisor_neg_1 s 0"
  by (simp add: smod64_rr_divisor_neg_1_def isa_simps)

lemma smod64_overflow_ri_ok [test_ok]: "returns E smod64_overflow_ri s 0"
  by (simp add: smod64_overflow_ri_def isa_simps)

lemma smod64_ri_divisor_neg_1_ok [test_ok]: "returns E smod64_ri_divisor_neg_1 s 0"
  by (simp add: smod64_ri_divisor_neg_1_def isa_simps)

lemma smod32_overflow_rr_ok [test_ok]: "returns E smod32_overflow_rr s 0"
  by (simp add: smod32_overflow_rr_def isa_simps)

lemma smod32_rr_divisor_neg_1_ok [test_ok]: "returns E smod32_rr_divisor_neg_1 s 0"
  by (simp add: smod32_rr_divisor_neg_1_def isa_simps)

lemma smod32_overflow_ri_ok [test_ok]: "returns E smod32_overflow_ri s 0"
  by (simp add: smod32_overflow_ri_def isa_simps)

lemma smod32_ri_divisor_neg_1_ok [test_ok]: "returns E smod32_ri_divisor_neg_1 s 0"
  by (simp add: smod32_ri_divisor_neg_1_def isa_simps)

lemma sdiv32_int_min_div_2_imm_ok [test_ok]: "returns E sdiv32_int_min_div_2_imm s (-1073741824)"
  by (simp add: sdiv32_int_min_div_2_imm_def isa_simps)

lemma sdiv32_int_min_div_2_reg_ok [test_ok]: "returns E sdiv32_int_min_div_2_reg s (-1073741824)"
  by (simp add: sdiv32_int_min_div_2_reg_def isa_simps)

lemma smod32_int_min_mod_2_imm_ok [test_ok]: "returns E smod32_int_min_mod_2_imm s 0"
  by (simp add: smod32_int_min_mod_2_imm_def isa_simps)

lemma smod32_int_min_mod_neg2_imm_ok [test_ok]: "returns E smod32_int_min_mod_neg2_imm s 0"
  by (simp add: smod32_int_min_mod_neg2_imm_def isa_simps)


end
