(* ===== verification/Verifier_Subreg.thy ===== *)
theory Verifier_Subreg
  imports Bpf_Values
begin

text \<open>
  The programs of \<^verbatim>\<open>src/progs/verifier_subreg.rs\<close>:
  operations on the lower half of a register, which clear the upper half.
  Every naked function is a list of instructions, and the entries of \<^verbatim>\<open>test_tags!\<close> are the table of
  tests at the end.
\<close>

section \<open>Programs\<close>

definition add32_reg_zero_extend_check :: prog where
  "add32_reg_zero_extend_check =
    [Call 7, Alu W64 MOV 1 (Reg 0), Lddw 0 4294967296, Alu W32 ADD 0 (Reg 1), Alu W64 RSH 0 (Imm 32), Exit]"

definition add32_imm_zero_extend_check :: prog where
  "add32_imm_zero_extend_check =
    [Call 7, Lddw 1 68719476736, Alu W64 BOR 0 (Reg 1), Alu W32 ADD 0 (Imm 0), Alu W64 RSH 0 (Imm 32),
     Alu W64 MOV 6 (Reg 0), Call 7, Lddw 1 68719476736, Alu W64 BOR 0 (Reg 1), Alu W32 ADD 0 (Imm (-2)),
     Alu W64 RSH 0 (Imm 32), Alu W64 BOR 0 (Reg 6), Exit]"

definition sub32_reg_zero_extend_check :: prog where
  "sub32_reg_zero_extend_check =
    [Call 7, Alu W64 MOV 1 (Reg 0), Lddw 0 8589934591, Alu W32 SUB 0 (Reg 1), Alu W64 RSH 0 (Imm 32), Exit]"

definition sub32_imm_zero_extend_check :: prog where
  "sub32_imm_zero_extend_check =
    [Call 7, Lddw 1 68719476736, Alu W64 BOR 0 (Reg 1), Alu W32 SUB 0 (Imm 0), Alu W64 RSH 0 (Imm 32),
     Alu W64 MOV 6 (Reg 0), Call 7, Lddw 1 68719476736, Alu W64 BOR 0 (Reg 1), Alu W32 SUB 0 (Imm 1),
     Alu W64 RSH 0 (Imm 32), Alu W64 BOR 0 (Reg 6), Exit]"

definition mul32_reg_zero_extend_check :: prog where
  "mul32_reg_zero_extend_check =
    [Call 7, Alu W64 MOV 1 (Reg 0), Lddw 0 4294967297, Alu W32 MUL 0 (Reg 1), Alu W64 RSH 0 (Imm 32), Exit]"

definition mul32_imm_zero_extend_check :: prog where
  "mul32_imm_zero_extend_check =
    [Call 7, Lddw 1 68719476736, Alu W64 BOR 0 (Reg 1), Alu W32 MUL 0 (Imm 1), Alu W64 RSH 0 (Imm 32),
     Alu W64 MOV 6 (Reg 0), Call 7, Lddw 1 68719476736, Alu W64 BOR 0 (Reg 1), Alu W32 MUL 0 (Imm (-1)),
     Alu W64 RSH 0 (Imm 32), Alu W64 BOR 0 (Reg 6), Exit]"

definition div32_reg_zero_extend_check :: prog where
  "div32_reg_zero_extend_check =
    [Call 7, Alu W64 MOV 1 (Reg 0), Alu W64 MOV 0 (Imm (-1)), Alu W32 DIV 0 (Reg 1), Alu W64 RSH 0 (Imm 32), Exit]"

definition div32_imm_zero_extend_check :: prog where
  "div32_imm_zero_extend_check =
    [Call 7, Lddw 1 68719476736, Alu W64 BOR 0 (Reg 1), Alu W32 DIV 0 (Imm 1), Alu W64 RSH 0 (Imm 32),
     Alu W64 MOV 6 (Reg 0), Call 7, Lddw 1 68719476736, Alu W64 BOR 0 (Reg 1), Alu W32 DIV 0 (Imm 2),
     Alu W64 RSH 0 (Imm 32), Alu W64 BOR 0 (Reg 6), Exit]"

definition or32_reg_zero_extend_check :: prog where
  "or32_reg_zero_extend_check =
    [Call 7, Alu W64 MOV 1 (Reg 0), Lddw 0 4294967297, Alu W32 BOR 0 (Reg 1), Alu W64 RSH 0 (Imm 32), Exit]"

definition or32_imm_zero_extend_check :: prog where
  "or32_imm_zero_extend_check =
    [Call 7, Lddw 1 68719476736, Alu W64 BOR 0 (Reg 1), Alu W32 BOR 0 (Imm 0), Alu W64 RSH 0 (Imm 32),
     Alu W64 MOV 6 (Reg 0), Call 7, Lddw 1 68719476736, Alu W64 BOR 0 (Reg 1), Alu W32 BOR 0 (Imm 1),
     Alu W64 RSH 0 (Imm 32), Alu W64 BOR 0 (Reg 6), Exit]"

definition and32_reg_zero_extend_check :: prog where
  "and32_reg_zero_extend_check =
    [Call 7, Lddw 1 4294967296, Alu W64 BOR 1 (Reg 0), Lddw 0 8589934591, Alu W32 BAND 0 (Reg 1),
     Alu W64 RSH 0 (Imm 32), Exit]"

definition and32_imm_zero_extend_check :: prog where
  "and32_imm_zero_extend_check =
    [Call 7, Lddw 1 68719476736, Alu W64 BOR 0 (Reg 1), Alu W32 BAND 0 (Imm (-1)), Alu W64 RSH 0 (Imm 32),
     Alu W64 MOV 6 (Reg 0), Call 7, Lddw 1 68719476736, Alu W64 BOR 0 (Reg 1), Alu W32 BAND 0 (Imm (-2)),
     Alu W64 RSH 0 (Imm 32), Alu W64 BOR 0 (Reg 6), Exit]"

definition lsh32_reg_zero_extend_check :: prog where
  "lsh32_reg_zero_extend_check =
    [Call 7, Lddw 1 4294967296, Alu W64 BOR 0 (Reg 1), Alu W64 MOV 1 (Imm 1), Alu W32 LSH 0 (Reg 1),
     Alu W64 RSH 0 (Imm 32), Exit]"

definition lsh32_imm_zero_extend_check :: prog where
  "lsh32_imm_zero_extend_check =
    [Call 7, Lddw 1 68719476736, Alu W64 BOR 0 (Reg 1), Alu W32 LSH 0 (Imm 0), Alu W64 RSH 0 (Imm 32),
     Alu W64 MOV 6 (Reg 0), Call 7, Lddw 1 68719476736, Alu W64 BOR 0 (Reg 1), Alu W32 LSH 0 (Imm 1),
     Alu W64 RSH 0 (Imm 32), Alu W64 BOR 0 (Reg 6), Exit]"

definition rsh32_reg_zero_extend_check :: prog where
  "rsh32_reg_zero_extend_check =
    [Call 7, Lddw 1 68719476736, Alu W64 BOR 0 (Reg 1), Alu W64 MOV 1 (Imm 1), Alu W32 RSH 0 (Reg 1),
     Alu W64 RSH 0 (Imm 32), Exit]"

definition rsh32_imm_zero_extend_check :: prog where
  "rsh32_imm_zero_extend_check =
    [Call 7, Lddw 1 68719476736, Alu W64 BOR 0 (Reg 1), Alu W32 RSH 0 (Imm 0), Alu W64 RSH 0 (Imm 32),
     Alu W64 MOV 6 (Reg 0), Call 7, Lddw 1 68719476736, Alu W64 BOR 0 (Reg 1), Alu W32 RSH 0 (Imm 1),
     Alu W64 RSH 0 (Imm 32), Alu W64 BOR 0 (Reg 6), Exit]"

definition neg32_reg_zero_extend_check :: prog where
  "neg32_reg_zero_extend_check =
    [Call 7, Lddw 1 68719476736, Alu W64 BOR 0 (Reg 1), Neg W32 0, Alu W64 RSH 0 (Imm 32), Exit]"

definition mod32_reg_zero_extend_check :: prog where
  "mod32_reg_zero_extend_check =
    [Call 7, Alu W64 MOV 1 (Reg 0), Alu W64 MOV 0 (Imm (-1)), Alu W32 MOD 0 (Reg 1), Alu W64 RSH 0 (Imm 32), Exit]"

definition mod32_imm_zero_extend_check :: prog where
  "mod32_imm_zero_extend_check =
    [Call 7, Lddw 1 68719476736, Alu W64 BOR 0 (Reg 1), Alu W32 MOD 0 (Imm 1), Alu W64 RSH 0 (Imm 32),
     Alu W64 MOV 6 (Reg 0), Call 7, Lddw 1 68719476736, Alu W64 BOR 0 (Reg 1), Alu W32 MOD 0 (Imm 2),
     Alu W64 RSH 0 (Imm 32), Alu W64 BOR 0 (Reg 6), Exit]"

definition xor32_reg_zero_extend_check :: prog where
  "xor32_reg_zero_extend_check =
    [Call 7, Alu W64 MOV 1 (Reg 0), Lddw 0 4294967296, Alu W32 BXOR 0 (Reg 1), Alu W64 RSH 0 (Imm 32), Exit]"

definition xor32_imm_zero_extend_check :: prog where
  "xor32_imm_zero_extend_check =
    [Call 7, Lddw 1 68719476736, Alu W64 BOR 0 (Reg 1), Alu W32 BXOR 0 (Imm 1), Alu W64 RSH 0 (Imm 32), Exit]"

definition mov32_reg_zero_extend_check :: prog where
  "mov32_reg_zero_extend_check =
    [Call 7, Lddw 1 4294967296, Alu W64 BOR 1 (Reg 0), Lddw 0 4294967296, Alu W32 MOV 0 (Reg 1),
     Alu W64 RSH 0 (Imm 32), Exit]"

definition mov32_imm_zero_extend_check :: prog where
  "mov32_imm_zero_extend_check =
    [Call 7, Lddw 1 68719476736, Alu W64 BOR 0 (Reg 1), Alu W32 MOV 0 (Imm 0), Alu W64 RSH 0 (Imm 32),
     Alu W64 MOV 6 (Reg 0), Call 7, Lddw 1 68719476736, Alu W64 BOR 0 (Reg 1), Alu W32 MOV 0 (Imm 1),
     Alu W64 RSH 0 (Imm 32), Alu W64 BOR 0 (Reg 6), Exit]"

definition arsh32_reg_zero_extend_check :: prog where
  "arsh32_reg_zero_extend_check =
    [Call 7, Lddw 1 68719476736, Alu W64 BOR 0 (Reg 1), Alu W64 MOV 1 (Imm 1), Alu W32 ARSH 0 (Reg 1),
     Alu W64 RSH 0 (Imm 32), Exit]"

definition arsh32_imm_zero_extend_check :: prog where
  "arsh32_imm_zero_extend_check =
    [Call 7, Lddw 1 68719476736, Alu W64 BOR 0 (Reg 1), Alu W32 ARSH 0 (Imm 0), Alu W64 RSH 0 (Imm 32),
     Alu W64 MOV 6 (Reg 0), Call 7, Lddw 1 68719476736, Alu W64 BOR 0 (Reg 1), Alu W32 ARSH 0 (Imm 1),
     Alu W64 RSH 0 (Imm 32), Alu W64 BOR 0 (Reg 6), Exit]"

definition arsh32_imm_sign_extend_positive_check :: prog where
  "arsh32_imm_sign_extend_positive_check =
    [Call 7, Alu W64 MOV 6 (Reg 0), Alu W64 BAND 6 (Imm 4095), Alu W64 LSH 6 (Imm 32), Alu W64 ARSH 6 (Imm 32),
     Alu W64 MOV 0 (Imm 0), Exit]"

definition arsh32_imm_sign_extend_negative_check :: prog where
  "arsh32_imm_sign_extend_negative_check =
    [Call 7, Alu W64 MOV 6 (Reg 0), Alu W64 BAND 6 (Imm 4095), Alu W64 SUB 6 (Imm 4095), Alu W64 LSH 6 (Imm 32),
     Alu W64 ARSH 6 (Imm 32), Alu W64 MOV 0 (Imm 0), Exit]"

definition arsh32_imm_sign_extend_check :: prog where
  "arsh32_imm_sign_extend_check =
    [Call 7, Alu W64 MOV 6 (Reg 0), Alu W64 BAND 6 (Imm 4095), Alu W64 SUB 6 (Imm 2047), Alu W64 LSH 6 (Imm 32),
     Alu W64 ARSH 6 (Imm 32), Alu W64 MOV 0 (Imm 0), Exit]"

definition le_reg_zero_extend_check_1 :: prog where
  "le_reg_zero_extend_check_1 =
    [Call 7, Alu W64 MOV 6 (Reg 0), Alu W64 LSH 6 (Imm 32), Call 7, Alu W64 BOR 0 (Reg 6), Trunc 16 0,
     Alu W64 RSH 0 (Imm 32), Exit]"

definition le_reg_zero_extend_check_2 :: prog where
  "le_reg_zero_extend_check_2 =
    [Call 7, Alu W64 MOV 6 (Reg 0), Alu W64 LSH 6 (Imm 32), Call 7, Alu W64 BOR 0 (Reg 6), Trunc 32 0,
     Alu W64 RSH 0 (Imm 32), Exit]"

definition be_reg_zero_extend_check_1 :: prog where
  "be_reg_zero_extend_check_1 =
    [Call 7, Alu W64 MOV 6 (Reg 0), Alu W64 LSH 6 (Imm 32), Call 7, Alu W64 BOR 0 (Reg 6), Swap 16 0,
     Alu W64 RSH 0 (Imm 32), Exit]"

definition be_reg_zero_extend_check_2 :: prog where
  "be_reg_zero_extend_check_2 =
    [Call 7, Alu W64 MOV 6 (Reg 0), Alu W64 LSH 6 (Imm 32), Call 7, Alu W64 BOR 0 (Reg 6), Swap 32 0,
     Alu W64 RSH 0 (Imm 32), Exit]"

definition ldx_b_zero_extend_check :: prog where
  "ldx_b_zero_extend_check =
    [Alu W64 MOV 6 (Reg 10), Alu W64 ADD 6 (Imm (-4)), Alu W64 MOV 7 (Imm 4207849484), Stx 4 6 0 (Reg 7), Call 7,
     Lddw 1 68719476736, Alu W64 BOR 0 (Reg 1), Ldx 1 0 6 0, Alu W64 RSH 0 (Imm 32), Exit]"

definition ldx_h_zero_extend_check :: prog where
  "ldx_h_zero_extend_check =
    [Alu W64 MOV 6 (Reg 10), Alu W64 ADD 6 (Imm (-4)), Alu W64 MOV 7 (Imm 4207849484), Stx 4 6 0 (Reg 7), Call 7,
     Lddw 1 68719476736, Alu W64 BOR 0 (Reg 1), Ldx 2 0 6 0, Alu W64 RSH 0 (Imm 32), Exit]"

definition ldx_w_zero_extend_check :: prog where
  "ldx_w_zero_extend_check =
    [Alu W64 MOV 6 (Reg 10), Alu W64 ADD 6 (Imm (-4)), Alu W64 MOV 7 (Imm 4207849484), Stx 4 6 0 (Reg 7), Call 7,
     Lddw 1 68719476736, Alu W64 BOR 0 (Reg 1), Ldx 4 0 6 0, Alu W64 RSH 0 (Imm 32), Exit]"

definition arsh_31_and :: prog where
  "arsh_31_and =
    [Call 7, Alu W32 MOV 2 (Reg 0), Alu W32 ARSH 2 (Imm 31), Alu W32 BAND 2 (Imm (-134)),
     Jmp W32 JSGT 2 (Imm (-1)) (Off 2), Jmp W32 JNE 2 (Imm (-136)) (Off 1), Alu W32 DIV 0 (Imm 0),
     Alu W32 MOV 0 (Imm 0), Exit]"

definition arsh_63_and :: prog where
  "arsh_63_and =
    [Call 7, Alu W64 MOV 2 (Reg 0), Alu W64 LSH 2 (Imm 32), Alu W64 ARSH 2 (Imm 63), Alu W64 BAND 2 (Imm (-134)),
     Jmp W64 JSGT 2 (Imm (-1)) (Off 2), Jmp W64 JNE 2 (Imm (-136)) (Off 1), Alu W64 DIV 0 (Imm 0),
     Alu W64 MOV 0 (Imm 0), Exit]"

definition arsh_31_or :: prog where
  "arsh_31_or =
    [Call 7, Alu W32 MOV 2 (Reg 0), Alu W32 ARSH 2 (Imm 31), Alu W32 BOR 2 (Imm 134),
     Jmp W32 JSGT 2 (Imm (-1)) (Off 2), Jmp W32 JEQ 2 (Imm (-1)) (Off 1), Alu W32 DIV 0 (Imm 0),
     Alu W32 MOV 0 (Imm 0), Exit]"

definition arsh_63_or :: prog where
  "arsh_63_or =
    [Call 7, Alu W64 MOV 2 (Reg 0), Alu W64 LSH 2 (Imm 32), Alu W64 ARSH 2 (Imm 63), Alu W64 BOR 2 (Imm 134),
     Jmp W64 JSGT 2 (Imm (-1)) (Off 2), Jmp W64 JEQ 2 (Imm (-1)) (Off 1), Alu W64 DIV 0 (Imm 0),
     Alu W64 MOV 0 (Imm 0), Exit]"

definition arsh32_imm1_value :: prog where
  "arsh32_imm1_value =
    [Alu W64 MOV 0 (Imm 42), Alu W64 MOV 1 (Imm (-2147483648)), Alu W32 ARSH 1 (Imm 1), Lddw 2 3221225472,
     Jmp W64 JEQ 1 (Reg 2) (L 0), Alu W64 DIV 0 (Imm 0), Lab 0, Exit]"

definition lsh32_reg0_zero_extend_check :: prog where
  "lsh32_reg0_zero_extend_check =
    [Alu W64 MOV 6 (Imm 1), Call 7, Lddw 1 68719476736, Alu W64 BOR 0 (Reg 1), Alu W32 MOV 1 (Imm 0),
     Alu W32 LSH 0 (Reg 1), Alu W64 RSH 0 (Imm 32), Jmp W64 JEQ 0 (Imm 0) (L 0), Alu W64 DIV 6 (Imm 0), Lab 0,
     Alu W64 MOV 0 (Reg 6), Exit]"

definition rsh32_reg0_zero_extend_check :: prog where
  "rsh32_reg0_zero_extend_check =
    [Alu W64 MOV 6 (Imm 1), Call 7, Lddw 1 68719476736, Alu W64 BOR 0 (Reg 1), Alu W32 MOV 1 (Imm 0),
     Alu W32 RSH 0 (Reg 1), Alu W64 RSH 0 (Imm 32), Jmp W64 JEQ 0 (Imm 0) (L 0), Alu W64 DIV 6 (Imm 0), Lab 0,
     Alu W64 MOV 0 (Reg 6), Exit]"

definition arsh32_reg0_zero_extend_check :: prog where
  "arsh32_reg0_zero_extend_check =
    [Alu W64 MOV 6 (Imm 1), Call 7, Lddw 1 68719476736, Alu W64 BOR 0 (Reg 1), Alu W32 MOV 1 (Imm 0),
     Alu W32 ARSH 0 (Reg 1), Alu W64 RSH 0 (Imm 32), Jmp W64 JEQ 0 (Imm 0) (L 0), Alu W64 DIV 6 (Imm 0), Lab 0,
     Alu W64 MOV 0 (Reg 6), Exit]"

definition lsh32_imm31_value :: prog where
  "lsh32_imm31_value =
    [Alu W64 MOV 0 (Imm 42), Alu W64 MOV 1 (Imm 1), Alu W32 LSH 1 (Imm 31), Lddw 2 2147483648,
     Jmp W64 JEQ 1 (Reg 2) (L 0), Alu W64 DIV 0 (Imm 0), Lab 0, Exit]"

definition rsh32_imm31_value :: prog where
  "rsh32_imm31_value =
    [Alu W64 MOV 0 (Imm 42), Alu W64 MOV 1 (Imm (-2147483648)), Alu W32 RSH 1 (Imm 31), Jmp W64 JEQ 1 (Imm 1) (L 0),
     Alu W64 DIV 0 (Imm 0), Lab 0, Exit]"

definition arsh32_imm31_value :: prog where
  "arsh32_imm31_value =
    [Alu W64 MOV 0 (Imm 42), Alu W64 MOV 1 (Imm (-2147483648)), Alu W32 ARSH 1 (Imm 31), Lddw 2 4294967295,
     Jmp W64 JEQ 1 (Reg 2) (L 0), Alu W64 DIV 0 (Imm 0), Lab 0, Exit]"

definition lsh32_unknown_precise_bounds :: prog where
  "lsh32_unknown_precise_bounds =
    [Alu W64 MOV 6 (Imm 1), Call 7, Alu W32 BAND 0 (Imm 3), Alu W32 LSH 0 (Imm 1), Jmp W32 JLT 0 (Imm 7) (L 0),
     Alu W64 DIV 6 (Imm 0), Lab 0, Alu W64 MOV 0 (Reg 6), Exit]"

definition rsh32_unknown_bounds :: prog where
  "rsh32_unknown_bounds =
    [Alu W64 MOV 6 (Imm 1), Call 7, Alu W32 RSH 0 (Imm 28), Jmp W32 JLT 0 (Imm 16) (L 0), Alu W64 DIV 6 (Imm 0),
     Lab 0, Alu W64 MOV 0 (Reg 6), Exit]"

section \<open>Tests\<close>




section \<open>Runs\<close>

lemma add32_reg_zero_extend_check_ok [test_ok]: "returns E add32_reg_zero_extend_check s 0"
  by (simp add: add32_reg_zero_extend_check_def isa_simps)

lemma add32_imm_zero_extend_check_ok [test_ok]: "returns E add32_imm_zero_extend_check s 0"
  by (simp add: add32_imm_zero_extend_check_def isa_simps)

lemma sub32_reg_zero_extend_check_ok [test_ok]: "returns E sub32_reg_zero_extend_check s 0"
  by (simp add: sub32_reg_zero_extend_check_def isa_simps)

lemma sub32_imm_zero_extend_check_ok [test_ok]: "returns E sub32_imm_zero_extend_check s 0"
  by (simp add: sub32_imm_zero_extend_check_def isa_simps)

lemma mul32_reg_zero_extend_check_ok [test_ok]: "returns E mul32_reg_zero_extend_check s 0"
  by (simp add: mul32_reg_zero_extend_check_def isa_simps)

lemma mul32_imm_zero_extend_check_ok [test_ok]: "returns E mul32_imm_zero_extend_check s 0"
  by (simp add: mul32_imm_zero_extend_check_def isa_simps)

lemma div32_reg_zero_extend_check_ok [test_ok]: "returns E div32_reg_zero_extend_check s 0"
  by (simp add: div32_reg_zero_extend_check_def isa_simps)

lemma div32_imm_zero_extend_check_ok [test_ok]: "returns E div32_imm_zero_extend_check s 0"
  by (simp add: div32_imm_zero_extend_check_def isa_simps)

lemma or32_reg_zero_extend_check_ok [test_ok]: "returns E or32_reg_zero_extend_check s 0"
  by (simp add: or32_reg_zero_extend_check_def isa_simps)

lemma or32_imm_zero_extend_check_ok [test_ok]: "returns E or32_imm_zero_extend_check s 0"
  by (simp add: or32_imm_zero_extend_check_def isa_simps)

lemma and32_reg_zero_extend_check_ok [test_ok]: "returns E and32_reg_zero_extend_check s 0"
  by (simp add: and32_reg_zero_extend_check_def isa_simps)

lemma and32_imm_zero_extend_check_ok [test_ok]: "returns E and32_imm_zero_extend_check s 0"
  by (simp add: and32_imm_zero_extend_check_def isa_simps)

lemma lsh32_reg_zero_extend_check_ok [test_ok]: "returns E lsh32_reg_zero_extend_check s 0"
  by (simp add: lsh32_reg_zero_extend_check_def isa_simps)

lemma lsh32_imm_zero_extend_check_ok [test_ok]: "returns E lsh32_imm_zero_extend_check s 0"
  by (simp add: lsh32_imm_zero_extend_check_def isa_simps)

lemma rsh32_reg_zero_extend_check_ok [test_ok]: "returns E rsh32_reg_zero_extend_check s 0"
  by (simp add: rsh32_reg_zero_extend_check_def isa_simps)

lemma rsh32_imm_zero_extend_check_ok [test_ok]: "returns E rsh32_imm_zero_extend_check s 0"
  by (simp add: rsh32_imm_zero_extend_check_def isa_simps)

lemma neg32_reg_zero_extend_check_ok [test_ok]: "returns E neg32_reg_zero_extend_check s 0"
  by (simp add: neg32_reg_zero_extend_check_def isa_simps)

lemma mod32_reg_zero_extend_check_ok [test_ok]: "returns E mod32_reg_zero_extend_check s 0"
  by (simp add: mod32_reg_zero_extend_check_def isa_simps)

lemma mod32_imm_zero_extend_check_ok [test_ok]: "returns E mod32_imm_zero_extend_check s 0"
  by (simp add: mod32_imm_zero_extend_check_def isa_simps)

lemma xor32_reg_zero_extend_check_ok [test_ok]: "returns E xor32_reg_zero_extend_check s 0"
  by (simp add: xor32_reg_zero_extend_check_def isa_simps)

lemma xor32_imm_zero_extend_check_ok [test_ok]: "returns E xor32_imm_zero_extend_check s 0"
  by (simp add: xor32_imm_zero_extend_check_def isa_simps)

lemma mov32_reg_zero_extend_check_ok [test_ok]: "returns E mov32_reg_zero_extend_check s 0"
  by (simp add: mov32_reg_zero_extend_check_def isa_simps)

lemma mov32_imm_zero_extend_check_ok [test_ok]: "returns E mov32_imm_zero_extend_check s 0"
  by (simp add: mov32_imm_zero_extend_check_def isa_simps)

lemma arsh32_reg_zero_extend_check_ok [test_ok]: "returns E arsh32_reg_zero_extend_check s 0"
  by (simp add: arsh32_reg_zero_extend_check_def isa_simps)

lemma arsh32_imm_zero_extend_check_ok [test_ok]: "returns E arsh32_imm_zero_extend_check s 0"
  by (simp add: arsh32_imm_zero_extend_check_def isa_simps)

lemma arsh32_imm_sign_extend_positive_check_ok [test_ok]: "returns E arsh32_imm_sign_extend_positive_check s 0"
  by (simp add: arsh32_imm_sign_extend_positive_check_def isa_simps)

lemma arsh32_imm_sign_extend_negative_check_ok [test_ok]: "returns E arsh32_imm_sign_extend_negative_check s 0"
  by (simp add: arsh32_imm_sign_extend_negative_check_def isa_simps)

lemma arsh32_imm_sign_extend_check_ok [test_ok]: "returns E arsh32_imm_sign_extend_check s 0"
  by (simp add: arsh32_imm_sign_extend_check_def isa_simps)

lemma le_reg_zero_extend_check_1_ok [test_ok]: "returns E le_reg_zero_extend_check_1 s 0"
  by (simp add: le_reg_zero_extend_check_1_def isa_simps drop_bit_take_bit)

lemma le_reg_zero_extend_check_2_ok [test_ok]: "returns E le_reg_zero_extend_check_2 s 0"
  by (simp add: le_reg_zero_extend_check_2_def isa_simps drop_bit_take_bit)

lemma be_reg_zero_extend_check_1_ok [test_ok]: "returns E be_reg_zero_extend_check_1 s 0"
  by (simp add: be_reg_zero_extend_check_1_def isa_simps drop_bit_take_bit)

lemma be_reg_zero_extend_check_2_ok [test_ok]: "returns E be_reg_zero_extend_check_2 s 0"
  by (simp add: be_reg_zero_extend_check_2_def isa_simps drop_bit_take_bit)

lemma ldx_b_zero_extend_check_ok [test_ok]: "stack_ok E s \<Longrightarrow> returns E ldx_b_zero_extend_check s 0"
  using stack_word [of E s 1 "- 87117812"] stack_slot (2) [of E s 508 4]
  by (fastforce simp: ldx_b_zero_extend_check_def isa_simps)

lemma ldx_h_zero_extend_check_ok [test_ok]: "stack_ok E s \<Longrightarrow> returns E ldx_h_zero_extend_check s 0"
  using stack_word [of E s 2 "- 87117812"] stack_slot (2) [of E s 508 4]
  by (fastforce simp: ldx_h_zero_extend_check_def isa_simps)

lemma ldx_w_zero_extend_check_ok [test_ok]: "stack_ok E s \<Longrightarrow> returns E ldx_w_zero_extend_check s 0"
  using stack_word [of E s 4 "- 87117812"] stack_slot (2) [of E s 508 4]
  by (fastforce simp: ldx_w_zero_extend_check_def isa_simps)

lemma arsh_31_and_ok [test_ok]: "returns E arsh_31_and s 0"
  by (simp add: arsh_31_and_def isa_simps arsh_31)

lemma arsh_63_and_ok [test_ok]: "returns E arsh_63_and s 0"
  by (simp add: arsh_63_and_def isa_simps arsh_63)

lemma arsh_31_or_ok [test_ok]: "returns E arsh_31_or s 0"
  by (simp add: arsh_31_or_def isa_simps arsh_31)

lemma arsh_63_or_ok [test_ok]: "returns E arsh_63_or s 0"
  by (simp add: arsh_63_or_def isa_simps arsh_63)

lemma arsh32_imm1_value_ok [test_ok]: "returns E arsh32_imm1_value s 42"
  by (simp add: arsh32_imm1_value_def isa_simps)

lemma lsh32_reg0_zero_extend_check_ok [test_ok]: "returns E lsh32_reg0_zero_extend_check s 1"
  by (simp add: lsh32_reg0_zero_extend_check_def isa_simps)

lemma rsh32_reg0_zero_extend_check_ok [test_ok]: "returns E rsh32_reg0_zero_extend_check s 1"
  by (simp add: rsh32_reg0_zero_extend_check_def isa_simps)

lemma arsh32_reg0_zero_extend_check_ok [test_ok]: "returns E arsh32_reg0_zero_extend_check s 1"
  by (simp add: arsh32_reg0_zero_extend_check_def isa_simps)

lemma lsh32_imm31_value_ok [test_ok]: "returns E lsh32_imm31_value s 42"
  by (simp add: lsh32_imm31_value_def isa_simps)

lemma rsh32_imm31_value_ok [test_ok]: "returns E rsh32_imm31_value s 42"
  by (simp add: rsh32_imm31_value_def isa_simps)

lemma arsh32_imm31_value_ok [test_ok]: "returns E arsh32_imm31_value s 42"
  by (simp add: arsh32_imm31_value_def isa_simps)

lemma lsh32_unknown_precise_bounds_ok [test_ok]: "returns E lsh32_unknown_precise_bounds s 1"
  by (simp add: lsh32_unknown_precise_bounds_def isa_simps and_6_bound)

lemma rsh32_unknown_bounds_ok [test_ok]: "returns E rsh32_unknown_bounds s 1"
  by (simp add: rsh32_unknown_bounds_def isa_simps rsh_28_bound)



end
