(* ===== verification/Verifier_Masking.thy ===== *)
theory Verifier_Masking
  imports Bpf_Values
begin

text \<open>
  The programs of \<^verbatim>\<open>src/progs/verifier_masking.rs\<close>:
  the branch-free clamp of an index to a bound, which speculation-safe array accesses use.
  Every naked function is a list of instructions, and the entries of \<^verbatim>\<open>test_tags!\<close> are the table of
  tests at the end.
\<close>

section \<open>Programs\<close>

definition test_out_of_bounds_1 :: prog where
  "test_out_of_bounds_1 =
    [Alu W32 MOV 1 (Imm 5), Alu W32 MOV 2 (Imm 4), Alu W64 SUB 2 (Reg 1), Alu W64 BOR 2 (Reg 1), Neg W64 2,
     Alu W64 ARSH 2 (Imm 63), Alu W64 BAND 1 (Reg 2), Alu W64 MOV 0 (Reg 1), Exit]"

definition test_out_of_bounds_2 :: prog where
  "test_out_of_bounds_2 =
    [Alu W32 MOV 1 (Imm 1), Alu W32 MOV 2 (Imm 0), Alu W64 SUB 2 (Reg 1), Alu W64 BOR 2 (Reg 1), Neg W64 2,
     Alu W64 ARSH 2 (Imm 63), Alu W64 BAND 1 (Reg 2), Alu W64 MOV 0 (Reg 1), Exit]"

definition test_out_of_bounds_3 :: prog where
  "test_out_of_bounds_3 =
    [Alu W32 MOV 1 (Imm 4294967295), Alu W32 MOV 2 (Imm (-2)), Alu W64 SUB 2 (Reg 1), Alu W64 BOR 2 (Reg 1),
     Neg W64 2, Alu W64 ARSH 2 (Imm 63), Alu W64 BAND 1 (Reg 2), Alu W64 MOV 0 (Reg 1), Exit]"

definition test_out_of_bounds_4 :: prog where
  "test_out_of_bounds_4 =
    [Alu W32 MOV 1 (Imm 4294967295), Alu W32 MOV 2 (Imm 0), Alu W64 SUB 2 (Reg 1), Alu W64 BOR 2 (Reg 1), Neg W64 2,
     Alu W64 ARSH 2 (Imm 63), Alu W64 BAND 1 (Reg 2), Alu W64 MOV 0 (Reg 1), Exit]"

definition test_out_of_bounds_5 :: prog where
  "test_out_of_bounds_5 =
    [Alu W32 MOV 1 (Imm (-1)), Alu W32 MOV 2 (Imm 0), Alu W64 SUB 2 (Reg 1), Alu W64 BOR 2 (Reg 1), Neg W64 2,
     Alu W64 ARSH 2 (Imm 63), Alu W64 BAND 1 (Reg 2), Alu W64 MOV 0 (Reg 1), Exit]"

definition test_out_of_bounds_6 :: prog where
  "test_out_of_bounds_6 =
    [Alu W32 MOV 1 (Imm (-1)), Alu W32 MOV 2 (Imm (-2)), Alu W64 SUB 2 (Reg 1), Alu W64 BOR 2 (Reg 1), Neg W64 2,
     Alu W64 ARSH 2 (Imm 63), Alu W64 BAND 1 (Reg 2), Alu W64 MOV 0 (Reg 1), Exit]"

definition test_out_of_bounds_7 :: prog where
  "test_out_of_bounds_7 =
    [Alu W64 MOV 1 (Imm 5), Alu W32 MOV 2 (Imm 4), Alu W64 SUB 2 (Reg 1), Alu W64 BOR 2 (Reg 1), Neg W64 2,
     Alu W64 ARSH 2 (Imm 63), Alu W64 BAND 1 (Reg 2), Alu W64 MOV 0 (Reg 1), Exit]"

definition test_out_of_bounds_8 :: prog where
  "test_out_of_bounds_8 =
    [Alu W64 MOV 1 (Imm 1), Alu W32 MOV 2 (Imm 0), Alu W64 SUB 2 (Reg 1), Alu W64 BOR 2 (Reg 1), Neg W64 2,
     Alu W64 ARSH 2 (Imm 63), Alu W64 BAND 1 (Reg 2), Alu W64 MOV 0 (Reg 1), Exit]"

definition test_out_of_bounds_9 :: prog where
  "test_out_of_bounds_9 =
    [Alu W64 MOV 1 (Imm 4294967295), Alu W32 MOV 2 (Imm (-2)), Alu W64 SUB 2 (Reg 1), Alu W64 BOR 2 (Reg 1),
     Neg W64 2, Alu W64 ARSH 2 (Imm 63), Alu W64 BAND 1 (Reg 2), Alu W64 MOV 0 (Reg 1), Exit]"

definition test_out_of_bounds_10 :: prog where
  "test_out_of_bounds_10 =
    [Alu W64 MOV 1 (Imm 4294967295), Alu W32 MOV 2 (Imm 0), Alu W64 SUB 2 (Reg 1), Alu W64 BOR 2 (Reg 1), Neg W64 2,
     Alu W64 ARSH 2 (Imm 63), Alu W64 BAND 1 (Reg 2), Alu W64 MOV 0 (Reg 1), Exit]"

definition test_out_of_bounds_11 :: prog where
  "test_out_of_bounds_11 =
    [Alu W64 MOV 1 (Imm (-1)), Alu W32 MOV 2 (Imm 0), Alu W64 SUB 2 (Reg 1), Alu W64 BOR 2 (Reg 1), Neg W64 2,
     Alu W64 ARSH 2 (Imm 63), Alu W64 BAND 1 (Reg 2), Alu W64 MOV 0 (Reg 1), Exit]"

definition test_out_of_bounds_12 :: prog where
  "test_out_of_bounds_12 =
    [Alu W64 MOV 1 (Imm (-1)), Alu W32 MOV 2 (Imm (-2)), Alu W64 SUB 2 (Reg 1), Alu W64 BOR 2 (Reg 1), Neg W64 2,
     Alu W64 ARSH 2 (Imm 63), Alu W64 BAND 1 (Reg 2), Alu W64 MOV 0 (Reg 1), Exit]"

definition masking_test_in_bounds_1 :: prog where
  "masking_test_in_bounds_1 =
    [Alu W32 MOV 1 (Imm 4), Alu W32 MOV 2 (Imm 4), Alu W64 SUB 2 (Reg 1), Alu W64 BOR 2 (Reg 1), Neg W64 2,
     Alu W64 ARSH 2 (Imm 63), Alu W64 BAND 1 (Reg 2), Alu W64 MOV 0 (Reg 1), Exit]"

definition masking_test_in_bounds_2 :: prog where
  "masking_test_in_bounds_2 =
    [Alu W32 MOV 1 (Imm 0), Alu W32 MOV 2 (Imm (-2)), Alu W64 SUB 2 (Reg 1), Alu W64 BOR 2 (Reg 1), Neg W64 2,
     Alu W64 ARSH 2 (Imm 63), Alu W64 BAND 1 (Reg 2), Alu W64 MOV 0 (Reg 1), Exit]"

definition masking_test_in_bounds_3 :: prog where
  "masking_test_in_bounds_3 =
    [Alu W32 MOV 1 (Imm 4294967294), Alu W32 MOV 2 (Imm (-2)), Alu W64 SUB 2 (Reg 1), Alu W64 BOR 2 (Reg 1),
     Neg W64 2, Alu W64 ARSH 2 (Imm 63), Alu W64 BAND 1 (Reg 2), Alu W64 MOV 0 (Reg 1), Exit]"

definition masking_test_in_bounds_4 :: prog where
  "masking_test_in_bounds_4 =
    [Alu W32 MOV 1 (Imm 703710), Alu W32 MOV 2 (Imm 11259374), Alu W64 SUB 2 (Reg 1), Alu W64 BOR 2 (Reg 1),
     Neg W64 2, Alu W64 ARSH 2 (Imm 63), Alu W64 BAND 1 (Reg 2), Alu W64 MOV 0 (Reg 1), Exit]"

definition masking_test_in_bounds_5 :: prog where
  "masking_test_in_bounds_5 =
    [Alu W32 MOV 1 (Imm 0), Alu W32 MOV 2 (Imm 0), Alu W64 SUB 2 (Reg 1), Alu W64 BOR 2 (Reg 1), Neg W64 2,
     Alu W64 ARSH 2 (Imm 63), Alu W64 BAND 1 (Reg 2), Alu W64 MOV 0 (Reg 1), Exit]"

definition masking_test_in_bounds_6 :: prog where
  "masking_test_in_bounds_6 =
    [Alu W32 MOV 1 (Imm 46), Alu W32 MOV 2 (Imm 46), Alu W64 SUB 2 (Reg 1), Alu W64 BOR 2 (Reg 1), Neg W64 2,
     Alu W64 ARSH 2 (Imm 63), Alu W64 BAND 1 (Reg 2), Alu W64 MOV 0 (Reg 1), Exit]"

definition masking_test_in_bounds_7 :: prog where
  "masking_test_in_bounds_7 =
    [Alu W64 MOV 3 (Imm (-46)), Alu W64 MUL 3 (Imm (-1)), Alu W32 MOV 2 (Imm 46), Alu W64 SUB 2 (Reg 3),
     Alu W64 BOR 2 (Reg 3), Neg W64 2, Alu W64 ARSH 2 (Imm 63), Alu W64 BAND 3 (Reg 2), Alu W64 MOV 0 (Reg 3), Exit]"

definition masking_test_in_bounds_8 :: prog where
  "masking_test_in_bounds_8 =
    [Alu W64 MOV 3 (Imm (-47)), Alu W64 MUL 3 (Imm (-1)), Alu W32 MOV 2 (Imm 46), Alu W64 SUB 2 (Reg 3),
     Alu W64 BOR 2 (Reg 3), Neg W64 2, Alu W64 ARSH 2 (Imm 63), Alu W64 BAND 3 (Reg 2), Alu W64 MOV 0 (Reg 3), Exit]"

section \<open>Tests\<close>

definition masking_tests :: "test list" where
  "masking_tests =
    [(test_out_of_bounds_1, Success 0), (test_out_of_bounds_2, Success 0), (test_out_of_bounds_3, Success 0),
     (test_out_of_bounds_4, Success 0), (test_out_of_bounds_5, Success 0), (test_out_of_bounds_6, Success 0),
     (test_out_of_bounds_7, Success 0), (test_out_of_bounds_8, Success 0), (test_out_of_bounds_9, Success 0),
     (test_out_of_bounds_10, Success 0), (test_out_of_bounds_11, Success 0), (test_out_of_bounds_12, Success 0),
     (masking_test_in_bounds_1, Success 4), (masking_test_in_bounds_2, Success 0),
     (masking_test_in_bounds_3, Success 4294967294), (masking_test_in_bounds_4, Success 703710),
     (masking_test_in_bounds_5, Success 0), (masking_test_in_bounds_6, Success 46),
     (masking_test_in_bounds_7, Success 46), (masking_test_in_bounds_8, Success 0)]"

section \<open>Runs\<close>

lemma test_out_of_bounds_1_ok [test_ok]: "returns E test_out_of_bounds_1 s 0"
  by (simp add: test_out_of_bounds_1_def isa_simps)

lemma test_out_of_bounds_2_ok [test_ok]: "returns E test_out_of_bounds_2 s 0"
  by (simp add: test_out_of_bounds_2_def isa_simps)

lemma test_out_of_bounds_3_ok [test_ok]: "returns E test_out_of_bounds_3 s 0"
  by (simp add: test_out_of_bounds_3_def isa_simps)

lemma test_out_of_bounds_4_ok [test_ok]: "returns E test_out_of_bounds_4 s 0"
  by (simp add: test_out_of_bounds_4_def isa_simps)

lemma test_out_of_bounds_5_ok [test_ok]: "returns E test_out_of_bounds_5 s 0"
  by (simp add: test_out_of_bounds_5_def isa_simps)

lemma test_out_of_bounds_6_ok [test_ok]: "returns E test_out_of_bounds_6 s 0"
  by (simp add: test_out_of_bounds_6_def isa_simps)

lemma test_out_of_bounds_7_ok [test_ok]: "returns E test_out_of_bounds_7 s 0"
  by (simp add: test_out_of_bounds_7_def isa_simps)

lemma test_out_of_bounds_8_ok [test_ok]: "returns E test_out_of_bounds_8 s 0"
  by (simp add: test_out_of_bounds_8_def isa_simps)

lemma test_out_of_bounds_9_ok [test_ok]: "returns E test_out_of_bounds_9 s 0"
  by (simp add: test_out_of_bounds_9_def isa_simps)

lemma test_out_of_bounds_10_ok [test_ok]: "returns E test_out_of_bounds_10 s 0"
  by (simp add: test_out_of_bounds_10_def isa_simps)

lemma test_out_of_bounds_11_ok [test_ok]: "returns E test_out_of_bounds_11 s 0"
  by (simp add: test_out_of_bounds_11_def isa_simps)

lemma test_out_of_bounds_12_ok [test_ok]: "returns E test_out_of_bounds_12 s 0"
  by (simp add: test_out_of_bounds_12_def isa_simps)

lemma masking_test_in_bounds_1_ok [test_ok]: "returns E masking_test_in_bounds_1 s 4"
  by (simp add: masking_test_in_bounds_1_def isa_simps)

lemma masking_test_in_bounds_2_ok [test_ok]: "returns E masking_test_in_bounds_2 s 0"
  by (simp add: masking_test_in_bounds_2_def isa_simps)

lemma masking_test_in_bounds_3_ok [test_ok]: "returns E masking_test_in_bounds_3 s 4294967294"
  by (simp add: masking_test_in_bounds_3_def isa_simps)

lemma masking_test_in_bounds_4_ok [test_ok]: "returns E masking_test_in_bounds_4 s 703710"
  by (simp add: masking_test_in_bounds_4_def isa_simps)

lemma masking_test_in_bounds_5_ok [test_ok]: "returns E masking_test_in_bounds_5 s 0"
  by (simp add: masking_test_in_bounds_5_def isa_simps)

lemma masking_test_in_bounds_6_ok [test_ok]: "returns E masking_test_in_bounds_6 s 46"
  by (simp add: masking_test_in_bounds_6_def isa_simps)

lemma masking_test_in_bounds_7_ok [test_ok]: "returns E masking_test_in_bounds_7 s 46"
  by (simp add: masking_test_in_bounds_7_def isa_simps)

lemma masking_test_in_bounds_8_ok [test_ok]: "returns E masking_test_in_bounds_8 s 0"
  by (simp add: masking_test_in_bounds_8_def isa_simps)

section \<open>The mask\<close>

text \<open>
  All programs end in the same seven instructions, which mask the index register with the limit in \<open>r2\<close>;
  the first instructions only load constants. The reference is a comparison.
\<close>

definition clamp :: "u64 \<Rightarrow> u64 \<Rightarrow> u64" where
  "clamp l x = (if x \<le> l then x else 0)"

definition index_reg :: "prog \<Rightarrow> nat" where
  "index_reg p = (case p ! (length p - 2) of Alu _ _ _ (Reg r) \<Rightarrow> r | _ \<Rightarrow> 0)"

definition mask_code :: "prog \<Rightarrow> prog" where
  "mask_code p = drop (length p - 7) p"

lemmas masking_defs =
  test_out_of_bounds_1_def test_out_of_bounds_2_def test_out_of_bounds_3_def test_out_of_bounds_4_def
  test_out_of_bounds_5_def test_out_of_bounds_6_def test_out_of_bounds_7_def test_out_of_bounds_8_def
  test_out_of_bounds_9_def test_out_of_bounds_10_def test_out_of_bounds_11_def test_out_of_bounds_12_def
  masking_test_in_bounds_1_def masking_test_in_bounds_2_def masking_test_in_bounds_3_def
  masking_test_in_bounds_4_def masking_test_in_bounds_5_def masking_test_in_bounds_6_def
  masking_test_in_bounds_7_def masking_test_in_bounds_8_def

lemma bit_63: "bit (x :: u64) 63 \<longleftrightarrow> 9223372036854775808 \<le> unat x"
proof -
  have "bit x 63 = odd (unat x div 9223372036854775808)"
    using bit_unsigned_iff [of x 63, where 'a = nat] by (simp add: bit_iff_odd)
  moreover have "unat x div 9223372036854775808 = (if 9223372036854775808 \<le> unat x then 1 else 0)"
    using unat_u64_lt [of x] by (simp add: div_nat_eqI)
  ultimately show ?thesis by simp
qed

lemma unat_neg: "x \<noteq> 0 \<Longrightarrow> unat (- x :: u64) = 18446744073709551616 - unat x"
proof -
  assume "x \<noteq> 0"
  then have "uint (- x) = 18446744073709551616 - uint x"
    using uint_lt2p [of x] by (simp add: uint_word_ariths zmod_zminus1_eq_if uint_0_iff)
  then have "int (unat (- x)) = 18446744073709551616 - int (unat x)" by simp
  then show ?thesis using unat_u64_lt [of x] by linarith
qed

lemma bit_63_neg: "bit (- x :: u64) 63 \<longleftrightarrow> x \<noteq> 0 \<and> unat x \<le> 9223372036854775808"
  by (cases "x = 0") (simp_all add: bit_63 unat_neg unat_u64_lt less_imp_le le_diff_conv2)

lemma or_high:
  assumes "x \<noteq> 2 ^ 63" "x \<noteq> 0" "bit (y OR x) 63"
  shows "9223372036854775808 < unat (y OR x :: u64)"
proof -
  have "y OR x \<noteq> 2 ^ 63"
  proof
    assume "y OR x = 2 ^ 63"
    then have "x = x AND 2 ^ 63" by (metis word_bw_comms(2) word_ao_absorbs(1))
    then show False using assms(1,2) and_exp [of x 63] by (metis)
  qed
  then have "unat (y OR x) \<noteq> 9223372036854775808" by (simp add: word_unat_eq_iff)
  with assms(3) show ?thesis by (simp add: bit_63)
qed

lemma mask_clamps:
  assumes "l < 2 ^ 32" "x \<noteq> 2 ^ 63"
  shows "x AND signed_drop_bit 63 (- (l - x OR x)) = clamp l x"
proof (cases "x \<le> l")
  case True
  then have "\<not> bit (l - x) 63" "\<not> bit x 63"
    using assms by (simp_all add: bit_63 unat_sub_le word_le_nat_alt word_less_nat_alt)
  then have "\<not> bit (l - x OR x) 63" by (simp add: bit_or_iff)
  then have "unat (l - x OR x) < 9223372036854775808" by (simp add: bit_63)
  then have "bit (- (l - x OR x)) 63 \<or> x = 0" by (auto simp: bit_63_neg or_eq_0_iff)
  then show ?thesis using True by (auto simp: clamp_def arsh_63)
next
  case False
  have "bit (l - x) 63" if "\<not> bit x 63"
  proof -
    have "l - x = - (x - l)" "x - l \<noteq> 0" using False by auto
    moreover have "unat (x - l) \<le> 9223372036854775808"
      using False that by (simp add: unat_sub_le bit_63)
    ultimately show ?thesis by (simp only: bit_63_neg) simp
  qed
  then have "bit (l - x OR x) 63" by (auto simp: bit_or_iff)
  moreover have "x \<noteq> 0" using False by auto
  ultimately have "\<not> bit (- (l - x OR x)) 63" using or_high [of x "l - x"] assms by (simp add: bit_63_neg)
  then show ?thesis using False by (simp add: clamp_def arsh_63)
qed
text \<open>
  C12. The branch-free masking code of every test program computes the clamp: for every index and every
  limit below \<open>2 ^ 32\<close> (the programs load the limit with a 32-bit move), the code after the constants
  returns the index if it is at most the limit and 0 otherwise. The only index for which the code is
  wrong is \<open>2 ^ 63\<close>, which equals its own negation.
\<close>

theorem masking_clamps:
  assumes "regs s 2 < 2 ^ 32" "regs s 1 \<noteq> 2 ^ 63" "regs s 3 \<noteq> 2 ^ 63"
  shows "list_all (\<lambda>p. exec n E p (mask_code p) s = Ret (clamp (regs s 2) (regs s (index_reg p))))
           (map fst masking_tests)"
  using mask_clamps [OF assms(1,2)] mask_clamps [OF assms(1,3)]
  by (simp add: masking_tests_def masking_defs mask_code_def index_reg_def write_reg_def)

theorem masking_clamps_witness:
  "regs (blank_state 7) 2 < 2 ^ 32 \<and>
   list_all (\<lambda>p. exec 0 blank_env p (mask_code p) (blank_state 7) = Ret 7) (map fst masking_tests)"
proof -
  have "clamp (regs (blank_state 7) 2) (regs (blank_state 7) r) = 7" for r
    by (simp add: clamp_def blank_state_def)
  then show ?thesis
    using masking_clamps [of "blank_state 7" 0 blank_env] by (simp add: blank_state_def)
qed

end
