(* ===== verification/Verifier_Movsx.thy ===== *)
theory Verifier_Movsx
  imports Bpf_Values
begin

text \<open>
  The programs of \<^verbatim>\<open>src/progs/verifier_movsx.rs\<close>:
  sign-extending moves.
  Every naked function is a list of instructions, and the entries of \<^verbatim>\<open>test_tags!\<close> are the table of
  tests at the end.
\<close>

section \<open>Programs\<close>

definition mov32sx_s8 :: prog where
  "mov32sx_s8 =
    [Alu W32 MOV 0 (Imm 65315), Movsx W32 8 0 0, Exit]"

definition mov32sx_s16 :: prog where
  "mov32sx_s16 =
    [Alu W32 MOV 0 (Imm 65315), Movsx W32 16 0 0, Exit]"

definition mov64sx_s8 :: prog where
  "mov64sx_s8 =
    [Alu W64 MOV 0 (Imm 510), Movsx W64 8 0 0, Exit]"

definition mov64sx_s16 :: prog where
  "mov64sx_s16 =
    [Alu W64 MOV 0 (Imm 986915), Movsx W64 16 0 0, Exit]"

definition mov64sx_s32 :: prog where
  "mov64sx_s32 =
    [Alu W64 MOV 0 (Imm 4294967294), Movsx W64 32 0 0, Alu W64 RSH 0 (Imm 1), Exit]"

definition mov32sx_s8_range :: prog where
  "mov32sx_s8_range =
    [Call 7, Movsx W32 8 1 0, Jmp W32 JSGT 1 (Imm 127) (L 0), Jmp W32 JSLT 1 (Imm (-128)) (L 0),
     Alu W64 MOV 0 (Imm 1), Lab 1, Exit, Lab 0, Alu W64 MOV 0 (Imm 2), Goto (L 1)]"

definition mov32sx_s16_range :: prog where
  "mov32sx_s16_range =
    [Call 7, Movsx W32 16 1 0, Jmp W32 JSGT 1 (Imm 32767) (L 0), Jmp W32 JSLT 1 (Imm (-33023)) (L 0),
     Alu W64 MOV 0 (Imm 1), Lab 1, Exit, Lab 0, Alu W64 MOV 0 (Imm 2), Goto (L 1)]"

definition mov32sx_s16_range_2 :: prog where
  "mov32sx_s16_range_2 =
    [Alu W64 MOV 1 (Imm 65535), Movsx W32 16 2 1, Alu W64 RSH 2 (Imm 1), Jmp W64 JNE 2 (Imm 2147483647) (L 0),
     Alu W64 MOV 0 (Imm 1), Lab 1, Exit, Lab 0, Alu W64 MOV 0 (Imm 0), Goto (L 1)]"

definition mov64sx_s8_range :: prog where
  "mov64sx_s8_range =
    [Call 7, Movsx W64 8 1 0, Jmp W64 JSGT 1 (Imm 127) (L 0), Jmp W64 JSLT 1 (Imm (-128)) (L 0),
     Alu W64 MOV 0 (Imm 1), Lab 1, Exit, Lab 0, Alu W64 MOV 0 (Imm 2), Goto (L 1)]"

definition mov64sx_s16_range :: prog where
  "mov64sx_s16_range =
    [Call 7, Movsx W64 16 1 0, Jmp W64 JSGT 1 (Imm 32767) (L 0), Jmp W64 JSLT 1 (Imm (-32768)) (L 0),
     Alu W64 MOV 0 (Imm 1), Lab 1, Exit, Lab 0, Alu W64 MOV 0 (Imm 2), Goto (L 1)]"

definition mov64sx_s32_range :: prog where
  "mov64sx_s32_range =
    [Call 7, Movsx W64 32 1 0, Jmp W64 JSGT 1 (Imm 2147483647) (L 0), Jmp W64 JSLT 1 (Imm (-2147483648)) (L 0),
     Alu W64 MOV 0 (Imm 1), Lab 1, Exit, Lab 0, Alu W64 MOV 0 (Imm 2), Goto (L 1)]"

definition mov64sx_s16_r10 :: prog where
  "mov64sx_s16_r10 =
    [Alu W64 MOV 1 (Imm 553656332), Stx 4 10 (-8) (Reg 1), Movsx W64 16 1 10, Alu W64 ADD 1 (Imm (-8)),
     Alu W64 MOV 2 (Imm 3), Jmp W64 JLE 2 (Reg 1) (L 0), Lab 0, Call 6, Alu W64 MOV 0 (Imm 0), Exit]"

definition mov64sx_s32_varoff_1 :: prog where
  "mov64sx_s32_varoff_1 =
    [Lab 0, Ldx 1 3 10 (-387), Movsx W32 8 7 3, Jmp W32 JGE 7 (Imm 624132667) (L 0), Alu W32 MOV 0 (Imm 0), Exit]"

definition mov64sx_s32_varoff_2 :: prog where
  "mov64sx_s32_varoff_2 =
    [Call 7, Alu W64 MOV 3 (Reg 0), Alu W64 BAND 3 (Imm 15), Movsx W32 8 7 3, Jmp W32 JSGE 7 (Imm 16) (L 0),
     Alu W32 MOV 0 (Imm 0), Exit, Lab 0, Alu W64 MOV 10 (Imm 1), Exit]"

definition mov64sx_s32_varoff_3 :: prog where
  "mov64sx_s32_varoff_3 =
    [Call 7, Alu W64 MOV 3 (Reg 0), Alu W64 BAND 3 (Imm 15), Alu W64 BOR 3 (Imm 128), Movsx W32 8 7 3,
     Jmp W32 JSGE 7 (Imm (-5)) (L 0), Alu W32 MOV 0 (Imm 0), Exit, Lab 0, Alu W64 MOV 10 (Imm 1), Exit]"

definition mov64sx_s8_range_check :: prog where
  "mov64sx_s8_range_check =
    [Call 7, Alu W64 BAND 0 (Imm 1), Alu W64 ADD 0 (Imm 254), Movsx W64 8 0 0,
     Jmp W64 JLT 0 (Imm 18446744073709551614) (L 100), Alu W64 MOV 0 (Imm 0), Exit, Lab 100, Exit]"

definition mov32sx_s8_range_check :: prog where
  "mov32sx_s8_range_check =
    [Call 7, Alu W32 BAND 0 (Imm 1), Alu W32 ADD 0 (Imm 254), Movsx W32 8 0 0,
     Jmp W32 JLT 0 (Imm 4294967294) (L 100), Alu W64 MOV 0 (Imm 0), Exit, Lab 100, Exit]"

section \<open>Tests\<close>

definition movsx_tests :: "test list" where
  "movsx_tests =
    [(mov32sx_s8, Success 35), (mov32sx_s16, Success 4294967075), (mov64sx_s8, Success (-2)),
     (mov64sx_s16, Success 3875), (mov64sx_s32, Success (-1)), (mov32sx_s8_range, Success 1),
     (mov32sx_s16_range, Success 1), (mov32sx_s16_range_2, Success 1), (mov64sx_s8_range, Success 1),
     (mov64sx_s16_range, Success 1), (mov64sx_s32_range, Success 1), (mov64sx_s16_r10, Failure),
     (mov64sx_s32_varoff_1, Failure), (mov64sx_s32_varoff_2, Success 0), (mov64sx_s32_varoff_3, Success 0),
     (mov64sx_s8_range_check, Success 0), (mov32sx_s8_range_check, Success 0)]"

section \<open>Runs\<close>

lemma mov32sx_s8_ok [test_ok]: "returns E mov32sx_s8 s 35"
  by (simp add: mov32sx_s8_def isa_simps sext_def mask_eq_exp_minus_1)

lemma mov32sx_s16_ok [test_ok]: "returns E mov32sx_s16 s 4294967075"
  by (simp add: mov32sx_s16_def isa_simps sext_def mask_eq_exp_minus_1)

lemma mov64sx_s8_ok [test_ok]: "returns E mov64sx_s8 s (-2)"
  by (simp add: mov64sx_s8_def isa_simps sext_def mask_eq_exp_minus_1)

lemma mov64sx_s16_ok [test_ok]: "returns E mov64sx_s16 s 3875"
  by (simp add: mov64sx_s16_def isa_simps sext_def mask_eq_exp_minus_1)

lemma mov64sx_s32_ok [test_ok]: "returns E mov64sx_s32 s (-1)"
  by (simp add: mov64sx_s32_def isa_simps sext_def mask_eq_exp_minus_1)

lemma mov32sx_s8_range_ok [test_ok]: "returns E mov32sx_s8_range s 1"
  using sext_range [of 8 "uint (result E 7 s)"]
  by (simp add: mov32sx_s8_range_def isa_simps sint_sext sint_ucast_sext)

lemma mov32sx_s16_range_ok [test_ok]: "returns E mov32sx_s16_range s 1"
  using sext_range [of 16 "uint (result E 7 s)"]
  by (simp add: mov32sx_s16_range_def isa_simps sint_sext sint_ucast_sext)

lemma mov32sx_s16_range_2_ok [test_ok]: "returns E mov32sx_s16_range_2 s 1"
  by (simp add: mov32sx_s16_range_2_def isa_simps sext_def mask_eq_exp_minus_1)

lemma mov64sx_s8_range_ok [test_ok]: "returns E mov64sx_s8_range s 1"
  using sext_range [of 8 "uint (result E 7 s)"]
  by (simp add: mov64sx_s8_range_def isa_simps sint_sext sint_ucast_sext)

lemma mov64sx_s16_range_ok [test_ok]: "returns E mov64sx_s16_range s 1"
  using sext_range [of 16 "uint (result E 7 s)"]
  by (simp add: mov64sx_s16_range_def isa_simps sint_sext sint_ucast_sext)

lemma mov64sx_s32_range_ok [test_ok]: "returns E mov64sx_s32_range s 1"
  using sext_range [of 32 "uint (result E 7 s)"]
  by (simp add: mov64sx_s32_range_def isa_simps sint_sext sint_ucast_sext)

lemma mov64sx_s32_varoff_2_ok [test_ok]: "returns E mov64sx_s32_varoff_2 s 0"
  using and_15_cases [of "take_bit 8 (result E 7 s)"]
  by (auto simp: mov64sx_s32_varoff_2_def isa_simps sext_def bit_simps)

lemma mov64sx_s32_varoff_3_ok [test_ok]: "returns E mov64sx_s32_varoff_3 s 0"
  using and_15_cases [of "take_bit 8 (result E 7 s)"]
  by (auto simp: mov64sx_s32_varoff_3_def isa_simps sext_def bit_simps)

lemma mov64sx_s8_range_check_ok [test_ok]: "returns E mov64sx_s8_range_check s 0"
  by (simp add: mov64sx_s8_range_check_def isa_simps sext_def and_1)

lemma mov32sx_s8_range_check_ok [test_ok]: "returns E mov32sx_s8_range_check s 0"
  by (simp add: mov32sx_s8_range_check_def isa_simps sext_def and_1)

end
