(* ===== verification/Verifier_Div_Mod_Bounds.thy ===== *)
theory Verifier_Div_Mod_Bounds
  imports Bpf_Values
begin

text \<open>
  The programs of \<^verbatim>\<open>src/progs/verifier_div_mod_bounds.rs\<close>:
  bounds of quotients and remainders: an access through a wild pointer sits on the branch that the bounds exclude.
  Every naked function is a list of instructions, and the entries of \<^verbatim>\<open>test_tags!\<close> are the table of
  tests at the end.
\<close>

section \<open>Programs\<close>

definition udiv32_pos_divisor :: prog where
  "udiv32_pos_divisor =
    [Call 7, Alu W32 MOV 1 (Reg 0), Alu W32 BAND 1 (Imm 8), Alu W32 BOR 1 (Imm 1), Alu W32 DIV 1 (Imm 3),
     Jmp W32 JGT 1 (Imm 3) (L 0), Alu W64 MOV 0 (Imm 0), Exit, Lab 0, Ldx 8 0 1 0, Exit]"

definition udiv32_zero_divisor :: prog where
  "udiv32_zero_divisor =
    [Call 7, Alu W32 MOV 1 (Reg 0), Alu W32 BAND 1 (Imm 8), Alu W32 BOR 1 (Imm 1), Alu W32 MOV 2 (Imm 0),
     Alu W32 DIV 1 (Reg 2), Jmp W32 JNE 1 (Imm 0) (L 0), Alu W64 MOV 0 (Imm 0), Exit, Lab 0, Ldx 8 0 1 0, Exit]"

definition udiv64_pos_divisor :: prog where
  "udiv64_pos_divisor =
    [Call 7, Alu W64 MOV 1 (Reg 0), Alu W64 BAND 1 (Imm 8), Alu W64 BOR 1 (Imm 1), Alu W64 DIV 1 (Imm 3),
     Jmp W64 JGT 1 (Imm 3) (L 0), Alu W64 MOV 0 (Imm 0), Exit, Lab 0, Ldx 8 0 1 0, Exit]"

definition udiv64_zero_divisor :: prog where
  "udiv64_zero_divisor =
    [Call 7, Alu W64 MOV 1 (Reg 0), Alu W64 BAND 1 (Imm 8), Alu W64 BOR 1 (Imm 1), Alu W64 MOV 2 (Imm 0),
     Alu W64 DIV 1 (Reg 2), Jmp W64 JNE 1 (Imm 0) (L 0), Alu W64 MOV 0 (Imm 0), Exit, Lab 0, Ldx 8 0 1 0, Exit]"

definition sdiv32_pos_divisor_1 :: prog where
  "sdiv32_pos_divisor_1 =
    [Call 7, Alu W32 MOV 1 (Reg 0), Jmp W32 JSLT 1 (Imm 8) (L 0), Jmp W32 JSGT 1 (Imm 10) (L 0),
     Alu W32 SDIV 1 (Imm 3), Jmp W32 JSLT 1 (Imm 2) (L 1), Jmp W32 JSGT 1 (Imm 3) (L 1), Lab 0,
     Alu W64 MOV 0 (Imm 0), Exit, Lab 1, Ldx 8 0 1 0, Exit]"

definition sdiv32_pos_divisor_2 :: prog where
  "sdiv32_pos_divisor_2 =
    [Call 7, Alu W32 MOV 1 (Reg 0), Jmp W32 JSGT 1 (Imm (-8)) (L 0), Jmp W32 JSLT 1 (Imm (-10)) (L 0),
     Alu W32 SDIV 1 (Imm 3), Jmp W32 JSLT 1 (Imm (-3)) (L 1), Jmp W32 JSGT 1 (Imm (-2)) (L 1), Lab 0,
     Alu W64 MOV 0 (Imm 0), Exit, Lab 1, Ldx 8 0 1 0, Exit]"

definition sdiv32_pos_divisor_3 :: prog where
  "sdiv32_pos_divisor_3 =
    [Call 7, Alu W32 MOV 1 (Reg 0), Jmp W32 JSLT 1 (Imm (-8)) (L 0), Jmp W32 JSGT 1 (Imm 10) (L 0),
     Alu W32 SDIV 1 (Imm 3), Jmp W32 JSLT 1 (Imm (-2)) (L 1), Jmp W32 JSGT 1 (Imm 3) (L 1), Lab 0,
     Alu W64 MOV 0 (Imm 0), Exit, Lab 1, Ldx 8 0 1 0, Exit]"

definition sdiv32_neg_divisor_1 :: prog where
  "sdiv32_neg_divisor_1 =
    [Call 7, Alu W32 MOV 1 (Reg 0), Jmp W32 JSLT 1 (Imm 8) (L 0), Jmp W32 JSGT 1 (Imm 10) (L 0),
     Alu W32 SDIV 1 (Imm (-3)), Jmp W32 JSLT 1 (Imm (-3)) (L 1), Jmp W32 JSGT 1 (Imm (-2)) (L 1), Lab 0,
     Alu W64 MOV 0 (Imm 0), Exit, Lab 1, Ldx 8 0 1 0, Exit]"

definition sdiv32_neg_divisor_2 :: prog where
  "sdiv32_neg_divisor_2 =
    [Call 7, Alu W32 MOV 1 (Reg 0), Jmp W32 JSGT 1 (Imm (-8)) (L 0), Jmp W32 JSLT 1 (Imm (-10)) (L 0),
     Alu W32 SDIV 1 (Imm (-3)), Jmp W32 JSLT 1 (Imm 2) (L 1), Jmp W32 JSGT 1 (Imm 3) (L 1), Lab 0,
     Alu W64 MOV 0 (Imm 0), Exit, Lab 1, Ldx 8 0 1 0, Exit]"

definition sdiv32_neg_divisor_3 :: prog where
  "sdiv32_neg_divisor_3 =
    [Call 7, Alu W32 MOV 1 (Reg 0), Jmp W32 JSLT 1 (Imm (-8)) (L 0), Jmp W32 JSGT 1 (Imm 10) (L 0),
     Alu W32 SDIV 1 (Imm (-3)), Jmp W32 JSLT 1 (Imm (-3)) (L 1), Jmp W32 JSGT 1 (Imm 2) (L 1), Lab 0,
     Alu W64 MOV 0 (Imm 0), Exit, Lab 1, Ldx 8 0 1 0, Exit]"

definition sdiv32_zero_divisor_bounds :: prog where
  "sdiv32_zero_divisor_bounds =
    [Call 7, Alu W32 MOV 1 (Reg 0), Alu W32 BAND 1 (Imm 8), Alu W32 BOR 1 (Imm 1), Alu W32 MOV 2 (Imm 0),
     Alu W32 SDIV 1 (Reg 2), Jmp W32 JNE 1 (Imm 0) (L 0), Alu W64 MOV 0 (Imm 0), Exit, Lab 0, Ldx 8 0 1 0, Exit]"

definition sdiv32_overflow_1 :: prog where
  "sdiv32_overflow_1 =
    [Call 7, Alu W32 MOV 1 (Reg 0), Alu W32 MOV 2 (Imm (-2147483648)), Alu W32 ADD 2 (Imm 10),
     Jmp W32 JSGT 1 (Reg 2) (L 0), Alu W32 SDIV 1 (Imm (-1)), Alu W64 MOV 2 (Reg 1), Lab 0, Alu W64 MOV 0 (Imm 0),
     Exit]"

definition sdiv32_overflow_2 :: prog where
  "sdiv32_overflow_2 =
    [Alu W32 MOV 1 (Imm (-2147483648)), Alu W32 SDIV 1 (Imm (-1)), Jmp W32 JNE 1 (Imm (-2147483648)) (L 0),
     Alu W64 MOV 0 (Imm 0), Exit, Lab 0, Ldx 8 0 1 0, Exit]"

definition sdiv64_pos_divisor_1 :: prog where
  "sdiv64_pos_divisor_1 =
    [Call 7, Alu W64 MOV 1 (Reg 0), Jmp W64 JSLT 1 (Imm 8) (L 0), Jmp W64 JSGT 1 (Imm 10) (L 0),
     Alu W64 SDIV 1 (Imm 3), Jmp W64 JSLT 1 (Imm 2) (L 1), Jmp W64 JSGT 1 (Imm 3) (L 1), Lab 0,
     Alu W64 MOV 0 (Imm 0), Exit, Lab 1, Ldx 8 0 1 0, Exit]"

definition sdiv64_pos_divisor_2 :: prog where
  "sdiv64_pos_divisor_2 =
    [Call 7, Alu W64 MOV 1 (Reg 0), Jmp W64 JSGT 1 (Imm (-8)) (L 0), Jmp W64 JSLT 1 (Imm (-10)) (L 0),
     Alu W64 SDIV 1 (Imm 3), Jmp W64 JSLT 1 (Imm (-3)) (L 1), Jmp W64 JSGT 1 (Imm (-2)) (L 1), Lab 0,
     Alu W64 MOV 0 (Imm 0), Exit, Lab 1, Ldx 8 0 1 0, Exit]"

definition sdiv64_pos_divisor_3 :: prog where
  "sdiv64_pos_divisor_3 =
    [Call 7, Alu W64 MOV 1 (Reg 0), Jmp W64 JSLT 1 (Imm (-8)) (L 0), Jmp W64 JSGT 1 (Imm 10) (L 0),
     Alu W64 SDIV 1 (Imm 3), Jmp W64 JSLT 1 (Imm (-2)) (L 1), Jmp W64 JSGT 1 (Imm 3) (L 1), Lab 0,
     Alu W64 MOV 0 (Imm 0), Exit, Lab 1, Ldx 8 0 1 0, Exit]"

definition sdiv64_neg_divisor_1 :: prog where
  "sdiv64_neg_divisor_1 =
    [Call 7, Alu W64 MOV 1 (Reg 0), Jmp W64 JSLT 1 (Imm 8) (L 0), Jmp W64 JSGT 1 (Imm 10) (L 0),
     Alu W64 SDIV 1 (Imm (-3)), Jmp W64 JSLT 1 (Imm (-3)) (L 1), Jmp W64 JSGT 1 (Imm (-2)) (L 1), Lab 0,
     Alu W64 MOV 0 (Imm 0), Exit, Lab 1, Ldx 8 0 1 0, Exit]"

definition sdiv64_neg_divisor_2 :: prog where
  "sdiv64_neg_divisor_2 =
    [Call 7, Alu W64 MOV 1 (Reg 0), Jmp W64 JSGT 1 (Imm (-8)) (L 0), Jmp W64 JSLT 1 (Imm (-10)) (L 0),
     Alu W64 SDIV 1 (Imm (-3)), Jmp W64 JSLT 1 (Imm 2) (L 1), Jmp W64 JSGT 1 (Imm 3) (L 1), Lab 0,
     Alu W64 MOV 0 (Imm 0), Exit, Lab 1, Ldx 8 0 1 0, Exit]"

definition sdiv64_neg_divisor_3 :: prog where
  "sdiv64_neg_divisor_3 =
    [Call 7, Alu W64 MOV 1 (Reg 0), Jmp W64 JSLT 1 (Imm (-8)) (L 0), Jmp W64 JSGT 1 (Imm 10) (L 0),
     Alu W64 SDIV 1 (Imm (-3)), Jmp W64 JSLT 1 (Imm (-3)) (L 1), Jmp W64 JSGT 1 (Imm 2) (L 1), Lab 0,
     Alu W64 MOV 0 (Imm 0), Exit, Lab 1, Ldx 8 0 1 0, Exit]"

definition sdiv64_zero_divisor_bounds :: prog where
  "sdiv64_zero_divisor_bounds =
    [Call 7, Alu W64 MOV 1 (Reg 0), Alu W64 BAND 1 (Imm 8), Alu W64 BOR 1 (Imm 1), Alu W64 MOV 2 (Imm 0),
     Alu W64 SDIV 1 (Reg 2), Jmp W64 JNE 1 (Imm 0) (L 0), Alu W64 MOV 0 (Imm 0), Exit, Lab 0, Ldx 8 0 1 0, Exit]"

definition sdiv64_overflow_1 :: prog where
  "sdiv64_overflow_1 =
    [Call 5, Alu W64 MOV 1 (Reg 0), Lddw 2 (-9223372036854775808), Alu W64 ADD 2 (Imm 10),
     Jmp W64 JSGT 1 (Reg 2) (L 0), Alu W64 SDIV 1 (Imm (-1)), Alu W64 MOV 2 (Reg 1), Lab 0, Alu W64 MOV 0 (Imm 0),
     Exit]"

definition sdiv64_overflow_2 :: prog where
  "sdiv64_overflow_2 =
    [Lddw 1 (-9223372036854775808), Alu W64 SDIV 1 (Imm (-1)), Lddw 2 (-9223372036854775808),
     Jmp W64 JNE 1 (Reg 2) (L 0), Alu W64 MOV 0 (Imm 0), Exit, Lab 0, Ldx 8 0 1 0, Exit]"

definition umod32_pos_divisor :: prog where
  "umod32_pos_divisor =
    [Call 7, Alu W32 MOV 1 (Reg 0), Alu W32 BAND 1 (Imm 8), Alu W32 BOR 1 (Imm 1), Alu W32 MOD 1 (Imm 3),
     Jmp W32 JGT 1 (Imm 3) (L 0), Alu W64 MOV 0 (Imm 0), Exit, Lab 0, Ldx 8 0 1 0, Exit]"

definition umod64_pos_divisor :: prog where
  "umod64_pos_divisor =
    [Call 7, Alu W64 MOV 1 (Reg 0), Alu W64 BAND 1 (Imm 8), Alu W64 BOR 1 (Imm 1), Alu W64 MOD 1 (Imm 3),
     Jmp W64 JGT 1 (Imm 3) (L 0), Alu W64 MOV 0 (Imm 0), Exit, Lab 0, Ldx 8 0 1 0, Exit]"

definition smod32_pos_divisor_1 :: prog where
  "smod32_pos_divisor_1 =
    [Call 7, Alu W32 MOV 1 (Reg 0), Jmp W32 JSLT 1 (Imm 8) (L 0), Jmp W32 JSGT 1 (Imm 10) (L 0),
     Alu W32 SMOD 1 (Imm 3), Jmp W32 JSLT 1 (Imm 0) (L 1), Jmp W32 JSGT 1 (Imm 2) (L 1), Lab 0,
     Alu W64 MOV 0 (Imm 0), Exit, Lab 1, Ldx 8 0 1 0, Exit]"

definition smod32_pos_divisor_2 :: prog where
  "smod32_pos_divisor_2 =
    [Call 7, Alu W32 MOV 1 (Reg 0), Jmp W32 JSGT 1 (Imm (-8)) (L 0), Jmp W32 JSLT 1 (Imm (-10)) (L 0),
     Alu W32 SMOD 1 (Imm 3), Jmp W32 JSLT 1 (Imm (-2)) (L 1), Jmp W32 JSGT 1 (Imm 0) (L 1), Lab 0,
     Alu W64 MOV 0 (Imm 0), Exit, Lab 1, Ldx 8 0 1 0, Exit]"

definition smod32_pos_divisor_3 :: prog where
  "smod32_pos_divisor_3 =
    [Call 7, Alu W32 MOV 1 (Reg 0), Jmp W32 JSLT 1 (Imm (-8)) (L 0), Jmp W32 JSGT 1 (Imm 10) (L 0),
     Alu W32 SMOD 1 (Imm 3), Jmp W32 JSLT 1 (Imm (-2)) (L 1), Jmp W32 JSGT 1 (Imm 2) (L 1), Lab 0,
     Alu W64 MOV 0 (Imm 0), Exit, Lab 1, Ldx 8 0 1 0, Exit]"

definition smod32_pos_divisor_unchanged :: prog where
  "smod32_pos_divisor_unchanged =
    [Call 7, Alu W32 MOV 1 (Reg 0), Jmp W32 JSLT 1 (Imm (-8)) (L 0), Jmp W32 JSGT 1 (Imm 10) (L 0),
     Alu W32 SMOD 1 (Imm 11), Jmp W32 JSLT 1 (Imm (-8)) (L 1), Jmp W32 JSGT 1 (Imm 10) (L 1), Lab 0,
     Alu W64 MOV 0 (Imm 0), Exit, Lab 1, Ldx 8 0 1 0, Exit]"

definition smod32_neg_divisor_1 :: prog where
  "smod32_neg_divisor_1 =
    [Call 7, Alu W32 MOV 1 (Reg 0), Jmp W32 JSLT 1 (Imm 8) (L 0), Jmp W32 JSGT 1 (Imm 10) (L 0),
     Alu W32 SMOD 1 (Imm (-3)), Jmp W32 JSLT 1 (Imm 0) (L 1), Jmp W32 JSGT 1 (Imm 2) (L 1), Lab 0,
     Alu W64 MOV 0 (Imm 0), Exit, Lab 1, Ldx 8 0 1 0, Exit]"

definition smod32_neg_divisor_2 :: prog where
  "smod32_neg_divisor_2 =
    [Call 7, Alu W32 MOV 1 (Reg 0), Jmp W32 JSGT 1 (Imm (-8)) (L 0), Jmp W32 JSLT 1 (Imm (-10)) (L 0),
     Alu W32 SMOD 1 (Imm (-3)), Jmp W32 JSLT 1 (Imm (-2)) (L 1), Jmp W32 JSGT 1 (Imm 0) (L 1), Lab 0,
     Alu W64 MOV 0 (Imm 0), Exit, Lab 1, Ldx 8 0 1 0, Exit]"

definition smod32_neg_divisor_3 :: prog where
  "smod32_neg_divisor_3 =
    [Call 7, Alu W32 MOV 1 (Reg 0), Jmp W32 JSLT 1 (Imm (-8)) (L 0), Jmp W32 JSGT 1 (Imm 10) (L 0),
     Alu W32 SMOD 1 (Imm (-3)), Jmp W32 JSLT 1 (Imm (-2)) (L 1), Jmp W32 JSGT 1 (Imm 2) (L 1), Lab 0,
     Alu W64 MOV 0 (Imm 0), Exit, Lab 1, Ldx 8 0 1 0, Exit]"

definition smod32_neg_divisor_unchanged :: prog where
  "smod32_neg_divisor_unchanged =
    [Call 7, Alu W32 MOV 1 (Reg 0), Jmp W32 JSLT 1 (Imm (-8)) (L 0), Jmp W32 JSGT 1 (Imm 10) (L 0),
     Alu W32 SMOD 1 (Imm (-11)), Jmp W32 JSLT 1 (Imm (-8)) (L 1), Jmp W32 JSGT 1 (Imm 10) (L 1), Lab 0,
     Alu W64 MOV 0 (Imm 0), Exit, Lab 1, Ldx 8 0 1 0, Exit]"

definition smod32_zero_divisor_bounds :: prog where
  "smod32_zero_divisor_bounds =
    [Call 7, Alu W32 MOV 1 (Reg 0), Jmp W32 JSLT 1 (Imm (-8)) (L 0), Jmp W32 JSGT 1 (Imm 10) (L 0),
     Alu W32 MOV 2 (Imm 0), Alu W32 SMOD 1 (Reg 2), Jmp W32 JSLT 1 (Imm (-8)) (L 1), Jmp W32 JSGT 1 (Imm 10) (L 1),
     Lab 0, Alu W64 MOV 0 (Imm 0), Exit, Lab 1, Ldx 8 0 1 0, Exit]"

definition smod32_overflow_1 :: prog where
  "smod32_overflow_1 =
    [Call 7, Alu W32 MOV 1 (Reg 0), Alu W32 MOV 2 (Imm (-2147483648)), Alu W32 ADD 2 (Imm 10),
     Jmp W32 JSGT 1 (Reg 2) (L 0), Alu W32 SMOD 1 (Imm (-1)), Jmp W32 JNE 1 (Imm 0) (L 1), Lab 0,
     Alu W64 MOV 0 (Imm 0), Exit, Lab 1, Ldx 8 0 1 0, Exit]"

definition smod32_overflow_2 :: prog where
  "smod32_overflow_2 =
    [Alu W32 MOV 1 (Imm (-2147483648)), Alu W32 SMOD 1 (Imm (-1)), Jmp W32 JNE 1 (Imm 0) (L 0),
     Alu W64 MOV 0 (Imm 0), Exit, Lab 0, Ldx 8 0 1 0, Exit]"

definition smod64_pos_divisor_1 :: prog where
  "smod64_pos_divisor_1 =
    [Call 7, Alu W64 MOV 1 (Reg 0), Jmp W64 JSLT 1 (Imm 8) (L 0), Jmp W64 JSGT 1 (Imm 10) (L 0),
     Alu W64 SMOD 1 (Imm 3), Jmp W64 JSLT 1 (Imm 0) (L 1), Jmp W64 JSGT 1 (Imm 2) (L 1), Lab 0,
     Alu W64 MOV 0 (Imm 0), Exit, Lab 1, Ldx 8 0 1 0, Exit]"

definition smod64_pos_divisor_2 :: prog where
  "smod64_pos_divisor_2 =
    [Call 7, Alu W64 MOV 1 (Reg 0), Jmp W64 JSGT 1 (Imm (-8)) (L 0), Jmp W64 JSLT 1 (Imm (-10)) (L 0),
     Alu W64 SMOD 1 (Imm 3), Jmp W64 JSLT 1 (Imm (-2)) (L 1), Jmp W64 JSGT 1 (Imm 0) (L 1), Lab 0,
     Alu W64 MOV 0 (Imm 0), Exit, Lab 1, Ldx 8 0 1 0, Exit]"

definition smod64_pos_divisor_3 :: prog where
  "smod64_pos_divisor_3 =
    [Call 7, Alu W64 MOV 1 (Reg 0), Jmp W64 JSLT 1 (Imm (-8)) (L 0), Jmp W64 JSGT 1 (Imm 10) (L 0),
     Alu W64 SMOD 1 (Imm 3), Jmp W64 JSLT 1 (Imm (-2)) (L 1), Jmp W64 JSGT 1 (Imm 2) (L 1), Lab 0,
     Alu W64 MOV 0 (Imm 0), Exit, Lab 1, Ldx 8 0 1 0, Exit]"

definition smod64_pos_divisor_unchanged :: prog where
  "smod64_pos_divisor_unchanged =
    [Call 7, Alu W64 MOV 1 (Reg 0), Jmp W64 JSLT 1 (Imm (-8)) (L 0), Jmp W64 JSGT 1 (Imm 10) (L 0),
     Alu W64 SMOD 1 (Imm 11), Jmp W64 JSLT 1 (Imm (-8)) (L 1), Jmp W64 JSGT 1 (Imm 10) (L 1), Lab 0,
     Alu W64 MOV 0 (Imm 0), Exit, Lab 1, Ldx 8 0 1 0, Exit]"

definition smod64_neg_divisor_1 :: prog where
  "smod64_neg_divisor_1 =
    [Call 7, Alu W64 MOV 1 (Reg 0), Jmp W64 JSLT 1 (Imm 8) (L 0), Jmp W64 JSGT 1 (Imm 10) (L 0),
     Alu W64 SMOD 1 (Imm (-3)), Jmp W64 JSLT 1 (Imm 0) (L 1), Jmp W64 JSGT 1 (Imm 2) (L 1), Lab 0,
     Alu W64 MOV 0 (Imm 0), Exit, Lab 1, Ldx 8 0 1 0, Exit]"

definition smod64_neg_divisor_2 :: prog where
  "smod64_neg_divisor_2 =
    [Call 7, Alu W64 MOV 1 (Reg 0), Jmp W64 JSGT 1 (Imm (-8)) (L 0), Jmp W64 JSLT 1 (Imm (-10)) (L 0),
     Alu W64 SMOD 1 (Imm (-3)), Jmp W64 JSLT 1 (Imm (-2)) (L 1), Jmp W64 JSGT 1 (Imm 0) (L 1), Lab 0,
     Alu W64 MOV 0 (Imm 0), Exit, Lab 1, Ldx 8 0 1 0, Exit]"

definition smod64_neg_divisor_3 :: prog where
  "smod64_neg_divisor_3 =
    [Call 7, Alu W64 MOV 1 (Reg 0), Jmp W64 JSLT 1 (Imm (-8)) (L 0), Jmp W64 JSGT 1 (Imm 10) (L 0),
     Alu W64 SMOD 1 (Imm (-3)), Jmp W64 JSLT 1 (Imm (-2)) (L 1), Jmp W64 JSGT 1 (Imm 2) (L 1), Lab 0,
     Alu W64 MOV 0 (Imm 0), Exit, Lab 1, Ldx 8 0 1 0, Exit]"

definition smod64_neg_divisor_unchanged :: prog where
  "smod64_neg_divisor_unchanged =
    [Call 7, Alu W64 MOV 1 (Reg 0), Jmp W64 JSLT 1 (Imm (-8)) (L 0), Jmp W64 JSGT 1 (Imm 10) (L 0),
     Alu W64 SMOD 1 (Imm (-11)), Jmp W64 JSLT 1 (Imm (-8)) (L 1), Jmp W64 JSGT 1 (Imm 10) (L 1), Lab 0,
     Alu W64 MOV 0 (Imm 0), Exit, Lab 1, Ldx 8 0 1 0, Exit]"

definition smod64_zero_divisor_bounds :: prog where
  "smod64_zero_divisor_bounds =
    [Call 7, Alu W64 MOV 1 (Reg 0), Jmp W64 JSLT 1 (Imm (-8)) (L 0), Jmp W64 JSGT 1 (Imm 10) (L 0),
     Alu W64 MOV 2 (Imm 0), Alu W64 SMOD 1 (Reg 2), Jmp W64 JSLT 1 (Imm (-8)) (L 1), Jmp W64 JSGT 1 (Imm 10) (L 1),
     Lab 0, Alu W64 MOV 0 (Imm 0), Exit, Lab 1, Ldx 8 0 1 0, Exit]"

definition smod64_overflow_1 :: prog where
  "smod64_overflow_1 =
    [Call 5, Alu W64 MOV 1 (Reg 0), Lddw 2 (-9223372036854775808), Alu W64 ADD 2 (Imm 10),
     Jmp W64 JSGT 1 (Reg 2) (L 0), Alu W64 SMOD 1 (Imm (-1)), Jmp W64 JNE 1 (Imm 0) (L 1), Lab 0,
     Alu W64 MOV 0 (Imm 0), Exit, Lab 1, Ldx 8 0 1 0, Exit]"

definition smod64_overflow_2 :: prog where
  "smod64_overflow_2 =
    [Lddw 1 (-9223372036854775808), Alu W64 SMOD 1 (Imm (-1)), Jmp W64 JNE 1 (Imm 0) (L 0), Alu W64 MOV 0 (Imm 0),
     Exit, Lab 0, Ldx 8 0 1 0, Exit]"

section \<open>Tests\<close>

definition div_mod_bounds_tests_1 :: "test list" where
  "div_mod_bounds_tests_1 =
    [(udiv32_pos_divisor, Success 0), (udiv32_zero_divisor, Success 0), (udiv64_pos_divisor, Success 0),
     (udiv64_zero_divisor, Success 0), (sdiv32_pos_divisor_1, Success 0), (sdiv32_pos_divisor_2, Success 0),
     (sdiv32_pos_divisor_3, Success 0), (sdiv32_neg_divisor_1, Success 0), (sdiv32_neg_divisor_2, Success 0),
     (sdiv32_neg_divisor_3, Success 0), (sdiv32_zero_divisor_bounds, Success 0), (sdiv32_overflow_1, Success 0),
     (sdiv32_overflow_2, Success 0), (sdiv64_pos_divisor_1, Success 0), (sdiv64_pos_divisor_2, Success 0),
     (sdiv64_pos_divisor_3, Success 0), (sdiv64_neg_divisor_1, Success 0), (sdiv64_neg_divisor_2, Success 0),
     (sdiv64_neg_divisor_3, Success 0), (sdiv64_zero_divisor_bounds, Success 0), (sdiv64_overflow_1, Success 0),
     (sdiv64_overflow_2, Success 0), (umod32_pos_divisor, Success 0)]"

definition div_mod_bounds_tests_2 :: "test list" where
  "div_mod_bounds_tests_2 =
    [(umod64_pos_divisor, Success 0), (smod32_pos_divisor_1, Success 0), (smod32_pos_divisor_2, Success 0),
     (smod32_pos_divisor_3, Success 0), (smod32_pos_divisor_unchanged, Success 0), (smod32_neg_divisor_1, Success 0),
     (smod32_neg_divisor_2, Success 0), (smod32_neg_divisor_3, Success 0), (smod32_neg_divisor_unchanged, Success 0),
     (smod32_zero_divisor_bounds, Success 0), (smod32_overflow_1, Success 0), (smod32_overflow_2, Success 0),
     (smod64_pos_divisor_1, Success 0), (smod64_pos_divisor_2, Success 0), (smod64_pos_divisor_3, Success 0),
     (smod64_pos_divisor_unchanged, Success 0), (smod64_neg_divisor_1, Success 0), (smod64_neg_divisor_2, Success 0),
     (smod64_neg_divisor_3, Success 0), (smod64_neg_divisor_unchanged, Success 0),
     (smod64_zero_divisor_bounds, Success 0), (smod64_overflow_1, Success 0), (smod64_overflow_2, Success 0)]"

definition div_mod_bounds_tests :: "test list" where
  "div_mod_bounds_tests =
     div_mod_bounds_tests_1 @ div_mod_bounds_tests_2"

section \<open>Runs\<close>

lemma udiv32_pos_divisor_ok [test_ok]: "returns E udiv32_pos_divisor s 0"
  by (simp add: udiv32_pos_divisor_def isa_simps and_8)

lemma udiv32_zero_divisor_ok [test_ok]: "returns E udiv32_zero_divisor s 0"
  by (simp add: udiv32_zero_divisor_def isa_simps)

lemma udiv64_pos_divisor_ok [test_ok]: "returns E udiv64_pos_divisor s 0"
  by (simp add: udiv64_pos_divisor_def isa_simps and_8)

lemma udiv64_zero_divisor_ok [test_ok]: "returns E udiv64_zero_divisor s 0"
  by (simp add: udiv64_zero_divisor_def isa_simps)

lemma sdiv32_pos_divisor_1_ok [test_ok]: "returns E sdiv32_pos_divisor_1 s 0"
  using sdiv_mono [of "8" "sint (ucast (result E 7 s) :: u32)" 3] sdiv_mono [of "sint (ucast (result E 7 s) :: u32)" "10" 3]
  by (auto simp: sdiv32_pos_divisor_1_def isa_simps sint_sdiv sint_sdiv_neg)

lemma sdiv32_pos_divisor_2_ok [test_ok]: "returns E sdiv32_pos_divisor_2 s 0"
  using sdiv_mono [of "-10" "sint (ucast (result E 7 s) :: u32)" 3] sdiv_mono [of "sint (ucast (result E 7 s) :: u32)" "-8" 3]
  by (auto simp: sdiv32_pos_divisor_2_def isa_simps sint_sdiv sint_sdiv_neg)

lemma sdiv32_pos_divisor_3_ok [test_ok]: "returns E sdiv32_pos_divisor_3 s 0"
  using sdiv_mono [of "-8" "sint (ucast (result E 7 s) :: u32)" 3] sdiv_mono [of "sint (ucast (result E 7 s) :: u32)" "10" 3]
  by (auto simp: sdiv32_pos_divisor_3_def isa_simps sint_sdiv sint_sdiv_neg)

lemma sdiv32_neg_divisor_1_ok [test_ok]: "returns E sdiv32_neg_divisor_1 s 0"
  using sdiv_mono [of "8" "sint (ucast (result E 7 s) :: u32)" 3] sdiv_mono [of "sint (ucast (result E 7 s) :: u32)" "10" 3]
  by (auto simp: sdiv32_neg_divisor_1_def isa_simps sint_sdiv sint_sdiv_neg)

lemma sdiv32_neg_divisor_2_ok [test_ok]: "returns E sdiv32_neg_divisor_2 s 0"
  using sdiv_mono [of "-10" "sint (ucast (result E 7 s) :: u32)" 3] sdiv_mono [of "sint (ucast (result E 7 s) :: u32)" "-8" 3]
  by (auto simp: sdiv32_neg_divisor_2_def isa_simps sint_sdiv sint_sdiv_neg)

lemma sdiv32_neg_divisor_3_ok [test_ok]: "returns E sdiv32_neg_divisor_3 s 0"
  using sdiv_mono [of "-8" "sint (ucast (result E 7 s) :: u32)" 3] sdiv_mono [of "sint (ucast (result E 7 s) :: u32)" "10" 3]
  by (auto simp: sdiv32_neg_divisor_3_def isa_simps sint_sdiv sint_sdiv_neg)

lemma sdiv32_zero_divisor_bounds_ok [test_ok]: "returns E sdiv32_zero_divisor_bounds s 0"
  by (simp add: sdiv32_zero_divisor_bounds_def isa_simps)

lemma sdiv32_overflow_1_ok [test_ok]: "returns E sdiv32_overflow_1 s 0"
  by (simp add: sdiv32_overflow_1_def isa_simps)

lemma sdiv32_overflow_2_ok [test_ok]: "returns E sdiv32_overflow_2 s 0"
  by (simp add: sdiv32_overflow_2_def isa_simps)

lemma sdiv64_pos_divisor_1_ok [test_ok]: "returns E sdiv64_pos_divisor_1 s 0"
  using sdiv_mono [of "8" "sint (result E 7 s)" 3] sdiv_mono [of "sint (result E 7 s)" "10" 3]
  by (auto simp: sdiv64_pos_divisor_1_def isa_simps sint_sdiv sint_sdiv_neg)

lemma sdiv64_pos_divisor_2_ok [test_ok]: "returns E sdiv64_pos_divisor_2 s 0"
  using sdiv_mono [of "-10" "sint (result E 7 s)" 3] sdiv_mono [of "sint (result E 7 s)" "-8" 3]
  by (auto simp: sdiv64_pos_divisor_2_def isa_simps sint_sdiv sint_sdiv_neg)

lemma sdiv64_pos_divisor_3_ok [test_ok]: "returns E sdiv64_pos_divisor_3 s 0"
  using sdiv_mono [of "-8" "sint (result E 7 s)" 3] sdiv_mono [of "sint (result E 7 s)" "10" 3]
  by (auto simp: sdiv64_pos_divisor_3_def isa_simps sint_sdiv sint_sdiv_neg)

lemma sdiv64_neg_divisor_1_ok [test_ok]: "returns E sdiv64_neg_divisor_1 s 0"
  using sdiv_mono [of "8" "sint (result E 7 s)" 3] sdiv_mono [of "sint (result E 7 s)" "10" 3]
  by (auto simp: sdiv64_neg_divisor_1_def isa_simps sint_sdiv sint_sdiv_neg)

lemma sdiv64_neg_divisor_2_ok [test_ok]: "returns E sdiv64_neg_divisor_2 s 0"
  using sdiv_mono [of "-10" "sint (result E 7 s)" 3] sdiv_mono [of "sint (result E 7 s)" "-8" 3]
  by (auto simp: sdiv64_neg_divisor_2_def isa_simps sint_sdiv sint_sdiv_neg)

lemma sdiv64_neg_divisor_3_ok [test_ok]: "returns E sdiv64_neg_divisor_3 s 0"
  using sdiv_mono [of "-8" "sint (result E 7 s)" 3] sdiv_mono [of "sint (result E 7 s)" "10" 3]
  by (auto simp: sdiv64_neg_divisor_3_def isa_simps sint_sdiv sint_sdiv_neg)

lemma sdiv64_zero_divisor_bounds_ok [test_ok]: "returns E sdiv64_zero_divisor_bounds s 0"
  by (simp add: sdiv64_zero_divisor_bounds_def isa_simps)

lemma sdiv64_overflow_1_ok [test_ok]: "returns E sdiv64_overflow_1 s 0"
  by (simp add: sdiv64_overflow_1_def isa_simps)

lemma sdiv64_overflow_2_ok [test_ok]: "returns E sdiv64_overflow_2 s 0"
  by (simp add: sdiv64_overflow_2_def isa_simps)

lemma umod32_pos_divisor_ok [test_ok]: "returns E umod32_pos_divisor s 0"
  by (simp add: umod32_pos_divisor_def isa_simps and_8)

lemma umod64_pos_divisor_ok [test_ok]: "returns E umod64_pos_divisor s 0"
  by (simp add: umod64_pos_divisor_def isa_simps and_8)

lemma smod32_pos_divisor_1_ok [test_ok]: "returns E smod32_pos_divisor_1 s 0"
  using smod_bounds [of "3" "sint (ucast (result E 7 s) :: u32)"] by (auto simp: smod32_pos_divisor_1_def isa_simps sint_smod)

lemma smod32_pos_divisor_2_ok [test_ok]: "returns E smod32_pos_divisor_2 s 0"
  using smod_bounds [of "3" "sint (ucast (result E 7 s) :: u32)"] by (auto simp: smod32_pos_divisor_2_def isa_simps sint_smod)

lemma smod32_pos_divisor_3_ok [test_ok]: "returns E smod32_pos_divisor_3 s 0"
  using smod_bounds [of "3" "sint (ucast (result E 7 s) :: u32)"] by (auto simp: smod32_pos_divisor_3_def isa_simps sint_smod)

lemma smod32_pos_divisor_unchanged_ok [test_ok]: "returns E smod32_pos_divisor_unchanged s 0"
  using smod_bounds [of "11" "sint (ucast (result E 7 s) :: u32)"] by (auto simp: smod32_pos_divisor_unchanged_def isa_simps sint_smod)

lemma smod32_neg_divisor_1_ok [test_ok]: "returns E smod32_neg_divisor_1 s 0"
  using smod_bounds [of "-3" "sint (ucast (result E 7 s) :: u32)"] by (auto simp: smod32_neg_divisor_1_def isa_simps sint_smod)

lemma smod32_neg_divisor_2_ok [test_ok]: "returns E smod32_neg_divisor_2 s 0"
  using smod_bounds [of "-3" "sint (ucast (result E 7 s) :: u32)"] by (auto simp: smod32_neg_divisor_2_def isa_simps sint_smod)

lemma smod32_neg_divisor_3_ok [test_ok]: "returns E smod32_neg_divisor_3 s 0"
  using smod_bounds [of "-3" "sint (ucast (result E 7 s) :: u32)"] by (auto simp: smod32_neg_divisor_3_def isa_simps sint_smod)

lemma smod32_neg_divisor_unchanged_ok [test_ok]: "returns E smod32_neg_divisor_unchanged s 0"
  using smod_bounds [of "-11" "sint (ucast (result E 7 s) :: u32)"] by (auto simp: smod32_neg_divisor_unchanged_def isa_simps sint_smod)

lemma smod32_zero_divisor_bounds_ok [test_ok]: "returns E smod32_zero_divisor_bounds s 0"
  by (simp add: smod32_zero_divisor_bounds_def isa_simps)

lemma smod32_overflow_1_ok [test_ok]: "returns E smod32_overflow_1 s 0"
  by (simp add: smod32_overflow_1_def isa_simps)

lemma smod32_overflow_2_ok [test_ok]: "returns E smod32_overflow_2 s 0"
  by (simp add: smod32_overflow_2_def isa_simps)

lemma smod64_pos_divisor_1_ok [test_ok]: "returns E smod64_pos_divisor_1 s 0"
  using smod_bounds [of "3" "sint (result E 7 s)"] by (auto simp: smod64_pos_divisor_1_def isa_simps sint_smod)

lemma smod64_pos_divisor_2_ok [test_ok]: "returns E smod64_pos_divisor_2 s 0"
  using smod_bounds [of "3" "sint (result E 7 s)"] by (auto simp: smod64_pos_divisor_2_def isa_simps sint_smod)

lemma smod64_pos_divisor_3_ok [test_ok]: "returns E smod64_pos_divisor_3 s 0"
  using smod_bounds [of "3" "sint (result E 7 s)"] by (auto simp: smod64_pos_divisor_3_def isa_simps sint_smod)

lemma smod64_pos_divisor_unchanged_ok [test_ok]: "returns E smod64_pos_divisor_unchanged s 0"
  using smod_bounds [of "11" "sint (result E 7 s)"] by (auto simp: smod64_pos_divisor_unchanged_def isa_simps sint_smod)

lemma smod64_neg_divisor_1_ok [test_ok]: "returns E smod64_neg_divisor_1 s 0"
  using smod_bounds [of "-3" "sint (result E 7 s)"] by (auto simp: smod64_neg_divisor_1_def isa_simps sint_smod)

lemma smod64_neg_divisor_2_ok [test_ok]: "returns E smod64_neg_divisor_2 s 0"
  using smod_bounds [of "-3" "sint (result E 7 s)"] by (auto simp: smod64_neg_divisor_2_def isa_simps sint_smod)

lemma smod64_neg_divisor_3_ok [test_ok]: "returns E smod64_neg_divisor_3 s 0"
  using smod_bounds [of "-3" "sint (result E 7 s)"] by (auto simp: smod64_neg_divisor_3_def isa_simps sint_smod)

lemma smod64_neg_divisor_unchanged_ok [test_ok]: "returns E smod64_neg_divisor_unchanged s 0"
  using smod_bounds [of "-11" "sint (result E 7 s)"] by (auto simp: smod64_neg_divisor_unchanged_def isa_simps sint_smod)

lemma smod64_zero_divisor_bounds_ok [test_ok]: "returns E smod64_zero_divisor_bounds s 0"
  by (simp add: smod64_zero_divisor_bounds_def isa_simps)

lemma smod64_overflow_1_ok [test_ok]: "returns E smod64_overflow_1 s 0"
  by (simp add: smod64_overflow_1_def isa_simps)

lemma smod64_overflow_2_ok [test_ok]: "returns E smod64_overflow_2 s 0"
  by (simp add: smod64_overflow_2_def isa_simps)

end
