(* ===== verification/Verifier_Xdp_Access.thy ===== *)
theory Verifier_Xdp_Access
  imports Bpf_Values
begin

text \<open>
  The programs of \<^verbatim>\<open>src/progs/verifier_xdp_direct_packet_access.rs\<close>:
  reads of the packet and its metadata after a comparison of a pointer with the end.
  Every naked function is a list of instructions, and the entries of \<^verbatim>\<open>test_tags!\<close> are the table of
  tests at the end.
\<close>

section \<open>Programs\<close>

definition end_mangling_bad_access_1 :: prog where
  "end_mangling_bad_access_1 =
    [Ldx 4 2 1 0, Ldx 4 3 1 4, Alu W64 MOV 1 (Reg 2), Alu W64 ADD 1 (Imm 8), Alu W64 ADD 3 (Imm 8),
     Jmp W64 JGT 1 (Reg 3) (L 0), Ldx 8 0 1 (-8), Lab 0, Alu W64 MOV 0 (Imm 0), Exit]"

definition end_mangling_bad_access_2 :: prog where
  "end_mangling_bad_access_2 =
    [Ldx 4 2 1 0, Ldx 4 3 1 4, Alu W64 MOV 1 (Reg 2), Alu W64 ADD 1 (Imm 8), Alu W64 SUB 3 (Imm 8),
     Jmp W64 JGT 1 (Reg 3) (L 0), Ldx 8 0 1 (-8), Lab 0, Alu W64 MOV 0 (Imm 0), Exit]"

definition end_corner_case_good_access_1 :: prog where
  "end_corner_case_good_access_1 =
    [Ldx 4 2 1 0, Ldx 4 3 1 4, Alu W64 MOV 1 (Reg 2), Alu W64 ADD 1 (Imm 8), Jmp W64 JGT 1 (Reg 3) (L 0),
     Ldx 8 0 1 (-8), Lab 0, Alu W64 MOV 0 (Imm 0), Exit]"

definition pkt_end_bad_access_1_1 :: prog where
  "pkt_end_bad_access_1_1 =
    [Ldx 4 2 1 0, Ldx 4 3 1 4, Alu W64 MOV 1 (Reg 2), Alu W64 ADD 1 (Imm 8), Jmp W64 JGT 1 (Reg 3) (L 0),
     Ldx 8 0 1 (-4), Lab 0, Alu W64 MOV 0 (Imm 0), Exit]"

definition pkt_end_bad_access_2_1 :: prog where
  "pkt_end_bad_access_2_1 =
    [Ldx 4 2 1 0, Ldx 4 3 1 4, Alu W64 MOV 1 (Reg 2), Alu W64 ADD 1 (Imm 8), Jmp W64 JGT 1 (Reg 3) (L 0), Lab 0,
     Ldx 8 0 1 (-8), Alu W64 MOV 0 (Imm 0), Exit]"

definition corner_case_1_good_access_1 :: prog where
  "corner_case_1_good_access_1 =
    [Ldx 4 2 1 0, Ldx 4 3 1 4, Alu W64 MOV 1 (Reg 2), Alu W64 ADD 1 (Imm 9), Jmp W64 JGT 1 (Reg 3) (L 0),
     Ldx 8 0 1 (-9), Lab 0, Alu W64 MOV 0 (Imm 0), Exit]"

definition corner_case_1_bad_access_1 :: prog where
  "corner_case_1_bad_access_1 =
    [Ldx 4 2 1 0, Ldx 4 3 1 4, Alu W64 MOV 1 (Reg 2), Alu W64 ADD 1 (Imm 7), Jmp W64 JGT 1 (Reg 3) (L 0),
     Ldx 8 0 1 (-7), Lab 0, Alu W64 MOV 0 (Imm 0), Exit]"

definition end_pkt_data_good_access_1 :: prog where
  "end_pkt_data_good_access_1 =
    [Ldx 4 2 1 0, Ldx 4 3 1 4, Alu W64 MOV 1 (Reg 2), Alu W64 ADD 1 (Imm 8), Jmp W64 JGT 3 (Reg 1) (L 0), Goto (L 1),
     Lab 0, Ldx 4 0 1 (-5), Lab 1, Alu W64 MOV 0 (Imm 0), Exit]"

definition corner_case_1_bad_access_2 :: prog where
  "corner_case_1_bad_access_2 =
    [Ldx 4 2 1 0, Ldx 4 3 1 4, Alu W64 MOV 1 (Reg 2), Alu W64 ADD 1 (Imm 6), Jmp W64 JGT 3 (Reg 1) (L 0), Goto (L 1),
     Lab 0, Ldx 8 0 1 (-6), Lab 1, Alu W64 MOV 0 (Imm 0), Exit]"

definition pkt_data_bad_access_2_1 :: prog where
  "pkt_data_bad_access_2_1 =
    [Ldx 4 2 1 0, Ldx 4 3 1 4, Alu W64 MOV 1 (Reg 2), Alu W64 ADD 1 (Imm 8), Jmp W64 JGT 3 (Reg 1) (L 0),
     Ldx 8 0 1 (-8), Lab 0, Alu W64 MOV 0 (Imm 0), Exit]"

definition data_corner_case_good_access_1 :: prog where
  "data_corner_case_good_access_1 =
    [Ldx 4 2 1 0, Ldx 4 3 1 4, Alu W64 MOV 1 (Reg 2), Alu W64 ADD 1 (Imm 7), Jmp W64 JGT 3 (Reg 1) (L 0), Goto (L 1),
     Lab 0, Ldx 8 0 1 (-7), Lab 1, Alu W64 MOV 0 (Imm 0), Exit]"

definition corner_case_1_good_access_2 :: prog where
  "corner_case_1_good_access_2 =
    [Ldx 4 2 1 0, Ldx 4 3 1 4, Alu W64 MOV 1 (Reg 2), Alu W64 ADD 1 (Imm 8), Jmp W64 JGT 3 (Reg 1) (L 0), Goto (L 1),
     Lab 0, Ldx 8 0 1 (-8), Lab 1, Alu W64 MOV 0 (Imm 0), Exit]"

definition data_pkt_end_good_access_1 :: prog where
  "data_pkt_end_good_access_1 =
    [Ldx 4 2 1 0, Ldx 4 3 1 4, Alu W64 MOV 1 (Reg 2), Alu W64 ADD 1 (Imm 8), Jmp W64 JLT 1 (Reg 3) (L 0), Goto (L 1),
     Lab 0, Ldx 4 0 1 (-5), Lab 1, Alu W64 MOV 0 (Imm 0), Exit]"

definition corner_case_1_bad_access_3 :: prog where
  "corner_case_1_bad_access_3 =
    [Ldx 4 2 1 0, Ldx 4 3 1 4, Alu W64 MOV 1 (Reg 2), Alu W64 ADD 1 (Imm 6), Jmp W64 JLT 1 (Reg 3) (L 0), Goto (L 1),
     Lab 0, Ldx 8 0 1 (-6), Lab 1, Alu W64 MOV 0 (Imm 0), Exit]"

definition pkt_end_bad_access_2_2 :: prog where
  "pkt_end_bad_access_2_2 =
    [Ldx 4 2 1 0, Ldx 4 3 1 4, Alu W64 MOV 1 (Reg 2), Alu W64 ADD 1 (Imm 8), Jmp W64 JLT 1 (Reg 3) (L 0),
     Ldx 8 0 1 (-8), Lab 0, Alu W64 MOV 0 (Imm 0), Exit]"

definition end_corner_case_good_access_2 :: prog where
  "end_corner_case_good_access_2 =
    [Ldx 4 2 1 0, Ldx 4 3 1 4, Alu W64 MOV 1 (Reg 2), Alu W64 ADD 1 (Imm 7), Jmp W64 JLT 1 (Reg 3) (L 0), Goto (L 1),
     Lab 0, Ldx 8 0 1 (-7), Lab 1, Alu W64 MOV 0 (Imm 0), Exit]"

definition corner_case_1_good_access_3 :: prog where
  "corner_case_1_good_access_3 =
    [Ldx 4 2 1 0, Ldx 4 3 1 4, Alu W64 MOV 1 (Reg 2), Alu W64 ADD 1 (Imm 8), Jmp W64 JLT 1 (Reg 3) (L 0), Goto (L 1),
     Lab 0, Ldx 8 0 1 (-8), Lab 1, Alu W64 MOV 0 (Imm 0), Exit]"

definition data_corner_case_good_access_2 :: prog where
  "data_corner_case_good_access_2 =
    [Ldx 4 2 1 0, Ldx 4 3 1 4, Alu W64 MOV 1 (Reg 2), Alu W64 ADD 1 (Imm 8), Jmp W64 JLT 3 (Reg 1) (L 0),
     Ldx 8 0 1 (-8), Lab 0, Alu W64 MOV 0 (Imm 0), Exit]"

definition pkt_data_bad_access_1_1 :: prog where
  "pkt_data_bad_access_1_1 =
    [Ldx 4 2 1 0, Ldx 4 3 1 4, Alu W64 MOV 1 (Reg 2), Alu W64 ADD 1 (Imm 8), Jmp W64 JLT 3 (Reg 1) (L 0),
     Ldx 8 0 1 (-4), Lab 0, Alu W64 MOV 0 (Imm 0), Exit]"

definition pkt_data_bad_access_2_2 :: prog where
  "pkt_data_bad_access_2_2 =
    [Ldx 4 2 1 0, Ldx 4 3 1 4, Alu W64 MOV 1 (Reg 2), Alu W64 ADD 1 (Imm 8), Jmp W64 JLT 3 (Reg 1) (L 0), Lab 0,
     Ldx 8 0 1 (-8), Alu W64 MOV 0 (Imm 0), Exit]"

definition corner_case_1_good_access_4 :: prog where
  "corner_case_1_good_access_4 =
    [Ldx 4 2 1 0, Ldx 4 3 1 4, Alu W64 MOV 1 (Reg 2), Alu W64 ADD 1 (Imm 9), Jmp W64 JLT 3 (Reg 1) (L 0),
     Ldx 8 0 1 (-9), Lab 0, Alu W64 MOV 0 (Imm 0), Exit]"

definition corner_case_1_bad_access_4 :: prog where
  "corner_case_1_bad_access_4 =
    [Ldx 4 2 1 0, Ldx 4 3 1 4, Alu W64 MOV 1 (Reg 2), Alu W64 ADD 1 (Imm 7), Jmp W64 JLT 3 (Reg 1) (L 0),
     Ldx 8 0 1 (-7), Lab 0, Alu W64 MOV 0 (Imm 0), Exit]"

definition data_pkt_end_good_access_2 :: prog where
  "data_pkt_end_good_access_2 =
    [Ldx 4 2 1 0, Ldx 4 3 1 4, Alu W64 MOV 1 (Reg 2), Alu W64 ADD 1 (Imm 8), Jmp W64 JGE 1 (Reg 3) (L 0),
     Ldx 4 0 1 (-5), Lab 0, Alu W64 MOV 0 (Imm 0), Exit]"

definition corner_case_1_bad_access_5 :: prog where
  "corner_case_1_bad_access_5 =
    [Ldx 4 2 1 0, Ldx 4 3 1 4, Alu W64 MOV 1 (Reg 2), Alu W64 ADD 1 (Imm 6), Jmp W64 JGE 1 (Reg 3) (L 0),
     Ldx 8 0 1 (-6), Lab 0, Alu W64 MOV 0 (Imm 0), Exit]"

definition pkt_end_bad_access_2_3 :: prog where
  "pkt_end_bad_access_2_3 =
    [Ldx 4 2 1 0, Ldx 4 3 1 4, Alu W64 MOV 1 (Reg 2), Alu W64 ADD 1 (Imm 8), Jmp W64 JGE 1 (Reg 3) (L 0), Lab 0,
     Ldx 4 0 1 (-5), Alu W64 MOV 0 (Imm 0), Exit]"

definition end_corner_case_good_access_3 :: prog where
  "end_corner_case_good_access_3 =
    [Ldx 4 2 1 0, Ldx 4 3 1 4, Alu W64 MOV 1 (Reg 2), Alu W64 ADD 1 (Imm 7), Jmp W64 JGE 1 (Reg 3) (L 0),
     Ldx 8 0 1 (-7), Lab 0, Alu W64 MOV 0 (Imm 0), Exit]"

definition corner_case_1_good_access_5 :: prog where
  "corner_case_1_good_access_5 =
    [Ldx 4 2 1 0, Ldx 4 3 1 4, Alu W64 MOV 1 (Reg 2), Alu W64 ADD 1 (Imm 8), Jmp W64 JGE 1 (Reg 3) (L 0),
     Ldx 8 0 1 (-8), Lab 0, Alu W64 MOV 0 (Imm 0), Exit]"

definition data_corner_case_good_access_3 :: prog where
  "data_corner_case_good_access_3 =
    [Ldx 4 2 1 0, Ldx 4 3 1 4, Alu W64 MOV 1 (Reg 2), Alu W64 ADD 1 (Imm 8), Jmp W64 JGE 3 (Reg 1) (L 0), Goto (L 1),
     Lab 0, Ldx 8 0 1 (-8), Lab 1, Alu W64 MOV 0 (Imm 0), Exit]"

definition pkt_data_bad_access_1_2 :: prog where
  "pkt_data_bad_access_1_2 =
    [Ldx 4 2 1 0, Ldx 4 3 1 4, Alu W64 MOV 1 (Reg 2), Alu W64 ADD 1 (Imm 8), Jmp W64 JGE 3 (Reg 1) (L 0), Goto (L 1),
     Lab 0, Ldx 8 0 1 (-4), Lab 1, Alu W64 MOV 0 (Imm 0), Exit]"

definition pkt_data_bad_access_2_3 :: prog where
  "pkt_data_bad_access_2_3 =
    [Ldx 4 2 1 0, Ldx 4 3 1 4, Alu W64 MOV 1 (Reg 2), Alu W64 ADD 1 (Imm 8), Jmp W64 JGE 3 (Reg 1) (L 0),
     Ldx 8 0 1 (-8), Lab 0, Alu W64 MOV 0 (Imm 0), Exit]"

definition corner_case_1_good_access_6 :: prog where
  "corner_case_1_good_access_6 =
    [Ldx 4 2 1 0, Ldx 4 3 1 4, Alu W64 MOV 1 (Reg 2), Alu W64 ADD 1 (Imm 9), Jmp W64 JGE 3 (Reg 1) (L 0), Goto (L 1),
     Lab 0, Ldx 8 0 1 (-9), Lab 1, Alu W64 MOV 0 (Imm 0), Exit]"

definition corner_case_1_bad_access_6 :: prog where
  "corner_case_1_bad_access_6 =
    [Ldx 4 2 1 0, Ldx 4 3 1 4, Alu W64 MOV 1 (Reg 2), Alu W64 ADD 1 (Imm 7), Jmp W64 JGE 3 (Reg 1) (L 0), Goto (L 1),
     Lab 0, Ldx 8 0 1 (-7), Lab 1, Alu W64 MOV 0 (Imm 0), Exit]"

definition end_corner_case_good_access_4 :: prog where
  "end_corner_case_good_access_4 =
    [Ldx 4 2 1 0, Ldx 4 3 1 4, Alu W64 MOV 1 (Reg 2), Alu W64 ADD 1 (Imm 8), Jmp W64 JLE 1 (Reg 3) (L 0), Goto (L 1),
     Lab 0, Ldx 8 0 1 (-8), Lab 1, Alu W64 MOV 0 (Imm 0), Exit]"

definition pkt_end_bad_access_1_2 :: prog where
  "pkt_end_bad_access_1_2 =
    [Ldx 4 2 1 0, Ldx 4 3 1 4, Alu W64 MOV 1 (Reg 2), Alu W64 ADD 1 (Imm 8), Jmp W64 JLE 1 (Reg 3) (L 0), Goto (L 1),
     Lab 0, Ldx 8 0 1 (-4), Lab 1, Alu W64 MOV 0 (Imm 0), Exit]"

definition pkt_end_bad_access_2_4 :: prog where
  "pkt_end_bad_access_2_4 =
    [Ldx 4 2 1 0, Ldx 4 3 1 4, Alu W64 MOV 1 (Reg 2), Alu W64 ADD 1 (Imm 8), Jmp W64 JLE 1 (Reg 3) (L 0),
     Ldx 8 0 1 (-8), Lab 0, Alu W64 MOV 0 (Imm 0), Exit]"

definition corner_case_1_good_access_7 :: prog where
  "corner_case_1_good_access_7 =
    [Ldx 4 2 1 0, Ldx 4 3 1 4, Alu W64 MOV 1 (Reg 2), Alu W64 ADD 1 (Imm 9), Jmp W64 JLE 1 (Reg 3) (L 0), Goto (L 1),
     Lab 0, Ldx 8 0 1 (-9), Lab 1, Alu W64 MOV 0 (Imm 0), Exit]"

definition corner_case_1_bad_access_7 :: prog where
  "corner_case_1_bad_access_7 =
    [Ldx 4 2 1 0, Ldx 4 3 1 4, Alu W64 MOV 1 (Reg 2), Alu W64 ADD 1 (Imm 7), Jmp W64 JLE 1 (Reg 3) (L 0), Goto (L 1),
     Lab 0, Ldx 8 0 1 (-7), Lab 1, Alu W64 MOV 0 (Imm 0), Exit]"

definition end_pkt_data_good_access_2 :: prog where
  "end_pkt_data_good_access_2 =
    [Ldx 4 2 1 0, Ldx 4 3 1 4, Alu W64 MOV 1 (Reg 2), Alu W64 ADD 1 (Imm 8), Jmp W64 JLE 3 (Reg 1) (L 0),
     Ldx 4 0 1 (-5), Lab 0, Alu W64 MOV 0 (Imm 0), Exit]"

definition corner_case_1_bad_access_8 :: prog where
  "corner_case_1_bad_access_8 =
    [Ldx 4 2 1 0, Ldx 4 3 1 4, Alu W64 MOV 1 (Reg 2), Alu W64 ADD 1 (Imm 6), Jmp W64 JLE 3 (Reg 1) (L 0),
     Ldx 8 0 1 (-6), Lab 0, Alu W64 MOV 0 (Imm 0), Exit]"

definition pkt_data_bad_access_2_4 :: prog where
  "pkt_data_bad_access_2_4 =
    [Ldx 4 2 1 0, Ldx 4 3 1 4, Alu W64 MOV 1 (Reg 2), Alu W64 ADD 1 (Imm 8), Jmp W64 JLE 3 (Reg 1) (L 0), Lab 0,
     Ldx 4 0 1 (-5), Alu W64 MOV 0 (Imm 0), Exit]"

definition data_corner_case_good_access_4 :: prog where
  "data_corner_case_good_access_4 =
    [Ldx 4 2 1 0, Ldx 4 3 1 4, Alu W64 MOV 1 (Reg 2), Alu W64 ADD 1 (Imm 7), Jmp W64 JLE 3 (Reg 1) (L 0),
     Ldx 8 0 1 (-7), Lab 0, Alu W64 MOV 0 (Imm 0), Exit]"

definition corner_case_1_good_access_8 :: prog where
  "corner_case_1_good_access_8 =
    [Ldx 4 2 1 0, Ldx 4 3 1 4, Alu W64 MOV 1 (Reg 2), Alu W64 ADD 1 (Imm 8), Jmp W64 JLE 3 (Reg 1) (L 0),
     Ldx 8 0 1 (-8), Lab 0, Alu W64 MOV 0 (Imm 0), Exit]"

definition data_corner_case_good_access_5 :: prog where
  "data_corner_case_good_access_5 =
    [Ldx 4 2 1 8, Ldx 4 3 1 0, Alu W64 MOV 1 (Reg 2), Alu W64 ADD 1 (Imm 8), Jmp W64 JGT 1 (Reg 3) (L 0),
     Ldx 8 0 1 (-8), Lab 0, Alu W64 MOV 0 (Imm 0), Exit]"

definition pkt_data_bad_access_1_3 :: prog where
  "pkt_data_bad_access_1_3 =
    [Ldx 4 2 1 8, Ldx 4 3 1 0, Alu W64 MOV 1 (Reg 2), Alu W64 ADD 1 (Imm 8), Jmp W64 JGT 1 (Reg 3) (L 0),
     Ldx 8 0 1 (-4), Lab 0, Alu W64 MOV 0 (Imm 0), Exit]"

definition pkt_data_bad_access_2_5 :: prog where
  "pkt_data_bad_access_2_5 =
    [Ldx 4 2 1 8, Ldx 4 3 1 0, Alu W64 MOV 1 (Reg 2), Alu W64 ADD 1 (Imm 8), Jmp W64 JGT 1 (Reg 3) (L 0), Lab 0,
     Ldx 8 0 1 (-8), Alu W64 MOV 0 (Imm 0), Exit]"

definition corner_case_1_good_access_9 :: prog where
  "corner_case_1_good_access_9 =
    [Ldx 4 2 1 8, Ldx 4 3 1 0, Alu W64 MOV 1 (Reg 2), Alu W64 ADD 1 (Imm 9), Jmp W64 JGT 1 (Reg 3) (L 0),
     Ldx 8 0 1 (-9), Lab 0, Alu W64 MOV 0 (Imm 0), Exit]"

definition corner_case_1_bad_access_9 :: prog where
  "corner_case_1_bad_access_9 =
    [Ldx 4 2 1 8, Ldx 4 3 1 0, Alu W64 MOV 1 (Reg 2), Alu W64 ADD 1 (Imm 7), Jmp W64 JGT 1 (Reg 3) (L 0),
     Ldx 8 0 1 (-7), Lab 0, Alu W64 MOV 0 (Imm 0), Exit]"

definition data_pkt_meta_good_access_1 :: prog where
  "data_pkt_meta_good_access_1 =
    [Ldx 4 2 1 8, Ldx 4 3 1 0, Alu W64 MOV 1 (Reg 2), Alu W64 ADD 1 (Imm 8), Jmp W64 JGT 3 (Reg 1) (L 0), Goto (L 1),
     Lab 0, Ldx 4 0 1 (-5), Lab 1, Alu W64 MOV 0 (Imm 0), Exit]"

definition corner_case_1_bad_access_10 :: prog where
  "corner_case_1_bad_access_10 =
    [Ldx 4 2 1 8, Ldx 4 3 1 0, Alu W64 MOV 1 (Reg 2), Alu W64 ADD 1 (Imm 6), Jmp W64 JGT 3 (Reg 1) (L 0), Goto (L 1),
     Lab 0, Ldx 8 0 1 (-6), Lab 1, Alu W64 MOV 0 (Imm 0), Exit]"

definition pkt_meta_bad_access_2_1 :: prog where
  "pkt_meta_bad_access_2_1 =
    [Ldx 4 2 1 8, Ldx 4 3 1 0, Alu W64 MOV 1 (Reg 2), Alu W64 ADD 1 (Imm 8), Jmp W64 JGT 3 (Reg 1) (L 0),
     Ldx 8 0 1 (-8), Lab 0, Alu W64 MOV 0 (Imm 0), Exit]"

definition meta_corner_case_good_access_1 :: prog where
  "meta_corner_case_good_access_1 =
    [Ldx 4 2 1 8, Ldx 4 3 1 0, Alu W64 MOV 1 (Reg 2), Alu W64 ADD 1 (Imm 7), Jmp W64 JGT 3 (Reg 1) (L 0), Goto (L 1),
     Lab 0, Ldx 8 0 1 (-7), Lab 1, Alu W64 MOV 0 (Imm 0), Exit]"

definition corner_case_1_good_access_10 :: prog where
  "corner_case_1_good_access_10 =
    [Ldx 4 2 1 8, Ldx 4 3 1 0, Alu W64 MOV 1 (Reg 2), Alu W64 ADD 1 (Imm 8), Jmp W64 JGT 3 (Reg 1) (L 0), Goto (L 1),
     Lab 0, Ldx 8 0 1 (-8), Lab 1, Alu W64 MOV 0 (Imm 0), Exit]"

definition meta_pkt_data_good_access_1 :: prog where
  "meta_pkt_data_good_access_1 =
    [Ldx 4 2 1 8, Ldx 4 3 1 0, Alu W64 MOV 1 (Reg 2), Alu W64 ADD 1 (Imm 8), Jmp W64 JLT 1 (Reg 3) (L 0), Goto (L 1),
     Lab 0, Ldx 4 0 1 (-5), Lab 1, Alu W64 MOV 0 (Imm 0), Exit]"

definition corner_case_1_bad_access_11 :: prog where
  "corner_case_1_bad_access_11 =
    [Ldx 4 2 1 8, Ldx 4 3 1 0, Alu W64 MOV 1 (Reg 2), Alu W64 ADD 1 (Imm 6), Jmp W64 JLT 1 (Reg 3) (L 0), Goto (L 1),
     Lab 0, Ldx 8 0 1 (-6), Lab 1, Alu W64 MOV 0 (Imm 0), Exit]"

definition pkt_data_bad_access_2_6 :: prog where
  "pkt_data_bad_access_2_6 =
    [Ldx 4 2 1 8, Ldx 4 3 1 0, Alu W64 MOV 1 (Reg 2), Alu W64 ADD 1 (Imm 8), Jmp W64 JLT 1 (Reg 3) (L 0),
     Ldx 8 0 1 (-8), Lab 0, Alu W64 MOV 0 (Imm 0), Exit]"

definition data_corner_case_good_access_6 :: prog where
  "data_corner_case_good_access_6 =
    [Ldx 4 2 1 8, Ldx 4 3 1 0, Alu W64 MOV 1 (Reg 2), Alu W64 ADD 1 (Imm 7), Jmp W64 JLT 1 (Reg 3) (L 0), Goto (L 1),
     Lab 0, Ldx 8 0 1 (-7), Lab 1, Alu W64 MOV 0 (Imm 0), Exit]"

definition corner_case_1_good_access_11 :: prog where
  "corner_case_1_good_access_11 =
    [Ldx 4 2 1 8, Ldx 4 3 1 0, Alu W64 MOV 1 (Reg 2), Alu W64 ADD 1 (Imm 8), Jmp W64 JLT 1 (Reg 3) (L 0), Goto (L 1),
     Lab 0, Ldx 8 0 1 (-8), Lab 1, Alu W64 MOV 0 (Imm 0), Exit]"

definition meta_corner_case_good_access_2 :: prog where
  "meta_corner_case_good_access_2 =
    [Ldx 4 2 1 8, Ldx 4 3 1 0, Alu W64 MOV 1 (Reg 2), Alu W64 ADD 1 (Imm 8), Jmp W64 JLT 3 (Reg 1) (L 0),
     Ldx 8 0 1 (-8), Lab 0, Alu W64 MOV 0 (Imm 0), Exit]"

definition pkt_meta_bad_access_1_1 :: prog where
  "pkt_meta_bad_access_1_1 =
    [Ldx 4 2 1 8, Ldx 4 3 1 0, Alu W64 MOV 1 (Reg 2), Alu W64 ADD 1 (Imm 8), Jmp W64 JLT 3 (Reg 1) (L 0),
     Ldx 8 0 1 (-4), Lab 0, Alu W64 MOV 0 (Imm 0), Exit]"

definition pkt_meta_bad_access_2_2 :: prog where
  "pkt_meta_bad_access_2_2 =
    [Ldx 4 2 1 8, Ldx 4 3 1 0, Alu W64 MOV 1 (Reg 2), Alu W64 ADD 1 (Imm 8), Jmp W64 JLT 3 (Reg 1) (L 0), Lab 0,
     Ldx 8 0 1 (-8), Alu W64 MOV 0 (Imm 0), Exit]"

definition corner_case_1_good_access_12 :: prog where
  "corner_case_1_good_access_12 =
    [Ldx 4 2 1 8, Ldx 4 3 1 0, Alu W64 MOV 1 (Reg 2), Alu W64 ADD 1 (Imm 9), Jmp W64 JLT 3 (Reg 1) (L 0),
     Ldx 8 0 1 (-9), Lab 0, Alu W64 MOV 0 (Imm 0), Exit]"

definition corner_case_1_bad_access_12 :: prog where
  "corner_case_1_bad_access_12 =
    [Ldx 4 2 1 8, Ldx 4 3 1 0, Alu W64 MOV 1 (Reg 2), Alu W64 ADD 1 (Imm 7), Jmp W64 JLT 3 (Reg 1) (L 0),
     Ldx 8 0 1 (-7), Lab 0, Alu W64 MOV 0 (Imm 0), Exit]"

definition meta_pkt_data_good_access_2 :: prog where
  "meta_pkt_data_good_access_2 =
    [Ldx 4 2 1 8, Ldx 4 3 1 0, Alu W64 MOV 1 (Reg 2), Alu W64 ADD 1 (Imm 8), Jmp W64 JGE 1 (Reg 3) (L 0),
     Ldx 4 0 1 (-5), Lab 0, Alu W64 MOV 0 (Imm 0), Exit]"

definition corner_case_1_bad_access_13 :: prog where
  "corner_case_1_bad_access_13 =
    [Ldx 4 2 1 8, Ldx 4 3 1 0, Alu W64 MOV 1 (Reg 2), Alu W64 ADD 1 (Imm 6), Jmp W64 JGE 1 (Reg 3) (L 0),
     Ldx 8 0 1 (-6), Lab 0, Alu W64 MOV 0 (Imm 0), Exit]"

definition pkt_data_bad_access_2_7 :: prog where
  "pkt_data_bad_access_2_7 =
    [Ldx 4 2 1 8, Ldx 4 3 1 0, Alu W64 MOV 1 (Reg 2), Alu W64 ADD 1 (Imm 8), Jmp W64 JGE 1 (Reg 3) (L 0), Lab 0,
     Ldx 4 0 1 (-5), Alu W64 MOV 0 (Imm 0), Exit]"

definition data_corner_case_good_access_7 :: prog where
  "data_corner_case_good_access_7 =
    [Ldx 4 2 1 8, Ldx 4 3 1 0, Alu W64 MOV 1 (Reg 2), Alu W64 ADD 1 (Imm 7), Jmp W64 JGE 1 (Reg 3) (L 0),
     Ldx 8 0 1 (-7), Lab 0, Alu W64 MOV 0 (Imm 0), Exit]"

definition corner_case_1_good_access_13 :: prog where
  "corner_case_1_good_access_13 =
    [Ldx 4 2 1 8, Ldx 4 3 1 0, Alu W64 MOV 1 (Reg 2), Alu W64 ADD 1 (Imm 8), Jmp W64 JGE 1 (Reg 3) (L 0),
     Ldx 8 0 1 (-8), Lab 0, Alu W64 MOV 0 (Imm 0), Exit]"

definition meta_corner_case_good_access_3 :: prog where
  "meta_corner_case_good_access_3 =
    [Ldx 4 2 1 8, Ldx 4 3 1 0, Alu W64 MOV 1 (Reg 2), Alu W64 ADD 1 (Imm 8), Jmp W64 JGE 3 (Reg 1) (L 0), Goto (L 1),
     Lab 0, Ldx 8 0 1 (-8), Lab 1, Alu W64 MOV 0 (Imm 0), Exit]"

definition pkt_meta_bad_access_1_2 :: prog where
  "pkt_meta_bad_access_1_2 =
    [Ldx 4 2 1 8, Ldx 4 3 1 0, Alu W64 MOV 1 (Reg 2), Alu W64 ADD 1 (Imm 8), Jmp W64 JGE 3 (Reg 1) (L 0), Goto (L 1),
     Lab 0, Ldx 8 0 1 (-4), Lab 1, Alu W64 MOV 0 (Imm 0), Exit]"

definition pkt_meta_bad_access_2_3 :: prog where
  "pkt_meta_bad_access_2_3 =
    [Ldx 4 2 1 8, Ldx 4 3 1 0, Alu W64 MOV 1 (Reg 2), Alu W64 ADD 1 (Imm 8), Jmp W64 JGE 3 (Reg 1) (L 0),
     Ldx 8 0 1 (-8), Lab 0, Alu W64 MOV 0 (Imm 0), Exit]"

definition corner_case_1_good_access_14 :: prog where
  "corner_case_1_good_access_14 =
    [Ldx 4 2 1 8, Ldx 4 3 1 0, Alu W64 MOV 1 (Reg 2), Alu W64 ADD 1 (Imm 9), Jmp W64 JGE 3 (Reg 1) (L 0), Goto (L 1),
     Lab 0, Ldx 8 0 1 (-9), Lab 1, Alu W64 MOV 0 (Imm 0), Exit]"

definition corner_case_1_bad_access_14 :: prog where
  "corner_case_1_bad_access_14 =
    [Ldx 4 2 1 8, Ldx 4 3 1 0, Alu W64 MOV 1 (Reg 2), Alu W64 ADD 1 (Imm 7), Jmp W64 JGE 3 (Reg 1) (L 0), Goto (L 1),
     Lab 0, Ldx 8 0 1 (-7), Lab 1, Alu W64 MOV 0 (Imm 0), Exit]"

definition data_corner_case_good_access_8 :: prog where
  "data_corner_case_good_access_8 =
    [Ldx 4 2 1 8, Ldx 4 3 1 0, Alu W64 MOV 1 (Reg 2), Alu W64 ADD 1 (Imm 8), Jmp W64 JLE 1 (Reg 3) (L 0), Goto (L 1),
     Lab 0, Ldx 8 0 1 (-8), Lab 1, Alu W64 MOV 0 (Imm 0), Exit]"

definition pkt_data_bad_access_1_4 :: prog where
  "pkt_data_bad_access_1_4 =
    [Ldx 4 2 1 8, Ldx 4 3 1 0, Alu W64 MOV 1 (Reg 2), Alu W64 ADD 1 (Imm 8), Jmp W64 JLE 1 (Reg 3) (L 0), Goto (L 1),
     Lab 0, Ldx 8 0 1 (-4), Lab 1, Alu W64 MOV 0 (Imm 0), Exit]"

definition pkt_data_bad_access_2_8 :: prog where
  "pkt_data_bad_access_2_8 =
    [Ldx 4 2 1 8, Ldx 4 3 1 0, Alu W64 MOV 1 (Reg 2), Alu W64 ADD 1 (Imm 8), Jmp W64 JLE 1 (Reg 3) (L 0),
     Ldx 8 0 1 (-8), Lab 0, Alu W64 MOV 0 (Imm 0), Exit]"

definition corner_case_1_good_access_15 :: prog where
  "corner_case_1_good_access_15 =
    [Ldx 4 2 1 8, Ldx 4 3 1 0, Alu W64 MOV 1 (Reg 2), Alu W64 ADD 1 (Imm 9), Jmp W64 JLE 1 (Reg 3) (L 0), Goto (L 1),
     Lab 0, Ldx 8 0 1 (-9), Lab 1, Alu W64 MOV 0 (Imm 0), Exit]"

definition corner_case_1_bad_access_15 :: prog where
  "corner_case_1_bad_access_15 =
    [Ldx 4 2 1 8, Ldx 4 3 1 0, Alu W64 MOV 1 (Reg 2), Alu W64 ADD 1 (Imm 7), Jmp W64 JLE 1 (Reg 3) (L 0), Goto (L 1),
     Lab 0, Ldx 8 0 1 (-7), Lab 1, Alu W64 MOV 0 (Imm 0), Exit]"

definition data_pkt_meta_good_access_2 :: prog where
  "data_pkt_meta_good_access_2 =
    [Ldx 4 2 1 8, Ldx 4 3 1 0, Alu W64 MOV 1 (Reg 2), Alu W64 ADD 1 (Imm 8), Jmp W64 JLE 3 (Reg 1) (L 0),
     Ldx 4 0 1 (-5), Lab 0, Alu W64 MOV 0 (Imm 0), Exit]"

definition corner_case_1_bad_access_16 :: prog where
  "corner_case_1_bad_access_16 =
    [Ldx 4 2 1 8, Ldx 4 3 1 0, Alu W64 MOV 1 (Reg 2), Alu W64 ADD 1 (Imm 6), Jmp W64 JLE 3 (Reg 1) (L 0),
     Ldx 8 0 1 (-6), Lab 0, Alu W64 MOV 0 (Imm 0), Exit]"

definition pkt_meta_bad_access_2_4 :: prog where
  "pkt_meta_bad_access_2_4 =
    [Ldx 4 2 1 8, Ldx 4 3 1 0, Alu W64 MOV 1 (Reg 2), Alu W64 ADD 1 (Imm 8), Jmp W64 JLE 3 (Reg 1) (L 0), Lab 0,
     Ldx 4 0 1 (-5), Alu W64 MOV 0 (Imm 0), Exit]"

definition meta_corner_case_good_access_4 :: prog where
  "meta_corner_case_good_access_4 =
    [Ldx 4 2 1 8, Ldx 4 3 1 0, Alu W64 MOV 1 (Reg 2), Alu W64 ADD 1 (Imm 7), Jmp W64 JLE 3 (Reg 1) (L 0),
     Ldx 8 0 1 (-7), Lab 0, Alu W64 MOV 0 (Imm 0), Exit]"

definition corner_case_1_good_access_16 :: prog where
  "corner_case_1_good_access_16 =
    [Ldx 4 2 1 8, Ldx 4 3 1 0, Alu W64 MOV 1 (Reg 2), Alu W64 ADD 1 (Imm 8), Jmp W64 JLE 3 (Reg 1) (L 0),
     Ldx 8 0 1 (-8), Lab 0, Alu W64 MOV 0 (Imm 0), Exit]"

definition pkt_regsafe_class_displacement :: prog where
  "pkt_regsafe_class_displacement =
    [Ldx 4 8 1 4, Ldx 4 9 1 0, Ldx 4 4 1 16, Alu W64 BAND 4 (Imm 15), Ldx 4 0 1 12, Jmp W64 JNE 0 (Imm 0) (L 0),
     Alu W64 MOV 2 (Reg 9), Alu W64 ADD 2 (Reg 4), Alu W64 MOV 3 (Reg 2), Alu W64 ADD 3 (Imm 8), Goto (L 1), Lab 0,
     Alu W64 BAND 4 (Imm 3), Alu W64 ADD 4 (Imm 8), Alu W64 MOV 2 (Reg 9), Alu W64 ADD 2 (Reg 4),
     Alu W64 MOV 3 (Reg 2), Lab 1, Jmp W64 JGT 3 (Reg 8) (L 2), Ldx 8 0 2 0, Lab 2, Alu W64 MOV 0 (Imm 0), Exit]"

section \<open>Tests\<close>

definition xdp_access_tests_1 :: "test list" where
  "xdp_access_tests_1 =
    [(end_mangling_bad_access_1, Failure), (end_mangling_bad_access_2, Failure),
     (end_corner_case_good_access_1, Success 0), (pkt_end_bad_access_1_1, Failure),
     (pkt_end_bad_access_2_1, Failure), (corner_case_1_good_access_1, Success 0),
     (corner_case_1_bad_access_1, Failure), (end_pkt_data_good_access_1, Success 0),
     (corner_case_1_bad_access_2, Failure), (pkt_data_bad_access_2_1, Failure),
     (data_corner_case_good_access_1, Success 0), (corner_case_1_good_access_2, Success 0),
     (data_pkt_end_good_access_1, Success 0), (corner_case_1_bad_access_3, Failure),
     (pkt_end_bad_access_2_2, Failure), (end_corner_case_good_access_2, Success 0),
     (corner_case_1_good_access_3, Success 0), (data_corner_case_good_access_2, Success 0),
     (pkt_data_bad_access_1_1, Failure), (pkt_data_bad_access_2_2, Failure),
     (corner_case_1_good_access_4, Success 0), (corner_case_1_bad_access_4, Failure),
     (data_pkt_end_good_access_2, Success 0), (corner_case_1_bad_access_5, Failure),
     (pkt_end_bad_access_2_3, Failure), (end_corner_case_good_access_3, Success 0),
     (corner_case_1_good_access_5, Success 0), (data_corner_case_good_access_3, Success 0),
     (pkt_data_bad_access_1_2, Failure), (pkt_data_bad_access_2_3, Failure)]"

definition xdp_access_tests_2 :: "test list" where
  "xdp_access_tests_2 =
    [(corner_case_1_good_access_6, Success 0), (corner_case_1_bad_access_6, Failure),
     (end_corner_case_good_access_4, Success 0), (pkt_end_bad_access_1_2, Failure),
     (pkt_end_bad_access_2_4, Failure), (corner_case_1_good_access_7, Success 0),
     (corner_case_1_bad_access_7, Failure), (end_pkt_data_good_access_2, Success 0),
     (corner_case_1_bad_access_8, Failure), (pkt_data_bad_access_2_4, Failure),
     (data_corner_case_good_access_4, Success 0), (corner_case_1_good_access_8, Success 0),
     (data_corner_case_good_access_5, Success 0), (pkt_data_bad_access_1_3, Failure),
     (pkt_data_bad_access_2_5, Failure), (corner_case_1_good_access_9, Success 0),
     (corner_case_1_bad_access_9, Failure), (data_pkt_meta_good_access_1, Success 0),
     (corner_case_1_bad_access_10, Failure), (pkt_meta_bad_access_2_1, Failure),
     (meta_corner_case_good_access_1, Success 0), (corner_case_1_good_access_10, Success 0),
     (meta_pkt_data_good_access_1, Success 0), (corner_case_1_bad_access_11, Failure),
     (pkt_data_bad_access_2_6, Failure), (data_corner_case_good_access_6, Success 0),
     (corner_case_1_good_access_11, Success 0), (meta_corner_case_good_access_2, Success 0),
     (pkt_meta_bad_access_1_1, Failure), (pkt_meta_bad_access_2_2, Failure)]"

definition xdp_access_tests_3 :: "test list" where
  "xdp_access_tests_3 =
    [(corner_case_1_good_access_12, Success 0), (corner_case_1_bad_access_12, Failure),
     (meta_pkt_data_good_access_2, Success 0), (corner_case_1_bad_access_13, Failure),
     (pkt_data_bad_access_2_7, Failure), (data_corner_case_good_access_7, Success 0),
     (corner_case_1_good_access_13, Success 0), (meta_corner_case_good_access_3, Success 0),
     (pkt_meta_bad_access_1_2, Failure), (pkt_meta_bad_access_2_3, Failure),
     (corner_case_1_good_access_14, Success 0), (corner_case_1_bad_access_14, Failure),
     (data_corner_case_good_access_8, Success 0), (pkt_data_bad_access_1_4, Failure),
     (pkt_data_bad_access_2_8, Failure), (corner_case_1_good_access_15, Success 0),
     (corner_case_1_bad_access_15, Failure), (data_pkt_meta_good_access_2, Success 0),
     (corner_case_1_bad_access_16, Failure), (pkt_meta_bad_access_2_4, Failure),
     (meta_corner_case_good_access_4, Success 0), (corner_case_1_good_access_16, Success 0),
     (pkt_regsafe_class_displacement, Failure)]"

definition xdp_access_tests :: "test list" where
  "xdp_access_tests =
     xdp_access_tests_1 @ xdp_access_tests_2 @ xdp_access_tests_3"

section \<open>Runs\<close>

text \<open>
  The context \<^verbatim>\<open>struct xdp_md\<close> at address \<open>c\<close>: the kernel rewrites the 4-byte loads of its fields to loads of the
  pointers to the metadata, the packet and its end. Memory is the packet with the metadata in front of it.
\<close>

record xdp_pkt =
  data :: u64
  data_end :: u64
  data_meta :: u64
  ingress_ifindex :: u32
  rx_queue_index :: u32

definition xdp_load :: "u64 \<Rightarrow> xdp_pkt \<Rightarrow> u64 \<Rightarrow> nat \<Rightarrow> u64 option" where
  "xdp_load c p a k =
     (if k \<noteq> 4 then None
      else if a = c then Some (data p)
      else if a = c + 4 then Some (data_end p)
      else if a = c + 8 then Some (data_meta p)
      else if a = c + 12 then Some (ucast (ingress_ifindex p))
      else if a = c + 16 then Some (ucast (rx_queue_index p))
      else None)"

definition xdp_env :: "(nat \<Rightarrow> 'w \<Rightarrow> u64 \<times> (nat \<Rightarrow> u64) \<times> 'w) \<Rightarrow> u64 \<Rightarrow> xdp_pkt \<Rightarrow> 'w isa_env" where
  "xdp_env h c p = \<lparr>helper = h, ctx_load = xdp_load c p\<rparr>"

definition pkt_mem :: "xdp_pkt \<Rightarrow> (u64 \<Rightarrow> u8) \<Rightarrow> memory" where
  "pkt_mem p b = (\<lambda>a. if data_meta p \<le> a \<and> a < data_end p then Some (b a) else None)"

definition xdp_state :: "(nat \<Rightarrow> u64) \<Rightarrow> u64 \<Rightarrow> xdp_pkt \<Rightarrow> (u64 \<Rightarrow> u8) \<Rightarrow> 'w \<Rightarrow> 'w isa_state" where
  "xdp_state r c p b w = \<lparr>regs = r(1 := c), mem = pkt_mem p b, host = w\<rparr>"

text \<open>The three pointers are in order, and the last 16 addresses are not part of a packet.\<close>

definition pkt_ok :: "xdp_pkt \<Rightarrow> bool" where
  "pkt_ok p \<longleftrightarrow> data_meta p \<le> data p \<and> data p \<le> data_end p \<and> unat (data_end p) + 16 < 2 ^ 64"

lemma load_packet:
  assumes "data_meta p \<le> a" "unat a + k \<le> unat (data_end p)"
  shows "load k (pkt_mem p b) a \<noteq> None"
proof -
  have "mapped (pkt_mem p b) a k"
  proof (unfold mapped_def, intro allI impI)
    fix i assume "i < k"
    then have "unat (a + of_nat i) = unat a + i"
      using assms unat_u64_lt [of "data_end p"] by (simp add: unat_add_lt unat_of_nat)
    then show "pkt_mem p b (a + of_nat i) \<noteq> None"
      using assms \<open>i < k\<close> by (simp add: pkt_mem_def word_le_nat_alt word_less_nat_alt)
  qed
  then show ?thesis using load_mapped by fastforce
qed

text \<open>The comparisons of the test programs, and the accesses that they allow.\<close>

lemma checked_access:
  assumes "pkt_ok p" "data_meta p \<le> a" "a \<le> e" "e \<le> data_end p"
  shows "a + 8 \<le> e \<longrightarrow> load 8 (pkt_mem p b) a \<noteq> None"
    and "a + 9 \<le> e \<longrightarrow> load 8 (pkt_mem p b) a \<noteq> None"
    and "a + 7 < e \<longrightarrow> load 8 (pkt_mem p b) a \<noteq> None"
    and "a + 8 < e \<longrightarrow> load 8 (pkt_mem p b) a \<noteq> None \<and> load 4 (pkt_mem p b) (3 + a) \<noteq> None"
proof -
  have u: "unat (a + of_nat n) = unat a + n" if "n < 16" for n
    using assms that by (simp add: pkt_ok_def unat_add_lt unat_of_nat word_le_nat_alt)
  have u3: "unat (3 + a) = 3 + unat a" using u [of 3] by (simp add: add.commute)
  note facts = assms(2-4) u [of 7] u [of 8] u [of 9] u3
    load_packet [of p a 8 b] load_packet [of p "3 + a" 4 b]
  show "a + 8 \<le> e \<longrightarrow> load 8 (pkt_mem p b) a \<noteq> None"
    and "a + 9 \<le> e \<longrightarrow> load 8 (pkt_mem p b) a \<noteq> None"
    and "a + 7 < e \<longrightarrow> load 8 (pkt_mem p b) a \<noteq> None"
    and "a + 8 < e \<longrightarrow> load 8 (pkt_mem p b) a \<noteq> None \<and> load 4 (pkt_mem p b) (3 + a) \<noteq> None"
    using facts by (auto simp: word_le_nat_alt word_less_nat_alt)
qed

lemma data_access:
  assumes "pkt_ok p"
  shows "(data p + 8 \<le> data_end p \<longrightarrow> load 8 (pkt_mem p b) (data p) \<noteq> None) \<and>
    (data p + 9 \<le> data_end p \<longrightarrow> load 8 (pkt_mem p b) (data p) \<noteq> None) \<and>
    (data p + 7 < data_end p \<longrightarrow> load 8 (pkt_mem p b) (data p) \<noteq> None) \<and>
    (data p + 8 < data_end p \<longrightarrow>
      load 8 (pkt_mem p b) (data p) \<noteq> None \<and> load 4 (pkt_mem p b) (3 + data p) \<noteq> None)"
  using assms checked_access [OF assms, of "data p" "data_end p" b] by (simp add: pkt_ok_def)

lemma meta_access:
  assumes "pkt_ok p"
  shows "(data_meta p + 8 \<le> data p \<longrightarrow> load 8 (pkt_mem p b) (data_meta p) \<noteq> None) \<and>
    (data_meta p + 9 \<le> data p \<longrightarrow> load 8 (pkt_mem p b) (data_meta p) \<noteq> None) \<and>
    (data_meta p + 7 < data p \<longrightarrow> load 8 (pkt_mem p b) (data_meta p) \<noteq> None) \<and>
    (data_meta p + 8 < data p \<longrightarrow>
      load 8 (pkt_mem p b) (data_meta p) \<noteq> None \<and> load 4 (pkt_mem p b) (3 + data_meta p) \<noteq> None)"
  using assms checked_access [OF assms, of "data_meta p" "data p" b] by (simp add: pkt_ok_def)

lemmas xdp_simps = isa_simps xdp_env_def xdp_state_def xdp_load_def not_less not_le

lemma end_corner_case_good_access_1_ok [test_ok]:
  "pkt_ok p \<Longrightarrow> returns (xdp_env h c p) end_corner_case_good_access_1 (xdp_state r c p b w) 0"
  using data_access [of p b] by (auto simp: end_corner_case_good_access_1_def xdp_simps split: option.splits)

lemma corner_case_1_good_access_1_ok [test_ok]:
  "pkt_ok p \<Longrightarrow> returns (xdp_env h c p) corner_case_1_good_access_1 (xdp_state r c p b w) 0"
  using data_access [of p b] by (auto simp: corner_case_1_good_access_1_def xdp_simps split: option.splits)

lemma end_pkt_data_good_access_1_ok [test_ok]:
  "pkt_ok p \<Longrightarrow> returns (xdp_env h c p) end_pkt_data_good_access_1 (xdp_state r c p b w) 0"
  using data_access [of p b] by (auto simp: end_pkt_data_good_access_1_def xdp_simps split: option.splits)

lemma data_corner_case_good_access_1_ok [test_ok]:
  "pkt_ok p \<Longrightarrow> returns (xdp_env h c p) data_corner_case_good_access_1 (xdp_state r c p b w) 0"
  using data_access [of p b] by (auto simp: data_corner_case_good_access_1_def xdp_simps split: option.splits)

lemma corner_case_1_good_access_2_ok [test_ok]:
  "pkt_ok p \<Longrightarrow> returns (xdp_env h c p) corner_case_1_good_access_2 (xdp_state r c p b w) 0"
  using data_access [of p b] by (auto simp: corner_case_1_good_access_2_def xdp_simps split: option.splits)

lemma data_pkt_end_good_access_1_ok [test_ok]:
  "pkt_ok p \<Longrightarrow> returns (xdp_env h c p) data_pkt_end_good_access_1 (xdp_state r c p b w) 0"
  using data_access [of p b] by (auto simp: data_pkt_end_good_access_1_def xdp_simps split: option.splits)

lemma end_corner_case_good_access_2_ok [test_ok]:
  "pkt_ok p \<Longrightarrow> returns (xdp_env h c p) end_corner_case_good_access_2 (xdp_state r c p b w) 0"
  using data_access [of p b] by (auto simp: end_corner_case_good_access_2_def xdp_simps split: option.splits)

lemma corner_case_1_good_access_3_ok [test_ok]:
  "pkt_ok p \<Longrightarrow> returns (xdp_env h c p) corner_case_1_good_access_3 (xdp_state r c p b w) 0"
  using data_access [of p b] by (auto simp: corner_case_1_good_access_3_def xdp_simps split: option.splits)

lemma data_corner_case_good_access_2_ok [test_ok]:
  "pkt_ok p \<Longrightarrow> returns (xdp_env h c p) data_corner_case_good_access_2 (xdp_state r c p b w) 0"
  using data_access [of p b] by (auto simp: data_corner_case_good_access_2_def xdp_simps split: option.splits)

lemma corner_case_1_good_access_4_ok [test_ok]:
  "pkt_ok p \<Longrightarrow> returns (xdp_env h c p) corner_case_1_good_access_4 (xdp_state r c p b w) 0"
  using data_access [of p b] by (auto simp: corner_case_1_good_access_4_def xdp_simps split: option.splits)

lemma data_pkt_end_good_access_2_ok [test_ok]:
  "pkt_ok p \<Longrightarrow> returns (xdp_env h c p) data_pkt_end_good_access_2 (xdp_state r c p b w) 0"
  using data_access [of p b] by (auto simp: data_pkt_end_good_access_2_def xdp_simps split: option.splits)

lemma end_corner_case_good_access_3_ok [test_ok]:
  "pkt_ok p \<Longrightarrow> returns (xdp_env h c p) end_corner_case_good_access_3 (xdp_state r c p b w) 0"
  using data_access [of p b] by (auto simp: end_corner_case_good_access_3_def xdp_simps split: option.splits)

lemma corner_case_1_good_access_5_ok [test_ok]:
  "pkt_ok p \<Longrightarrow> returns (xdp_env h c p) corner_case_1_good_access_5 (xdp_state r c p b w) 0"
  using data_access [of p b] by (auto simp: corner_case_1_good_access_5_def xdp_simps split: option.splits)

lemma data_corner_case_good_access_3_ok [test_ok]:
  "pkt_ok p \<Longrightarrow> returns (xdp_env h c p) data_corner_case_good_access_3 (xdp_state r c p b w) 0"
  using data_access [of p b] by (auto simp: data_corner_case_good_access_3_def xdp_simps split: option.splits)

lemma corner_case_1_good_access_6_ok [test_ok]:
  "pkt_ok p \<Longrightarrow> returns (xdp_env h c p) corner_case_1_good_access_6 (xdp_state r c p b w) 0"
  using data_access [of p b] by (auto simp: corner_case_1_good_access_6_def xdp_simps split: option.splits)

lemma end_corner_case_good_access_4_ok [test_ok]:
  "pkt_ok p \<Longrightarrow> returns (xdp_env h c p) end_corner_case_good_access_4 (xdp_state r c p b w) 0"
  using data_access [of p b] by (auto simp: end_corner_case_good_access_4_def xdp_simps split: option.splits)

lemma corner_case_1_good_access_7_ok [test_ok]:
  "pkt_ok p \<Longrightarrow> returns (xdp_env h c p) corner_case_1_good_access_7 (xdp_state r c p b w) 0"
  using data_access [of p b] by (auto simp: corner_case_1_good_access_7_def xdp_simps split: option.splits)

lemma end_pkt_data_good_access_2_ok [test_ok]:
  "pkt_ok p \<Longrightarrow> returns (xdp_env h c p) end_pkt_data_good_access_2 (xdp_state r c p b w) 0"
  using data_access [of p b] by (auto simp: end_pkt_data_good_access_2_def xdp_simps split: option.splits)

lemma data_corner_case_good_access_4_ok [test_ok]:
  "pkt_ok p \<Longrightarrow> returns (xdp_env h c p) data_corner_case_good_access_4 (xdp_state r c p b w) 0"
  using data_access [of p b] by (auto simp: data_corner_case_good_access_4_def xdp_simps split: option.splits)

lemma corner_case_1_good_access_8_ok [test_ok]:
  "pkt_ok p \<Longrightarrow> returns (xdp_env h c p) corner_case_1_good_access_8 (xdp_state r c p b w) 0"
  using data_access [of p b] by (auto simp: corner_case_1_good_access_8_def xdp_simps split: option.splits)

lemma data_corner_case_good_access_5_ok [test_ok]:
  "pkt_ok p \<Longrightarrow> returns (xdp_env h c p) data_corner_case_good_access_5 (xdp_state r c p b w) 0"
  using meta_access [of p b] by (auto simp: data_corner_case_good_access_5_def xdp_simps split: option.splits)

lemma corner_case_1_good_access_9_ok [test_ok]:
  "pkt_ok p \<Longrightarrow> returns (xdp_env h c p) corner_case_1_good_access_9 (xdp_state r c p b w) 0"
  using meta_access [of p b] by (auto simp: corner_case_1_good_access_9_def xdp_simps split: option.splits)

lemma data_pkt_meta_good_access_1_ok [test_ok]:
  "pkt_ok p \<Longrightarrow> returns (xdp_env h c p) data_pkt_meta_good_access_1 (xdp_state r c p b w) 0"
  using meta_access [of p b] by (auto simp: data_pkt_meta_good_access_1_def xdp_simps split: option.splits)

lemma meta_corner_case_good_access_1_ok [test_ok]:
  "pkt_ok p \<Longrightarrow> returns (xdp_env h c p) meta_corner_case_good_access_1 (xdp_state r c p b w) 0"
  using meta_access [of p b] by (auto simp: meta_corner_case_good_access_1_def xdp_simps split: option.splits)

lemma corner_case_1_good_access_10_ok [test_ok]:
  "pkt_ok p \<Longrightarrow> returns (xdp_env h c p) corner_case_1_good_access_10 (xdp_state r c p b w) 0"
  using meta_access [of p b] by (auto simp: corner_case_1_good_access_10_def xdp_simps split: option.splits)

lemma meta_pkt_data_good_access_1_ok [test_ok]:
  "pkt_ok p \<Longrightarrow> returns (xdp_env h c p) meta_pkt_data_good_access_1 (xdp_state r c p b w) 0"
  using meta_access [of p b] by (auto simp: meta_pkt_data_good_access_1_def xdp_simps split: option.splits)

lemma data_corner_case_good_access_6_ok [test_ok]:
  "pkt_ok p \<Longrightarrow> returns (xdp_env h c p) data_corner_case_good_access_6 (xdp_state r c p b w) 0"
  using meta_access [of p b] by (auto simp: data_corner_case_good_access_6_def xdp_simps split: option.splits)

lemma corner_case_1_good_access_11_ok [test_ok]:
  "pkt_ok p \<Longrightarrow> returns (xdp_env h c p) corner_case_1_good_access_11 (xdp_state r c p b w) 0"
  using meta_access [of p b] by (auto simp: corner_case_1_good_access_11_def xdp_simps split: option.splits)

lemma meta_corner_case_good_access_2_ok [test_ok]:
  "pkt_ok p \<Longrightarrow> returns (xdp_env h c p) meta_corner_case_good_access_2 (xdp_state r c p b w) 0"
  using meta_access [of p b] by (auto simp: meta_corner_case_good_access_2_def xdp_simps split: option.splits)

lemma corner_case_1_good_access_12_ok [test_ok]:
  "pkt_ok p \<Longrightarrow> returns (xdp_env h c p) corner_case_1_good_access_12 (xdp_state r c p b w) 0"
  using meta_access [of p b] by (auto simp: corner_case_1_good_access_12_def xdp_simps split: option.splits)

lemma meta_pkt_data_good_access_2_ok [test_ok]:
  "pkt_ok p \<Longrightarrow> returns (xdp_env h c p) meta_pkt_data_good_access_2 (xdp_state r c p b w) 0"
  using meta_access [of p b] by (auto simp: meta_pkt_data_good_access_2_def xdp_simps split: option.splits)

lemma data_corner_case_good_access_7_ok [test_ok]:
  "pkt_ok p \<Longrightarrow> returns (xdp_env h c p) data_corner_case_good_access_7 (xdp_state r c p b w) 0"
  using meta_access [of p b] by (auto simp: data_corner_case_good_access_7_def xdp_simps split: option.splits)

lemma corner_case_1_good_access_13_ok [test_ok]:
  "pkt_ok p \<Longrightarrow> returns (xdp_env h c p) corner_case_1_good_access_13 (xdp_state r c p b w) 0"
  using meta_access [of p b] by (auto simp: corner_case_1_good_access_13_def xdp_simps split: option.splits)

lemma meta_corner_case_good_access_3_ok [test_ok]:
  "pkt_ok p \<Longrightarrow> returns (xdp_env h c p) meta_corner_case_good_access_3 (xdp_state r c p b w) 0"
  using meta_access [of p b] by (auto simp: meta_corner_case_good_access_3_def xdp_simps split: option.splits)

lemma corner_case_1_good_access_14_ok [test_ok]:
  "pkt_ok p \<Longrightarrow> returns (xdp_env h c p) corner_case_1_good_access_14 (xdp_state r c p b w) 0"
  using meta_access [of p b] by (auto simp: corner_case_1_good_access_14_def xdp_simps split: option.splits)

lemma data_corner_case_good_access_8_ok [test_ok]:
  "pkt_ok p \<Longrightarrow> returns (xdp_env h c p) data_corner_case_good_access_8 (xdp_state r c p b w) 0"
  using meta_access [of p b] by (auto simp: data_corner_case_good_access_8_def xdp_simps split: option.splits)

lemma corner_case_1_good_access_15_ok [test_ok]:
  "pkt_ok p \<Longrightarrow> returns (xdp_env h c p) corner_case_1_good_access_15 (xdp_state r c p b w) 0"
  using meta_access [of p b] by (auto simp: corner_case_1_good_access_15_def xdp_simps split: option.splits)

lemma data_pkt_meta_good_access_2_ok [test_ok]:
  "pkt_ok p \<Longrightarrow> returns (xdp_env h c p) data_pkt_meta_good_access_2 (xdp_state r c p b w) 0"
  using meta_access [of p b] by (auto simp: data_pkt_meta_good_access_2_def xdp_simps split: option.splits)

lemma meta_corner_case_good_access_4_ok [test_ok]:
  "pkt_ok p \<Longrightarrow> returns (xdp_env h c p) meta_corner_case_good_access_4 (xdp_state r c p b w) 0"
  using meta_access [of p b] by (auto simp: meta_corner_case_good_access_4_def xdp_simps split: option.splits)

lemma corner_case_1_good_access_16_ok [test_ok]:
  "pkt_ok p \<Longrightarrow> returns (xdp_env h c p) corner_case_1_good_access_16 (xdp_state r c p b w) 0"
  using meta_access [of p b] by (auto simp: corner_case_1_good_access_16_def xdp_simps split: option.splits)

section \<open>Refused programs\<close>

text \<open>
  Five packets that separate the refused programs from memory: an empty packet, packets of 7 and 8 bytes,
  and empty packets with 7 and 8 bytes of metadata.
\<close>

definition probe :: "u64 \<Rightarrow> u64 \<Rightarrow> xdp_pkt" where
  "probe m n =
     \<lparr>data = 4096 + m, data_end = 4096 + m + n, data_meta = 4096, ingress_ifindex = 1, rx_queue_index = 0\<rparr>"

definition probes :: "xdp_pkt list" where
  "probes = [probe 0 0, probe 0 7, probe 0 8, probe 7 0, probe 8 0]"

definition faults :: "prog \<Rightarrow> xdp_pkt \<Rightarrow> bool" where
  "faults q p \<longleftrightarrow>
     run (xdp_env (\<lambda>f w. (0, \<lambda>r. 0, w)) 0 p) q (xdp_state (\<lambda>r. 0) 0 p (\<lambda>a. 0) ()) = Trap Fault"

lemma load_numeral:
  "load (numeral n) m a =
     (case m a of None \<Rightarrow> None
      | Some b \<Rightarrow> (case load (pred_numeral n) m (a + 1) of None \<Rightarrow> None | Some v \<Rightarrow> Some (ucast b OR push_bit 8 v)))"
  by (simp add: numeral_eq_Suc)

lemmas probe_simps =
  faults_def probes_def probe_def run_def call_helper_def read_mem_def write_reg_def
  xdp_env_def xdp_state_def xdp_load_def pkt_mem_def load_numeral

lemma end_mangling_bad_access_1_faults [test_ok]: "list_ex (faults end_mangling_bad_access_1) probes"
  by (simp add: end_mangling_bad_access_1_def probe_simps)

lemma pkt_end_bad_access_1_1_faults [test_ok]: "list_ex (faults pkt_end_bad_access_1_1) probes"
  by (simp add: pkt_end_bad_access_1_1_def probe_simps)

lemma pkt_end_bad_access_2_1_faults [test_ok]: "list_ex (faults pkt_end_bad_access_2_1) probes"
  by (simp add: pkt_end_bad_access_2_1_def probe_simps)

lemma corner_case_1_bad_access_1_faults [test_ok]: "list_ex (faults corner_case_1_bad_access_1) probes"
  by (simp add: corner_case_1_bad_access_1_def probe_simps)

lemma corner_case_1_bad_access_2_faults [test_ok]: "list_ex (faults corner_case_1_bad_access_2) probes"
  by (simp add: corner_case_1_bad_access_2_def probe_simps)

lemma pkt_data_bad_access_2_1_faults [test_ok]: "list_ex (faults pkt_data_bad_access_2_1) probes"
  by (simp add: pkt_data_bad_access_2_1_def probe_simps)

lemma corner_case_1_bad_access_3_faults [test_ok]: "list_ex (faults corner_case_1_bad_access_3) probes"
  by (simp add: corner_case_1_bad_access_3_def probe_simps)

lemma pkt_end_bad_access_2_2_faults [test_ok]: "list_ex (faults pkt_end_bad_access_2_2) probes"
  by (simp add: pkt_end_bad_access_2_2_def probe_simps)

lemma pkt_data_bad_access_1_1_faults [test_ok]: "list_ex (faults pkt_data_bad_access_1_1) probes"
  by (simp add: pkt_data_bad_access_1_1_def probe_simps)

lemma pkt_data_bad_access_2_2_faults [test_ok]: "list_ex (faults pkt_data_bad_access_2_2) probes"
  by (simp add: pkt_data_bad_access_2_2_def probe_simps)

lemma corner_case_1_bad_access_4_faults [test_ok]: "list_ex (faults corner_case_1_bad_access_4) probes"
  by (simp add: corner_case_1_bad_access_4_def probe_simps)

lemma corner_case_1_bad_access_5_faults [test_ok]: "list_ex (faults corner_case_1_bad_access_5) probes"
  by (simp add: corner_case_1_bad_access_5_def probe_simps)

lemma pkt_end_bad_access_2_3_faults [test_ok]: "list_ex (faults pkt_end_bad_access_2_3) probes"
  by (simp add: pkt_end_bad_access_2_3_def probe_simps)

lemma pkt_data_bad_access_1_2_faults [test_ok]: "list_ex (faults pkt_data_bad_access_1_2) probes"
  by (simp add: pkt_data_bad_access_1_2_def probe_simps)

lemma pkt_data_bad_access_2_3_faults [test_ok]: "list_ex (faults pkt_data_bad_access_2_3) probes"
  by (simp add: pkt_data_bad_access_2_3_def probe_simps)

lemma corner_case_1_bad_access_6_faults [test_ok]: "list_ex (faults corner_case_1_bad_access_6) probes"
  by (simp add: corner_case_1_bad_access_6_def probe_simps)

lemma pkt_end_bad_access_1_2_faults [test_ok]: "list_ex (faults pkt_end_bad_access_1_2) probes"
  by (simp add: pkt_end_bad_access_1_2_def probe_simps)

lemma pkt_end_bad_access_2_4_faults [test_ok]: "list_ex (faults pkt_end_bad_access_2_4) probes"
  by (simp add: pkt_end_bad_access_2_4_def probe_simps)

lemma corner_case_1_bad_access_7_faults [test_ok]: "list_ex (faults corner_case_1_bad_access_7) probes"
  by (simp add: corner_case_1_bad_access_7_def probe_simps)

lemma corner_case_1_bad_access_8_faults [test_ok]: "list_ex (faults corner_case_1_bad_access_8) probes"
  by (simp add: corner_case_1_bad_access_8_def probe_simps)

lemma pkt_data_bad_access_2_4_faults [test_ok]: "list_ex (faults pkt_data_bad_access_2_4) probes"
  by (simp add: pkt_data_bad_access_2_4_def probe_simps)

lemma pkt_data_bad_access_1_3_faults [test_ok]: "list_ex (faults pkt_data_bad_access_1_3) probes"
  by (simp add: pkt_data_bad_access_1_3_def probe_simps)

lemma pkt_data_bad_access_2_5_faults [test_ok]: "list_ex (faults pkt_data_bad_access_2_5) probes"
  by (simp add: pkt_data_bad_access_2_5_def probe_simps)

lemma corner_case_1_bad_access_9_faults [test_ok]: "list_ex (faults corner_case_1_bad_access_9) probes"
  by (simp add: corner_case_1_bad_access_9_def probe_simps)

lemma corner_case_1_bad_access_10_faults [test_ok]: "list_ex (faults corner_case_1_bad_access_10) probes"
  by (simp add: corner_case_1_bad_access_10_def probe_simps)

lemma pkt_meta_bad_access_2_1_faults [test_ok]: "list_ex (faults pkt_meta_bad_access_2_1) probes"
  by (simp add: pkt_meta_bad_access_2_1_def probe_simps)

lemma corner_case_1_bad_access_11_faults [test_ok]: "list_ex (faults corner_case_1_bad_access_11) probes"
  by (simp add: corner_case_1_bad_access_11_def probe_simps)

lemma pkt_data_bad_access_2_6_faults [test_ok]: "list_ex (faults pkt_data_bad_access_2_6) probes"
  by (simp add: pkt_data_bad_access_2_6_def probe_simps)

lemma pkt_meta_bad_access_1_1_faults [test_ok]: "list_ex (faults pkt_meta_bad_access_1_1) probes"
  by (simp add: pkt_meta_bad_access_1_1_def probe_simps)

lemma pkt_meta_bad_access_2_2_faults [test_ok]: "list_ex (faults pkt_meta_bad_access_2_2) probes"
  by (simp add: pkt_meta_bad_access_2_2_def probe_simps)

lemma corner_case_1_bad_access_12_faults [test_ok]: "list_ex (faults corner_case_1_bad_access_12) probes"
  by (simp add: corner_case_1_bad_access_12_def probe_simps)

lemma corner_case_1_bad_access_13_faults [test_ok]: "list_ex (faults corner_case_1_bad_access_13) probes"
  by (simp add: corner_case_1_bad_access_13_def probe_simps)

lemma pkt_data_bad_access_2_7_faults [test_ok]: "list_ex (faults pkt_data_bad_access_2_7) probes"
  by (simp add: pkt_data_bad_access_2_7_def probe_simps)

lemma pkt_meta_bad_access_1_2_faults [test_ok]: "list_ex (faults pkt_meta_bad_access_1_2) probes"
  by (simp add: pkt_meta_bad_access_1_2_def probe_simps)

lemma pkt_meta_bad_access_2_3_faults [test_ok]: "list_ex (faults pkt_meta_bad_access_2_3) probes"
  by (simp add: pkt_meta_bad_access_2_3_def probe_simps)

lemma corner_case_1_bad_access_14_faults [test_ok]: "list_ex (faults corner_case_1_bad_access_14) probes"
  by (simp add: corner_case_1_bad_access_14_def probe_simps)

lemma pkt_data_bad_access_1_4_faults [test_ok]: "list_ex (faults pkt_data_bad_access_1_4) probes"
  by (simp add: pkt_data_bad_access_1_4_def probe_simps)

lemma pkt_data_bad_access_2_8_faults [test_ok]: "list_ex (faults pkt_data_bad_access_2_8) probes"
  by (simp add: pkt_data_bad_access_2_8_def probe_simps)

lemma corner_case_1_bad_access_15_faults [test_ok]: "list_ex (faults corner_case_1_bad_access_15) probes"
  by (simp add: corner_case_1_bad_access_15_def probe_simps)

lemma corner_case_1_bad_access_16_faults [test_ok]: "list_ex (faults corner_case_1_bad_access_16) probes"
  by (simp add: corner_case_1_bad_access_16_def probe_simps)

lemma pkt_meta_bad_access_2_4_faults [test_ok]: "list_ex (faults pkt_meta_bad_access_2_4) probes"
  by (simp add: pkt_meta_bad_access_2_4_def probe_simps)

lemma pkt_regsafe_class_displacement_faults [test_ok]: "list_ex (faults pkt_regsafe_class_displacement) probes"
  by (simp add: pkt_regsafe_class_displacement_def probe_simps)

lemma end_mangling_safe:
  assumes "pkt_ok p" "8 \<le> data_end p"
  shows "returns (xdp_env h c p) end_mangling_bad_access_2 (xdp_state r c p b w) 0"
proof -
  have "data_end p - 8 < data p + 8 \<or> data p + 8 \<le> data_end p"
    using assms(2) by (auto simp: word_le_nat_alt word_less_nat_alt unat_sub_le)
  then show ?thesis
    using data_access [OF assms(1), of b]
    by (auto simp: end_mangling_bad_access_2_def xdp_simps split: option.splits)
qed

section \<open>Properties\<close>

text \<open>
  C9. Every accepted program is memory safe: on every packet, whatever its length, its metadata and its
  contents are, the program reads only inside of the packet and its metadata, and returns the value of
  its tag.
\<close>

theorem xdp_accepted_safe:
  "pkt_ok p \<Longrightarrow> list_all (meets (xdp_env h c p) (xdp_state r c p b w)) xdp_access_tests"
  by (simp add: xdp_access_tests_def xdp_access_tests_1_def xdp_access_tests_2_def xdp_access_tests_3_def test_ok)

theorem xdp_accepted_safe_witness:
  "pkt_ok (probe 8 64) \<and>
   list_all (meets (xdp_env (\<lambda>f w. (0, \<lambda>r. 0, w)) 0 (probe 8 64)) (xdp_state (\<lambda>r. 0) 0 (probe 8 64) (\<lambda>a. 0) ()))
     xdp_access_tests"
proof -
  have "pkt_ok (probe 8 64)" by (simp add: pkt_ok_def probe_def)
  then show ?thesis using xdp_accepted_safe by simp
qed

text \<open>
  C28. Every program that must be refused reads outside of the packet on one of five probe packets, with
  one exception: \<^verbatim>\<open>end_mangling_bad_access_2\<close>, which moves the end of the packet towards its start, reads only
  inside of the packet unless the end is one of the first eight addresses, where the subtraction wraps.
\<close>

theorem xdp_rejected_faults:
  assumes "pkt_ok p" "8 \<le> data_end p"
  shows "list_all (\<lambda>q. q = end_mangling_bad_access_2 \<or> list_ex (faults q) probes) (rejected xdp_access_tests) \<and>
    returns (xdp_env h c p) end_mangling_bad_access_2 (xdp_state r c p b w) 0"
  using end_mangling_safe [OF assms]
  by (simp add: xdp_access_tests_def xdp_access_tests_1_def xdp_access_tests_2_def xdp_access_tests_3_def rejected_def test_ok)

theorem xdp_rejected_faults_witness:
  "pkt_ok (probe 8 64) \<and> 8 \<le> data_end (probe 8 64) \<and>
   list_all (\<lambda>q. q = end_mangling_bad_access_2 \<or> list_ex (faults q) probes) (rejected xdp_access_tests) \<and>
   returns (xdp_env (\<lambda>f w. (0, \<lambda>r. 0, w)) 0 (probe 8 64)) end_mangling_bad_access_2
     (xdp_state (\<lambda>r. 0) 0 (probe 8 64) (\<lambda>a. 0) ()) 0"
proof -
  have "pkt_ok (probe 8 64)" "8 \<le> data_end (probe 8 64)" by (simp_all add: pkt_ok_def probe_def)
  then show ?thesis
    using xdp_rejected_faults [of "probe 8 64" "\<lambda>f w. (0, \<lambda>r. 0, w)" 0 "\<lambda>r. 0" "\<lambda>a. 0" "()"] by simp
qed

end
