(* ===== verification/Cubic_Root.thy ===== *)
theory Cubic_Root
  imports Bpf_Prelude
begin

text \<open>
  The integer cube root of \<^verbatim>\<open>src/progs/bpf_cubic.rs\<close>: \<^verbatim>\<open>fls64\<close>, the table \<^verbatim>\<open>V\<close> and \<^verbatim>\<open>cubic_root\<close> (a
  table lookup on the six leading bits and one Newton step with the factor 341/1024 for one third).
  Shown here: \<^verbatim>\<open>fls64\<close> is the bit length, the guard \<^verbatim>\<open>shift >= 64\<close> is never taken, nothing wraps, and
  the result is within 0.1 per cent and two units below, and 9.2 per cent above, the real root.
\<close>

section \<open>Definitions\<close>

text \<open>The 64-entry table of scaled cube roots, \<^verbatim>\<open>static V: [u8; 64]\<close>.\<close>

definition V :: "u8 list" where
  "V = [0, 54, 54, 54, 118, 118, 118, 118, 123, 129, 134, 138, 143, 147, 151, 156,
    157, 161, 164, 168, 170, 173, 176, 179, 181, 185, 187, 190, 192, 194, 197, 199,
    200, 202, 204, 206, 209, 211, 213, 215, 217, 219, 221, 222, 224, 225, 227, 229,
    231, 232, 234, 236, 237, 239, 240, 242, 244, 245, 246, 248, 250, 251, 252, 254]"

text \<open>\<^verbatim>\<open>V.get(i).copied().unwrap_or(0)\<close>\<close>

definition V_get :: "nat \<Rightarrow> u8" where
  "V_get i = (if i < length V then V ! i else 0)"

definition safe_div_u64 :: "u64 \<Rightarrow> u64 \<Rightarrow> u64" where
  "safe_div_u64 a b = (if b \<noteq> 0 then a div b else 0)"

text \<open>
  \<^verbatim>\<open>fls64\<close>: the position of the highest set bit, from one. Each step tests the top bits of \<open>x\<close> and
  shifts them in when they are zero.
\<close>

definition fls64_step :: "nat \<Rightarrow> int \<times> u64 \<Rightarrow> int \<times> u64" where
  "fls64_step k s = (case s of (num, x) \<Rightarrow>
     if x AND (push_bit (64 - k) (NOT 0)) = 0 then (num - int k, push_bit k x) else (num, x))"

definition fls64 :: "u64 \<Rightarrow> u32" where
  "fls64 x_in =
     (if x_in = 0 then 0
      else
        let s = (63, x_in);
            s = fls64_step 32 s;
            s = fls64_step 16 s;
            s = fls64_step 8 s;
            s = fls64_step 4 s;
            s = fls64_step 2 s;
            num = (if snd s AND (push_bit 63 (NOT 0)) = 0 then fst s - 1 else fst s)
        in word_of_int (num + 1))"

definition cubic_root :: "u64 \<Rightarrow> u32" where
  "cubic_root a =
     (if a < 64 then drop_bit 6 (ucast (V_get (unat a)) + 35)
      else
        let b0 = fls64 a;
            b = drop_bit 8 (b0 * 84) - 1;
            shift = ucast (drop_bit (unat (b * 3)) a) :: u32
        in if shift \<ge> 64 then 0
           else
             let x = push_bit (unat b) (ucast (V_get (unat shift)) + 10) :: u32;
                 x = drop_bit 6 x;
                 denom = ucast x * ucast (x - 1) :: u64;
                 x = 2 * x + ucast (safe_div_u64 a denom);
                 x = drop_bit 10 (x * 341)
             in x)"

section \<open>\<^verbatim>\<open>fls64\<close> is the bit length\<close>

text \<open>
  After testing the top \<open>k\<close> bits the shifted value is the input times a power of two and has one of
  its top \<open>k\<close> bits set.
\<close>

definition fls_inv :: "u64 \<Rightarrow> nat \<Rightarrow> int \<times> u64 \<Rightarrow> bool" where
  "fls_inv a k s \<longleftrightarrow> (case s of (num, y) \<Rightarrow>
     0 \<le> num \<and> num \<le> 63 \<and> unat y = unat a * 2 ^ nat (63 - num) \<and> 2 ^ k \<le> unat y)"

lemma fls_inv_step:
  assumes inv: "fls_inv a (64 - 2 * k) s" and k: "2 * k \<le> 64"
  shows "fls_inv a (64 - k) (fls64_step k s)"
proof -
  obtain num y where s: "s = (num, y)" by (cases s)
  from inv have num: "0 \<le> num" "num \<le> 63" and y: "unat y = unat a * 2 ^ nat (63 - num)"
    and lo: "2 ^ (64 - 2 * k) \<le> unat y" by (auto simp: fls_inv_def s)
  show ?thesis
  proof (cases "unat y < 2 ^ (64 - k)")
    case True
    have "unat a \<noteq> 0" using lo y by (metis mult_zero_left not_le zero_less_numeral zero_less_power)
    have sh: "unat y * 2 ^ k < 2 ^ 64"
    proof -
      have "unat y * 2 ^ k < 2 ^ (64 - k) * 2 ^ k" using True by (simp del: power_Suc)
      also have "\<dots> = 2 ^ 64" using k by (simp flip: power_add)
      finally show ?thesis .
    qed
    have py: "unat (push_bit k y) = unat y * 2 ^ k"
      using sh by (intro unat_push_bit_lt) simp
    have "(2::nat) ^ nat (63 - num) < 2 ^ (64 - k)"
      using True y \<open>unat a \<noteq> 0\<close> by (metis One_nat_def Suc_leI le_less_trans mult_le_mono1 mult_1 neq0_conv)
    then have "nat (63 - num) < 64 - k" by (simp add: power_strict_increasing_iff)
    then have nk: "int k \<le> num" using k num by linarith
    then have e: "nat (63 - (num - int k)) = nat (63 - num) + k" using num by linarith
    have "(2::nat) ^ (64 - k) = 2 ^ (64 - 2 * k) * 2 ^ k" using k by (simp flip: power_add)
    also have "\<dots> \<le> unat y * 2 ^ k" using lo by simp
    finally have "2 ^ (64 - k) \<le> unat y * 2 ^ k" .
    with True nk num py y e show ?thesis
      by (simp add: fls_inv_def fls64_step_def s and_not_mask_eq_0_iff power_add)
  next
    case False
    with num y show ?thesis
      by (simp add: fls_inv_def fls64_step_def s and_not_mask_eq_0_iff)
  qed
qed


definition fls64_pass :: "u64 \<Rightarrow> int \<times> u64" where
  "fls64_pass a =
     fls64_step 2 (fls64_step 4 (fls64_step 8 (fls64_step 16 (fls64_step 32 (63, a)))))"

lemma fls_inv_pass:
  assumes "a \<noteq> 0"
  shows "fls_inv a 62 (fls64_pass a)"
proof -
  have "fls_inv a 0 (63, a)"
    using assms by (simp add: fls_inv_def Suc_leI unat_gt_0)
  then have "fls_inv a 32 (fls64_step 32 (63, a))"
    using fls_inv_step [of a 32] by simp
  then have "fls_inv a 48 (fls64_step 16 (fls64_step 32 (63, a)))"
    using fls_inv_step [of a 16] by simp
  then have "fls_inv a 56 (fls64_step 8 (fls64_step 16 (fls64_step 32 (63, a))))"
    using fls_inv_step [of a 8] by simp
  then have "fls_inv a 60 (fls64_step 4 (fls64_step 8 (fls64_step 16 (fls64_step 32 (63, a)))))"
    using fls_inv_step [of a 4] by simp
  then show ?thesis
    using fls_inv_step [of a 2] by (simp add: fls64_pass_def)
qed

lemma fls64_exponent:
  assumes "a \<noteq> 0"
  obtains r where "unat (fls64 a) = r + 1" "r \<le> 63"
    "2 ^ 63 \<le> unat a * 2 ^ (63 - r)" "unat a * 2 ^ (63 - r) < 2 ^ 64"
proof -
  obtain num y where sy: "fls64_pass a = (num, y)" by (cases "fls64_pass a")
  from fls_inv_pass [OF assms] have num: "0 \<le> num" "num \<le> 63"
    and y: "unat y = unat a * 2 ^ nat (63 - num)" and lo: "2 ^ 62 \<le> unat y"
    by (auto simp: fls_inv_def sy)
  define r where "r = (if unat y < 2 ^ 63 then nat num - 1 else nat num)"
  have nz: "num \<noteq> 0 \<or> \<not> unat y < 2 ^ 63"
    using y assms by (auto simp: unat_eq_0)
  then have "fls64 a = of_nat (r + 1)"
    using num assms
    by (auto simp: fls64_def Let_def and_not_mask_eq_0_iff r_def sy simp flip: fls64_pass_def)
  moreover have r63: "r \<le> 63" using num by (auto simp: r_def)
  ultimately have fls: "unat (fls64 a) = r + 1"
    by (simp add: unsigned_of_nat take_bit_nat_eq_self del: of_nat_add of_nat_Suc)
  show thesis
  proof (cases "unat y < 2 ^ 63")
    case True
    then have e: "63 - r = nat (63 - num) + 1"
      using nz num by (auto simp: r_def)
    show thesis using True lo by (intro that [OF fls r63]; unfold e) (simp_all add: y)
  next
    case False
    then have e: "63 - r = nat (63 - num)"
      using num by (auto simp: r_def)
    show thesis using False unsigned_less [of y]
      by (intro that [OF fls r63]; unfold e) (simp_all flip: y)
  qed
qed

lemma fls64_bounds:
  assumes "a \<noteq> 0"
  shows "2 ^ (unat (fls64 a) - 1) \<le> unat a \<and> unat a < 2 ^ unat (fls64 a) \<and>
         1 \<le> unat (fls64 a) \<and> unat (fls64 a) \<le> 64"
proof -
  obtain r where fls: "unat (fls64 a) = r + 1" and r: "r \<le> 63"
    and b: "2 ^ 63 \<le> unat a * 2 ^ (63 - r)" "unat a * 2 ^ (63 - r) < 2 ^ 64"
    using fls64_exponent [OF assms] .
  have "2 ^ r * 2 ^ (63 - r) = (2 :: nat) ^ 63" "2 ^ Suc r * 2 ^ (63 - r) = (2 :: nat) ^ 64"
    using r by (simp_all flip: power_add)
  with b have "2 ^ r * 2 ^ (63 - r) \<le> unat a * 2 ^ (63 - r)"
    "unat a * 2 ^ (63 - r) < 2 ^ Suc r * 2 ^ (63 - r)"
    by (simp_all only:)
  then have "2 ^ r \<le> unat a" "unat a < 2 ^ Suc r"
    by simp_all
  with fls r show ?thesis by simp
qed

section \<open>The Newton step on natural numbers\<close>

definition croot_x :: "nat \<Rightarrow> nat \<Rightarrow> nat" where
  "croot_x b s = (unat (V_get s) + 10) * 2 ^ b div 64"

definition croot_r :: "nat \<Rightarrow> nat \<Rightarrow> nat" where
  "croot_r x n = (2 * x + n div (x * (x - 1))) * 341 div 1024"

definition croot_check :: "int \<Rightarrow> int \<Rightarrow> int \<times> int \<Rightarrow> bool" where
  "croot_check p q sv = (case sv of (s, v) \<Rightarrow>
     let x = (v + 10) * p div 64;
         z = 2 * x + ((s + 1) * q - 1) div (x * (x - 1))
     in 4 \<le> x \<and> (s * q < 2 ^ 64 \<longrightarrow> z * 341 < 2 ^ 32) \<and>
        1000000000 * (z * 341 div 1024) ^ 3 \<le> 1302170688 * (s * q))"

definition croot_tab :: "(int \<times> int) list" where
  "croot_tab =
      [(8, 123), (9, 129), (10, 134), (11, 138), (12, 143), (13, 147), (14, 151), (15, 156), (16, 157),
       (17, 161), (18, 164), (19, 168), (20, 170), (21, 173), (22, 176), (23, 179), (24, 181), (25, 185),
       (26, 187), (27, 190), (28, 192), (29, 194), (30, 197), (31, 199), (32, 200), (33, 202), (34, 204),
       (35, 206), (36, 209), (37, 211), (38, 213), (39, 215), (40, 217), (41, 219), (42, 221), (43, 222),
       (44, 224), (45, 225), (46, 227), (47, 229), (48, 231), (49, 232), (50, 234), (51, 236), (52, 237),
       (53, 239), (54, 240), (55, 242), (56, 244), (57, 245), (58, 246), (59, 248), (60, 250), (61, 251),
       (62, 252), (63, 254)]"

lemma croot_table:
  "list_all (\<lambda>b. list_all (croot_check (2 ^ b) (8 ^ b))
      croot_tab) [1..<21]"
  by code_simp

lemma length_V [simp]: "length V = 64"
  by (simp add: V_def)

lemma croot_tab_V: "map (\<lambda>s. (int s, int (unat (V_get s)))) [8..<64] = croot_tab"
proof -
  have "map (\<lambda>s. (int s, int (unat (V_get s)))) [8..<64] =
      zip (map int [8..<64]) (map (\<lambda>v. int (unat v)) (drop 8 V))"
    by (rule nth_equalityI) (simp_all add: V_get_def del: upt_rec_numeral upt_Suc uint_nat)
  also have "\<dots> = croot_tab"
    by (simp add: V_def croot_tab_def)
  finally show ?thesis .
qed

lemma croot_checked:
  assumes "1 \<le> b" "b \<le> 20" "8 \<le> s" "s < 64"
  shows "croot_check (2 ^ b) (8 ^ b) (int s, int (unat (V_get s)))"
proof -
  have "list_all (croot_check (2 ^ b) (8 ^ b)) croot_tab"
    using croot_table assms by (simp add: list_all_iff del: upt_rec_numeral)
  moreover have "(int s, int (unat (V_get s))) \<in> set croot_tab"
    unfolding croot_tab_V [symmetric] set_map set_upt using assms by (intro imageI) simp
  ultimately show ?thesis by (simp add: list_all_iff)
qed

lemma fls_scale:
  assumes "7 \<le> L" "L \<le> 64"
  shows "1 \<le> L * 84 div 256 - 1 \<and> L * 84 div 256 - 1 \<le> 20 \<and>
      3 * (L * 84 div 256 - 1) + 4 \<le> L \<and> L \<le> 3 * (L * 84 div 256 - (1::nat)) + 6"
proof -
  have "list_all (\<lambda>L::int. 2 \<le> L * 84 div 256 \<and> L * 84 div 256 \<le> 21 \<and>
      3 * (L * 84 div 256) + 1 \<le> L \<and> L \<le> 3 * (L * 84 div 256) + 3) [7..64]"
    by code_simp
  then have "2 \<le> int L * 84 div 256 \<and> int L * 84 div 256 \<le> 21 \<and>
      3 * (int L * 84 div 256) + 1 \<le> int L \<and> int L \<le> 3 * (int L * 84 div 256) + 3"
    unfolding list_all_iff set_upto by (rule bspec) (use assms in auto)
  moreover have "int L * 84 div 256 = int (L * 84 div 256)"
    by (simp add: zdiv_int)
  ultimately show ?thesis by linarith
qed

lemma croot_bounds:
  assumes "1 \<le> b" "b \<le> 20" "8 \<le> s" "s < 64" "s * 8 ^ b \<le> n" "n < (s + 1) * 8 ^ b"
  shows "4 \<le> croot_x b s"
    and "n < 2 ^ 64 \<Longrightarrow> (2 * croot_x b s + n div (croot_x b s * (croot_x b s - 1))) * 341 < 2 ^ 32"
    and "1000 ^ 3 * croot_r (croot_x b s) n ^ 3 \<le> 1092 ^ 3 * n"
proof -
  define m x z where "m = (s + 1) * 8 ^ b - 1" and "x = croot_x b s"
    and "z = 2 * x + m div (x * (x - 1))"
  have xi: "(int (unat (V_get s)) + 10) * 2 ^ b div 64 = int x"
    by (simp add: x_def croot_x_def zdiv_int)
  have mi: "(int s + 1) * 8 ^ b - 1 = int m"
    by (simp add: m_def of_nat_diff Suc_le_eq distrib_right)
  note c = croot_checked [OF assms(1-4)]
  from c xi show x4: "4 \<le> croot_x b s"
    by (simp add: croot_check_def Let_def x_def [symmetric])
  then have x1: "int x * (int x - 1) = int (x * (x - 1))"
    by (simp add: x_def)
  have zi: "2 * int x + int m div (int x * (int x - 1)) = int z"
    by (simp only: x1 z_def of_nat_add of_nat_mult zdiv_int of_nat_numeral)
  have c': "(int (s * 8 ^ b) < 2 ^ 64 \<longrightarrow> int z * 341 < 2 ^ 32) \<and>
      1000000000 * (int z * 341 div 1024) ^ 3 \<le> 1302170688 * int (s * 8 ^ b)"
    using c unfolding croot_check_def Let_def prod.case xi mi zi by simp
  have nm: "n \<le> m" using assms(6) by (simp add: m_def)
  then have nz: "2 * x + n div (x * (x - 1)) \<le> z"
    by (simp add: z_def div_le_mono)
  show "(2 * croot_x b s + n div (croot_x b s * (croot_x b s - 1))) * 341 < 2 ^ 32" if "n < 2 ^ 64"
  proof -
    have "int (s * 8 ^ b) < 2 ^ 64" using assms(5) that by (metis le_less_trans of_nat_less_numeral_power_cancel_iff)
    with c' have "z * 341 < 2 ^ 32" by simp
    with nz show ?thesis by (simp add: x_def)
  qed
  have "1000 ^ 3 * (z * 341 div 1024) ^ 3 \<le> 1092 ^ 3 * (s * 8 ^ b)"
  proof -
    have "int (1000 ^ 3 * (z * 341 div 1024) ^ 3) \<le> int (1092 ^ 3 * (s * 8 ^ b))"
      using c' by (simp add: zdiv_int)
    then show ?thesis by (simp only: of_nat_le_iff)
  qed
  moreover have "croot_r (croot_x b s) n \<le> z * 341 div 1024"
    using nz by (simp add: croot_r_def x_def div_le_mono)
  ultimately show "1000 ^ 3 * croot_r (croot_x b s) n ^ 3 \<le> 1092 ^ 3 * n"
    using assms(5)
    by (meson mult_le_mono2 order_trans power_mono zero_le)
qed

lemma am_gm_cube: "27 * x\<^sup>2 * y \<le> (2 * x + y) ^ 3" for x y :: nat
proof -
  have "(2 * int x + int y) ^ 3 - 27 * (int x)\<^sup>2 * int y = (int x - int y)\<^sup>2 * (8 * int x + int y)"
    by (simp add: power2_eq_square power3_eq_cube algebra_simps)
  also have "\<dots> \<ge> 0" by simp
  finally have "27 * (int x)\<^sup>2 * int y \<le> (2 * int x + int y) ^ 3" by simp
  then have "int (27 * x\<^sup>2 * y) \<le> int ((2 * x + y) ^ 3)" by simp
  then show ?thesis by (simp only: of_nat_le_iff)
qed

lemma croot_lower:
  assumes "2 \<le> x"
  shows "1023 ^ 3 * n < 1024 ^ 3 * (croot_r x n + 2) ^ 3"
proof -
  define q r where "q = n div (x * (x - 1))" and "r = croot_r x n"
  have d: "0 < x * (x - 1)" using assms by simp
  have "n < (q + 1) * (x * (x - 1))"
    using dividend_less_times_div [OF d, of n] by (simp add: q_def algebra_simps)
  also have "\<dots> \<le> x\<^sup>2 * (q + 1)"
    unfolding power2_eq_square by (subst mult.commute) (intro mult_le_mono le_refl diff_le_self)
  finally have "27 * n < 27 * x\<^sup>2 * (q + 1)" by simp
  also have "\<dots> \<le> (2 * x + (q + 1)) ^ 3" by (rule am_gm_cube)
  finally have n: "27 * n < (2 * x + q + 1) ^ 3" by (simp add: add.assoc)
  have "(2 * x + q) * 341 < 1024 * (r + 1)"
    by (simp add: r_def croot_r_def q_def)
  then have le: "341 * (2 * x + q + 1) \<le> 1024 * (r + 2)" by simp
  have "1023 ^ 3 * n = 341 ^ 3 * (27 * n)" by simp
  also have "\<dots> < 341 ^ 3 * (2 * x + q + 1) ^ 3" using n by simp
  also have "\<dots> = (341 * (2 * x + q + 1)) ^ 3" by (simp only: power_mult_distrib)
  also have "\<dots> \<le> (1024 * (r + 2)) ^ 3" using le by (rule power_mono) simp
  also have "\<dots> = 1024 ^ 3 * (r + 2) ^ 3" by (simp only: power_mult_distrib)
  finally show ?thesis by (simp add: r_def)
qed

section \<open>The word computation is the Newton step\<close>

text \<open>
  For an argument of \<open>L\<close> bits the program computes \<open>b = L * 84 / 256 - 1\<close>, which is \<open>(L - 4) / 3\<close> for
  every \<open>L\<close> from 7 to 64, so that between four and six leading bits of the argument remain.
\<close>

lemma fls_shift:
  assumes a: "64 \<le> unat a" and b: "b = unat (fls64 a) * 84 div 256 - 1"
  shows "1 \<le> b \<and> b \<le> 20 \<and> 8 * 8 ^ b \<le> unat a \<and> unat a < 64 * 8 ^ b"
proof -
  define L where "L = unat (fls64 a)"
  have "a \<noteq> 0" using a by auto
  note L = fls64_bounds [OF this, folded L_def]
  have "\<not> L \<le> 6"
  proof
    assume "L \<le> 6"
    then have "(2::nat) ^ L \<le> 2 ^ 6" by (intro power_increasing) auto
    with L a show False by simp
  qed
  with L have b: "1 \<le> b" "b \<le> 20" "3 * b + 4 \<le> L" "L \<le> 3 * b + 6"
    using fls_scale [of L] by (auto simp: b simp flip: L_def)
  have p8: "(8::nat) ^ b = 2 ^ (3 * b)" by (simp add: power_mult)
  have "8 * 8 ^ b = (2::nat) ^ (3 * b + 3)" by (simp add: p8 power_add)
  also have "\<dots> \<le> 2 ^ (L - 1)" using b by (intro power_increasing) auto
  finally have lo: "8 * 8 ^ b \<le> unat a" using L by simp
  have "unat a < 2 ^ L" using L by simp
  also have "\<dots> \<le> (2::nat) ^ (3 * b + 6)" using b by (intro power_increasing) auto
  also have "\<dots> = 64 * 8 ^ b" by (simp add: p8 power_add)
  finally show ?thesis using lo b by simp
qed

lemma croot_b_word:
  assumes "64 \<le> unat a" and b: "b = unat (fls64 a) * 84 div 256 - 1"
  shows "unat (drop_bit 8 (fls64 a * 84) - 1) = b"
    and "unat ((drop_bit 8 (fls64 a * 84) - 1) * 3) = 3 * b"
proof -
  have b20: "1 \<le> b \<and> b \<le> 20" using fls_shift [OF assms] by simp
  have "a \<noteq> 0" using assms by auto
  from fls64_bounds [OF this] have "unat (fls64 a * 84) = unat (fls64 a) * 84"
    by (subst unat_mult_lt) simp_all
  then have d: "unat (drop_bit 8 (fls64 a * 84)) = unat (fls64 a) * 84 div 256"
    by (simp add: unat_drop_bit)
  moreover have "1 \<le> unat (fls64 a) * 84 div 256"
    using b20 unfolding b by linarith
  ultimately have "1 \<le> drop_bit 8 (fls64 a * 84)"
    by (simp only: word_le_nat_alt unat_1)
  then show ub: "unat (drop_bit 8 (fls64 a * 84) - 1) = b"
    using d by (simp add: unat_sub_le b)
  show "unat ((drop_bit 8 (fls64 a * 84) - 1) * 3) = 3 * b"
    using b20 ub by (subst unat_mult_lt) simp_all
qed

lemma croot_x_word:
  assumes "b \<le> 20"
  shows "unat (drop_bit 6 (push_bit b (ucast (V_get s) + 10 :: u32))) = croot_x b s"
proof -
  have v: "unat (ucast (V_get s) + 10 :: u32) = unat (V_get s) + 10"
    using unat_u8_lt [of "V_get s"] by (subst unat_add_lt) simp_all
  have "(unat (V_get s) + 10) * 2 ^ b \<le> 266 * 2 ^ 20"
    using unat_u8_lt [of "V_get s"] assms by (intro mult_le_mono power_increasing) simp_all
  then show ?thesis
    by (simp add: unat_drop_bit unat_push_bit_lt v croot_x_def)
qed

lemma croot_r_word:
  fixes X Y :: u32
  assumes X: "unat X = x" "4 \<le> x"
    and z: "(2 * x + unat a div (x * (x - 1))) * 341 < 2 ^ 32"
    and Y: "Y = 2 * X + ucast (safe_div_u64 a (ucast X * ucast (X - 1)))"
  shows "unat (drop_bit 10 (Y * 341)) = croot_r x (unat a)"
proof -
  have X1: "unat (X - 1) = x - 1"
    using X by (subst unat_sub_le) (simp_all add: word_le_nat_alt)
  have "x * (x - 1) < 2 ^ 32 * 2 ^ 32"
    using unat_u32_lt [of X] X by (intro mult_strict_mono) auto
  then have denom: "unat (ucast X * ucast (X - 1) :: u64) = x * (x - 1)"
    by (subst unat_mult_lt) (simp_all add: X X1)
  then have "ucast X * ucast (X - 1) \<noteq> (0 :: u64)"
    using X by (auto simp: unat_eq_0 simp flip: unat_0_iff)
  then have sd: "unat (safe_div_u64 a (ucast X * ucast (X - 1))) = unat a div (x * (x - 1))"
    by (simp add: safe_div_u64_def unat_div denom)
  then have "unat (ucast (safe_div_u64 a (ucast X * ucast (X - 1))) :: u32) =
      unat a div (x * (x - 1))"
    using z by (subst unat_ucast_64_32) simp_all
  moreover have "unat (2 * X) = 2 * x"
    using z by (subst unat_mult_lt) (simp_all add: X)
  ultimately have "unat Y = 2 * x + unat a div (x * (x - 1))"
    using z unfolding Y by (subst unat_add_lt) simp_all
  then show ?thesis
    using z by (simp add: unat_drop_bit unat_mult_lt croot_r_def)
qed

lemma cubic_root_nat:
  assumes "64 \<le> unat a"
  obtains b s where "1 \<le> b" "b \<le> 20" "8 \<le> s" "s < 64"
    "s * 8 ^ b \<le> unat a" "unat a < (s + 1) * 8 ^ b"
    "unat (cubic_root a) = croot_r (croot_x b s) (unat a)"
proof -
  define b where "b = unat (fls64 a) * 84 div 256 - 1"
  define s where "s = unat a div 8 ^ b"
  note ub = croot_b_word [OF assms b_def]
  from fls_shift [OF assms b_def] have b: "1 \<le> b" "b \<le> 20"
    and n: "8 * 8 ^ b \<le> unat a" "unat a < 64 * 8 ^ b" by auto
  from n(1) have s8: "8 \<le> s"
    unfolding s_def by (metis div_le_mono nonzero_mult_div_cancel_right power_not_zero zero_neq_numeral)
  from n(2) have s64: "s < 64"
    unfolding s_def by (simp add: div_less_iff_less_mult)
  have lo: "s * 8 ^ b \<le> unat a" unfolding s_def by simp
  have hi: "unat a < (s + 1) * 8 ^ b"
    unfolding s_def using dividend_less_div_times [of "8 ^ b" "unat a"] by (simp add: algebra_simps)
  have "unat (drop_bit (3 * b) a) = s" by (simp add: unat_drop_bit s_def power_mult)
  then have us: "unat (ucast (drop_bit (3 * b) a) :: u32) = s"
    using s64 by (subst unat_ucast_64_32) simp_all
  define X where "X = drop_bit 6 (push_bit b (ucast (V_get s) + 10 :: u32))"
  have X: "unat X = croot_x b s" unfolding X_def using b(2) by (rule croot_x_word)
  define Y where "Y = 2 * X + ucast (safe_div_u64 a (ucast X * ucast (X - 1)))"
  note cb = croot_bounds [OF b s8 s64 lo hi]
  have "unat (drop_bit 10 (Y * 341)) = croot_r (croot_x b s) (unat a)"
    using croot_r_word [OF X cb(1) _ Y_def] cb(2) unat_u64_lt [of a] by simp
  moreover have "\<not> a < 64" using assms by (simp add: word_less_nat_alt)
  moreover have "\<not> 64 \<le> (ucast (drop_bit (3 * b) a) :: u32)"
    using us s64 by (simp add: word_le_nat_alt)
  ultimately have "unat (cubic_root a) = croot_r (croot_x b s) (unat a)"
    unfolding cubic_root_def Let_def ub us X_def [symmetric] Y_def [symmetric] by simp
  then show thesis using that [of b s] b s8 s64 lo hi by simp
qed

section \<open>Properties\<close>

text \<open>
  C37. \<^verbatim>\<open>fls64\<close> returns the bit length of its argument: for a non-zero \<open>a\<close> the result \<open>L\<close> lies between 1
  and 64 and \<open>2 ^ (L - 1) \<le> a < 2 ^ L\<close>; for zero it is 0.
\<close>

theorem fls64_bit_length:
  "fls64 0 = 0 \<and>
   (a = 0 \<or> 2 ^ (unat (fls64 a) - 1) \<le> unat a \<and> unat a < 2 ^ unat (fls64 a) \<and>
     1 \<le> unat (fls64 a) \<and> unat (fls64 a) \<le> 64)"
  using fls64_bounds [of a] by (cases "a = 0") (simp_all add: fls64_def)

text \<open>
  C14. Accuracy of \<^verbatim>\<open>cubic_root\<close> for every argument from 64 up: the result \<open>r\<close> satisfies
  \<open>1023/1024 * cbrt a - 2 < r \<le> 1.092 * cbrt a\<close>. In particular the fallback \<open>return 0\<close> for
  \<^verbatim>\<open>shift >= 64\<close> is never reached and no intermediate value wraps around.
\<close>

theorem cubic_root_accurate:
  assumes "64 \<le> unat a"
  shows "1023 ^ 3 * unat a < 1024 ^ 3 * (unat (cubic_root a) + 2) ^ 3 \<and>
         1000 ^ 3 * unat (cubic_root a) ^ 3 \<le> 1092 ^ 3 * unat a"
proof -
  obtain b s where r: "1 \<le> b" "b \<le> 20" "8 \<le> s" "s < 64"
    "s * 8 ^ b \<le> unat a" "unat a < (s + 1) * 8 ^ b"
    and root: "unat (cubic_root a) = croot_r (croot_x b s) (unat a)"
    using cubic_root_nat [OF assms] .
  note cb = croot_bounds [OF r]
  have "2 \<le> croot_x b s" using cb(1) by simp
  from croot_lower [OF this] cb(3) show ?thesis unfolding root by blast
qed
theorem cubic_root_accurate_witness:
  "64 \<le> unat (1000 :: u64) \<and>
   1023 ^ 3 * unat (1000 :: u64) < 1024 ^ 3 * (unat (cubic_root 1000) + 2) ^ 3 \<and>
   1000 ^ 3 * unat (cubic_root 1000) ^ 3 \<le> 1092 ^ 3 * unat (1000 :: u64)"
proof -
  have "64 \<le> unat (1000 :: u64)" by simp
  with cubic_root_accurate [OF this] show ?thesis by blast
qed

lemma croot_small_table:
  "list_all (\<lambda>(s, v). ((v + 35) div 64) ^ 3 \<le> 2 * s \<and> s < ((v + 35) div 64 + 1) ^ 3)
     (zip [0..63] (map uint V))"
  by (simp add: V_def upto.simps del: upto_rec_numeral)

text \<open>
  C38. Accuracy of \<^verbatim>\<open>cubic_root\<close> below 64, the table range: \<open>r ^ 3 \<le> 2 * a\<close> and \<open>a < (r + 1) ^ 3\<close>.
\<close>

theorem cubic_root_small:
  assumes "a < 64"
  shows "unat (cubic_root a) ^ 3 \<le> 2 * unat a \<and> unat a < (unat (cubic_root a) + 1) ^ 3"
proof -
  define n v where "n = unat a" and "v = unat (V ! n)"
  have n: "n < 64" using assms by (simp add: n_def word_less_nat_alt)
  have "unat (ucast (V ! n) + 35 :: u32) = v + 35"
    using unat_u8_lt [of "V ! n"] by (subst unat_add_lt) (simp_all add: v_def)
  then have r: "unat (cubic_root a) = (v + 35) div 64"
    using assms n by (simp add: cubic_root_def V_get_def unat_drop_bit flip: n_def)
  have "(int n, int v) \<in> set (zip [0..63] (map uint V))"
    using n by (auto simp: in_set_zip v_def intro!: exI [of _ n])
  with croot_small_table have "((int v + 35) div 64) ^ 3 \<le> 2 * int n \<and>
      int n < ((int v + 35) div 64 + 1) ^ 3"
    unfolding list_all_iff by blast
  moreover have "(int v + 35) div 64 = int ((v + 35) div 64)"
    by (simp add: zdiv_int)
  ultimately have "int (((v + 35) div 64) ^ 3) \<le> int (2 * n) \<and>
      int n < int (((v + 35) div 64 + 1) ^ 3)"
    by (simp add: add.commute)
  then show ?thesis unfolding r n_def [symmetric] by (simp only: of_nat_le_iff of_nat_less_iff)
qed

theorem cubic_root_small_witness:
  "(50 :: u64) < 64 \<and> unat (cubic_root 50) ^ 3 \<le> 2 * unat (50 :: u64) \<and>
   unat (50 :: u64) < (unat (cubic_root 50) + 1) ^ 3"
proof -
  have "(50 :: u64) < 64" by simp
  with cubic_root_small [OF this] show ?thesis by blast
qed

end
