(* ===== verification/Tcp_Cc.thy ===== *)
theory Tcp_Cc
  imports Bpf_Prelude
begin

text \<open>
  The contract between the TCP stack and a congestion control registered through struct-ops
  (\<^verbatim>\<open>struct tcp_congestion_ops\<close>): the stack calls the callbacks in any order, and the slow-start
  threshold it is given is never below two packets. Interpreted by \<^verbatim>\<open>bpf_cubic\<close> and \<^verbatim>\<open>bpf_dctcp\<close>.
\<close>

locale congestion_control =
  fixes inv :: "'s \<Rightarrow> bool"
    and callback :: "'e \<Rightarrow> 's \<Rightarrow> 's"
    and ssthresh :: "'s \<Rightarrow> u32 \<times> 's"
  assumes callback_inv: "inv s \<Longrightarrow> inv (callback e s)"
    and ssthresh_inv: "inv s \<Longrightarrow> inv (snd (ssthresh s))"
    and ssthresh_min: "2 \<le> fst (ssthresh s)"
begin

lemma run_inv: "inv s \<Longrightarrow> inv (fold callback es s)"
  by (induction es arbitrary: s) (simp_all add: callback_inv)

lemma run_ssthresh: "inv s \<Longrightarrow> inv (snd (ssthresh (fold callback es s))) \<and> 2 \<le> fst (ssthresh (fold callback es s))"
  by (simp add: run_inv ssthresh_inv ssthresh_min)

end

end
