(* ===== verification/Bpf_Cubic.thy ===== *)
theory Bpf_Cubic
  imports Cubic_Root Tcp_Cc
begin

text \<open>
  The CUBIC congestion control of \<^verbatim>\<open>src/progs/bpf_cubic.rs\<close>: the private state
  \<^verbatim>\<open>struct BpfBictcp\<close>, the integer cube root, the window update with its TCP-friendliness and HyStart
  parts, and the seven callbacks of the \<^verbatim>\<open>tcp_congestion_ops\<close> instance \<^verbatim>\<open>cubic\<close>.

  The kernel side is a parameter, \<open>'w cubic_kernel\<close>: the clock \<^verbatim>\<open>bpf_jiffies64\<close> (a fresh value at
  every call, so a state transformer on a world \<open>'w\<close>), \<^verbatim>\<open>bpf_setsockopt\<close>, \<^verbatim>\<open>CONFIG_HZ\<close> and the kfuncs
  \<^verbatim>\<open>tcp_slow_start\<close>, \<^verbatim>\<open>tcp_cong_avoid_ai\<close>, \<^verbatim>\<open>tcp_reno_undo_cwnd\<close>. The fields of the kernel socket that
  the program reads or writes are a record.
\<close>

section \<open>Constants\<close>

definition SOL_TCP :: i32 where "SOL_TCP = 6"
definition TCP_NODELAY :: i32 where "TCP_NODELAY = 1"
definition EOPNOTSUPP :: i64 where "EOPNOTSUPP = 95"

definition USEC_PER_MSEC :: u64 where "USEC_PER_MSEC = 1000"
definition USEC_PER_SEC :: u64 where "USEC_PER_SEC = 1000000"

definition BICTCP_BETA_SCALE :: u32 where "BICTCP_BETA_SCALE = 1024"
definition BICTCP_HZ :: nat where "BICTCP_HZ = 10"

definition HYSTART_ACK_TRAIN :: u32 where "HYSTART_ACK_TRAIN = 1"
definition HYSTART_DELAY :: u32 where "HYSTART_DELAY = 2"
definition HYSTART_DETECT :: u32 where "HYSTART_DETECT = HYSTART_ACK_TRAIN OR HYSTART_DELAY"
definition HYSTART_MIN_SAMPLES :: u8 where "HYSTART_MIN_SAMPLES = 8"
definition HYSTART_DELAY_MIN :: u32 where "HYSTART_DELAY_MIN = 4000"
definition HYSTART_DELAY_MAX :: u32 where "HYSTART_DELAY_MAX = 16000"

definition FAST_CONVERGENCE :: i32 where "FAST_CONVERGENCE = 1"
definition BETA :: u32 where "BETA = 717"
definition INITIAL_SSTHRESH :: u32 where "INITIAL_SSTHRESH = 0"
definition BIC_SCALE :: u32 where "BIC_SCALE = 41"
definition TCP_FRIENDLINESS :: i32 where "TCP_FRIENDLINESS = 1"
definition HYSTART :: i32 where "HYSTART = 1"
definition HYSTART_LOW_WINDOW :: u32 where "HYSTART_LOW_WINDOW = 16"
definition HYSTART_ACK_DELTA_US :: i32 where "HYSTART_ACK_DELTA_US = 2000"

definition CUBE_RTT_SCALE :: u64 where "CUBE_RTT_SCALE = ucast BIC_SCALE * 10"
definition BETA_SCALE :: u32 where
  "BETA_SCALE = 8 * (BICTCP_BETA_SCALE + BETA) div 3 div (BICTCP_BETA_SCALE - BETA)"
definition CUBE_FACTOR :: u64 where
  "CUBE_FACTOR = push_bit (10 + 3 * BICTCP_HZ) 1 div (ucast BIC_SCALE * 10)"

definition GSO_MAX_SIZE :: u32 where "GSO_MAX_SIZE = 65536"
definition SK_PACING_NONE :: u32 where "SK_PACING_NONE = 0"
definition TCP_CA_LOSS :: u8 where "TCP_CA_LOSS = 4"

lemmas cubic_consts =
  SOL_TCP_def TCP_NODELAY_def EOPNOTSUPP_def USEC_PER_MSEC_def USEC_PER_SEC_def
  BICTCP_BETA_SCALE_def BICTCP_HZ_def HYSTART_ACK_TRAIN_def HYSTART_DELAY_def HYSTART_DETECT_def
  HYSTART_MIN_SAMPLES_def HYSTART_DELAY_MIN_def HYSTART_DELAY_MAX_def FAST_CONVERGENCE_def BETA_def
  INITIAL_SSTHRESH_def BIC_SCALE_def TCP_FRIENDLINESS_def HYSTART_def HYSTART_LOW_WINDOW_def
  HYSTART_ACK_DELTA_US_def CUBE_RTT_SCALE_def BETA_SCALE_def CUBE_FACTOR_def GSO_MAX_SIZE_def
  SK_PACING_NONE_def TCP_CA_LOSS_def

section \<open>State\<close>

text \<open>\<^verbatim>\<open>struct BpfBictcp\<close>, stored in the socket's \<^verbatim>\<open>icsk_ca_priv\<close>.\<close>

record bictcp =
  cnt :: u32
  last_max_cwnd :: u32
  last_cwnd :: u32
  last_time :: u32
  bic_origin_point :: u32
  bic_k :: u32
  delay_min :: u32
  epoch_start :: u32
  ack_cnt :: u32
  tcp_cwnd :: u32
  unused :: u16
  sample_cnt :: u8
  found :: u8
  round_start :: u32
  end_seq :: u32
  last_ack :: u32
  curr_rtt :: u32

text \<open>
  The views \<^verbatim>\<open>sock\<close>, \<^verbatim>\<open>tcp_sock\<close>, \<^verbatim>\<open>inet_connection_sock\<close> of one kernel socket (they share address 0).
  \<open>tp_flags\<close> is the byte behind \<^verbatim>\<open>scaling_ratio\<close> that holds the bit field \<^verbatim>\<open>is_cwnd_limited\<close>.
\<close>

record cubic_sock =
  tp_snd_cwnd :: u32
  tp_snd_ssthresh :: u32
  tp_lsndtime :: u32
  tp_snd_nxt :: u32
  tp_tcp_mstamp :: u64
  tp_max_packets_out :: u32
  tp_flags :: u8
  sk_pacing_rate :: u64
  sk_pacing_status :: u32
  icsk_ca_priv :: bictcp

text \<open>The socket, the program's three globals and the kernel world.\<close>

record 'w cubic_state =
  sk :: cubic_sock
  nodelay_init_reject :: bool
  nodelay_cwnd_event_tx_start_reject :: bool
  bpf_cubic_acked_called :: i32
  world :: 'w

text \<open>The kernel functions the program calls.\<close>

record 'w cubic_kernel =
  CONFIG_HZ :: u64
  bpf_jiffies64 :: "'w \<Rightarrow> u64 \<times> 'w"
  bpf_setsockopt :: "i32 \<Rightarrow> i32 \<Rightarrow> i32 \<Rightarrow> cubic_sock \<Rightarrow> 'w \<Rightarrow> i64 \<times> cubic_sock \<times> 'w"
  tcp_slow_start :: "u32 \<Rightarrow> cubic_sock \<Rightarrow> 'w \<Rightarrow> u32 \<times> cubic_sock \<times> 'w"
  tcp_cong_avoid_ai :: "u32 \<Rightarrow> u32 \<Rightarrow> cubic_sock \<Rightarrow> 'w \<Rightarrow> cubic_sock \<times> 'w"
  tcp_reno_undo_cwnd :: "cubic_sock \<Rightarrow> u32"

section \<open>Arithmetic helpers\<close>

definition hz :: "'w cubic_kernel \<Rightarrow> u64" where
  "hz K = CONFIG_HZ K"

definition usec_per_jiffy :: "'w cubic_kernel \<Rightarrow> u64" where
  "usec_per_jiffy K = USEC_PER_SEC div hz K"

definition tcp_jiffies32 :: "'w cubic_kernel \<Rightarrow> 'w \<Rightarrow> u32 \<times> 'w" where
  "tcp_jiffies32 K w = (let (j, w') = bpf_jiffies64 K w in (ucast j, w'))"

definition before :: "u32 \<Rightarrow> u32 \<Rightarrow> bool" where
  "before seq1 seq2 = (sint (seq1 - seq2) < 0)"

definition after :: "u32 \<Rightarrow> u32 \<Rightarrow> bool" where
  "after seq2 seq1 = before seq1 seq2"

definition safe_div_u32 :: "u32 \<Rightarrow> u32 \<Rightarrow> u32" where
  "safe_div_u32 a b = (if b \<noteq> 0 then a div b else 0)"

section \<open>Window update\<close>

definition bictcp_reset :: "bictcp \<Rightarrow> bictcp" where
  "bictcp_reset ca = ca\<lparr>cnt := 0, last_max_cwnd := 0, last_cwnd := 0, last_time := 0,
     bic_origin_point := 0, bic_k := 0, delay_min := 0, epoch_start := 0, ack_cnt := 0,
     tcp_cwnd := 0, found := 0\<rparr>"

definition bictcp_clock_us :: "cubic_sock \<Rightarrow> u32" where
  "bictcp_clock_us s = ucast (tp_tcp_mstamp s)"

definition bictcp_hystart_reset :: "cubic_sock \<Rightarrow> cubic_sock" where
  "bictcp_hystart_reset s =
     (let now = bictcp_clock_us s
      in s\<lparr>icsk_ca_priv := (icsk_ca_priv s)\<lparr>round_start := now, last_ack := now,
           end_seq := tp_snd_nxt s, curr_rtt := NOT 0, sample_cnt := 0\<rparr>\<rparr>)"

text \<open>
  \<^verbatim>\<open>bictcp_update\<close> in the order of the source: start of an epoch, target window at time \<open>t\<close>, the
  TCP-friendly correction, then the whole with its two early-out tests.
\<close>

definition bictcp_epoch_init :: "bictcp \<Rightarrow> u32 \<Rightarrow> u32 \<Rightarrow> u32 \<Rightarrow> bictcp" where
  "bictcp_epoch_init ca now cwnd acked =
     (let ca = ca\<lparr>epoch_start := now, ack_cnt := acked, tcp_cwnd := cwnd\<rparr>
      in if last_max_cwnd ca \<le> cwnd
         then ca\<lparr>bic_k := 0, bic_origin_point := cwnd\<rparr>
         else let diff = last_max_cwnd ca - cwnd
              in ca\<lparr>bic_k := cubic_root (CUBE_FACTOR * ucast diff),
                    bic_origin_point := last_max_cwnd ca\<rparr>)"

text \<open>The elapsed time of the epoch in units of \<open>1 / 2 ^ BICTCP_HZ\<close> seconds.\<close>

definition bictcp_elapsed :: "'w cubic_kernel \<Rightarrow> bictcp \<Rightarrow> u32 \<Rightarrow> u64" where
  "bictcp_elapsed K ca now =
     (let t_diff32 = now - epoch_start ca;
          t = (scast t_diff32 :: u64) * usec_per_jiffy K;
          t = t + ucast (delay_min ca);
          t = push_bit BICTCP_HZ t
      in safe_div_u64 t USEC_PER_SEC)"

definition bictcp_target :: "bictcp \<Rightarrow> u64 \<Rightarrow> u32" where
  "bictcp_target ca t =
     (let k = ucast (bic_k ca);
          below_origin = t < k;
          offs = (if below_origin then k - t else t - k);
          delta64 = drop_bit (10 + 3 * BICTCP_HZ) (CUBE_RTT_SCALE * offs * offs * offs);
          delta = ucast delta64
      in if below_origin then bic_origin_point ca - delta else bic_origin_point ca + delta)"

definition bictcp_set_cnt :: "bictcp \<Rightarrow> u32 \<Rightarrow> u32 \<Rightarrow> bictcp" where
  "bictcp_set_cnt ca cwnd bic_target =
     (let ca = (if bic_target > cwnd
                then ca\<lparr>cnt := safe_div_u32 cwnd (bic_target - cwnd)\<rparr>
                else ca\<lparr>cnt := 100 * cwnd\<rparr>)
      in if last_max_cwnd ca = 0 \<and> cnt ca > 20 then ca\<lparr>cnt := 20\<rparr> else ca)"

definition bictcp_friendly :: "bictcp \<Rightarrow> u32 \<Rightarrow> bictcp" where
  "bictcp_friendly ca cwnd =
     (let delta = drop_bit 3 (cwnd * BETA_SCALE);
          ca = (if ack_cnt ca > delta \<and> delta \<noteq> 0
                then let n = safe_div_u32 (ack_cnt ca) delta
                     in ca\<lparr>ack_cnt := ack_cnt ca - n * delta, tcp_cwnd := tcp_cwnd ca + n\<rparr>
                else ca)
      in if tcp_cwnd ca > cwnd
         then let delta = tcp_cwnd ca - cwnd; max_cnt = safe_div_u32 cwnd delta
              in if cnt ca > max_cnt then ca\<lparr>cnt := max_cnt\<rparr> else ca
         else ca)"

definition bictcp_cubic_part :: "'w cubic_kernel \<Rightarrow> bictcp \<Rightarrow> u32 \<Rightarrow> u32 \<Rightarrow> 'w \<Rightarrow> bictcp \<times> 'w" where
  "bictcp_cubic_part K ca cwnd acked w =
     (let ca = ca\<lparr>last_cwnd := cwnd\<rparr>;
          (j, w) = tcp_jiffies32 K w;
          ca = ca\<lparr>last_time := j\<rparr>;
          (ca, w) = (if epoch_start ca = 0
                     then let (j, w) = tcp_jiffies32 K w
                          in (bictcp_epoch_init ca j cwnd acked, w)
                     else (ca, w));
          (j, w) = tcp_jiffies32 K w;
          t = bictcp_elapsed K ca j
      in (bictcp_set_cnt ca cwnd (bictcp_target ca t), w))"

definition bictcp_update :: "'w cubic_kernel \<Rightarrow> bictcp \<Rightarrow> u32 \<Rightarrow> u32 \<Rightarrow> 'w \<Rightarrow> bictcp \<times> 'w" where
  "bictcp_update K ca cwnd acked w =
     (let ca = ca\<lparr>ack_cnt := ack_cnt ca + acked\<rparr>;
          (early, w) = (if last_cwnd ca = cwnd
                        then let (j, w) = tcp_jiffies32 K w
                             in ((scast (j - last_time ca) :: u64) \<le> hz K div 32, w)
                        else (False, w))
      in if early then (ca, w)
         else
           let (skip_cubic, w) = (if epoch_start ca \<noteq> 0
                                  then let (j, w) = tcp_jiffies32 K w in (j = last_time ca, w)
                                  else (False, w));
               (ca, w) = (if skip_cubic then (ca, w) else bictcp_cubic_part K ca cwnd acked w);
               ca = (if TCP_FRIENDLINESS \<noteq> 0 then bictcp_friendly ca cwnd else ca)
           in (ca\<lparr>cnt := max (cnt ca) 2\<rparr>, w))"

definition tcp_in_slow_start :: "cubic_sock \<Rightarrow> bool" where
  "tcp_in_slow_start s = (tp_snd_cwnd s < tp_snd_ssthresh s)"

definition tcp_is_cwnd_limited :: "cubic_sock \<Rightarrow> bool" where
  "tcp_is_cwnd_limited s =
     (if tp_snd_cwnd s < tp_snd_ssthresh s
      then tp_snd_cwnd s < 2 * tp_max_packets_out s
      else tp_flags s AND 8 \<noteq> 0)"

section \<open>HyStart\<close>

definition hystart_ack_delay :: "cubic_sock \<Rightarrow> u32" where
  "hystart_ack_delay s =
     (if sk_pacing_rate s = 0 then 0
      else ucast (min USEC_PER_MSEC
             (safe_div_u64 (ucast GSO_MAX_SIZE * 4 * USEC_PER_SEC) (sk_pacing_rate s))))"

definition hystart_delay_thresh :: "u32 \<Rightarrow> u32" where
  "hystart_delay_thresh x = min (max x HYSTART_DELAY_MIN) HYSTART_DELAY_MAX"

definition hystart_ack_train :: "cubic_sock \<Rightarrow> cubic_sock" where
  "hystart_ack_train s =
     (let now = bictcp_clock_us s; ca = icsk_ca_priv s
      in if sint (now - last_ack ca) \<le> sint HYSTART_ACK_DELTA_US
         then
           let ca = ca\<lparr>last_ack := now\<rparr>;
               threshold = delay_min ca + hystart_ack_delay s;
               threshold = (if sk_pacing_status s = SK_PACING_NONE
                            then drop_bit 1 threshold else threshold)
           in if now - round_start ca > threshold
              then s\<lparr>icsk_ca_priv := ca\<lparr>found := 1\<rparr>, tp_snd_ssthresh := tp_snd_cwnd s\<rparr>
              else s\<lparr>icsk_ca_priv := ca\<rparr>
         else s)"

definition hystart_delay_detect :: "cubic_sock \<Rightarrow> u32 \<Rightarrow> cubic_sock" where
  "hystart_delay_detect s delay =
     (let ca = icsk_ca_priv s;
          ca = (if curr_rtt ca > delay then ca\<lparr>curr_rtt := delay\<rparr> else ca)
      in if sample_cnt ca < HYSTART_MIN_SAMPLES
         then s\<lparr>icsk_ca_priv := ca\<lparr>sample_cnt := sample_cnt ca + 1\<rparr>\<rparr>
         else if curr_rtt ca > delay_min ca + hystart_delay_thresh (drop_bit 3 (delay_min ca))
         then s\<lparr>icsk_ca_priv := ca\<lparr>found := 1\<rparr>, tp_snd_ssthresh := tp_snd_cwnd s\<rparr>
         else s\<lparr>icsk_ca_priv := ca\<rparr>)"

definition hystart_update :: "cubic_sock \<Rightarrow> u32 \<Rightarrow> cubic_sock" where
  "hystart_update s delay =
     (let s = (if HYSTART_DETECT AND HYSTART_ACK_TRAIN \<noteq> 0 then hystart_ack_train s else s)
      in if HYSTART_DETECT AND HYSTART_DELAY \<noteq> 0 then hystart_delay_detect s delay else s)"

section \<open>The struct-ops callbacks\<close>

definition bpf_cubic_init :: "'w cubic_kernel \<Rightarrow> 'w cubic_state \<Rightarrow> 'w cubic_state" where
  "bpf_cubic_init K st =
     (let (ret, s, w) = bpf_setsockopt K SOL_TCP TCP_NODELAY 1 (sk st) (world st);
          st = st\<lparr>world := w\<rparr>;
          st = (if ret = - EOPNOTSUPP then st\<lparr>nodelay_init_reject := True\<rparr> else st);
          s = s\<lparr>icsk_ca_priv := bictcp_reset (icsk_ca_priv s)\<rparr>;
          s = (if HYSTART \<noteq> 0 then bictcp_hystart_reset s else s);
          s = (if HYSTART = 0 \<and> INITIAL_SSTHRESH \<noteq> 0
               then s\<lparr>tp_snd_ssthresh := INITIAL_SSTHRESH\<rparr> else s)
      in st\<lparr>sk := s\<rparr>)"

definition bpf_cubic_cwnd_event_tx_start ::
    "'w cubic_kernel \<Rightarrow> 'w cubic_state \<Rightarrow> 'w cubic_state" where
  "bpf_cubic_cwnd_event_tx_start K st =
     (let (now, w) = tcp_jiffies32 K (world st);
          (ret, s, w) = bpf_setsockopt K SOL_TCP TCP_NODELAY 1 (sk st) w;
          st = st\<lparr>world := w\<rparr>;
          st = (if ret = - EOPNOTSUPP
                then st\<lparr>nodelay_cwnd_event_tx_start_reject := True\<rparr> else st);
          ca = icsk_ca_priv s;
          delta = now - tp_lsndtime s;
          ca = (if epoch_start ca \<noteq> 0 \<and> sint delta > 0
                then
                  let ca = ca\<lparr>epoch_start := epoch_start ca + delta\<rparr>
                  in if after (epoch_start ca) now then ca\<lparr>epoch_start := now\<rparr> else ca
                else ca)
      in st\<lparr>sk := s\<lparr>icsk_ca_priv := ca\<rparr>\<rparr>)"

definition bpf_cubic_cong_avoid ::
    "'w cubic_kernel \<Rightarrow> u32 \<Rightarrow> u32 \<Rightarrow> 'w cubic_state \<Rightarrow> 'w cubic_state" where
  "bpf_cubic_cong_avoid K ack acked st =
     (if \<not> tcp_is_cwnd_limited (sk st) then st
      else
        let (acked, s, w) =
              (if tcp_in_slow_start (sk st)
               then
                 let s = (if HYSTART \<noteq> 0 \<and> after ack (end_seq (icsk_ca_priv (sk st)))
                          then bictcp_hystart_reset (sk st) else sk st)
                 in tcp_slow_start K acked s (world st)
               else (acked, sk st, world st))
        in if tcp_in_slow_start (sk st) \<and> acked = 0 then st\<lparr>sk := s, world := w\<rparr>
           else
             let (ca, w) = bictcp_update K (icsk_ca_priv s) (tp_snd_cwnd s) acked w;
                 s = s\<lparr>icsk_ca_priv := ca\<rparr>;
                 (s, w) = tcp_cong_avoid_ai K (cnt ca) acked s w
             in st\<lparr>sk := s, world := w\<rparr>)"

definition bpf_cubic_recalc_ssthresh :: "'w cubic_state \<Rightarrow> u32 \<times> 'w cubic_state" where
  "bpf_cubic_recalc_ssthresh st =
     (let s = sk st;
          snd_cwnd = tp_snd_cwnd s;
          ca = (icsk_ca_priv s)\<lparr>epoch_start := 0\<rparr>;
          ca = (if snd_cwnd < last_max_cwnd ca \<and> FAST_CONVERGENCE \<noteq> 0
                then ca\<lparr>last_max_cwnd :=
                       (snd_cwnd * (BICTCP_BETA_SCALE + BETA)) div (2 * BICTCP_BETA_SCALE)\<rparr>
                else ca\<lparr>last_max_cwnd := snd_cwnd\<rparr>)
      in (max ((snd_cwnd * BETA) div BICTCP_BETA_SCALE) 2, st\<lparr>sk := s\<lparr>icsk_ca_priv := ca\<rparr>\<rparr>))"

definition bpf_cubic_state :: "u8 \<Rightarrow> 'w cubic_state \<Rightarrow> 'w cubic_state" where
  "bpf_cubic_state new_state st =
     (if new_state = TCP_CA_LOSS
      then let s = (sk st)\<lparr>icsk_ca_priv := bictcp_reset (icsk_ca_priv (sk st))\<rparr>
           in st\<lparr>sk := bictcp_hystart_reset s\<rparr>
      else st)"

definition bpf_cubic_acked ::
    "'w cubic_kernel \<Rightarrow> i32 \<Rightarrow> 'w cubic_state \<Rightarrow> 'w cubic_state" where
  "bpf_cubic_acked K rtt_us st =
     (let st = st\<lparr>bpf_cubic_acked_called := 1\<rparr>
      in if sint rtt_us < 0 then st
         else
           let ca = icsk_ca_priv (sk st);
               (recent, w) = (if epoch_start ca \<noteq> 0
                              then let (j, w) = tcp_jiffies32 K (world st)
                                   in ((scast (j - epoch_start ca) :: u64) < hz K, w)
                              else (False, world st));
               st = st\<lparr>world := w\<rparr>
           in if recent then st
              else
                let delay = (if rtt_us = 0 then 1 else rtt_us);
                    ca = (if delay_min ca = 0 \<or> delay_min ca > delay
                          then ca\<lparr>delay_min := delay\<rparr> else ca);
                    s = (sk st)\<lparr>icsk_ca_priv := ca\<rparr>;
                    s = (if found ca = 0 \<and> tp_snd_cwnd s < tp_snd_ssthresh s \<and> HYSTART \<noteq> 0 \<and>
                            tp_snd_cwnd s \<ge> HYSTART_LOW_WINDOW
                         then hystart_update s delay else s)
                in st\<lparr>sk := s\<rparr>)"

definition bpf_cubic_undo_cwnd :: "'w cubic_kernel \<Rightarrow> 'w cubic_state \<Rightarrow> u32" where
  "bpf_cubic_undo_cwnd K st = tcp_reno_undo_cwnd K (sk st)"

lemma cubic_numerals:
  "CUBE_RTT_SCALE = 410" "BETA_SCALE = 15" "CUBE_FACTOR = 2681735677"
  by (simp_all add: cubic_consts push_bit_eq_mult)

section \<open>Window growth\<close>

text \<open>The distance of the target from the plateau after \<open>d\<close> time units, \<open>C * d ^ 3\<close> in fixed point.\<close>

definition growth :: "nat \<Rightarrow> nat" where
  "growth d = 410 * d ^ 3 div 2 ^ 40"


lemma cube_word:
  assumes "410 * unat d ^ 3 < 2 ^ 64"
  shows "unat (drop_bit (10 + 3 * BICTCP_HZ) (CUBE_RTT_SCALE * d * d * d)) = growth (unat d)"
proof (cases "d = 0")
  case True
  then show ?thesis by (simp add: growth_def)
next
  case False
  then have d1: "1 \<le> unat d" by (simp add: Suc_leI unat_gt_0)
  have c: "410 * unat d * unat d * unat d < 2 ^ 64"
    using assms by (simp add: power3_eq_cube mult.assoc)
  have b2: "410 * unat d * unat d < 2 ^ 64"
    by (rule le_less_trans [OF _ c]) (use d1 in simp)
  have b1: "410 * unat d < 2 ^ 64"
    by (rule le_less_trans [OF _ b2]) (use d1 in simp)
  have u1: "unat (CUBE_RTT_SCALE * d) = 410 * unat d"
    using b1 by (subst unat_mult_lt) (simp_all add: cubic_numerals)
  have u2: "unat (CUBE_RTT_SCALE * d * d) = 410 * unat d * unat d"
    using b2 by (subst unat_mult_lt) (simp_all add: u1)
  have "unat (CUBE_RTT_SCALE * d * d * d) = 410 * unat d * unat d * unat d"
    using c by (subst unat_mult_u64) (simp_all only: u2)
  then have u3: "unat (CUBE_RTT_SCALE * d * d * d) = 410 * unat d ^ 3"
    by (simp only: power3_eq_cube mult.assoc)
  show ?thesis by (simp add: unat_drop_bit u3 growth_def BICTCP_HZ_def)
qed

lemma bictcp_target_below:
  assumes "unat t < unat (bic_k ca)" "410 * (unat (bic_k ca) - unat t) ^ 3 < 2 ^ 64"
    "growth (unat (bic_k ca) - unat t) \<le> unat (bic_origin_point ca)"
  shows "unat (bictcp_target ca t) = unat (bic_origin_point ca) - growth (unat (bic_k ca) - unat t)"
proof -
  have lt: "t < ucast (bic_k ca)" using assms(1) by (simp add: word_less_nat_alt)
  then have "unat (ucast (bic_k ca) - t) = unat (bic_k ca) - unat t"
    by (simp add: unat_sub_le)
  note c = cube_word [of "ucast (bic_k ca) - t", unfolded this, OF assms(2)]
  have "growth (unat (bic_k ca) - unat t) < 2 ^ 32"
    using assms(3) unat_u32_lt [of "bic_origin_point ca"] by simp
  then have u: "unat (ucast (drop_bit (10 + 3 * BICTCP_HZ)
      (CUBE_RTT_SCALE * (ucast (bic_k ca) - t) * (ucast (bic_k ca) - t) * (ucast (bic_k ca) - t))) :: u32)
      = growth (unat (bic_k ca) - unat t)"
    using c by (subst unat_ucast_64_32) simp_all
  then show ?thesis using lt assms(3)
    unfolding bictcp_target_def Let_def by (simp add: unat_sub_le word_le_nat_alt)
qed

lemma bictcp_target_above:
  assumes "unat (bic_k ca) \<le> unat t" "410 * (unat t - unat (bic_k ca)) ^ 3 < 2 ^ 64"
    "unat (bic_origin_point ca) + growth (unat t - unat (bic_k ca)) < 2 ^ 32"
  shows "unat (bictcp_target ca t) = unat (bic_origin_point ca) + growth (unat t - unat (bic_k ca))"
proof -
  have le: "ucast (bic_k ca) \<le> t" using assms(1) by (simp add: word_le_nat_alt)
  then have nl: "\<not> t < ucast (bic_k ca)" by (simp add: not_less)
  then have "unat (t - ucast (bic_k ca)) = unat t - unat (bic_k ca)"
    by (simp add: unat_sub_le)
  note c = cube_word [of "t - ucast (bic_k ca)", unfolded this, OF assms(2)]
  have u: "unat (ucast (drop_bit (10 + 3 * BICTCP_HZ)
      (CUBE_RTT_SCALE * (t - ucast (bic_k ca)) * (t - ucast (bic_k ca)) * (t - ucast (bic_k ca)))) :: u32)
      = growth (unat t - unat (bic_k ca))"
    using c assms(3) by (subst unat_ucast_64_32) simp_all
  then show ?thesis using nl assms(3)
    unfolding bictcp_target_def Let_def by (simp add: unat_add_lt)
qed

lemma bictcp_epoch_init_fields:
  "epoch_start (bictcp_epoch_init ca now cwnd acked) = now"
  "ack_cnt (bictcp_epoch_init ca now cwnd acked) = acked"
  "tcp_cwnd (bictcp_epoch_init ca now cwnd acked) = cwnd"
  "last_max_cwnd (bictcp_epoch_init ca now cwnd acked) = last_max_cwnd ca"
  "cnt (bictcp_epoch_init ca now cwnd acked) = cnt ca"
  "found (bictcp_epoch_init ca now cwnd acked) = found ca"
  "sample_cnt (bictcp_epoch_init ca now cwnd acked) = sample_cnt ca"
  "delay_min (bictcp_epoch_init ca now cwnd acked) = delay_min ca"
  by (simp_all add: bictcp_epoch_init_def Let_def)



section \<open>The TCP-friendly part\<close>

lemma friendly_acks:
  assumes "delta = drop_bit 3 (cwnd * 15)"
  shows "ack_cnt (bictcp_friendly ca cwnd) =
           (if ack_cnt ca > delta \<and> delta \<noteq> 0 then ack_cnt ca mod delta else ack_cnt ca)"
    and "tcp_cwnd (bictcp_friendly ca cwnd) =
           (if ack_cnt ca > delta \<and> delta \<noteq> 0 then tcp_cwnd ca + ack_cnt ca div delta else tcp_cwnd ca)"
  by (cases "ack_cnt ca > delta"; cases "delta = 0";
      simp add: bictcp_friendly_def Let_def cubic_numerals safe_div_u32_def minus_div_mult_eq_mod
        flip: assms)+

lemma friendly_cnt:
  assumes "tcp_cwnd (bictcp_friendly ca cwnd) > cwnd"
  shows "cnt (bictcp_friendly ca cwnd) \<le> cwnd div (tcp_cwnd (bictcp_friendly ca cwnd) - cwnd)"
  using assms
  by (auto simp: bictcp_friendly_def Let_def safe_div_u32_def not_less split: if_splits)

lemma friendly_frame:
  "found (bictcp_friendly ca cwnd) = found ca"
  "sample_cnt (bictcp_friendly ca cwnd) = sample_cnt ca"
  "delay_min (bictcp_friendly ca cwnd) = delay_min ca"
  "last_max_cwnd (bictcp_friendly ca cwnd) = last_max_cwnd ca"
  by (simp_all add: bictcp_friendly_def Let_def)

lemma set_cnt_frame:
  "found (bictcp_set_cnt ca cwnd t) = found ca"
  "sample_cnt (bictcp_set_cnt ca cwnd t) = sample_cnt ca"
  "delay_min (bictcp_set_cnt ca cwnd t) = delay_min ca"
  "last_max_cwnd (bictcp_set_cnt ca cwnd t) = last_max_cwnd ca"
  by (simp_all add: bictcp_set_cnt_def Let_def)

definition bictcp_recent :: "'w cubic_kernel \<Rightarrow> bictcp \<Rightarrow> u32 \<Rightarrow> 'w \<Rightarrow> bool" where
  "bictcp_recent K ca cwnd w \<longleftrightarrow> last_cwnd ca = cwnd \<and>
     (scast (fst (tcp_jiffies32 K w) - last_time ca) :: u64) \<le> hz K div 32"

lemma bictcp_update_recent:
  assumes "bictcp_recent K ca cwnd w"
  shows "fst (bictcp_update K ca cwnd acked w) = ca\<lparr>ack_cnt := ack_cnt ca + acked\<rparr>"
  using assms
  by (auto simp: bictcp_recent_def bictcp_update_def Let_def split: prod.splits)

lemma cubic_part_frame:
  assumes "bictcp_cubic_part K ca cwnd acked w = (ca', w')"
  shows "found ca' = found ca \<and> sample_cnt ca' = sample_cnt ca \<and> delay_min ca' = delay_min ca \<and>
    last_max_cwnd ca' = last_max_cwnd ca"
  using assms
  by (auto simp: bictcp_cubic_part_def Let_def set_cnt_frame bictcp_epoch_init_fields
      split: prod.splits if_splits)

lemma bictcp_update_full:
  assumes "\<not> bictcp_recent K ca cwnd w"
  obtains ca1 where "fst (bictcp_update K ca cwnd acked w) =
      (bictcp_friendly ca1 cwnd)\<lparr>cnt := max (cnt (bictcp_friendly ca1 cwnd)) 2\<rparr>"
    and "found ca1 = found ca \<and> sample_cnt ca1 = sample_cnt ca \<and> delay_min ca1 = delay_min ca \<and>
      last_max_cwnd ca1 = last_max_cwnd ca"
proof -
  define ca0 where "ca0 = ca\<lparr>ack_cnt := ack_cnt ca + acked\<rparr>"
  have f0: "found ca0 = found ca \<and> sample_cnt ca0 = sample_cnt ca \<and> delay_min ca0 = delay_min ca \<and>
      last_max_cwnd ca0 = last_max_cwnd ca" by (simp add: ca0_def)
  obtain j w' where j: "tcp_jiffies32 K w = (j, w')" by fastforce
  define w0 where "w0 = (if last_cwnd ca = cwnd then w' else w)"
  obtain j2 w2 where j2: "tcp_jiffies32 K w0 = (j2, w2)" by fastforce
  define skip w1 where "skip = (epoch_start ca \<noteq> 0 \<and> j2 = last_time ca)"
    and "w1 = (if epoch_start ca \<noteq> 0 then w2 else w0)"
  have u: "bictcp_update K ca cwnd acked w =
     (let (ca, w) = (if skip then (ca0, w1) else bictcp_cubic_part K ca0 cwnd acked w1);
          ca = bictcp_friendly ca cwnd
      in (ca\<lparr>cnt := max (cnt ca) 2\<rparr>, w))"
    using assms j j2
    by (cases "last_cwnd ca = cwnd"; cases "epoch_start ca = 0")
      (simp_all add: bictcp_recent_def bictcp_update_def TCP_FRIENDLINESS_def skip_def w1_def w0_def ca0_def)
  obtain ca1 w2 where c: "(if skip then (ca0, w1) else bictcp_cubic_part K ca0 cwnd acked w1) = (ca1, w2)"
    by fastforce
  then have "found ca1 = found ca \<and> sample_cnt ca1 = sample_cnt ca \<and> delay_min ca1 = delay_min ca \<and>
      last_max_cwnd ca1 = last_max_cwnd ca"
    using f0 cubic_part_frame [of K ca0 cwnd acked w1 ca1 w2] by (cases skip) simp_all
  then show thesis using that [of ca1] unfolding u c by (simp add: Let_def)
qed


lemma bictcp_update_cnt:
  assumes "\<not> bictcp_recent K ca cwnd w"
  shows "2 \<le> cnt (fst (bictcp_update K ca cwnd acked w))"
proof -
  from assms obtain ca1 where "fst (bictcp_update K ca cwnd acked w) =
      (bictcp_friendly ca1 cwnd)\<lparr>cnt := max (cnt (bictcp_friendly ca1 cwnd)) 2\<rparr>"
    using bictcp_update_full by metis
  then show ?thesis by simp
qed


section \<open>Round-trip samples and HyStart\<close>

lemma inc_le_8: "(x :: u8) < 8 \<Longrightarrow> x + 1 \<le> 8"
  by unat_arith

lemma ack_train_frame:
  "tp_snd_cwnd (hystart_ack_train s) = tp_snd_cwnd s"
  "delay_min (icsk_ca_priv (hystart_ack_train s)) = delay_min (icsk_ca_priv s)"
  "cnt (icsk_ca_priv (hystart_ack_train s)) = cnt (icsk_ca_priv s)"
  "last_cwnd (icsk_ca_priv (hystart_ack_train s)) = last_cwnd (icsk_ca_priv s)"
  "sample_cnt (icsk_ca_priv (hystart_ack_train s)) = sample_cnt (icsk_ca_priv s)"
  by (simp_all add: hystart_ack_train_def Let_def)

lemma ack_train_found:
  "tp_snd_ssthresh (hystart_ack_train s) = tp_snd_ssthresh s \<and>
     found (icsk_ca_priv (hystart_ack_train s)) = found (icsk_ca_priv s) \<or>
   found (icsk_ca_priv (hystart_ack_train s)) = 1 \<and>
     tp_snd_ssthresh (hystart_ack_train s) = tp_snd_cwnd s"
  by (simp add: hystart_ack_train_def Let_def)

lemma delay_detect_frame:
  "tp_snd_cwnd (hystart_delay_detect s d) = tp_snd_cwnd s"
  "delay_min (icsk_ca_priv (hystart_delay_detect s d)) = delay_min (icsk_ca_priv s)"
  "cnt (icsk_ca_priv (hystart_delay_detect s d)) = cnt (icsk_ca_priv s)"
  "last_cwnd (icsk_ca_priv (hystart_delay_detect s d)) = last_cwnd (icsk_ca_priv s)"
  by (simp_all add: hystart_delay_detect_def Let_def)

lemma delay_detect_samples:
  "sample_cnt (icsk_ca_priv s) \<le> 8 \<Longrightarrow> sample_cnt (icsk_ca_priv (hystart_delay_detect s d)) \<le> 8"
  by (simp add: hystart_delay_detect_def Let_def HYSTART_MIN_SAMPLES_def inc_le_8)

lemma delay_detect_found:
  "tp_snd_ssthresh (hystart_delay_detect s d) = tp_snd_ssthresh s \<and>
     found (icsk_ca_priv (hystart_delay_detect s d)) = found (icsk_ca_priv s) \<or>
   found (icsk_ca_priv (hystart_delay_detect s d)) = 1 \<and>
     tp_snd_ssthresh (hystart_delay_detect s d) = tp_snd_cwnd s"
  by (simp add: hystart_delay_detect_def Let_def)

lemma hystart_update_eq: "hystart_update s d = hystart_delay_detect (hystart_ack_train s) d"
  by (simp add: hystart_update_def cubic_consts)

lemmas hystart_frame = ack_train_frame delay_detect_frame delay_detect_samples hystart_update_eq

lemma hystart_update_found:
  "tp_snd_ssthresh (hystart_update s d) = tp_snd_ssthresh s \<and>
     found (icsk_ca_priv (hystart_update s d)) = found (icsk_ca_priv s) \<or>
   found (icsk_ca_priv (hystart_update s d)) = 1 \<and> tp_snd_ssthresh (hystart_update s d) = tp_snd_cwnd s"
  using ack_train_found [of s] delay_detect_found [of "hystart_ack_train s" d]
  by (auto simp: hystart_frame)

definition acked_recent :: "'w cubic_kernel \<Rightarrow> 'w cubic_state \<Rightarrow> bool" where
  "acked_recent K st \<longleftrightarrow> epoch_start (icsk_ca_priv (sk st)) \<noteq> 0 \<and>
     (scast (fst (tcp_jiffies32 K (world st)) - epoch_start (icsk_ca_priv (sk st))) :: u64) < hz K"

lemma bpf_cubic_acked_ignored:
  assumes "sint rtt < 0 \<or> acked_recent K st"
  shows "sk (bpf_cubic_acked K rtt st) = sk st"
proof -
  obtain j w where j: "tcp_jiffies32 K (world st) = (j, w)" by fastforce
  show ?thesis
    using assms unfolding acked_recent_def bpf_cubic_acked_def
    by (cases "sint rtt < 0") (simp_all add: j)
qed

lemma bpf_cubic_acked_taken:
  assumes "\<not> (sint rtt < 0 \<or> acked_recent K st)"
    and d: "d = (if rtt = 0 then 1 else rtt)" and ca: "ca = icsk_ca_priv (sk st)"
    and s: "s = (sk st)\<lparr>icsk_ca_priv := ca\<lparr>delay_min :=
      (if delay_min ca = 0 \<or> delay_min ca > d then d else delay_min ca)\<rparr>\<rparr>"
  shows "sk (bpf_cubic_acked K rtt st) =
    (if found ca = 0 \<and> tp_snd_cwnd (sk st) < tp_snd_ssthresh (sk st) \<and> 16 \<le> tp_snd_cwnd (sk st)
     then hystart_update s d else s)"
proof -
  obtain j w where j: "tcp_jiffies32 K (world st) = (j, w)" by fastforce
  show ?thesis
    using assms(1) unfolding acked_recent_def s d ca
    by (cases "epoch_start (icsk_ca_priv (sk st)) = 0")
      (simp_all add: bpf_cubic_acked_def Let_def j HYSTART_def HYSTART_LOW_WINDOW_def)
qed

section \<open>Invariant over all callback sequences\<close>

datatype cubic_event = Init | TxStart | CongAvoid u32 u32 | Ssthresh | SetState u8 | PktsAcked i32

fun cubic_callback :: "'w cubic_kernel \<Rightarrow> cubic_event \<Rightarrow> 'w cubic_state \<Rightarrow> 'w cubic_state" where
  "cubic_callback K Init st = bpf_cubic_init K st"
| "cubic_callback K TxStart st = bpf_cubic_cwnd_event_tx_start K st"
| "cubic_callback K (CongAvoid ack acked) st = bpf_cubic_cong_avoid K ack acked st"
| "cubic_callback K Ssthresh st = snd (bpf_cubic_recalc_ssthresh st)"
| "cubic_callback K (SetState new_state) st = bpf_cubic_state new_state st"
| "cubic_callback K (PktsAcked rtt_us) st = bpf_cubic_acked K rtt_us st"

definition ca_inv :: "bictcp \<Rightarrow> bool" where
  "ca_inv ca \<longleftrightarrow> (if cnt ca = 0 then last_cwnd ca = 0 else 2 \<le> cnt ca) \<and> found ca \<le> 1 \<and> sample_cnt ca \<le> 8"

definition cubic_kernel_ok :: "'w cubic_kernel \<Rightarrow> bool" where
  "cubic_kernel_ok K \<longleftrightarrow>
     (\<forall>l n v s w. icsk_ca_priv (fst (snd (bpf_setsockopt K l n v s w))) = icsk_ca_priv s) \<and>
     (\<forall>a s w. icsk_ca_priv (fst (snd (tcp_slow_start K a s w))) = icsk_ca_priv s) \<and>
     (\<forall>c a s w. icsk_ca_priv (fst (tcp_cong_avoid_ai K c a s w)) = icsk_ca_priv s)"

lemma ca_inv_reset: "ca_inv (bictcp_reset ca) \<longleftrightarrow> sample_cnt ca \<le> 8"
  by (simp add: ca_inv_def bictcp_reset_def)

lemma ca_inv_hystart_reset:
  "ca_inv (icsk_ca_priv s) \<Longrightarrow> ca_inv (icsk_ca_priv (bictcp_hystart_reset s))"
  by (simp add: ca_inv_def bictcp_hystart_reset_def Let_def)

lemma ca_inv_reset_hystart:
  "ca_inv (icsk_ca_priv (bictcp_hystart_reset (s\<lparr>icsk_ca_priv := bictcp_reset ca\<rparr>)))"
  by (simp add: ca_inv_def bictcp_hystart_reset_def bictcp_reset_def Let_def)

lemma ca_inv_update:
  assumes "ca_inv ca"
  shows "ca_inv (fst (bictcp_update K ca cwnd acked w))"
proof (cases "bictcp_recent K ca cwnd w")
  case True
  with assms show ?thesis by (simp add: bictcp_update_recent ca_inv_def)
next
  case False
  then obtain ca1 where u: "fst (bictcp_update K ca cwnd acked w) =
      (bictcp_friendly ca1 cwnd)\<lparr>cnt := max (cnt (bictcp_friendly ca1 cwnd)) 2\<rparr>"
    and f: "found ca1 = found ca \<and> sample_cnt ca1 = sample_cnt ca \<and> delay_min ca1 = delay_min ca \<and>
      last_max_cwnd ca1 = last_max_cwnd ca"
    using bictcp_update_full by metis
  have "2 \<le> max (cnt (bictcp_friendly ca1 cwnd)) 2" by simp
  then have "max (cnt (bictcp_friendly ca1 cwnd)) 2 \<noteq> 0" by (rule contrapos_pn) simp
  with assms f show ?thesis by (simp add: u ca_inv_def friendly_frame)
qed

lemma ca_inv_cwnd:
  assumes "ca_inv ca" "cwnd \<noteq> 0"
  shows "2 \<le> cnt (fst (bictcp_update K ca cwnd acked w))"
proof (cases "bictcp_recent K ca cwnd w")
  case True
  with assms show ?thesis by (auto simp: bictcp_update_recent ca_inv_def bictcp_recent_def split: if_splits)
next
  case False
  then show ?thesis by (rule bictcp_update_cnt)
qed

lemma ca_inv_init:
  assumes "cubic_kernel_ok K" "ca_inv (icsk_ca_priv (sk st))"
  shows "ca_inv (icsk_ca_priv (sk (bpf_cubic_init K st)))"
proof -
  obtain ret s w where o: "bpf_setsockopt K SOL_TCP TCP_NODELAY 1 (sk st) (world st) = (ret, s, w)"
    by (metis prod_cases3)
  show ?thesis
    by (simp add: bpf_cubic_init_def Let_def o HYSTART_def ca_inv_reset_hystart)
qed

lemma ca_inv_tx_start:
  assumes "cubic_kernel_ok K" "ca_inv (icsk_ca_priv (sk st))"
  shows "ca_inv (icsk_ca_priv (sk (bpf_cubic_cwnd_event_tx_start K st)))"
proof -
  obtain now w where j: "tcp_jiffies32 K (world st) = (now, w)" by fastforce
  obtain ret s w2 where o: "bpf_setsockopt K SOL_TCP TCP_NODELAY 1 (sk st) w = (ret, s, w2)"
    by (metis prod_cases3)
  have "icsk_ca_priv s = icsk_ca_priv (sk st)"
    using assms(1) o unfolding cubic_kernel_ok_def by (metis fst_conv snd_conv)
  with assms(2) have "ca_inv (icsk_ca_priv s)" by simp
  then show ?thesis
    by (simp add: bpf_cubic_cwnd_event_tx_start_def j o Let_def ca_inv_def)
qed

lemma ca_inv_cong_avoid:
  assumes "cubic_kernel_ok K" "ca_inv (icsk_ca_priv (sk st))"
  shows "ca_inv (icsk_ca_priv (sk (bpf_cubic_cong_avoid K ack acked st)))"
proof (cases "tcp_is_cwnd_limited (sk st)")
  case False
  then show ?thesis using assms by (simp add: bpf_cubic_cong_avoid_def)
next
  case True
  define s0 where "s0 = (if after ack (end_seq (icsk_ca_priv (sk st)))
                          then bictcp_hystart_reset (sk st) else sk st)"
  obtain acked' s w where t: "(if tcp_in_slow_start (sk st)
      then tcp_slow_start K acked s0 (world st) else (acked, sk st, world st)) = (acked', s, w)"
    by (metis prod_cases3)
  have s: "ca_inv (icsk_ca_priv s)"
  proof (cases "tcp_in_slow_start (sk st)")
    case True
    then have "icsk_ca_priv s = icsk_ca_priv s0"
      using assms(1) t unfolding cubic_kernel_ok_def by (metis fst_conv snd_conv)
    then show ?thesis using assms(2) by (simp add: s0_def ca_inv_hystart_reset)
  qed (use assms(2) t in simp)
  obtain ca w2 where u: "bictcp_update K (icsk_ca_priv s) (tp_snd_cwnd s) acked' w = (ca, w2)"
    by fastforce
  have ca: "ca_inv ca" using ca_inv_update [OF s, of K "tp_snd_cwnd s" acked' w] by (simp add: u)
  obtain s2 w3 where a: "tcp_cong_avoid_ai K (cnt ca) acked' (s\<lparr>icsk_ca_priv := ca\<rparr>) w2 = (s2, w3)"
    by fastforce
  then have "icsk_ca_priv s2 = ca"
    using assms(1) unfolding cubic_kernel_ok_def by (metis fst_conv cubic_sock.select_convs(10) cubic_sock.surjective cubic_sock.update_convs(10))
  moreover have hs: "(HYSTART \<noteq> 0) = True" by (simp add: HYSTART_def)
  ultimately show ?thesis
    using True s ca
    unfolding bpf_cubic_cong_avoid_def Let_def hs simp_thms s0_def [symmetric] t prod.case u a by simp
qed

lemma ca_inv_ssthresh:
  "ca_inv (icsk_ca_priv (sk st)) \<Longrightarrow> ca_inv (icsk_ca_priv (sk (snd (bpf_cubic_recalc_ssthresh st))))"
  by (simp add: bpf_cubic_recalc_ssthresh_def Let_def ca_inv_def)

lemma ca_inv_state:
  "ca_inv (icsk_ca_priv (sk st)) \<Longrightarrow> ca_inv (icsk_ca_priv (sk (bpf_cubic_state n st)))"
  by (simp add: bpf_cubic_state_def Let_def ca_inv_reset_hystart)

lemma ca_inv_hystart_update:
  "ca_inv (icsk_ca_priv s) \<Longrightarrow> ca_inv (icsk_ca_priv (hystart_update s d))"
  using hystart_update_found [of s d] by (auto simp: ca_inv_def hystart_frame)

lemma ca_inv_acked:
  assumes "ca_inv (icsk_ca_priv (sk st))"
  shows "ca_inv (icsk_ca_priv (sk (bpf_cubic_acked K rtt st)))"
proof (cases "sint rtt < 0 \<or> acked_recent K st")
  case True
  then show ?thesis using assms by (simp add: bpf_cubic_acked_ignored)
next
  case False
  define s where "s = (sk st)\<lparr>icsk_ca_priv := (icsk_ca_priv (sk st))\<lparr>delay_min :=
      (if delay_min (icsk_ca_priv (sk st)) = 0 \<or> delay_min (icsk_ca_priv (sk st)) > (if rtt = 0 then 1 else rtt)
       then (if rtt = 0 then 1 else rtt) else delay_min (icsk_ca_priv (sk st)))\<rparr>\<rparr>"
  have "ca_inv (icsk_ca_priv s)" using assms by (simp add: s_def ca_inv_def)
  then show ?thesis
    using bpf_cubic_acked_taken [OF False refl refl s_def] ca_inv_hystart_update by simp
qed

lemma ssthresh_ge_2: "2 \<le> fst (bpf_cubic_recalc_ssthresh st)"
  by (simp add: bpf_cubic_recalc_ssthresh_def Let_def)

interpretation cubic_cc: congestion_control
  "\<lambda>st. cubic_kernel_ok K \<longrightarrow> ca_inv (icsk_ca_priv (sk st))" "cubic_callback K" bpf_cubic_recalc_ssthresh
  for K :: "'w cubic_kernel"
proof (unfold_locales, goal_cases)
  case (1 st e)
  then show ?case
    by (cases e) (simp_all add: ca_inv_init ca_inv_tx_start ca_inv_cong_avoid ca_inv_ssthresh ca_inv_state
      ca_inv_acked)
next
  case (2 st)
  then show ?case by (simp add: ca_inv_ssthresh)
next
  case (3 st)
  show ?case by (rule ssthresh_ge_2)
qed

section \<open>Properties\<close>

text \<open>A kernel for the witnesses: the clock ticks once per read, and the socket is left alone.\<close>

definition tick_kernel :: "u64 cubic_kernel" where
  "tick_kernel = \<lparr>CONFIG_HZ = 1000, bpf_jiffies64 = (\<lambda>w. (w, w + 1)),
     bpf_setsockopt = (\<lambda>l n v s w. (- EOPNOTSUPP, s, w)), tcp_slow_start = (\<lambda>a s w. (a, s, w)),
     tcp_cong_avoid_ai = (\<lambda>c a s w. (s, w)), tcp_reno_undo_cwnd = (\<lambda>s. tp_snd_cwnd s)\<rparr>"

definition fresh_ca :: bictcp where
  "fresh_ca = \<lparr>cnt = 0, last_max_cwnd = 0, last_cwnd = 0, last_time = 0, bic_origin_point = 0,
     bic_k = 0, delay_min = 0, epoch_start = 0, ack_cnt = 0, tcp_cwnd = 0, unused = 0,
     sample_cnt = 0, found = 0, round_start = 0, end_seq = 0, last_ack = 0, curr_rtt = 0\<rparr>"


definition sample_state :: "u64 cubic_state" where
  "sample_state = \<lparr>sk = \<lparr>tp_snd_cwnd = 100, tp_snd_ssthresh = 80, tp_lsndtime = 400,
     tp_snd_nxt = 0, tp_tcp_mstamp = 0, tp_max_packets_out = 100, tp_flags = 8, sk_pacing_rate = 0,
     sk_pacing_status = 0, icsk_ca_priv = fresh_ca\<lparr>last_max_cwnd := 120, epoch_start := 7\<rparr>\<rparr>,
     nodelay_init_reject = False, nodelay_cwnd_event_tx_start_reject = False,
     bpf_cubic_acked_called = 0, world = 500\<rparr>"

lemmas cubic_witness = tick_kernel_def fresh_ca_def sample_state_def tcp_jiffies32_def

lemma tick_kernel_ok: "cubic_kernel_ok tick_kernel"
  by (simp add: cubic_kernel_ok_def tick_kernel_def)



text \<open>
  C16. The whole growth curve of \<^verbatim>\<open>bictcp_update\<close>: as long as the cube and the sum fit their words, the
  target at time \<open>t\<close> is the plateau less \<open>C * (K - t) ^ 3\<close> before \<open>K\<close> and the plateau plus
  \<open>C * (t - K) ^ 3\<close> from \<open>K\<close> on.
\<close>

theorem bictcp_target_curve:
  assumes "410 * (unat (bic_k ca) - unat t) ^ 3 < 2 ^ 64" "410 * (unat t - unat (bic_k ca)) ^ 3 < 2 ^ 64"
    and "growth (unat (bic_k ca) - unat t) \<le> unat (bic_origin_point ca)"
    and "unat (bic_origin_point ca) + growth (unat t - unat (bic_k ca)) < 2 ^ 32"
  shows "unat (bictcp_target ca t) =
    (if unat t < unat (bic_k ca) then unat (bic_origin_point ca) - growth (unat (bic_k ca) - unat t)
     else unat (bic_origin_point ca) + growth (unat t - unat (bic_k ca)))"
  using assms by (simp add: bictcp_target_below bictcp_target_above)

theorem bictcp_target_curve_witness:
  "unat (bictcp_target (fresh_ca\<lparr>bic_k := 3000, bic_origin_point := 100\<rparr>) 1000) =
    unat (100 :: u32) - growth (unat (3000 :: u32) - unat (1000 :: u64))"
  using bictcp_target_curve [of "fresh_ca\<lparr>bic_k := 3000, bic_origin_point := 100\<rparr>" 1000]
  by (simp add: fresh_ca_def growth_def)

text \<open>
  C17. Pacing of \<^verbatim>\<open>bictcp_update\<close>: within 1/32 second of the last update at an unchanged window only the
  acknowledgement counter moves; otherwise the new \<^verbatim>\<open>cnt\<close> is at least 2, and where the estimated Reno
  window is larger than the current one, \<^verbatim>\<open>cnt\<close> is at most \<open>cwnd / (tcp_cwnd - cwnd)\<close> (or 2), so that
  the flow grows no slower than Reno.
\<close>

theorem bictcp_update_pacing:
  "if bictcp_recent K ca cwnd w
   then fst (bictcp_update K ca cwnd acked w) = ca\<lparr>ack_cnt := ack_cnt ca + acked\<rparr>
   else 2 \<le> cnt (fst (bictcp_update K ca cwnd acked w)) \<and>
     (tcp_cwnd (fst (bictcp_update K ca cwnd acked w)) \<le> cwnd \<or>
      cnt (fst (bictcp_update K ca cwnd acked w)) \<le>
        max 2 (cwnd div (tcp_cwnd (fst (bictcp_update K ca cwnd acked w)) - cwnd)))"
proof (cases "bictcp_recent K ca cwnd w")
  case True
  then show ?thesis by (simp add: bictcp_update_recent)
next
  case False
  then obtain ca1 where u: "fst (bictcp_update K ca cwnd acked w) =
      (bictcp_friendly ca1 cwnd)\<lparr>cnt := max (cnt (bictcp_friendly ca1 cwnd)) 2\<rparr>"
    using bictcp_update_full by metis
  have "max a 2 \<le> max 2 q" if "a \<le> q" for a q :: u32
    using max.mono [OF that order_refl, of 2] by (simp add: max.commute)
  then show ?thesis
    using False friendly_cnt [of cwnd ca1] by (cases "tcp_cwnd (bictcp_friendly ca1 cwnd) \<le> cwnd") (simp_all add: u not_le)
qed

text \<open>
  C36. Reno accounting in \<^verbatim>\<open>bictcp_update\<close>: with \<open>delta = cwnd * 15 / 8\<close>, more than \<open>delta\<close> counted
  acknowledgements are turned into one extra Reno window per \<open>delta\<close> and the remainder is kept; nothing
  is lost: \<open>ack_cnt\<close> before is \<open>delta\<close> times the windows added plus \<open>ack_cnt\<close> after.
\<close>

theorem friendly_conserves_acks:
  assumes "delta = drop_bit 3 (cwnd * 15)" "ca' = bictcp_friendly ca cwnd"
  shows "ack_cnt ca = (tcp_cwnd ca' - tcp_cwnd ca) * delta + ack_cnt ca' \<and>
    (delta = 0 \<or> ack_cnt ca' \<le> delta)"
proof (cases "ack_cnt ca > delta \<and> delta \<noteq> 0")
  case True
  then have "ack_cnt ca mod delta < delta" by (simp add: word_mod_less_divisor word_neq_0_conv)
  with True show ?thesis
    by (simp add: assms(2) friendly_acks [OF assms(1)] div_mult_mod_eq order_less_imp_le)
next
  case False
  then show ?thesis by (auto simp: assms(2) friendly_acks [OF assms(1)] not_less)
qed

theorem friendly_conserves_acks_witness:
  "ack_cnt (fresh_ca\<lparr>ack_cnt := 50\<rparr>) =
     (tcp_cwnd (bictcp_friendly (fresh_ca\<lparr>ack_cnt := 50\<rparr>) 8) - tcp_cwnd (fresh_ca\<lparr>ack_cnt := 50\<rparr>)) * 15 +
     ack_cnt (bictcp_friendly (fresh_ca\<lparr>ack_cnt := 50\<rparr>) 8) \<and>
   ((15 :: u32) = 0 \<or> ack_cnt (bictcp_friendly (fresh_ca\<lparr>ack_cnt := 50\<rparr>) 8) \<le> 15)"
  using friendly_conserves_acks [of 15 8 _ "fresh_ca\<lparr>ack_cnt := 50\<rparr>", OF _ refl] by simp

text \<open>
  C32. Multiplicative decrease: for windows below 2466955 packets \<^verbatim>\<open>bpf_cubic_recalc_ssthresh\<close> returns
  \<open>717/1024\<close> of the window (at least 2), ends the epoch, and remembers as last maximum the window, or
  \<open>1741/2048\<close> of it when the window had not reached the previous maximum (fast convergence).
\<close>

theorem bpf_cubic_recalc_ssthresh_decrease:
  assumes "unat (tp_snd_cwnd (sk st)) < 2466955"
  shows "unat (fst (bpf_cubic_recalc_ssthresh st)) = max 2 (717 * unat (tp_snd_cwnd (sk st)) div 1024) \<and>
    (let ca = icsk_ca_priv (sk st); ca' = icsk_ca_priv (sk (snd (bpf_cubic_recalc_ssthresh st)))
     in epoch_start ca' = 0 \<and>
        unat (last_max_cwnd ca') =
          (if tp_snd_cwnd (sk st) < last_max_cwnd ca
           then 1741 * unat (tp_snd_cwnd (sk st)) div 2048 else unat (tp_snd_cwnd (sk st))))"
proof -
  define c where "c = tp_snd_cwnd (sk st)"
  have c: "unat c < 2466955" using assms by (simp add: c_def)
  have m: "unat (c * 717) = unat c * 717" "unat (c * 1741) = unat c * 1741"
    using c by (simp_all add: unat_mult_u32)
  have "unat (max (c * BETA div BICTCP_BETA_SCALE) 2) = max 2 (717 * unat c div 1024)"
    by (simp add: unat_lims cubic_consts unat_div m max.commute mult.commute)
  moreover have "unat (c * (BICTCP_BETA_SCALE + BETA) div (2 * BICTCP_BETA_SCALE)) = 1741 * unat c div 2048"
    by (simp add: cubic_consts unat_div m mult.commute)
  ultimately show ?thesis
    by (simp add: bpf_cubic_recalc_ssthresh_def Let_def FAST_CONVERGENCE_def flip: c_def)
qed

theorem bpf_cubic_recalc_ssthresh_decrease_witness:
  "unat (fst (bpf_cubic_recalc_ssthresh sample_state)) = max 2 (717 * unat (100 :: u32) div 1024)"
  using bpf_cubic_recalc_ssthresh_decrease [of sample_state] by (simp add: sample_state_def)



text \<open>
  C34. Round-trip samples (\<^verbatim>\<open>bpf_cubic_acked\<close>): a valid sample outside the first second of an epoch updates
  \<^verbatim>\<open>delay_min\<close> to the minimum of the samples (a zero sample counts as 1), and when HyStart declares the
  end of slow start (\<^verbatim>\<open>found\<close> becomes set) the socket has left slow start.
\<close>

theorem bpf_cubic_acked_sample:
  assumes taken: "\<not> (sint rtt < 0 \<or> acked_recent K st)"
    and ca: "ca = icsk_ca_priv (sk st)"
    and s': "s' = sk (bpf_cubic_acked K rtt st)"
  shows "unat (delay_min (icsk_ca_priv s')) =
      (if delay_min ca = 0 then max 1 (unat rtt) else min (unat (delay_min ca)) (max 1 (unat rtt))) \<and>
    (found ca \<noteq> 0 \<or> found (icsk_ca_priv s') = 0 \<or> \<not> tcp_in_slow_start s')"
proof -
  define d where "d = (if rtt = 0 then 1 else rtt)"
  have ud: "unat d = max 1 (unat rtt)"
    by (auto simp: d_def max_def unat_eq_0 simp flip: unat_gt_0)
  define s where "s = (sk st)\<lparr>icsk_ca_priv := ca\<lparr>delay_min :=
      (if delay_min ca = 0 \<or> delay_min ca > d then d else delay_min ca)\<rparr>\<rparr>"
  have e: "s' = (if found ca = 0 \<and> tp_snd_cwnd (sk st) < tp_snd_ssthresh (sk st) \<and> 16 \<le> tp_snd_cwnd (sk st)
      then hystart_update s d else s)"
    unfolding s' using taken d_def ca s_def by (rule bpf_cubic_acked_taken)
  have "delay_min (icsk_ca_priv s') = delay_min (icsk_ca_priv s)"
    unfolding e by (simp add: hystart_frame)
  then have "unat (delay_min (icsk_ca_priv s')) =
      (if delay_min ca = 0 then max 1 (unat rtt) else min (unat (delay_min ca)) (max 1 (unat rtt)))"
    unfolding ud [symmetric] by (simp add: s_def min_def word_less_nat_alt)
  moreover have "found ca \<noteq> 0 \<or> found (icsk_ca_priv s') = 0 \<or> \<not> tcp_in_slow_start s'"
    using hystart_update_found [of s d] unfolding e tcp_in_slow_start_def
    by (auto simp: hystart_frame s_def)
  ultimately show ?thesis by blast
qed

theorem bpf_cubic_acked_sample_witness:
  "unat (delay_min (icsk_ca_priv (sk (bpf_cubic_acked tick_kernel 30 (sample_state\<lparr>world := 5000\<rparr>))))) =
    max 1 (unat (30 :: u32))"
proof -
  have "\<not> (sint (30 :: i32) < 0 \<or> acked_recent tick_kernel (sample_state\<lparr>world := 5000\<rparr>))"
    by (simp add: acked_recent_def cubic_witness hz_def)
  from bpf_cubic_acked_sample [OF this refl refl] show ?thesis
    by (simp add: sample_state_def fresh_ca_def)
qed

text \<open>
  C13. \<^verbatim>\<open>bpf_cubic_cong_avoid\<close> never hands a divisor below 2 to the kernel's \<^verbatim>\<open>tcp_cong_avoid_ai\<close>: whatever
  callbacks ran before, the \<^verbatim>\<open>cnt\<close> that \<^verbatim>\<open>bictcp_update\<close> leaves for a non-zero window is at least 2, also
  when it returns early with the old value. Assumed: the kernel functions leave the private area alone.
\<close>

theorem cubic_never_zero_count:
  assumes "cubic_kernel_ok K" "ca_inv (icsk_ca_priv (sk st))" "cwnd \<noteq> 0"
    and "ca = icsk_ca_priv (sk (fold (cubic_callback K) es st))"
  shows "2 \<le> cnt (fst (bictcp_update K ca cwnd acked w))"
  using assms cubic_cc.run_inv [of K st es] by (auto intro: ca_inv_cwnd)

theorem cubic_never_zero_count_witness:
  "2 \<le> cnt (fst (bictcp_update tick_kernel
     (icsk_ca_priv (sk (fold (cubic_callback tick_kernel) [Init, CongAvoid 1 1, TxStart] sample_state))) 100 1 600))"
  by (rule cubic_never_zero_count [OF tick_kernel_ok _ _ refl])
    (simp_all add: ca_inv_def sample_state_def fresh_ca_def)

end
