(* ===== verification/Bpf_Dctcp.thy ===== *)
theory Bpf_Dctcp
  imports Tcp_Cc
begin

text \<open>
  The DCTCP congestion control of \<^verbatim>\<open>src/progs/bpf_dctcp.rs\<close>: the congestion estimate
  \<^verbatim>\<open>dctcp_alpha\<close> (a moving average of the fraction of marked packets, scaled by 1024), the window
  reduction it drives, and the receiver's state machine that echoes congestion marks.

  The kernel is a parameter, \<open>'w dctcp_kernel\<close>. \<^verbatim>\<open>bpf_setsockopt\<close> may re-enter the program (switching
  the congestion control back to \<^verbatim>\<open>bpf_dctcp\<close> runs \<^verbatim>\<open>bpf_dctcp_init\<close> again), so it acts on the whole
  state, globals included.
\<close>

section \<open>Constants\<close>

definition EBUSY :: i64 where "EBUSY = 16"
definition SOL_TCP :: i32 where "SOL_TCP = 6"
definition TCP_CONGESTION :: i32 where "TCP_CONGESTION = 13"
definition TCP_CA_NAME_MAX :: nat where "TCP_CA_NAME_MAX = 16"
definition TCP_ECN_OK :: u8 where "TCP_ECN_OK = 1"
definition TCP_ECN_DEMAND_CWR :: u8 where "TCP_ECN_DEMAND_CWR = 4"
definition TCP_CA_Recovery :: u8 where "TCP_CA_Recovery = 3"
definition CA_EVENT_LOSS :: u32 where "CA_EVENT_LOSS = 3"
definition CA_EVENT_ECN_NO_CE :: u32 where "CA_EVENT_ECN_NO_CE = 4"
definition CA_EVENT_ECN_IS_CE :: u32 where "CA_EVENT_ECN_IS_CE = 5"
definition ICSK_ACK_TIMER :: u8 where "ICSK_ACK_TIMER = 2"
definition ICSK_ACK_NOW :: u8 where "ICSK_ACK_NOW = 16"
definition DCTCP_MAX_ALPHA :: u32 where "DCTCP_MAX_ALPHA = 1024"
definition DCTCP_SHIFT_G :: nat where "DCTCP_SHIFT_G = 4"
definition DCTCP_ALPHA_ON_INIT :: u32 where "DCTCP_ALPHA_ON_INIT = DCTCP_MAX_ALPHA"

text \<open>The names in \<^verbatim>\<open>.rodata\<close>: \<^verbatim>\<open>b"bpf_dctcp\0"\<close> and \<^verbatim>\<open>b"cdg\0"\<close>.\<close>

definition bpf_dctcp_name :: "u8 list" where
  "bpf_dctcp_name = [98, 112, 102, 95, 100, 99, 116, 99, 112, 0]"
definition tcp_cdg :: "u8 list" where "tcp_cdg = [99, 100, 103, 0]"

lemmas dctcp_consts =
  EBUSY_def SOL_TCP_def TCP_CONGESTION_def TCP_CA_NAME_MAX_def TCP_ECN_OK_def
  TCP_ECN_DEMAND_CWR_def TCP_CA_Recovery_def CA_EVENT_LOSS_def CA_EVENT_ECN_NO_CE_def
  CA_EVENT_ECN_IS_CE_def ICSK_ACK_TIMER_def ICSK_ACK_NOW_def DCTCP_MAX_ALPHA_def
  DCTCP_SHIFT_G_def DCTCP_ALPHA_ON_INIT_def

section \<open>State\<close>

text \<open>\<^verbatim>\<open>struct bpf_dctcp\<close>, in the socket's private area.\<close>

record bpf_dctcp =
  old_delivered :: u32
  old_delivered_ce :: u32
  prior_rcv_nxt :: u32
  dctcp_alpha :: u32
  next_seq :: u32
  ce_state :: u32
  loss_cwnd :: u32

text \<open>
  The socket fields the program uses; \<open>ca_state_byte\<close> is the byte before \<^verbatim>\<open>icsk_retransmits\<close>, whose
  five low bits are \<^verbatim>\<open>icsk_ca_state\<close>, and \<open>ack_pending\<close> is \<^verbatim>\<open>icsk_ack.pending\<close>.
\<close>

record dctcp_sock =
  snd_cwnd :: u32
  snd_ssthresh :: u32
  delivered :: u32
  delivered_ce :: u32
  ecn_flags :: u8
  rcv_nxt :: u32
  snd_nxt :: u32
  snd_una :: u32
  ca_state_byte :: u8
  ack_pending :: u8
  ca_priv :: bpf_dctcp

text \<open>
  The socket, its entry in \<^verbatim>\<open>sk_stg_map\<close>, the program's globals, the configured \<^verbatim>\<open>fallback_cc\<close> and the
  kernel world.
\<close>

record 'w dctcp_state =
  sk :: dctcp_sock
  sk_stg :: "i32 option"
  fallback_cc :: "u8 list"
  cc_res :: "u8 list"
  tcp_cdg_res :: i32
  stg_result :: i32
  ebusy_cnt :: i32
  world :: 'w

record 'w dctcp_kernel =
  bpf_setsockopt :: "i32 \<Rightarrow> i32 \<Rightarrow> u8 list \<Rightarrow> 'w dctcp_state \<Rightarrow> i64 \<times> 'w dctcp_state"
  bpf_getsockopt :: "i32 \<Rightarrow> i32 \<Rightarrow> nat \<Rightarrow> 'w dctcp_state \<Rightarrow> u8 list \<times> 'w dctcp_state"
  bpf_tcp_send_ack :: "u32 \<Rightarrow> dctcp_sock \<Rightarrow> 'w \<Rightarrow> dctcp_sock \<times> 'w"
  tcp_reno_cong_avoid :: "u32 \<Rightarrow> u32 \<Rightarrow> dctcp_sock \<Rightarrow> 'w \<Rightarrow> dctcp_sock \<times> 'w"

section \<open>Helpers\<close>

definition icsk_ca_state :: "dctcp_sock \<Rightarrow> u8" where
  "icsk_ca_state s = ca_state_byte s AND 31"

definition before :: "u32 \<Rightarrow> u32 \<Rightarrow> bool" where
  "before seq1 seq2 = (sint (seq1 - seq2) < 0)"

definition dctcp_reset :: "dctcp_sock \<Rightarrow> dctcp_sock" where
  "dctcp_reset s = s\<lparr>ca_priv := (ca_priv s)\<lparr>next_seq := snd_nxt s, old_delivered := delivered s,
     old_delivered_ce := delivered_ce s\<rparr>\<rparr>"

section \<open>The struct-ops callbacks\<close>

text \<open>One attempt to switch the congestion control, counting \<^verbatim>\<open>-EBUSY\<close>.\<close>

definition try_switch :: "'w dctcp_kernel \<Rightarrow> u8 list \<Rightarrow> 'w dctcp_state \<Rightarrow> 'w dctcp_state" where
  "try_switch K name st =
     (let (ret, st) = bpf_setsockopt K SOL_TCP TCP_CONGESTION name st
      in if ret = - EBUSY then st\<lparr>ebusy_cnt := ebusy_cnt st + 1\<rparr> else st)"

definition bpf_dctcp_init :: "'w dctcp_kernel \<Rightarrow> 'w dctcp_state \<Rightarrow> 'w dctcp_state" where
  "bpf_dctcp_init K st =
     (if ecn_flags (sk st) AND TCP_ECN_OK = 0 \<and> fallback_cc st ! 0 \<noteq> 0
      then
        let st = try_switch K (fallback_cc st) st;
            st = try_switch K bpf_dctcp_name st;
            st = try_switch K (fallback_cc st) st;
            (ret, st) = bpf_setsockopt K SOL_TCP TCP_CONGESTION tcp_cdg st;
            st = st\<lparr>tcp_cdg_res := ucast ret\<rparr>;
            (bytes, st) = bpf_getsockopt K SOL_TCP TCP_CONGESTION TCP_CA_NAME_MAX st
        in st\<lparr>cc_res := bytes\<rparr>
      else
        let s = sk st;
            s = s\<lparr>ca_priv := (ca_priv s)\<lparr>prior_rcv_nxt := rcv_nxt s,
                  dctcp_alpha := min DCTCP_ALPHA_ON_INIT DCTCP_MAX_ALPHA, loss_cwnd := 0,
                  ce_state := 0\<rparr>\<rparr>;
            st = (case sk_stg st of None \<Rightarrow> st
                  | Some v \<Rightarrow> st\<lparr>stg_result := v, sk_stg := None\<rparr>)
        in st\<lparr>sk := dctcp_reset s\<rparr>)"

definition bpf_dctcp_ssthresh :: "'w dctcp_state \<Rightarrow> u32 \<times> 'w dctcp_state" where
  "bpf_dctcp_ssthresh st =
     (let s = sk st; ca = (ca_priv s)\<lparr>loss_cwnd := snd_cwnd s\<rparr>
      in (max (snd_cwnd s - drop_bit 11 (snd_cwnd s * dctcp_alpha ca)) 2,
          st\<lparr>sk := s\<lparr>ca_priv := ca\<rparr>\<rparr>))"

text \<open>\<^verbatim>\<open>min_not_zero(alpha, alpha >> DCTCP_SHIFT_G)\<close>\<close>

definition min_not_zero :: "u32 \<Rightarrow> u32 \<Rightarrow> u32" where
  "min_not_zero x y = (if x = 0 then y else if y = 0 then x else min x y)"

definition bpf_dctcp_update_alpha :: "'w dctcp_state \<Rightarrow> 'w dctcp_state" where
  "bpf_dctcp_update_alpha st =
     (let s = sk st; ca = ca_priv s
      in if \<not> before (snd_una s) (next_seq ca)
         then
           let d_ce = delivered_ce s - old_delivered_ce ca;
               alpha = dctcp_alpha ca;
               alpha = alpha - min_not_zero alpha (drop_bit DCTCP_SHIFT_G alpha);
               alpha = (if d_ce \<noteq> 0
                        then
                          let d = delivered s - old_delivered ca;
                              d_ce = push_bit (10 - DCTCP_SHIFT_G) d_ce;
                              d_ce = d_ce div (max 1 d)
                          in min (alpha + d_ce) DCTCP_MAX_ALPHA
                        else alpha)
           in st\<lparr>sk := dctcp_reset (s\<lparr>ca_priv := ca\<lparr>dctcp_alpha := alpha\<rparr>\<rparr>)\<rparr>
         else st)"

definition dctcp_react_to_loss :: "dctcp_sock \<Rightarrow> dctcp_sock" where
  "dctcp_react_to_loss s =
     s\<lparr>ca_priv := (ca_priv s)\<lparr>loss_cwnd := snd_cwnd s\<rparr>,
       snd_ssthresh := max (drop_bit 1 (snd_cwnd s)) 2\<rparr>"

definition bpf_dctcp_state :: "u8 \<Rightarrow> 'w dctcp_state \<Rightarrow> 'w dctcp_state" where
  "bpf_dctcp_state new_state st =
     (if new_state = TCP_CA_Recovery \<and> new_state \<noteq> icsk_ca_state (sk st)
      then st\<lparr>sk := dctcp_react_to_loss (sk st)\<rparr> else st)"

definition dctcp_ece_ack_cwr :: "dctcp_sock \<Rightarrow> u32 \<Rightarrow> dctcp_sock" where
  "dctcp_ece_ack_cwr s ce =
     (if ce = 1 then s\<lparr>ecn_flags := ecn_flags s OR TCP_ECN_DEMAND_CWR\<rparr>
      else s\<lparr>ecn_flags := ecn_flags s AND NOT TCP_ECN_DEMAND_CWR\<rparr>)"

definition dctcp_ece_ack_update ::
    "'w dctcp_kernel \<Rightarrow> u32 \<Rightarrow> dctcp_sock \<Rightarrow> 'w \<Rightarrow> dctcp_sock \<times> 'w" where
  "dctcp_ece_ack_update K evt s w =
     (let new_ce_state = (if evt = CA_EVENT_ECN_IS_CE then 1 else 0);
          (s, w) =
            (if ce_state (ca_priv s) \<noteq> new_ce_state
             then
               let (s, w) = (if ack_pending s AND ICSK_ACK_TIMER \<noteq> 0
                             then bpf_tcp_send_ack K (prior_rcv_nxt (ca_priv s))
                                    (dctcp_ece_ack_cwr s (ce_state (ca_priv s))) w
                             else (s, w))
               in (s\<lparr>ack_pending := ack_pending s OR ICSK_ACK_NOW\<rparr>, w)
             else (s, w));
          s = s\<lparr>ca_priv := (ca_priv s)\<lparr>prior_rcv_nxt := rcv_nxt s, ce_state := new_ce_state\<rparr>\<rparr>
      in (dctcp_ece_ack_cwr s new_ce_state, w))"

definition bpf_dctcp_cwnd_event ::
    "'w dctcp_kernel \<Rightarrow> u32 \<Rightarrow> 'w dctcp_state \<Rightarrow> 'w dctcp_state" where
  "bpf_dctcp_cwnd_event K ev st =
     (if ev = CA_EVENT_ECN_IS_CE \<or> ev = CA_EVENT_ECN_NO_CE
      then let (s, w) = dctcp_ece_ack_update K ev (sk st) (world st) in st\<lparr>sk := s, world := w\<rparr>
      else if ev = CA_EVENT_LOSS then st\<lparr>sk := dctcp_react_to_loss (sk st)\<rparr>
      else st)"

definition bpf_dctcp_cwnd_undo :: "'w dctcp_state \<Rightarrow> u32" where
  "bpf_dctcp_cwnd_undo st = max (snd_cwnd (sk st)) (loss_cwnd (ca_priv (sk st)))"

definition bpf_dctcp_cong_avoid ::
    "'w dctcp_kernel \<Rightarrow> u32 \<Rightarrow> u32 \<Rightarrow> 'w dctcp_state \<Rightarrow> 'w dctcp_state" where
  "bpf_dctcp_cong_avoid K ack acked st =
     (let (s, w) = tcp_reno_cong_avoid K ack acked (sk st) (world st)
      in st\<lparr>sk := s, world := w\<rparr>)"

text \<open>The callbacks the stack can invoke, as registered in \<^verbatim>\<open>static dctcp: tcp_congestion_ops\<close>.\<close>

datatype dctcp_event = Init | InAck | CwndEvent u32 | CongAvoid u32 u32 | SetState u8 | Ssthresh

fun dctcp_callback :: "'w dctcp_kernel \<Rightarrow> dctcp_event \<Rightarrow> 'w dctcp_state \<Rightarrow> 'w dctcp_state" where
  "dctcp_callback K Init st = bpf_dctcp_init K st"
| "dctcp_callback K InAck st = bpf_dctcp_update_alpha st"
| "dctcp_callback K (CwndEvent ev) st = bpf_dctcp_cwnd_event K ev st"
| "dctcp_callback K (CongAvoid ack acked) st = bpf_dctcp_cong_avoid K ack acked st"
| "dctcp_callback K (SetState new_state) st = bpf_dctcp_state new_state st"
| "dctcp_callback K Ssthresh st = snd (bpf_dctcp_ssthresh st)"

section \<open>Alpha as a natural number\<close>

text \<open>The decay of one round without marks, and the update of one round, on natural numbers.\<close>

definition alpha_decay :: "nat \<Rightarrow> nat" where
  "alpha_decay a = (if a div 16 = 0 then 0 else a - a div 16)"

definition alpha_next :: "nat \<Rightarrow> nat \<Rightarrow> nat \<Rightarrow> nat" where
  "alpha_next a d ce =
     (if ce = 0 then alpha_decay a else min 1024 (alpha_decay a + 64 * ce div max 1 d))"

lemma unat_decay: "unat (a - min_not_zero a (drop_bit 4 a)) = alpha_decay (unat a)"
proof -
  have u: "unat (drop_bit 4 a) = unat a div 16" by (simp add: unat_drop_bit)
  have z: "drop_bit 4 a = 0 \<longleftrightarrow> unat a div 16 = 0" by (metis u unat_eq_zero)
  have m: "min a (drop_bit 4 a) = drop_bit 4 a"
    by (simp add: min_def word_le_nat_alt u)
       (metis div_le_dividend le_antisym u word_unat_eq_iff)
  have le: "drop_bit 4 a \<le> a" by (simp add: word_le_nat_alt u)
  show ?thesis
    by (cases "drop_bit 4 a = 0")
       (auto simp: min_not_zero_def m alpha_decay_def z unat_sub_le [OF le] u)
qed

lemma alpha_decay_le: "alpha_decay a \<le> a - 1"
  by (auto simp: alpha_decay_def)

lemma alpha_next_le: "a \<le> 1024 \<Longrightarrow> alpha_next a d ce \<le> 1024"
  using alpha_decay_le [of a] by (auto simp: alpha_next_def)

lemma alpha_next_full:
  assumes "a \<le> 1024" "0 < d"
  shows "min 1024 (Suc a) \<le> alpha_next a d d"
proof -
  have "64 * d div max 1 d = 64" using assms(2) by (simp add: max_def)
  moreover have "min 1024 (Suc a) \<le> alpha_decay a + 64"
    using assms(1) unfolding alpha_decay_def by auto
  ultimately show ?thesis using assms(2) by (simp add: alpha_next_def)
qed

text \<open>One expired round of \<^verbatim>\<open>bpf_dctcp_update_alpha\<close>.\<close>

lemma update_alpha_expired:
  assumes "\<not> before (snd_una (sk st)) (next_seq (ca_priv (sk st)))"
    and small: "unat (delivered_ce (sk st) - old_delivered_ce (ca_priv (sk st))) < 2 ^ 25"
    and a: "unat (dctcp_alpha (ca_priv (sk st))) \<le> 1024"
  shows "unat (dctcp_alpha (ca_priv (sk (bpf_dctcp_update_alpha st)))) =
    alpha_next (unat (dctcp_alpha (ca_priv (sk st))))
      (unat (delivered (sk st) - old_delivered (ca_priv (sk st))))
      (unat (delivered_ce (sk st) - old_delivered_ce (ca_priv (sk st))))"
proof -
  define ca where "ca = ca_priv (sk st)"
  define ce where "ce = delivered_ce (sk st) - old_delivered_ce ca"
  define d where "d = delivered (sk st) - old_delivered ca"
  define A where "A = dctcp_alpha ca - min_not_zero (dctcp_alpha ca) (drop_bit 4 (dctcp_alpha ca))"
  have A: "unat A = alpha_decay (unat (dctcp_alpha ca))" by (simp add: A_def unat_decay)
  have A': "unat A \<le> 1024" using alpha_decay_le [of "unat (dctcp_alpha ca)"] a A ca_def by simp
  have p: "unat (push_bit 6 ce) = 64 * unat ce"
    using small unat_push_bit_lt [of ce 6] by (simp add: ce_def ca_def)
  have q: "unat (push_bit 6 ce div max 1 d) = 64 * unat ce div max 1 (unat d)"
    by (simp add: unat_div p unat_max)
  have ql: "64 * unat ce div max 1 (unat d) \<le> 64 * unat ce" by (rule div_le_dividend)
  have "unat ce < 33554432" using small by (simp add: ce_def ca_def)
  then have "unat A + 64 * unat ce div max 1 (unat d) < 4294967296" using A' ql by linarith
  then have s: "unat (A + push_bit 6 ce div max 1 d) = unat A + 64 * unat ce div max 1 (unat d)"
    unfolding q [symmetric] by (intro unat_add_lt) (simp only: len_num1 len_num0 len_bit0; simp)
  have z: "ce = 0 \<longleftrightarrow> unat ce = 0" by (simp add: unat_eq_zero)
  have "dctcp_alpha (ca_priv (sk (bpf_dctcp_update_alpha st))) =
      (if ce \<noteq> 0 then min (A + push_bit 6 ce div max 1 d) 1024 else A)"
    using assms(1)
    by (simp add: bpf_dctcp_update_alpha_def Let_def dctcp_reset_def DCTCP_SHIFT_G_def
        DCTCP_MAX_ALPHA_def A_def ce_def d_def ca_def)
  then show ?thesis
    by (simp add: alpha_next_def z unat_min s A min.commute ca_def [symmetric] ce_def [symmetric]
        d_def [symmetric])
qed

section \<open>The invariant\<close>

text \<open>
  The invariant of a socket the program stays in charge of (no fallback configured): the estimate is
  a fraction of 1024 and the last-packet state is a bit. The two kernel functions that get the
  socket leave the private area of the congestion control alone.
\<close>

definition dctcp_inv :: "'w dctcp_state \<Rightarrow> bool" where
  "dctcp_inv st \<longleftrightarrow> fallback_cc st ! 0 = 0 \<and> dctcp_alpha (ca_priv (sk st)) \<le> DCTCP_MAX_ALPHA \<and>
     ce_state (ca_priv (sk st)) \<le> 1"

definition dctcp_kernel_ok :: "'w dctcp_kernel \<Rightarrow> bool" where
  "dctcp_kernel_ok K \<longleftrightarrow>
     (\<forall>n s w. ca_priv (fst (bpf_tcp_send_ack K n s w)) = ca_priv s) \<and>
     (\<forall>a n s w. ca_priv (fst (tcp_reno_cong_avoid K a n s w)) = ca_priv s)"

lemma alpha_le_iff: "dctcp_alpha ca \<le> DCTCP_MAX_ALPHA \<longleftrightarrow> unat (dctcp_alpha ca) \<le> 1024"
  by (simp add: DCTCP_MAX_ALPHA_def word_le_nat_alt)

lemma inv_init: "dctcp_inv st \<Longrightarrow> dctcp_inv (bpf_dctcp_init K st)"
  by (simp add: dctcp_inv_def bpf_dctcp_init_def Let_def dctcp_reset_def split: option.split)

lemma inv_update_alpha:
  assumes "dctcp_inv st"
  shows "dctcp_inv (bpf_dctcp_update_alpha st)"
proof -
  have a: "dctcp_alpha (ca_priv (sk st)) \<le> 1024"
    using assms by (simp add: dctcp_inv_def DCTCP_MAX_ALPHA_def)
  have "unat (dctcp_alpha (ca_priv (sk st)) - min_not_zero (dctcp_alpha (ca_priv (sk st)))
      (drop_bit 4 (dctcp_alpha (ca_priv (sk st))))) \<le> 1024"
    using alpha_decay_le [of "unat (dctcp_alpha (ca_priv (sk st)))"] a
    by (simp add: unat_decay word_le_nat_alt)
  then have "dctcp_alpha (ca_priv (sk st)) - min_not_zero (dctcp_alpha (ca_priv (sk st)))
      (drop_bit 4 (dctcp_alpha (ca_priv (sk st)))) \<le> 1024"
    by (simp add: word_le_nat_alt)
  then show ?thesis using assms
    by (simp add: dctcp_inv_def bpf_dctcp_update_alpha_def Let_def dctcp_reset_def
        DCTCP_SHIFT_G_def DCTCP_MAX_ALPHA_def)
qed

lemma ece_ack_cwr_frame [simp]: "ca_priv (dctcp_ece_ack_cwr s c) = ca_priv s"
  by (simp add: dctcp_ece_ack_cwr_def)

lemma react_to_loss_frame [simp]:
  "dctcp_alpha (ca_priv (dctcp_react_to_loss s)) = dctcp_alpha (ca_priv s)"
  "ce_state (ca_priv (dctcp_react_to_loss s)) = ce_state (ca_priv s)"
  by (simp_all add: dctcp_react_to_loss_def)

text \<open>The socket after the acknowledgement that the change of state may force.\<close>

lemma ece_ack_update_ca:
  assumes "dctcp_kernel_ok K"
  shows "ca_priv (fst (dctcp_ece_ack_update K evt s w)) =
    (ca_priv s)\<lparr>prior_rcv_nxt := prior_rcv_nxt (ca_priv (fst (dctcp_ece_ack_update K evt s w))),
       ce_state := (if evt = CA_EVENT_ECN_IS_CE then 1 else 0)\<rparr>"
proof -
  obtain s' w' where a: "bpf_tcp_send_ack K (prior_rcv_nxt (ca_priv s))
      (dctcp_ece_ack_cwr s (ce_state (ca_priv s))) w = (s', w')" by fastforce
  have "ca_priv s' = ca_priv s"
    using assms a unfolding dctcp_kernel_ok_def by (metis ece_ack_cwr_frame fst_conv)
  then show ?thesis by (simp add: dctcp_ece_ack_update_def Let_def a)
qed

lemma inv_cwnd_event:
  assumes "dctcp_kernel_ok K" "dctcp_inv st"
  shows "dctcp_inv (bpf_dctcp_cwnd_event K ev st)"
proof -
  obtain s w where u: "dctcp_ece_ack_update K ev (sk st) (world st) = (s, w)" by fastforce
  have ca: "ca_priv s = (ca_priv (sk st))\<lparr>prior_rcv_nxt := prior_rcv_nxt (ca_priv s),
       ce_state := (if ev = CA_EVENT_ECN_IS_CE then 1 else 0)\<rparr>"
    using ece_ack_update_ca [OF assms(1), of ev "sk st" "world st"] by (simp add: u)
  have "dctcp_alpha (ca_priv s) = dctcp_alpha (ca_priv (sk st))" "ce_state (ca_priv s) \<le> 1"
    by (subst ca, simp)+
  then show ?thesis using assms(2) by (simp add: bpf_dctcp_cwnd_event_def u dctcp_inv_def)
qed

lemma inv_cong_avoid:
  assumes "dctcp_kernel_ok K" "dctcp_inv st"
  shows "dctcp_inv (bpf_dctcp_cong_avoid K ack acked st)"
proof -
  obtain s w where a: "tcp_reno_cong_avoid K ack acked (sk st) (world st) = (s, w)" by fastforce
  then have "ca_priv s = ca_priv (sk st)"
    using assms(1) unfolding dctcp_kernel_ok_def by (metis fst_conv)
  then show ?thesis using assms(2) by (simp add: bpf_dctcp_cong_avoid_def a dctcp_inv_def)
qed

lemma inv_state: "dctcp_inv st \<Longrightarrow> dctcp_inv (bpf_dctcp_state n st)"
  by (simp add: dctcp_inv_def bpf_dctcp_state_def)

lemma inv_ssthresh: "dctcp_inv st \<Longrightarrow> dctcp_inv (snd (bpf_dctcp_ssthresh st))"
  by (simp add: dctcp_inv_def bpf_dctcp_ssthresh_def Let_def)

interpretation dctcp_cc: congestion_control
  "\<lambda>st. dctcp_kernel_ok K \<longrightarrow> dctcp_inv st" "dctcp_callback K" bpf_dctcp_ssthresh
  for K :: "'w dctcp_kernel"
proof (unfold_locales, goal_cases)
  case (1 st e)
  then show ?case
    by (cases e) (simp_all add: inv_init inv_update_alpha inv_cwnd_event inv_cong_avoid inv_state
      inv_ssthresh)
next
  case (2 st)
  then show ?case by (simp add: inv_ssthresh)
next
  case (3 st)
  then show ?case by (simp add: bpf_dctcp_ssthresh_def Let_def)
qed

section \<open>Properties\<close>

lemma ssthresh_value:
  assumes a: "unat (dctcp_alpha (ca_priv (sk st))) \<le> 1024" and c: "unat (snd_cwnd (sk st)) < 2 ^ 22"
  shows "unat (fst (bpf_dctcp_ssthresh st)) =
    max (unat (snd_cwnd (sk st)) - unat (snd_cwnd (sk st)) * unat (dctcp_alpha (ca_priv (sk st))) div 2048) 2"
proof -
  define c a where "c = snd_cwnd (sk st)" and "a = dctcp_alpha (ca_priv (sk st))"
  have "unat c * unat a \<le> (2 ^ 22 - 1) * 1024" using assms by (intro mult_mono) (auto simp: c_def a_def)
  then have m: "unat (c * a) = unat c * unat a" by (intro unat_mult_u32) simp
  have "unat c * unat a div 2048 \<le> unat c * 1024 div 2048"
    using assms(1) by (intro div_le_mono mult_le_mono) (auto simp: a_def)
  then have le: "drop_bit 11 (c * a) \<le> c" by (simp add: word_le_nat_alt unat_drop_bit m)
  show ?thesis
    by (simp add: bpf_dctcp_ssthresh_def Let_def unat_max c_def [symmetric] a_def [symmetric]
        unat_sub_le [OF le] unat_drop_bit m)
qed

text \<open>
  C20. Whatever callbacks the stack has run on a socket without fallback, the estimate stays within
  1024 and a window reduction is the proportional one: for a window of less than \<open>2 ^ 22\<close> packets
  the new threshold is \<open>cwnd - cwnd * alpha / 2048\<close>, at least 2, never below half the window and
  never above it (or 2); the window before the cut is what \<^verbatim>\<open>bpf_dctcp_cwnd_undo\<close> restores at least.
\<close>

theorem dctcp_cut_bounded:
  assumes "dctcp_kernel_ok K" "dctcp_inv st0" "st = fold (dctcp_callback K) es st0"
    and "cwnd = unat (snd_cwnd (sk st))" "cwnd < 2 ^ 22"
    and "alpha = unat (dctcp_alpha (ca_priv (sk st)))"
    and "bpf_dctcp_ssthresh st = (ss, st')"
  shows "alpha \<le> 1024 \<and> unat ss = max (cwnd - cwnd * alpha div 2048) 2 \<and>
    cwnd div 2 \<le> unat ss \<and> unat ss \<le> max cwnd 2 \<and>
    unat (bpf_dctcp_cwnd_undo (st'\<lparr>sk := (sk st')\<lparr>snd_cwnd := c\<rparr>\<rparr>)) = max (unat c) cwnd"
proof (intro conjI)
  have "dctcp_inv st" using dctcp_cc.run_inv [of K st0 es] assms by simp
  then show a: "alpha \<le> 1024" using assms by (simp add: dctcp_inv_def alpha_le_iff)
  show v: "unat ss = max (cwnd - cwnd * alpha div 2048) 2"
    using ssthresh_value [of st] a assms by simp
  have "cwnd * alpha div 2048 \<le> cwnd * 1024 div 2048" using a by (intro div_le_mono mult_le_mono) auto
  then have h: "cwnd * alpha div 2048 \<le> cwnd div 2" by simp
  then have "cwnd div 2 \<le> cwnd - cwnd * alpha div 2048" by arith
  with v show "cwnd div 2 \<le> unat ss" by linarith
  show "unat ss \<le> max cwnd 2" using v by auto
  show "unat (bpf_dctcp_cwnd_undo (st'\<lparr>sk := (sk st')\<lparr>snd_cwnd := c\<rparr>\<rparr>)) = max (unat c) cwnd"
    using assms(4,7) by (auto simp: bpf_dctcp_ssthresh_def bpf_dctcp_cwnd_undo_def Let_def unat_max)
qed


text \<open>
  A round trip of the connection: \<open>d\<close> packets delivered, \<open>ce\<close> of them marked, and the
  acknowledgement of the sequence number that ends the round.
\<close>

definition ack_round :: "u32 \<times> u32 \<Rightarrow> 'w dctcp_state \<Rightarrow> 'w dctcp_state" where
  "ack_round r st =
     (let s = sk st
      in bpf_dctcp_update_alpha (st\<lparr>sk := s\<lparr>delivered := delivered s + fst r,
           delivered_ce := delivered_ce s + snd r, snd_una := next_seq (ca_priv s)\<rparr>\<rparr>))"

definition snapshot_taken :: "'w dctcp_state \<Rightarrow> bool" where
  "snapshot_taken st \<longleftrightarrow> old_delivered (ca_priv (sk st)) = delivered (sk st) \<and>
     old_delivered_ce (ca_priv (sk st)) = delivered_ce (sk st)"

lemma not_before_self [simp]: "\<not> before x x"
  by (simp add: before_def)

lemma ack_round_snapshot: "snapshot_taken (ack_round r st)"
  by (simp add: snapshot_taken_def ack_round_def Let_def bpf_dctcp_update_alpha_def dctcp_reset_def)

lemma ack_round_alpha:
  assumes "snapshot_taken st" "unat (dctcp_alpha (ca_priv (sk st))) \<le> 1024" "unat (snd r) < 2 ^ 25"
  shows "unat (dctcp_alpha (ca_priv (sk (ack_round r st)))) =
    alpha_next (unat (dctcp_alpha (ca_priv (sk st)))) (unat (fst r)) (unat (snd r))"
proof -
  define s where "s = sk st"
  define st1 where "st1 = st\<lparr>sk := s\<lparr>delivered := delivered s + fst r,
           delivered_ce := delivered_ce s + snd r, snd_una := next_seq (ca_priv s)\<rparr>\<rparr>"
  have f: "ca_priv (sk st1) = ca_priv s" "snd_una (sk st1) = next_seq (ca_priv s)"
    "delivered (sk st1) = delivered s + fst r" "delivered_ce (sk st1) = delivered_ce s + snd r"
    by (simp_all add: st1_def)
  have r: "ack_round r st = bpf_dctcp_update_alpha st1" by (simp add: ack_round_def st1_def s_def Let_def)
  have o: "old_delivered (ca_priv s) = delivered s" "old_delivered_ce (ca_priv s) = delivered_ce s"
    using assms(1) by (simp_all add: snapshot_taken_def s_def)
  show ?thesis
    unfolding r using update_alpha_expired [of st1] assms(2,3) unfolding f o s_def [symmetric] by simp
qed

lemma rounds_unmarked:
  assumes "\<forall>r \<in> set rs. snd r = 0" "snapshot_taken st" "unat (dctcp_alpha (ca_priv (sk st))) \<le> 1024"
  shows "unat (dctcp_alpha (ca_priv (sk (fold ack_round rs st)))) \<le>
    unat (dctcp_alpha (ca_priv (sk st))) - length rs"
  using assms
proof (induction rs arbitrary: st)
  case (Cons r rs)
  let ?a = "\<lambda>st. unat (dctcp_alpha (ca_priv (sk st)))"
  have "?a (ack_round r st) \<le> ?a st - 1"
    using Cons.prems alpha_decay_le [of "?a st"] by (simp add: ack_round_alpha alpha_next_def)
  moreover from this have "?a (fold ack_round rs (ack_round r st)) \<le> ?a (ack_round r st) - length rs"
    using Cons.prems by (intro Cons.IH) (auto simp: ack_round_snapshot)
  ultimately show ?case by simp
qed simp

lemma rounds_marked:
  assumes "\<forall>r \<in> set rs. fst r = snd r \<and> 0 < unat (snd r) \<and> unat (snd r) < 2 ^ 25"
    and "snapshot_taken st" "unat (dctcp_alpha (ca_priv (sk st))) \<le> 1024"
  shows "min 1024 (unat (dctcp_alpha (ca_priv (sk st))) + length rs) \<le>
    unat (dctcp_alpha (ca_priv (sk (fold ack_round rs st))))"
  using assms
proof (induction rs arbitrary: st)
  case (Cons r rs)
  let ?a = "\<lambda>st. unat (dctcp_alpha (ca_priv (sk st)))"
  have e: "?a (ack_round r st) = alpha_next (?a st) (unat (fst r)) (unat (snd r))"
    using Cons.prems by (intro ack_round_alpha) auto
  have m: "min 1024 (Suc (?a st)) \<le> ?a (ack_round r st)"
    unfolding e using Cons.prems alpha_next_full [of "?a st" "unat (snd r)"] by simp
  have "?a (ack_round r st) \<le> 1024" unfolding e using Cons.prems by (simp add: alpha_next_le)
  then have "min 1024 (?a (ack_round r st) + length rs) \<le> ?a (fold ack_round rs (ack_round r st))"
    using Cons.prems by (intro Cons.IH) (auto simp: ack_round_snapshot)
  with m show ?case by simp
qed simp

text \<open>
  C19. The estimate converges. From any snapshot, \<open>n\<close> round trips without a mark bring it to at most
  \<open>alpha - n\<close>, so 1024 of them always reach 0, and \<open>n\<close> round trips in which every packet was marked
  bring it to at least \<open>alpha + n\<close> or the maximum 1024.
\<close>

theorem dctcp_alpha_converges:
  assumes "snapshot_taken st" "unat (dctcp_alpha (ca_priv (sk st))) = a" "a \<le> 1024"
    and "unat (dctcp_alpha (ca_priv (sk (fold ack_round rs st)))) = a'"
  shows "((\<forall>r \<in> set rs. snd r = 0) \<longrightarrow> a' \<le> a - length rs) \<and>
    ((\<forall>r \<in> set rs. fst r = snd r \<and> 0 < unat (snd r) \<and> unat (snd r) < 2 ^ 25) \<longrightarrow>
      min 1024 (a + length rs) \<le> a')"
  using rounds_unmarked [of rs st] rounds_marked [of rs st] assms by auto

text \<open>One ECN event, with the acknowledgement that is sent for a delayed one named.\<close>

definition ece_forced_ack ::
    "'w dctcp_kernel \<Rightarrow> u32 \<Rightarrow> dctcp_sock \<Rightarrow> 'w \<Rightarrow> dctcp_sock \<times> 'w" where
  "ece_forced_ack K new s w =
     (if ce_state (ca_priv s) = new then (s, w)
      else if ack_pending s AND ICSK_ACK_TIMER = 0
      then (s\<lparr>ack_pending := ack_pending s OR ICSK_ACK_NOW\<rparr>, w)
      else let (s, w) = bpf_tcp_send_ack K (prior_rcv_nxt (ca_priv s))
                          (dctcp_ece_ack_cwr s (ce_state (ca_priv s))) w
           in (s\<lparr>ack_pending := ack_pending s OR ICSK_ACK_NOW\<rparr>, w))"

lemma ece_ack_update_split:
  assumes "ece_forced_ack K (if ev = CA_EVENT_ECN_IS_CE then 1 else 0) s w = (t, w')"
  shows "dctcp_ece_ack_update K ev s w =
    (dctcp_ece_ack_cwr (t\<lparr>ca_priv := (ca_priv t)\<lparr>prior_rcv_nxt := rcv_nxt t,
       ce_state := (if ev = CA_EVENT_ECN_IS_CE then 1 else 0)\<rparr>\<rparr>)
       (if ev = CA_EVENT_ECN_IS_CE then 1 else 0), w')"
proof -
  obtain s1 w1 where a: "bpf_tcp_send_ack K (prior_rcv_nxt (ca_priv s))
      (dctcp_ece_ack_cwr s (ce_state (ca_priv s))) w = (s1, w1)" by fastforce
  show ?thesis
    using assms unfolding dctcp_ece_ack_update_def ece_forced_ack_def Let_def a prod.case
    by (cases "ce_state (ca_priv s) = (if ev = CA_EVENT_ECN_IS_CE then 1 else 0)";
        cases "ack_pending s AND ICSK_ACK_TIMER = 0") simp_all
qed

lemma bit2_demand_cwr [simp]: "bit (ecn_flags (dctcp_ece_ack_cwr t c)) 2 = (c = 1)"
proof -
  have "bit TCP_ECN_DEMAND_CWR 2" by code_simp
  then show ?thesis by (simp add: dctcp_ece_ack_cwr_def bit_or_iff bit_and_iff bit_not_iff)
qed

lemma ece_ack_cwr_frame2 [simp]:
  "rcv_nxt (dctcp_ece_ack_cwr t c) = rcv_nxt t" "ack_pending (dctcp_ece_ack_cwr t c) = ack_pending t"
  by (simp_all add: dctcp_ece_ack_cwr_def)

lemma or_and_absorb: "(x OR y) AND y = (y :: u8)"
  by (rule bit_eqI) (auto simp: bit_or_iff bit_and_iff)

section \<open>A concrete kernel\<close>

text \<open>
  A kernel for the examples: it logs the acknowledgements it sends, with the flags of the socket it
  sent them from, grows the window by the acknowledged packets, and refuses to switch the
  congestion control.
\<close>

definition log_kernel :: "(u32 \<times> u8) list dctcp_kernel" where
  "log_kernel = \<lparr>bpf_setsockopt = (\<lambda>_ _ _ st. (- EBUSY, st)),
     bpf_getsockopt = (\<lambda>_ _ _ st. (bpf_dctcp_name, st)),
     bpf_tcp_send_ack = (\<lambda>n s w. (s\<lparr>ack_pending := 0\<rparr>, w @ [(n, ecn_flags s)])),
     tcp_reno_cong_avoid = (\<lambda>_ n s w. (s\<lparr>snd_cwnd := snd_cwnd s + n\<rparr>, w))\<rparr>"

lemma log_kernel_ok: "dctcp_kernel_ok log_kernel"
  by (simp add: dctcp_kernel_ok_def log_kernel_def)

definition sample_dctcp :: "(u32 \<times> u8) list dctcp_state" where
  "sample_dctcp = \<lparr>sk = \<lparr>snd_cwnd = 100, snd_ssthresh = 10, delivered = 40, delivered_ce = 10,
       ecn_flags = 5, rcv_nxt = 900, snd_nxt = 5000, snd_una = 4000, ca_state_byte = 0,
       ack_pending = 3, ca_priv = \<lparr>old_delivered = 0, old_delivered_ce = 0, prior_rcv_nxt = 800,
         dctcp_alpha = 512, next_seq = 3000, ce_state = 1, loss_cwnd = 0\<rparr>\<rparr>,
     sk_stg = None, fallback_cc = replicate 16 0, cc_res = [], tcp_cdg_res = 0, stg_result = 0,
     ebusy_cnt = 0, world = []\<rparr>"

theorem dctcp_cut_bounded_witness:
  "\<exists>ss st'. bpf_dctcp_ssthresh (fold (dctcp_callback log_kernel) [InAck, CongAvoid 5 7] sample_dctcp)
      = (ss, st') \<and> 53 \<le> unat ss \<and> unat ss \<le> 107"
proof -
  let ?st = "fold (dctcp_callback log_kernel) [InAck, CongAvoid 5 7] sample_dctcp"
  obtain ss st' where s: "bpf_dctcp_ssthresh ?st = (ss, st')" by fastforce
  have i: "dctcp_inv sample_dctcp" by (simp add: dctcp_inv_def sample_dctcp_def DCTCP_MAX_ALPHA_def)
  have c: "snd_cwnd (sk ?st) = 107" by code_simp
  show ?thesis
    using dctcp_cut_bounded [OF log_kernel_ok i refl refl _ refl s, of 1] s unfolding c by simp
qed


theorem dctcp_alpha_converges_witness:
  "unat (dctcp_alpha (ca_priv (sk (fold ack_round (replicate 600 (9, 0))
     (bpf_dctcp_init log_kernel sample_dctcp))))) \<le> 424 \<and>
   1024 \<le> unat (dctcp_alpha (ca_priv (sk (fold ack_round (replicate 600 (9, 9))
     (bpf_dctcp_update_alpha sample_dctcp)))))"
proof -
  have i: "snapshot_taken (bpf_dctcp_init log_kernel sample_dctcp)"
    "unat (dctcp_alpha (ca_priv (sk (bpf_dctcp_init log_kernel sample_dctcp)))) = 1024"
    by code_simp+
  have u: "snapshot_taken (bpf_dctcp_update_alpha sample_dctcp)"
    "unat (dctcp_alpha (ca_priv (sk (bpf_dctcp_update_alpha sample_dctcp)))) = 496"
    by code_simp+
  show ?thesis
    using dctcp_alpha_converges [OF i(1,2) _ refl, of "replicate 600 (9, 0)"]
      dctcp_alpha_converges [OF u(1,2) _ refl, of "replicate 600 (9, 9)"] by simp
qed

text \<open>
  C18. The receiver's congestion-mark state machine. An ECN event records whether the packet was
  marked, makes the \<^verbatim>\<open>DEMAND_CWR\<close> flag mirror it and remembers \<^verbatim>\<open>rcv_nxt\<close>. If the mark did not change,
  no acknowledgement is sent and none is forced. If it changed, an immediate acknowledgement is
  forced, and a delayed one that is still pending is sent before, up to the old \<^verbatim>\<open>prior_rcv_nxt\<close>,
  from a socket whose flag still mirrors the old state.
\<close>

theorem dctcp_ce_state_machine:
  assumes "ev = CA_EVENT_ECN_IS_CE \<or> ev = CA_EVENT_ECN_NO_CE"
    and "s = sk st" "ca = ca_priv s" "st' = bpf_dctcp_cwnd_event K ev st"
    and "new = (if ev = CA_EVENT_ECN_IS_CE then 1 else 0 :: u32)"
    and "old_sock = dctcp_ece_ack_cwr s (ce_state ca)"
  shows "ce_state (ca_priv (sk st')) = new \<and> bit (ecn_flags (sk st')) 2 = (new = 1) \<and>
    prior_rcv_nxt (ca_priv (sk st')) = rcv_nxt (sk st') \<and>
    (if ce_state ca = new then world st' = world st \<and> ack_pending (sk st') = ack_pending s
     else ack_pending (sk st') AND ICSK_ACK_NOW = ICSK_ACK_NOW \<and>
       bit (ecn_flags old_sock) 2 = (ce_state ca = 1) \<and>
       world st' = (if ack_pending s AND ICSK_ACK_TIMER = 0 then world st
         else snd (bpf_tcp_send_ack K (prior_rcv_nxt ca) old_sock (world st))))"
proof -
  obtain t w where f: "ece_forced_ack K new s (world st) = (t, w)" by fastforce
  have u: "st' = st\<lparr>sk := dctcp_ece_ack_cwr (t\<lparr>ca_priv := (ca_priv t)\<lparr>prior_rcv_nxt := rcv_nxt t,
      ce_state := new\<rparr>\<rparr>) new, world := w\<rparr>"
    using assms(1,2,4) ece_ack_update_split [of K ev s "world st" t w] f
    by (auto simp: assms(5) bpf_dctcp_cwnd_event_def)
  obtain s1 w1 where a: "bpf_tcp_send_ack K (prior_rcv_nxt ca) old_sock (world st) = (s1, w1)" by fastforce
  have fa: "if ce_state ca = new then t = s \<and> w = world st
    else ack_pending t AND ICSK_ACK_NOW = ICSK_ACK_NOW \<and>
      w = (if ack_pending s AND ICSK_ACK_TIMER = 0 then world st else w1)"
    using f a unfolding ece_forced_ack_def assms(3) [symmetric] assms(6) [symmetric]
    by (auto simp: or_and_absorb split: if_split_asm)
  have "bit (ecn_flags old_sock) 2 = (ce_state ca = 1)" by (simp add: assms(6))
  with fa show ?thesis by (simp add: u a split: if_split_asm)
qed

theorem dctcp_ce_state_machine_witness:
  "world (bpf_dctcp_cwnd_event log_kernel CA_EVENT_ECN_NO_CE sample_dctcp) = [(800, 5)]"
proof -
  have e: "ce_state (ca_priv (sk sample_dctcp)) = 1" "CA_EVENT_ECN_NO_CE \<noteq> CA_EVENT_ECN_IS_CE"
    "ack_pending (sk sample_dctcp) AND ICSK_ACK_TIMER \<noteq> 0"
    "bpf_tcp_send_ack log_kernel (prior_rcv_nxt (ca_priv (sk sample_dctcp)))
      (dctcp_ece_ack_cwr (sk sample_dctcp) 1) (world sample_dctcp) =
      ((dctcp_ece_ack_cwr (sk sample_dctcp) 1)\<lparr>ack_pending := 0\<rparr>, [(800, 5)])"
    by code_simp+
  show ?thesis
    using dctcp_ce_state_machine [OF _ refl refl refl refl refl,
        of CA_EVENT_ECN_NO_CE log_kernel sample_dctcp] by (simp add: e)
qed

end
