(* ===== verification/Bpf_Packet.thy ===== *)
theory Bpf_Packet
  imports Bpf_Prelude "HOL-Library.Monad_Syntax"
begin

text \<open>
  Packet memory and array maps. A packet is the list of bytes between \<^verbatim>\<open>data\<close> and \<^verbatim>\<open>data_end\<close>; a pointer
  into it is an offset. Every load and store is checked: one that leaves the packet is the value
  \<open>None\<close>, the fault the BPF verifier has to rule out. The target is little endian, so \<^verbatim>\<open>to_be\<close> swaps the
  bytes of a 16-bit value.

  The second half merges the stores of a header that is written field by field into one store of
  all its bytes.
\<close>

section \<open>Bytes\<close>

definition bytes16 :: "u16 \<Rightarrow> u8 list" where
  "bytes16 x = [ucast x, ucast (drop_bit 8 x)]"

definition bytes32 :: "u32 \<Rightarrow> u8 list" where
  "bytes32 x = [ucast x, ucast (drop_bit 8 x), ucast (drop_bit 16 x), ucast (drop_bit 24 x)]"

fun word16 :: "u8 list \<Rightarrow> u16" where
  "word16 (a # b # _) = ucast a OR push_bit 8 (ucast b)"
| "word16 _ = 0"

fun word32 :: "u8 list \<Rightarrow> u32" where
  "word32 (a # b # c # d # _) =
     ucast a OR push_bit 8 (ucast b) OR push_bit 16 (ucast c) OR push_bit 24 (ucast d)"
| "word32 _ = 0"

definition to_be16 :: "u16 \<Rightarrow> u16" where
  "to_be16 x = push_bit 8 x OR drop_bit 8 x"

section \<open>Checked loads and stores\<close>

definition ld_bytes :: "u8 list \<Rightarrow> nat \<Rightarrow> nat \<Rightarrow> u8 list option" where
  "ld_bytes p off n = (if off + n \<le> length p then Some (take n (drop off p)) else None)"

definition ld8 :: "u8 list \<Rightarrow> nat \<Rightarrow> u8 option" where
  "ld8 p off = (if off < length p then Some (p ! off) else None)"

definition ld16 :: "u8 list \<Rightarrow> nat \<Rightarrow> u16 option" where
  "ld16 p off = map_option word16 (ld_bytes p off 2)"

definition ld32 :: "u8 list \<Rightarrow> nat \<Rightarrow> u32 option" where
  "ld32 p off = map_option word32 (ld_bytes p off 4)"

definition st_bytes :: "u8 list \<Rightarrow> nat \<Rightarrow> u8 list \<Rightarrow> u8 list option" where
  "st_bytes p off bs =
     (if off + length bs \<le> length p then Some (take off p @ bs @ drop (off + length bs) p) else None)"

definition st8 :: "u8 list \<Rightarrow> nat \<Rightarrow> u8 \<Rightarrow> u8 list option" where
  "st8 p off v = st_bytes p off [v]"

definition st16 :: "u8 list \<Rightarrow> nat \<Rightarrow> u16 \<Rightarrow> u8 list option" where
  "st16 p off v = st_bytes p off (bytes16 v)"

definition st32 :: "u8 list \<Rightarrow> nat \<Rightarrow> u32 \<Rightarrow> u8 list option" where
  "st32 p off v = st_bytes p off (bytes32 v)"

text \<open>
  The volatile copy loops: \<open>rd\<close> reads element \<open>i\<close> of the source, which may be the packet itself.
\<close>

function vcopy8 :: "(u8 list \<Rightarrow> nat \<Rightarrow> u8 option) \<Rightarrow> u8 list \<Rightarrow> nat \<Rightarrow> nat \<Rightarrow> nat \<Rightarrow> u8 list option" where
  "vcopy8 rd p dst i len =
     (if i < len then do { b \<leftarrow> rd p i; p \<leftarrow> st8 p (dst + i) b; vcopy8 rd p dst (i + 1) len }
      else Some p)"
  by pat_completeness auto
termination by (relation "measure (\<lambda>(_, _, _, i, len). len - i)") auto

function vcopy32 :: "(u8 list \<Rightarrow> nat \<Rightarrow> u32 option) \<Rightarrow> u8 list \<Rightarrow> nat \<Rightarrow> nat \<Rightarrow> nat \<Rightarrow> u8 list option" where
  "vcopy32 rd p dst i words =
     (if i < words then do { b \<leftarrow> rd p i; p \<leftarrow> st32 p (dst + 4 * i) b; vcopy32 rd p dst (i + 1) words }
      else Some p)"
  by pat_completeness auto
termination by (relation "measure (\<lambda>(_, _, _, i, words). words - i)") auto

declare vcopy8.simps [simp del] vcopy32.simps [simp del]

section \<open>Array maps\<close>

text \<open>A BPF array map: a lookup is null exactly when the key is not below \<^verbatim>\<open>max_entries\<close>.\<close>

record 'v bpf_array =
  max_entries :: nat
  elems :: "u32 \<Rightarrow> 'v"

definition arr_lookup :: "'v bpf_array \<Rightarrow> u32 \<Rightarrow> 'v option" where
  "arr_lookup m k = (if unat k < max_entries m then Some (elems m k) else None)"

definition arr_update :: "'v bpf_array \<Rightarrow> u32 \<Rightarrow> 'v \<Rightarrow> 'v bpf_array" where
  "arr_update m k v = m\<lparr>elems := (elems m)(k := v)\<rparr>"

lemma max_entries_update [simp]: "max_entries (arr_update m k v) = max_entries m"
  by (simp add: arr_update_def)

lemma arr_lookup_update [simp]:
  "arr_lookup (arr_update m k v) k' =
     (if k' = k \<and> unat k < max_entries m then Some v else arr_lookup m k')"
  by (simp add: arr_lookup_def arr_update_def)

lemma arr_lookup_none_iff: "arr_lookup m k = None \<longleftrightarrow> max_entries m \<le> unat k"
  by (simp add: arr_lookup_def)

section \<open>Byte encodings round trip\<close>

lemma length_bytes [simp]: "length (bytes16 x) = 2" "length (bytes32 y) = 4"
  by (simp_all add: bytes16_def bytes32_def)

lemma word16_bytes16 [simp]: "word16 (bytes16 x @ r) = x"
  by (rule bit_word_eqI)
     (auto simp: bytes16_def bit_or_iff bit_push_bit_iff bit_ucast_iff bit_drop_bit_eq)

lemma word32_bytes32 [simp]: "word32 (bytes32 x @ r) = x"
proof (rule bit_word_eqI)
  fix n assume "n < LENGTH(32)"
  then consider "n < 8" | "8 \<le> n" "n < 16" | "16 \<le> n" "n < 24" | "24 \<le> n" "n < 32" by force
  then show "bit (word32 (bytes32 x @ r)) n = bit x n"
    by cases (auto simp: bytes32_def bit_or_iff bit_push_bit_iff bit_ucast_iff bit_drop_bit_eq)
qed

lemma word_bytes [simp]: "word16 (bytes16 x) = x" "word32 (bytes32 y) = y"
  using word16_bytes16 [of x "[]"] word32_bytes32 [of y "[]"] by simp_all

lemma to_be16_to_be16 [simp]: "to_be16 (to_be16 x) = x"
proof (rule bit_word_eqI)
  fix n assume "n < LENGTH(16)"
  then show "bit (to_be16 (to_be16 x)) n = bit x n"
    by (cases "n < 8")
       (auto simp: to_be16_def bit_or_iff bit_push_bit_iff bit_drop_bit_eq dest: bit_imp_le_length)
qed

section \<open>Stores\<close>

lemma length_st_bytes: "st_bytes p off bs = Some q \<Longrightarrow> length q = length p"
  by (auto simp: st_bytes_def split: if_split_asm)

text \<open>Two stores side by side are one store, in either order.\<close>

lemma st_bytes_merge:
  "b = a + length bs \<Longrightarrow>
     st_bytes p a bs \<bind> (\<lambda>p. st_bytes p b cs \<bind> k) = st_bytes p a (bs @ cs) \<bind> k"
  by (auto simp: st_bytes_def ac_simps)

lemma st_bytes_merge_down:
  "b = a + length bs \<Longrightarrow>
     st_bytes p b cs \<bind> (\<lambda>p. st_bytes p a bs \<bind> k) = st_bytes p a (bs @ cs) \<bind> k"
  by (auto simp: st_bytes_def min_def drop_take ac_simps)

text \<open>A copy loop whose source reads do not depend on the part already copied is one store.\<close>

lemma vcopy8_steps:
  assumes "\<And>j. j < len \<Longrightarrow> rd (take dst p @ take j bs @ drop (dst + j) p) j = Some (bs ! j)"
    and "length bs = len" "dst + len \<le> length p" "i \<le> len"
  shows "vcopy8 rd (take dst p @ take i bs @ drop (dst + i) p) dst i len =
    Some (take dst p @ bs @ drop (dst + len) p)"
  using assms(4)
proof (induction "len - i" arbitrary: i)
  case 0
  then show ?case using assms(2) by (simp add: vcopy8.simps)
next
  case (Suc n)
  then have i: "i < len" by simp
  let ?p = "\<lambda>i. take dst p @ take i bs @ drop (dst + i) p"
  have "st8 (?p i) (dst + i) (bs ! i) = Some (?p (Suc i))"
    using i assms(2,3) by (simp add: st8_def st_bytes_def take_Suc_conv_app_nth min_def)
  moreover have "vcopy8 rd (?p (Suc i)) dst (Suc i) len = Some (take dst p @ bs @ drop (dst + len) p)"
    using Suc i by (intro Suc.hyps) auto
  ultimately show ?case using i assms(1) [OF i] by (subst vcopy8.simps) simp
qed

lemma vcopy8_st_bytes:
  assumes "\<And>j. j < len \<Longrightarrow> rd (take dst p @ take j bs @ drop (dst + j) p) j = Some (bs ! j)"
    and "length bs = len" "dst + len \<le> length p"
  shows "vcopy8 rd p dst 0 len = st_bytes p dst bs"
proof -
  have "vcopy8 rd (take dst p @ take 0 bs @ drop (dst + 0) p) dst 0 len =
      Some (take dst p @ bs @ drop (dst + len) p)"
    by (rule vcopy8_steps) (use assms in auto)
  then show ?thesis using assms(2,3) by (simp add: st_bytes_def)
qed

lemma vcopy8_list:
  assumes "length src = len" "dst + len \<le> length p"
  shows "vcopy8 (\<lambda>_. ld8 src) p dst 0 len = st_bytes p dst src"
  by (rule vcopy8_st_bytes) (use assms in \<open>simp_all add: ld8_def\<close>)

lemma vcopy8_packet:
  assumes "dst + len \<le> src" "src + len \<le> length p"
  shows "vcopy8 (\<lambda>p i. ld8 p (src + i)) p dst 0 len = st_bytes p dst (take len (drop src p))"
  by (rule vcopy8_st_bytes) (use assms in \<open>auto simp: ld8_def nth_append add.commute\<close>)

lemma vcopy32_four:
  assumes "\<And>p i. rd p i = Some (ws i)" "dst + 16 \<le> length p"
  shows "vcopy32 rd p dst 0 4 =
    st_bytes p dst (bytes32 (ws 0) @ bytes32 (ws 1) @ bytes32 (ws 2) @ bytes32 (ws 3))"
proof -
  have "vcopy32 rd p dst 0 4 = st_bytes p dst (bytes32 (ws 0)) \<bind> (\<lambda>p. st_bytes p (dst + 4) (bytes32 (ws 1))
      \<bind> (\<lambda>p. st_bytes p (dst + 8) (bytes32 (ws 2)) \<bind> (\<lambda>p. st_bytes p (dst + 12) (bytes32 (ws 3)) \<bind> Some)))"
    by (simp add: assms(1) vcopy32.simps [of rd _ dst] st32_def numeral_nat)
  then show ?thesis by (simp only: st_bytes_merge length_bytes length_append, simp add: st_bytes_merge)
qed

end
