(* ===== verification/Xdp_Lb.thy ===== *)
theory Xdp_Lb
  imports Bpf_Packet
begin

text \<open>
  The XDP load balancer of \<^verbatim>\<open>src/progs/xdp_lb_bench.rs\<close>: parsing, connection table, consistent
  hashing, statistics, IP-in-IP encapsulation, and the benchmark loop around them.

  A run is a function of the packet and the map contents. The helpers of the kernel are a
  parameter, \<open>'w lb_kernel\<close>: \<^verbatim>\<open>bpf_xdp_adjust_head\<close>, the clock, the random numbers, the CPU number,
  the insertion into an LRU map (which may evict), and the loop budget of \<^verbatim>\<open>may_goto\<close>. The result is
  \<open>None\<close> if the program accesses memory outside the packet.
\<close>

section \<open>Constants\<close>

definition XDP_DROP :: i32 where "XDP_DROP = 1"
definition XDP_PASS :: i32 where "XDP_PASS = 2"
definition XDP_TX :: i32 where "XDP_TX = 3"
definition ETH_P_IP :: u16 where "ETH_P_IP = 0x0800"
definition ETH_P_IPV6 :: u16 where "ETH_P_IPV6 = 0x86DD"
definition IPPROTO_IPIP :: u8 where "IPPROTO_IPIP = 4"
definition IPPROTO_TCP :: u8 where "IPPROTO_TCP = 6"
definition IPPROTO_UDP :: u8 where "IPPROTO_UDP = 17"
definition IPPROTO_IPV6 :: u8 where "IPPROTO_IPV6 = 41"
definition IPPROTO_FRAGMENT :: u8 where "IPPROTO_FRAGMENT = 44"
definition F_IPV6 :: u8 where "F_IPV6 = 1"
definition F_LRU_BYPASS :: u32 where "F_LRU_BYPASS = 2"
definition CH_RING_SIZE :: u32 where "CH_RING_SIZE = 65537"
definition MAX_VIPS :: u32 where "MAX_VIPS = 16"
definition CH_RINGS_SIZE :: nat where "CH_RINGS_SIZE = 16 * 65537"
definition MAX_REALS :: nat where "MAX_REALS = 512"
definition ONE_SEC :: u64 where "ONE_SEC = 1000000000"
definition MAX_CONN_RATE :: u64 where "MAX_CONN_RATE = 100000000"
definition LRU_UDP_TIMEOUT :: u64 where "LRU_UDP_TIMEOUT = 30000000000"
definition PCKT_FRAGMENTED :: u16 where "PCKT_FRAGMENTED = 0x3FFF"
definition KNUTH_HASH_MULT :: u32 where "KNUTH_HASH_MULT = 2654435761"
definition IPIP_V4_PREFIX :: u32 where "IPIP_V4_PREFIX = 4268"
definition IPIP_V6_PREFIX1 :: u32 where "IPIP_V6_PREFIX1 = 1"
definition IPIP_V6_PREFIX2 :: u32 where "IPIP_V6_PREFIX2 = 0"
definition IPIP_V6_PREFIX3 :: u32 where "IPIP_V6_PREFIX3 = 0"
definition STATS_LRU :: u32 where "STATS_LRU = MAX_VIPS + 0"
definition STATS_XDP_TX :: u32 where "STATS_XDP_TX = MAX_VIPS + 1"
definition STATS_XDP_PASS :: u32 where "STATS_XDP_PASS = MAX_VIPS + 2"
definition STATS_XDP_DROP :: u32 where "STATS_XDP_DROP = MAX_VIPS + 3"
definition STATS_NEW_CONN :: u32 where "STATS_NEW_CONN = MAX_VIPS + 4"
definition STATS_LRU_MISS :: u32 where "STATS_LRU_MISS = MAX_VIPS + 5"
definition STATS_SIZE :: nat where "STATS_SIZE = 16 + 6"
definition BENCH_NR_SAMPLES :: nat where "BENCH_NR_SAMPLES = 4096"
definition BENCH_NR_CPUS :: nat where "BENCH_NR_CPUS = 256"
definition BENCH_CPU_MASK :: u32 where "BENCH_CPU_MASK = 255"
definition JHASH_INITVAL :: u32 where "JHASH_INITVAL = 0xdeadbeef"
definition TCPF_SYN :: u8 where "TCPF_SYN = push_bit 1 1"
definition TCPF_RST :: u8 where "TCPF_RST = push_bit 2 1"

lemmas stats_keys = STATS_LRU_def STATS_XDP_TX_def STATS_XDP_PASS_def STATS_XDP_DROP_def
  STATS_NEW_CONN_def STATS_LRU_MISS_def MAX_VIPS_def

text \<open>The sizes of the header structs and the offsets of their fields.\<close>

abbreviation sz_ethhdr :: nat where "sz_ethhdr \<equiv> 14"
abbreviation sz_iphdr :: nat where "sz_iphdr \<equiv> 20"
abbreviation sz_ipv6hdr :: nat where "sz_ipv6hdr \<equiv> 40"
abbreviation sz_udphdr :: nat where "sz_udphdr \<equiv> 8"
abbreviation sz_tcphdr :: nat where "sz_tcphdr \<equiv> 20"

section \<open>Data\<close>

text \<open>
  The address unions are four words; the IPv4 member is the first one, over zeroes. The port union
  is its two halves; \<open>ports\<close> reads it as one little-endian word.
\<close>

type_synonym v128 = "u32 \<times> u32 \<times> u32 \<times> u32"

record flow_key =
  src :: v128
  dst :: v128
  port16_0 :: u16
  port16_1 :: u16
  proto :: u8

definition ports :: "flow_key \<Rightarrow> u32" where
  "ports f = ucast (port16_0 f) OR push_bit 16 (ucast (port16_1 f))"

record vip_definition =
  vaddr :: v128
  vport :: u16
  vproto :: u8

record vip_meta =
  flags :: u32
  vip_num :: u32

record real_pos_lru =
  pos :: u32
  atime :: u64

record real_definition =
  rdst :: u32
  rdstv6 :: v128
  rflags :: u8

record lb_stats =
  v1 :: u64
  v2 :: u64

record ctl_value =
  mac :: "u8 \<times> u8 \<times> u8 \<times> u8 \<times> u8 \<times> u8"

fun mac_bytes :: "u8 \<times> u8 \<times> u8 \<times> u8 \<times> u8 \<times> u8 \<Rightarrow> u8 list" where
  "mac_bytes (a, b, c, d, e, f) = [a, b, c, d, e, f]"

fun v128_nth :: "v128 \<Rightarrow> nat \<Rightarrow> u32" where
  "v128_nth (a, b, c, d) i = (if i = 0 then a else if i = 1 then b else if i = 2 then c else d)"

type_synonym lru_inner = "flow_key \<Rightarrow> real_pos_lru option"

text \<open>
  The maps, the globals and the packet. \<open>stats\<close>, \<open>reals_stats\<close> and \<open>lru_miss_stats\<close> are per-CPU arrays:
  the model has the slice of the CPU the program runs on. \<open>timing_samples\<close> is the flat array of
  \<^verbatim>\<open>BENCH_NR_CPUS * BENCH_NR_SAMPLES\<close> samples.
\<close>

record 'w lb_state =
  pkt :: "u8 list"
  vip_map :: "vip_definition \<Rightarrow> vip_meta option"
  lru_mapping :: "u32 \<Rightarrow> lru_inner option"
  ch_rings :: "u32 bpf_array"
  reals :: "real_definition bpf_array"
  stats :: "lb_stats bpf_array"
  reals_stats :: "lb_stats bpf_array"
  ctl_array :: "ctl_value bpf_array"
  vip_miss_stats :: "vip_definition bpf_array"
  lru_miss_stats :: "u32 bpf_array"
  flow_mask :: u32
  cold_lru :: u32
  batch_gen :: u32
  batch_iters :: u32
  timing_samples :: "nat \<Rightarrow> u64"
  timing_idx :: "nat \<Rightarrow> u32"
  timing_enabled :: u32
  world :: 'w

record 'w lb_kernel =
  bpf_xdp_adjust_head :: "int \<Rightarrow> u8 list \<Rightarrow> 'w \<Rightarrow> i64 \<times> u8 list \<times> 'w"
  bpf_ktime_get_ns :: "'w \<Rightarrow> u64 \<times> 'w"
  bpf_get_prandom_u32 :: "'w \<Rightarrow> u32 \<times> 'w"
  bpf_get_smp_processor_id :: u32
  lru_update_elem :: "flow_key \<Rightarrow> real_pos_lru \<Rightarrow> lru_inner \<Rightarrow> 'w \<Rightarrow> lru_inner \<times> 'w"
  may_goto :: "'w \<Rightarrow> bool \<times> 'w"

section \<open>Hashing\<close>

definition rol32 :: "u32 \<Rightarrow> nat \<Rightarrow> u32" where
  "rol32 w shift = push_bit shift w OR drop_bit (32 - shift) w"

definition jhash_mix :: "u32 \<times> u32 \<times> u32 \<Rightarrow> u32 \<times> u32 \<times> u32" where
  "jhash_mix = (\<lambda>(a, b, c).
     let a = a - c; a = a XOR rol32 c 4; c = c + b;
         b = b - a; b = b XOR rol32 a 6; a = a + c;
         c = c - b; c = c XOR rol32 b 8; b = b + a;
         a = a - c; a = a XOR rol32 c 16; c = c + b;
         b = b - a; b = b XOR rol32 a 19; a = a + c;
         c = c - b; c = c XOR rol32 b 4; b = b + a
     in (a, b, c))"

definition jhash_final :: "u32 \<times> u32 \<times> u32 \<Rightarrow> u32 \<times> u32 \<times> u32" where
  "jhash_final = (\<lambda>(a, b, c).
     let c = c XOR b; c = c - rol32 b 14;
         a = a XOR c; a = a - rol32 c 11;
         b = b XOR a; b = b - rol32 a 25;
         c = c XOR b; c = c - rol32 b 16;
         a = a XOR c; a = a - rol32 c 4;
         b = b XOR a; b = b - rol32 a 14;
         c = c XOR b; c = c - rol32 b 24
     in (a, b, c))"

definition jhash_2words :: "u32 \<Rightarrow> u32 \<Rightarrow> u32" where
  "jhash_2words a b =
     (let initval = CH_RING_SIZE + JHASH_INITVAL + push_bit 2 2;
          (a, b, c) = jhash_final (a + initval, b + initval, initval)
      in c)"

definition jhash2_4words :: "v128 \<Rightarrow> u32" where
  "jhash2_4words k =
     (let a = JHASH_INITVAL + push_bit 2 4 + MAX_VIPS; b = a; c = a;
          a = a + v128_nth k 0; b = b + v128_nth k 1; c = c + v128_nth k 2;
          (a, b, c) = jhash_mix (a, b, c);
          a = a + v128_nth k 3;
          (a, b, c) = jhash_final (a, b, c)
      in c)"

section \<open>Encapsulation\<close>

text \<open>The sum of the ten halfwords of an IPv4 header, from halfword \<open>i\<close> on.\<close>

function csum_words :: "u8 list \<Rightarrow> nat \<Rightarrow> nat \<Rightarrow> u32 \<Rightarrow> u32 option" where
  "csum_words p iph i csum =
     (if i < sz_iphdr div 2
      then do { h \<leftarrow> ld16 p (iph + 2 * i); csum_words p iph (i + 1) (csum + ucast h) }
      else Some csum)"
  by pat_completeness auto
termination by (relation "measure (\<lambda>(_, _, i, _). sz_iphdr div 2 - i)") auto

declare csum_words.simps [simp del]

definition csum_fold :: "u32 \<Rightarrow> u32" where
  "csum_fold csum = (csum AND 0xffff) + drop_bit 16 csum"

definition ipv4_csum :: "u8 list \<Rightarrow> nat \<Rightarrow> u8 list option" where
  "ipv4_csum p iph = do {
     csum \<leftarrow> csum_words p iph 0 0;
     let csum = csum_fold csum;
     let csum = csum_fold csum;
     st16 p (iph + 10) (ucast (NOT csum))
   }"

definition create_encap_ipv4_src :: "u16 \<Rightarrow> u32 \<Rightarrow> u32" where
  "create_encap_ipv4_src port s =
     (let ip_suffix = ucast (to_be16 port) :: u32;
          ip_suffix = push_bit 16 ip_suffix;
          ip_suffix = ip_suffix XOR s
      in (0xFFFF0000 AND ip_suffix) OR IPIP_V4_PREFIX)"

definition create_encap_ipv6_src :: "u16 \<Rightarrow> u32 \<Rightarrow> v128" where
  "create_encap_ipv6_src port s =
     (IPIP_V6_PREFIX1, IPIP_V6_PREFIX2, IPIP_V6_PREFIX3, s XOR ucast port)"

definition encap_v4 ::
    "'w lb_kernel \<Rightarrow> u32 \<Rightarrow> u32 \<Rightarrow> u16 \<Rightarrow> u8 list \<Rightarrow> u8 list \<Rightarrow> 'w \<Rightarrow> (int \<times> u8 list \<times> 'w) option" where
  "encap_v4 K saddr daddr payload_len dst_mac p w =
     (let (ret, p, w) = bpf_xdp_adjust_head K (- int sz_iphdr) p w;
          iph = sz_ethhdr; old_eth = sz_iphdr
      in if ret \<noteq> 0 then Some (-1, p, w)
         else if sz_ethhdr > length p \<or> old_eth + sz_ethhdr > length p \<or> iph + sz_iphdr > length p
         then Some (-1, p, w)
         else do {
           p \<leftarrow> vcopy8 (\<lambda>p i. ld8 p (old_eth + i)) p 6 0 6;
           p \<leftarrow> vcopy8 (\<lambda>_. ld8 dst_mac) p 0 0 6;
           p \<leftarrow> st16 p 12 (to_be16 ETH_P_IP);
           p \<leftarrow> st8 p iph (push_bit 4 4 OR of_nat (sz_iphdr div 4));
           p \<leftarrow> st8 p (iph + 1) 0;
           p \<leftarrow> st16 p (iph + 2) (to_be16 (payload_len + of_nat sz_iphdr));
           p \<leftarrow> st16 p (iph + 4) 0;
           p \<leftarrow> st16 p (iph + 6) 0;
           p \<leftarrow> st8 p (iph + 8) 64;
           p \<leftarrow> st8 p (iph + 9) IPPROTO_IPIP;
           p \<leftarrow> st16 p (iph + 10) 0;
           p \<leftarrow> st32 p (iph + 12) saddr;
           p \<leftarrow> st32 p (iph + 16) daddr;
           p \<leftarrow> ipv4_csum p iph;
           Some (0, p, w)
         })"

definition encap_v6 ::
    "'w lb_kernel \<Rightarrow> v128 \<Rightarrow> v128 \<Rightarrow> u8 \<Rightarrow> u16 \<Rightarrow> u8 list \<Rightarrow> u8 list \<Rightarrow> 'w \<Rightarrow>
     (int \<times> u8 list \<times> 'w) option" where
  "encap_v6 K saddr daddr nexthdr payload_len dst_mac p w =
     (let (ret, p, w) = bpf_xdp_adjust_head K (- int sz_ipv6hdr) p w;
          ip6h = sz_ethhdr; old_eth = sz_ipv6hdr
      in if ret \<noteq> 0 then Some (-1, p, w)
         else if sz_ethhdr > length p \<or> old_eth + sz_ethhdr > length p \<or> ip6h + sz_ipv6hdr > length p
         then Some (-1, p, w)
         else do {
           p \<leftarrow> vcopy8 (\<lambda>p i. ld8 p (old_eth + i)) p 6 0 6;
           p \<leftarrow> vcopy8 (\<lambda>_. ld8 dst_mac) p 0 0 6;
           p \<leftarrow> st16 p 12 (to_be16 ETH_P_IPV6);
           p \<leftarrow> st8 p ip6h (push_bit 4 6);
           p \<leftarrow> st_bytes p (ip6h + 1) [0, 0, 0];
           p \<leftarrow> st8 p (ip6h + 6) nexthdr;
           p \<leftarrow> st16 p (ip6h + 4) (to_be16 payload_len);
           p \<leftarrow> st8 p (ip6h + 7) 64;
           p \<leftarrow> vcopy32 (\<lambda>_ i. Some (v128_nth saddr i)) p (ip6h + 8) 0 4;
           p \<leftarrow> vcopy32 (\<lambda>_ i. Some (v128_nth daddr i)) p (ip6h + 24) 0 4;
           Some (0, p, w)
         })"

section \<open>Statistics and lookups\<close>

definition update_stats :: "lb_stats bpf_array \<Rightarrow> u32 \<Rightarrow> u16 \<Rightarrow> lb_stats bpf_array" where
  "update_stats m key bytes =
     (case arr_lookup m key of None \<Rightarrow> m
      | Some s \<Rightarrow> arr_update m key (s\<lparr>v1 := v1 s + 1, v2 := v2 s + ucast bytes\<rparr>))"

text \<open>The increments of \<^verbatim>\<open>v1\<close> and \<^verbatim>\<open>v2\<close> of one entry through a pointer that may be null.\<close>

definition inc_v1 :: "u32 \<Rightarrow> lb_stats bpf_array \<Rightarrow> lb_stats bpf_array" where
  "inc_v1 key m =
     (case arr_lookup m key of None \<Rightarrow> m | Some s \<Rightarrow> arr_update m key (s\<lparr>v1 := v1 s + 1\<rparr>))"

definition inc_v2 :: "u32 \<Rightarrow> lb_stats bpf_array \<Rightarrow> lb_stats bpf_array" where
  "inc_v2 key m =
     (case arr_lookup m key of None \<Rightarrow> m | Some s \<Rightarrow> arr_update m key (s\<lparr>v2 := v2 s + 1\<rparr>))"

definition count_action :: "i32 \<Rightarrow> lb_stats bpf_array \<Rightarrow> lb_stats bpf_array" where
  "count_action action m =
     (let key = (if action = XDP_TX then STATS_XDP_TX
                 else if action = XDP_PASS then STATS_XDP_PASS else STATS_XDP_DROP)
      in inc_v1 key m)"

definition is_under_flood :: "'w lb_kernel \<Rightarrow> 'w lb_state \<Rightarrow> bool \<times> 'w lb_state" where
  "is_under_flood K st =
     (case arr_lookup (stats st) STATS_NEW_CONN of
        None \<Rightarrow> (True, st)
      | Some c \<Rightarrow>
          let (cur_time, w) = bpf_ktime_get_ns K (world st); st = st\<lparr>world := w\<rparr>
          in if cur_time - v2 c > ONE_SEC
             then (False, st\<lparr>stats := arr_update (stats st) STATS_NEW_CONN (c\<lparr>v1 := 1, v2 := cur_time\<rparr>)\<rparr>)
             else let c = c\<lparr>v1 := v1 c + 1\<rparr>
                  in (v1 c > MAX_CONN_RATE, st\<lparr>stats := arr_update (stats st) STATS_NEW_CONN c\<rparr>))"

text \<open>
  The result is the real with its position, or \<open>None\<close> for a null pointer. \<open>lru_map\<close> is the map of the
  running CPU, so the new access time goes back to \<open>lru_mapping\<close>.
\<close>

definition connection_table_lookup ::
    "'w lb_kernel \<Rightarrow> flow_key \<Rightarrow> lru_inner \<Rightarrow> 'w lb_state \<Rightarrow> (real_definition \<times> u32) option \<times> 'w lb_state" where
  "connection_table_lookup K flow lru_map st =
     (case lru_map flow of
        None \<Rightarrow> (None, st)
      | Some dst_lru \<Rightarrow>
          let found = map_option (\<lambda>r. (r, pos dst_lru)) (arr_lookup (reals st) (pos dst_lru))
          in if proto flow = IPPROTO_UDP
             then let (cur_time, w) = bpf_ktime_get_ns K (world st); st = st\<lparr>world := w\<rparr>
                  in if cur_time - atime dst_lru > LRU_UDP_TIMEOUT then (None, st)
                     else (found, st\<lparr>lru_mapping := (lru_mapping st)(bpf_get_smp_processor_id K :=
                            Some (lru_map(flow := Some (dst_lru\<lparr>atime := cur_time\<rparr>))))\<rparr>)
             else (found, st))"

text \<open>The position in the rings that the flow hashes to.\<close>

definition flow_hash :: "bool \<Rightarrow> flow_key \<Rightarrow> u32" where
  "flow_hash is_v6 flow =
     (if is_v6 then jhash_2words (jhash2_4words (src flow)) (ports flow)
      else jhash_2words (v128_nth (src flow) 0) (ports flow))"

definition ch_key :: "bool \<Rightarrow> flow_key \<Rightarrow> vip_meta \<Rightarrow> u32" where
  "ch_key is_v6 flow vip_info = CH_RING_SIZE * vip_num vip_info + flow_hash is_v6 flow mod CH_RING_SIZE"

definition get_packet_dst ::
    "'w lb_kernel \<Rightarrow> flow_key \<Rightarrow> vip_meta \<Rightarrow> bool \<Rightarrow> bool \<Rightarrow> 'w lb_state \<Rightarrow>
     (real_definition \<times> u32) option \<times> 'w lb_state" where
  "get_packet_dst K flow vip_info is_v6 is_rst st =
     (let (under_flood, st) = is_under_flood K st
      in case arr_lookup (ch_rings st) (ch_key is_v6 flow vip_info) of
           None \<Rightarrow> (None, st)
         | Some real_pos \<Rightarrow>
             (case arr_lookup (reals st) real_pos of
                None \<Rightarrow> (None, st)
              | Some real \<Rightarrow>
                  if flags vip_info AND F_LRU_BYPASS = 0 \<and> \<not> under_flood \<and> \<not> is_rst
                  then
                    let new_lru = \<lparr>pos = real_pos, atime = 0\<rparr>;
                        (new_lru, w) =
                          (if proto flow = IPPROTO_UDP
                           then let (t, w) = bpf_ktime_get_ns K (world st) in (new_lru\<lparr>atime := t\<rparr>, w)
                           else (new_lru, world st));
                        cpu = bpf_get_smp_processor_id K;
                        (m, w) = (case lru_mapping st cpu of
                                    None \<Rightarrow> (None, w)
                                  | Some m \<Rightarrow> map_prod Some id (lru_update_elem K flow new_lru m w))
                    in (Some (real, real_pos), st\<lparr>lru_mapping := (lru_mapping st)(cpu := m), world := w\<rparr>)
                  else (Some (real, real_pos), st)))"

definition update_vip_lru_miss_stats ::
    "vip_definition \<Rightarrow> bool \<Rightarrow> u32 \<Rightarrow> 'w lb_state \<Rightarrow> 'w lb_state" where
  "update_vip_lru_miss_stats vip is_v6 real_idx st =
     (case arr_lookup (vip_miss_stats st) 0 of
        None \<Rightarrow> st
      | Some miss_vip \<Rightarrow>
          if is_v6 \<and> vaddr miss_vip \<noteq> vaddr vip then st
          else if \<not> is_v6 \<and> v128_nth (vaddr miss_vip) 0 \<noteq> v128_nth (vaddr vip) 0 then st
          else if vport miss_vip \<noteq> vport vip \<or> vproto miss_vip \<noteq> vproto vip then st
          else (case arr_lookup (lru_miss_stats st) real_idx of
                  None \<Rightarrow> st
                | Some cnt \<Rightarrow> st\<lparr>lru_miss_stats := arr_update (lru_miss_stats st) real_idx (cnt + 1)\<rparr>))"

section \<open>Parsing\<close>

text \<open>
  What the parsing part of \<^verbatim>\<open>process_packet\<close> leaves in the local variables. Its result is \<open>Inl action\<close>
  where the code breaks out with that action.
\<close>

record parsed =
  is_v6 :: bool
  payload_len :: u16
  flow :: flow_key
  vip_def :: vip_definition
  is_syn :: bool
  is_rst :: bool

definition ld128 :: "u8 list \<Rightarrow> nat \<Rightarrow> v128 option" where
  "ld128 p off = do {
     a \<leftarrow> ld32 p off; b \<leftarrow> ld32 p (off + 4); c \<leftarrow> ld32 p (off + 8); d \<leftarrow> ld32 p (off + 12);
     Some (a, b, c, d)
   }"

text \<open>The transport header at offset \<open>l4\<close>.\<close>

definition parse_l4 ::
    "u8 list \<Rightarrow> bool \<Rightarrow> u16 \<Rightarrow> u8 \<Rightarrow> v128 \<Rightarrow> v128 \<Rightarrow> nat \<Rightarrow> (i32 + parsed) option" where
  "parse_l4 p v6 plen pr saddr daddr l4 =
     (if pr \<noteq> IPPROTO_TCP \<and> pr \<noteq> IPPROTO_UDP then Some (Inl XDP_PASS)
      else if l4 + sz_udphdr > length p then Some (Inl XDP_DROP)
      else do {
        sport \<leftarrow> ld16 p l4;
        dport \<leftarrow> ld16 p (l4 + 2);
        if pr = IPPROTO_TCP \<and> l4 + sz_tcphdr > length p then Some (Inl XDP_DROP)
        else do {
          fl \<leftarrow> (if pr = IPPROTO_TCP then ld8 p (l4 + 13) else Some 0);
          Some (Inr \<lparr>is_v6 = v6, payload_len = plen,
            flow = \<lparr>src = saddr, dst = daddr, port16_0 = sport, port16_1 = dport, proto = pr\<rparr>,
            vip_def = \<lparr>vaddr = daddr, vport = dport, vproto = pr\<rparr>,
            is_syn = (fl AND TCPF_SYN \<noteq> 0), is_rst = (fl AND TCPF_RST \<noteq> 0)\<rparr>)
        }
      })"

definition parse_v6 :: "u8 list \<Rightarrow> (i32 + parsed) option" where
  "parse_v6 p =
     (let ip6h = sz_ethhdr
      in if ip6h + sz_ipv6hdr > length p then Some (Inl XDP_DROP)
         else do {
           nexthdr \<leftarrow> ld8 p (ip6h + 6);
           if nexthdr = IPPROTO_FRAGMENT then Some (Inl XDP_DROP)
           else do {
             plen \<leftarrow> ld16 p (ip6h + 4);
             saddr \<leftarrow> ld128 p (ip6h + 8);
             daddr \<leftarrow> ld128 p (ip6h + 24);
             parse_l4 p True (of_nat sz_ipv6hdr + to_be16 plen) nexthdr saddr daddr (ip6h + sz_ipv6hdr)
           }
         })"

definition parse_v4 :: "u8 list \<Rightarrow> (i32 + parsed) option" where
  "parse_v4 p =
     (let iph = sz_ethhdr
      in if iph + sz_iphdr > length p then Some (Inl XDP_DROP)
         else do {
           ihl_version \<leftarrow> ld8 p iph;
           if ihl_version AND 0x0f \<noteq> 5 then Some (Inl XDP_DROP)
           else do {
             frag_off \<leftarrow> ld16 p (iph + 6);
             if frag_off AND to_be16 PCKT_FRAGMENTED \<noteq> 0 then Some (Inl XDP_DROP)
             else do {
               tot_len \<leftarrow> ld16 p (iph + 2);
               protocol \<leftarrow> ld8 p (iph + 9);
               saddr \<leftarrow> ld32 p (iph + 12);
               daddr \<leftarrow> ld32 p (iph + 16);
               parse_l4 p False (to_be16 tot_len) protocol (saddr, 0, 0, 0) (daddr, 0, 0, 0)
                 (iph + sz_iphdr)
             }
           }
         })"

definition parse_packet :: "u8 list \<Rightarrow> (i32 + parsed) option" where
  "parse_packet p =
     (if sz_ethhdr > length p then Some (Inl XDP_DROP)
      else do {
        h_proto \<leftarrow> ld16 p 12;
        if h_proto = to_be16 ETH_P_IPV6 then parse_v6 p
        else if h_proto = to_be16 ETH_P_IP then parse_v4 p
        else Some (Inl XDP_PASS)
      })"

section \<open>The load balancer\<close>

text \<open>A packet without an entry in the connection table: choose a real and count the miss.\<close>

definition lb_miss ::
    "'w lb_kernel \<Rightarrow> parsed \<Rightarrow> vip_meta \<Rightarrow> 'w lb_state \<Rightarrow> (real_definition \<times> u32) option \<times> 'w lb_state" where
  "lb_miss K l vip_info st =
     (let st = (if proto (flow l) = IPPROTO_TCP then st\<lparr>stats := inc_v1 STATS_LRU_MISS (stats st)\<rparr> else st);
          (r, st) = get_packet_dst K (flow l) vip_info (is_v6 l) (is_rst l) st
      in case r of
           None \<Rightarrow> (None, st)
         | Some (real, real_pos) \<Rightarrow>
             let st = update_vip_lru_miss_stats (vip_def l) (is_v6 l) real_pos st
             in (Some (real, real_pos), st\<lparr>stats := inc_v2 STATS_LRU (stats st)\<rparr>))"

text \<open>The real for the packet: the connection table first, then the ring.\<close>

definition lb_select ::
    "'w lb_kernel \<Rightarrow> parsed \<Rightarrow> vip_meta \<Rightarrow> lru_inner \<Rightarrow> 'w lb_state \<Rightarrow>
     (real_definition \<times> u32) option \<times> 'w lb_state" where
  "lb_select K l vip_info lru_map st =
     (let (r, st) = (if flags vip_info AND F_LRU_BYPASS = 0 \<and> \<not> is_syn l
                     then connection_table_lookup K (flow l) lru_map st else (None, st))
      in case r of Some x \<Rightarrow> (Some x, st) | None \<Rightarrow> lb_miss K l vip_info st)"

text \<open>Encapsulation towards the chosen real.\<close>

definition lb_encap ::
    "'w lb_kernel \<Rightarrow> parsed \<Rightarrow> real_definition \<Rightarrow> u8 list \<Rightarrow> u8 list \<Rightarrow> 'w \<Rightarrow> (int \<times> u8 list \<times> 'w) option" where
  "lb_encap K l real dst_mac p w =
     (if is_v6 l
      then encap_v6 K (create_encap_ipv6_src (port16_0 (flow l)) (v128_nth (src (flow l)) 0))
             (rdstv6 real) IPPROTO_IPV6 (payload_len l) dst_mac p w
      else if rflags real AND F_IPV6 \<noteq> 0
      then encap_v6 K (create_encap_ipv6_src (port16_0 (flow l)) (v128_nth (src (flow l)) 0))
             (rdstv6 real) IPPROTO_IPIP (payload_len l) dst_mac p w
      else encap_v4 K (create_encap_ipv4_src (port16_0 (flow l)) (v128_nth (src (flow l)) 0))
             (rdst real) (payload_len l) dst_mac p w)"

definition lb_send ::
    "'w lb_kernel \<Rightarrow> parsed \<Rightarrow> vip_meta \<Rightarrow> real_definition \<Rightarrow> u32 \<Rightarrow> 'w lb_state \<Rightarrow> (i32 \<times> 'w lb_state) option" where
  "lb_send K l vip_info real real_pos st =
     (case arr_lookup (ctl_array st) 0 of
        None \<Rightarrow> Some (XDP_DROP, st)
      | Some cval \<Rightarrow>
          let st = st\<lparr>stats := update_stats (stats st) (vip_num vip_info) (payload_len l)\<rparr>;
              st = st\<lparr>reals_stats := update_stats (reals_stats st) real_pos (payload_len l)\<rparr>
          in do {
            (ret, p, w) \<leftarrow> lb_encap K l real (mac_bytes (mac cval)) (pkt st) (world st);
            let st = st\<lparr>pkt := p, world := w\<rparr>;
            Some (if ret \<noteq> 0 then XDP_DROP else XDP_TX, st)
          })"

definition lb_forward :: "'w lb_kernel \<Rightarrow> parsed \<Rightarrow> 'w lb_state \<Rightarrow> (i32 \<times> 'w lb_state) option" where
  "lb_forward K l st =
     (case vip_map st (vip_def l) of
        None \<Rightarrow> Some (XDP_PASS, st)
      | Some vip_info \<Rightarrow>
          (case arr_lookup (stats st) STATS_LRU of
             None \<Rightarrow> Some (XDP_DROP, st)
           | Some _ \<Rightarrow>
               let st = st\<lparr>stats := inc_v1 STATS_LRU (stats st)\<rparr>
               in case lru_mapping st (bpf_get_smp_processor_id K) of
                    None \<Rightarrow> Some (XDP_DROP, st)
                  | Some lru_map \<Rightarrow>
                      let (r, st) = lb_select K l vip_info lru_map st
                      in case r of
                           None \<Rightarrow> Some (XDP_DROP, st)
                         | Some (real, real_pos) \<Rightarrow> lb_send K l vip_info real real_pos st))"

definition process_packet :: "'w lb_kernel \<Rightarrow> 'w lb_state \<Rightarrow> (i32 \<times> 'w lb_state) option" where
  "process_packet K st = do {
     r \<leftarrow> parse_packet (pkt st);
     (action, st) \<leftarrow> (case r of Inl a \<Rightarrow> Some (a, st) | Inr l \<Rightarrow> lb_forward K l st);
     Some (action, st\<lparr>stats := count_action action (stats st)\<rparr>)
   }"

section \<open>The benchmark loop\<close>

definition bench_record_sample :: "'w lb_kernel \<Rightarrow> u64 \<Rightarrow> 'w lb_state \<Rightarrow> 'w lb_state option" where
  "bench_record_sample K elapsed_ns st =
     (if timing_enabled st = 0 then Some st
      else
        let cpu = unat (bpf_get_smp_processor_id K AND BENCH_CPU_MASK)
        in if cpu \<ge> BENCH_NR_CPUS then None
           else
             let idx = timing_idx st cpu
             in if idx \<ge> of_nat BENCH_NR_SAMPLES then Some st
                else
                  let off = cpu * BENCH_NR_SAMPLES + unat idx
                  in if off \<ge> BENCH_NR_CPUS * BENCH_NR_SAMPLES then None
                     else Some (st\<lparr>timing_samples := (timing_samples st)(off := elapsed_ns),
                       timing_idx := (timing_idx st)(cpu := idx + 1)\<rparr>))"

definition strip_encap :: "'w lb_kernel \<Rightarrow> u8 list \<Rightarrow> 'w lb_state \<Rightarrow> (int \<times> 'w lb_state) option" where
  "strip_encap K saved_eth st =
     (if sz_ethhdr > length (pkt st) then Some (-1, st)
      else do {
        h_proto \<leftarrow> ld16 (pkt st) 12;
        let hdr_sz = (if h_proto = to_be16 ETH_P_IPV6 then int sz_ipv6hdr else int sz_iphdr);
        let (ret, p, w) = bpf_xdp_adjust_head K hdr_sz (pkt st) (world st);
        let st = st\<lparr>pkt := p, world := w\<rparr>;
        if ret \<noteq> 0 then Some (-1, st)
        else if sz_ethhdr > length p then Some (-1, st)
        else do {
          p \<leftarrow> vcopy8 (\<lambda>_. ld8 saved_eth) p 0 0 sz_ethhdr;
          Some (0, st\<lparr>pkt := p\<rparr>)
        }
      })"

definition xorshift32 :: "u32 \<Rightarrow> u32" where
  "xorshift32 x =
     (let x = x XOR push_bit 13 x; x = x XOR drop_bit 17 x; x = x XOR push_bit 5 x in x)"

definition randomize_src :: "nat \<Rightarrow> u32 \<Rightarrow> 'w lb_state \<Rightarrow> (u32 \<times> 'w lb_state) option" where
  "randomize_src saddr_off rand_state st =
     (let rand_state = xorshift32 rand_state
      in if saddr_off + 4 \<le> length (pkt st)
         then do {
           p \<leftarrow> st32 (pkt st) saddr_off (rand_state AND flow_mask st);
           Some (rand_state, st\<lparr>pkt := p\<rparr>)
         }
         else Some (rand_state, st))"

text \<open>\<^verbatim>\<open>*saddr ^= batch_hash\<close>, guarded by the bounds check.\<close>

definition xor_saddr :: "nat \<Rightarrow> u32 \<Rightarrow> 'w lb_state \<Rightarrow> 'w lb_state option" where
  "xor_saddr saddr_off batch_hash st =
     (if saddr_off + 4 \<le> length (pkt st)
      then do {
        v \<leftarrow> ld32 (pkt st) saddr_off;
        p \<leftarrow> st32 (pkt st) saddr_off (v XOR batch_hash);
        Some (st\<lparr>pkt := p\<rparr>)
      }
      else Some st)"

text \<open>
  One timed iteration: \<open>Inl action\<close> where the code returns from the program, otherwise the random
  state for the next iteration.
\<close>

definition bench_iter ::
    "'w lb_kernel \<Rightarrow> u8 list \<Rightarrow> nat \<Rightarrow> u32 \<Rightarrow> u32 \<Rightarrow> 'w lb_state \<Rightarrow> ((i32 + u32) \<times> 'w lb_state) option" where
  "bench_iter K saved_eth saddr_off batch_hash rand_state st = do {
     (bench_result, st) \<leftarrow> process_packet K st;
     (r, st) \<leftarrow>
       (if bench_result = XDP_TX
        then do {
          (ret, st) \<leftarrow> strip_encap K saved_eth st;
          if ret \<noteq> 0 then Some (Inl XDP_DROP, st)
          else if rand_state \<noteq> 0
          then do {
            (rand_state, st) \<leftarrow> randomize_src saddr_off rand_state st;
            Some (Inr rand_state, st)
          }
          else Some (Inr rand_state, st)
        }
        else Some (Inr rand_state, st));
     case r of
       Inl a \<Rightarrow> Some (Inl a, st)
     | Inr rand_state \<Rightarrow>
         if cold_lru st \<noteq> 0
         then do { st \<leftarrow> xor_saddr saddr_off batch_hash st; Some (Inr rand_state, st) }
         else Some (Inr rand_state, st)
   }"

text \<open>
  The timed loop: at most \<^verbatim>\<open>batch_iters\<close> iterations, fewer when \<^verbatim>\<open>may_goto\<close> runs out of budget. The
  result is \<open>Some action\<close> if an iteration returned from the program.
\<close>

fun bench_loop ::
    "'w lb_kernel \<Rightarrow> u8 list \<Rightarrow> nat \<Rightarrow> u32 \<Rightarrow> nat \<Rightarrow> u32 \<Rightarrow> 'w lb_state \<Rightarrow> (i32 option \<times> 'w lb_state) option" where
  "bench_loop K saved_eth saddr_off batch_hash 0 rand_state st = Some (None, st)"
| "bench_loop K saved_eth saddr_off batch_hash (Suc iters_left) rand_state st =
     (let (ok, w) = may_goto K (world st); st = st\<lparr>world := w\<rparr>
      in if \<not> ok then Some (None, st)
         else do {
           (r, st) \<leftarrow> bench_iter K saved_eth saddr_off batch_hash rand_state st;
           case r of
             Inl a \<Rightarrow> Some (Some a, st)
           | Inr rand_state \<Rightarrow> bench_loop K saved_eth saddr_off batch_hash iters_left rand_state st
         })"

text \<open>The seed of the source randomisation, and the change of the source for a cold connection table.\<close>

definition bench_seed :: "'w lb_kernel \<Rightarrow> 'w lb_state \<Rightarrow> u32 \<times> 'w lb_state" where
  "bench_seed K st =
     (if flow_mask st \<noteq> 0
      then let (r, w) = bpf_get_prandom_u32 K (world st) in (r OR 1, st\<lparr>world := w\<rparr>)
      else (0, st))"

definition bench_cold :: "'w lb_kernel \<Rightarrow> nat \<Rightarrow> 'w lb_state \<Rightarrow> (u32 \<times> 'w lb_state) option" where
  "bench_cold K saddr_off st =
     (if cold_lru st \<noteq> 0
      then
        let gen = batch_gen st + 1; st = st\<lparr>batch_gen := gen\<rparr>;
            batch_hash = (gen + bpf_get_smp_processor_id K) * KNUTH_HASH_MULT
        in do { st \<leftarrow> xor_saddr saddr_off batch_hash st; Some (batch_hash, st) }
      else Some (0, st))"

text \<open>The expansion of \<^verbatim>\<open>BENCH_BPF_LOOP\<close>: the timed loop, the sample, and one untimed iteration.\<close>

definition bench_bpf_loop ::
    "'w lb_kernel \<Rightarrow> u8 list \<Rightarrow> nat \<Rightarrow> u32 \<Rightarrow> u32 \<Rightarrow> 'w lb_state \<Rightarrow> (i32 \<times> 'w lb_state) option" where
  "bench_bpf_loop K saved_eth saddr_off batch_hash rand_state st =
     (let (bench_start, w) = bpf_ktime_get_ns K (world st); st = st\<lparr>world := w\<rparr>
      in do {
        (r, st) \<leftarrow> bench_loop K saved_eth saddr_off batch_hash (unat (batch_iters st)) rand_state st;
        case r of
          Some a \<Rightarrow> Some (a, st)
        | None \<Rightarrow>
            let (t, w) = bpf_ktime_get_ns K (world st); st = st\<lparr>world := w\<rparr>
            in do {
              st \<leftarrow> bench_record_sample K (t - bench_start) st;
              process_packet K st
            }
      })"

definition xdp_lb_bench :: "'w lb_kernel \<Rightarrow> 'w lb_state \<Rightarrow> (i32 \<times> 'w lb_state) option" where
  "xdp_lb_bench K st =
     (if sz_ethhdr > length (pkt st) then Some (XDP_DROP, st)
      else do {
        saved_eth \<leftarrow> vcopy8 (\<lambda>_. ld8 (pkt st)) (replicate 14 0) 0 0 sz_ethhdr;
        h_proto \<leftarrow> ld16 (pkt st) 12;
        let saddr_off = sz_ethhdr + (if h_proto = to_be16 ETH_P_IPV6 then 8 else 12);
        let (rand_state, st) = bench_seed K st;
        (batch_hash, st) \<leftarrow> bench_cold K saddr_off st;
        bench_bpf_loop K saved_eth saddr_off batch_hash rand_state st
      })"

end
