(* ===== verification/Xdp_Lb_Encap.thy ===== *)
theory Xdp_Lb_Encap
  imports Xdp_Lb
begin

text \<open>
  Closed forms of the packet operations of the load balancer: the field-by-field stores of the two
  encapsulations are the store of one header, the checksum loop is a sum, and every load the parser
  makes is inside the packet.
\<close>

section \<open>Headers as byte lists\<close>

definition eth_bytes :: "u8 list \<Rightarrow> u8 list \<Rightarrow> u16 \<Rightarrow> u8 list" where
  "eth_bytes dmac smac pr = dmac @ smac @ bytes16 (to_be16 pr)"

definition ip_bytes :: "u32 \<Rightarrow> u32 \<Rightarrow> u16 \<Rightarrow> u16 \<Rightarrow> u8 list" where
  "ip_bytes saddr daddr plen check =
     [0x45, 0] @ bytes16 (to_be16 (plen + 20)) @ [0, 0, 0, 0, 64, IPPROTO_IPIP] @ bytes16 check @
     bytes32 saddr @ bytes32 daddr"

definition v128_bytes :: "v128 \<Rightarrow> u8 list" where
  "v128_bytes a = bytes32 (v128_nth a 0) @ bytes32 (v128_nth a 1) @ bytes32 (v128_nth a 2) @
     bytes32 (v128_nth a 3)"

definition ip6_bytes :: "v128 \<Rightarrow> v128 \<Rightarrow> u8 \<Rightarrow> u16 \<Rightarrow> u8 list" where
  "ip6_bytes saddr daddr nexthdr plen =
     [0x60, 0, 0, 0] @ bytes16 (to_be16 plen) @ [nexthdr, 64] @ v128_bytes saddr @ v128_bytes daddr"

lemma length_ip_bytes [simp]: "length (ip_bytes s d l c) = 20"
  by (simp add: ip_bytes_def)

lemma length_v128_bytes [simp]: "length (v128_bytes a) = 16"
  by (simp add: v128_bytes_def)

lemma length_ip6_bytes [simp]: "length (ip6_bytes s d n l) = 40"
  by (simp add: ip6_bytes_def)

lemma length_mac_bytes [simp]: "length (mac_bytes m) = 6"
  by (cases m) simp

section \<open>The checksum\<close>

text \<open>The halfwords of a byte list.\<close>

fun halfwords :: "u8 list \<Rightarrow> u16 list" where
  "halfwords (a # b # r) = word16 [a, b] # halfwords r"
| "halfwords _ = []"

definition csum_of :: "u8 list \<Rightarrow> u32" where
  "csum_of h = csum_fold (csum_fold (sum_list (map ucast (halfwords h))))"

lemma halfwords_append: "even (length a) \<Longrightarrow> halfwords (a @ b) = halfwords a @ halfwords b"
  by (induction a rule: halfwords.induct) auto

lemma halfwords_bytes16 [simp]: "halfwords (bytes16 x) = [x]"
proof -
  have "halfwords (bytes16 x) = [word16 (bytes16 x)]" by (simp add: bytes16_def)
  then show ?thesis by simp
qed

lemma length_halfwords: "length (halfwords h) = length h div 2"
  by (induction h rule: halfwords.induct) auto

lemma ld16_append:
  assumes "length a = off" "length b = 2 * n" "i < n"
  shows "ld16 (a @ b @ c) (off + 2 * i) = Some (halfwords b ! i)"
  using assms
proof (induction i arbitrary: a off b n)
  case 0
  then obtain x y r where "b = x # y # r"
    by (metis One_nat_def Suc_length_conv length_0_conv less_nat_zero_code mult_Suc_right not0_implies_Suc
        plus_1_eq_Suc add_2_eq_Suc)
  then show ?case using 0 by (simp add: ld16_def ld_bytes_def)
next
  case (Suc i)
  then obtain x y r where b: "b = x # y # r"
    by (metis One_nat_def Suc_length_conv length_0_conv less_nat_zero_code mult_Suc_right not0_implies_Suc
        plus_1_eq_Suc add_2_eq_Suc)
  have "ld16 ((a @ [x, y]) @ r @ c) ((off + 2) + 2 * i) = Some (halfwords r ! i)"
    using Suc b by (intro Suc.IH [of _ _ _ "n - 1"]) auto
  then show ?case by (simp add: b)
qed

lemma csum_words_steps:
  assumes "length a = off" "length h = 20" "i \<le> 10"
  shows "csum_words (a @ h @ c) off i s = Some (s + sum_list (map ucast (drop i (halfwords h))))"
  using assms(3)
proof (induction "10 - i" arbitrary: i s)
  case 0
  then show ?case using assms(2) by (simp add: csum_words.simps length_halfwords)
next
  case (Suc n)
  then have i: "i < 10" by simp
  then have "drop i (halfwords h) = halfwords h ! i # drop (Suc i) (halfwords h)"
    using assms(2) by (simp add: Cons_nth_drop_Suc length_halfwords)
  moreover have "ld16 (a @ h @ c) (off + 2 * i) = Some (halfwords h ! i)"
    using assms i by (intro ld16_append [where n = 10]) auto
  moreover have "csum_words (a @ h @ c) off (Suc i) t =
      Some (t + sum_list (map ucast (drop (Suc i) (halfwords h))))" for t
    using Suc i by (intro Suc.hyps) auto
  ultimately show ?case using i by (subst csum_words.simps) (simp add: add.assoc)
qed

lemma ipv4_csum_append:
  assumes "length a = off" "length h = 20"
  shows "ipv4_csum (a @ h @ c) off =
    Some (a @ (take 10 h @ bytes16 (ucast (NOT (csum_of h))) @ drop 12 h) @ c)"
  using assms csum_words_steps [OF assms, of 0 c 0]
  by (simp add: ipv4_csum_def csum_of_def Let_def st16_def st_bytes_def)

section \<open>The encapsulations\<close>

text \<open>The IPv4 header with the checksum the code computes for it.\<close>

definition ip_bytes_csum :: "u32 \<Rightarrow> u32 \<Rightarrow> u16 \<Rightarrow> u8 list" where
  "ip_bytes_csum saddr daddr plen =
     ip_bytes saddr daddr plen (ucast (NOT (csum_of (ip_bytes saddr daddr plen 0))))"

lemma ip_bytes_check:
  "take 10 (ip_bytes s d l 0) @ bytes16 c @ drop 12 (ip_bytes s d l 0) = ip_bytes s d l c"
  by (simp add: ip_bytes_def bytes16_def)

lemma st_bytes_0: "length bs \<le> length p \<Longrightarrow> st_bytes p 0 bs = Some (bs @ drop (length bs) p)"
  by (simp add: st_bytes_def)

lemmas store_defs = st8_def st16_def st32_def

lemma encap_v4_closed:
  assumes "bpf_xdp_adjust_head K (-20) p w = (ret, q, w')" "length m = 6"
  shows "encap_v4 K saddr daddr plen m p w =
    (if ret \<noteq> 0 \<or> length q < 34 then Some (-1, q, w')
     else Some (0, eth_bytes m (take 6 (drop 20 q)) ETH_P_IP @ ip_bytes_csum saddr daddr plen @ drop 34 q, w'))"
proof (cases "ret \<noteq> 0 \<or> length q < 34")
  case True
  then show ?thesis using assms by (auto simp: encap_v4_def)
next
  case False
  then have l: "ret = 0" "34 \<le> length q" by auto
  define smac where "smac = take 6 (drop 20 q)"
  have sl: "length smac = 6" using l by (simp add: smac_def)
  have c1: "vcopy8 (\<lambda>p i. ld8 p (20 + i)) q 6 0 6 = st_bytes q 6 smac"
    using l by (simp add: vcopy8_packet smac_def)
  have c2: "st_bytes q 6 smac \<bind> (\<lambda>p. vcopy8 (\<lambda>_. ld8 m) p 0 0 6 \<bind> k) =
      st_bytes q 6 smac \<bind> (\<lambda>p. st_bytes p 0 m \<bind> k)" for k :: "u8 list \<Rightarrow> 'b option"
    using l sl assms(2) by (simp add: st_bytes_def vcopy8_list)
  have "encap_v4 K saddr daddr plen m p w =
      st_bytes q 0 (eth_bytes m smac ETH_P_IP @ ip_bytes saddr daddr plen 0) \<bind>
        (\<lambda>p. ipv4_csum p 14 \<bind> (\<lambda>p. Some (0, p, w')))"
    using l assms(2) sl
    by (simp add: encap_v4_def assms(1) c1 c2 store_defs st_bytes_merge st_bytes_merge_down eth_bytes_def
        ip_bytes_def bytes16_def push_bit_eq_mult)
  also have "\<dots> = ipv4_csum (eth_bytes m smac ETH_P_IP @ ip_bytes saddr daddr plen 0 @ drop 34 q) 14 \<bind>
        (\<lambda>p. Some (0, p, w'))"
    using l assms(2) sl by (simp add: st_bytes_0 eth_bytes_def)
  also have "\<dots> = Some (0, eth_bytes m smac ETH_P_IP @ ip_bytes_csum saddr daddr plen @ drop 34 q, w')"
    using ipv4_csum_append [of "eth_bytes m smac ETH_P_IP" 14 "ip_bytes saddr daddr plen 0" "drop 34 q"]
      assms(2) sl
    unfolding ip_bytes_check by (simp add: eth_bytes_def ip_bytes_csum_def)
  finally show ?thesis using False by (simp add: smac_def)
qed

lemma encap_v6_closed:
  assumes "bpf_xdp_adjust_head K (-40) p w = (ret, q, w')" "length m = 6"
  shows "encap_v6 K saddr daddr nh plen m p w =
    (if ret \<noteq> 0 \<or> length q < 54 then Some (-1, q, w')
     else Some (0, eth_bytes m (take 6 (drop 40 q)) ETH_P_IPV6 @ ip6_bytes saddr daddr nh plen @ drop 54 q, w'))"
proof (cases "ret \<noteq> 0 \<or> length q < 54")
  case True
  then show ?thesis using assms by (auto simp: encap_v6_def)
next
  case False
  then have l: "ret = 0" "54 \<le> length q" by auto
  define smac where "smac = take 6 (drop 40 q)"
  have sl: "length smac = 6" using l by (simp add: smac_def)
  have c1: "vcopy8 (\<lambda>p i. ld8 p (40 + i)) q 6 0 6 = st_bytes q 6 smac"
    using l by (simp add: vcopy8_packet smac_def)
  have c2: "st_bytes q 6 smac \<bind> (\<lambda>p. vcopy8 (\<lambda>_. ld8 m) p 0 0 6 \<bind> k) =
      st_bytes q 6 smac \<bind> (\<lambda>p. st_bytes p 0 m \<bind> k)" for k :: "u8 list \<Rightarrow> 'b option"
    using l sl assms(2) by (simp add: st_bytes_def vcopy8_list)
  have vc: "st_bytes q 0 bs \<bind> (\<lambda>p. vcopy32 (\<lambda>_ i. Some (v128_nth a i)) p off 0 4 \<bind> k) =
      st_bytes q 0 (bs @ v128_bytes a) \<bind> k" if "length bs = off" "off + 16 \<le> 54"
    for a bs off and k :: "u8 list \<Rightarrow> 'b option"
    using that l sl
    by (simp add: st_bytes_def vcopy32_four [of _ "v128_nth a"] v128_bytes_def add.commute)
  have "encap_v6 K saddr daddr nh plen m p w =
      st_bytes q 0 (eth_bytes m smac ETH_P_IPV6 @ ip6_bytes saddr daddr nh plen) \<bind>
        (\<lambda>p. Some (0, p, w'))"
    using l assms(2) sl
    by (simp add: encap_v6_def assms(1) c1 c2 store_defs st_bytes_merge st_bytes_merge_down vc eth_bytes_def
        ip6_bytes_def push_bit_eq_mult)
  then show ?thesis using False l assms(2) sl by (simp add: st_bytes_0 eth_bytes_def smac_def)
qed

section \<open>The checksum is the Internet checksum\<close>

text \<open>One folding step on natural numbers.\<close>

definition nat_fold :: "nat \<Rightarrow> nat" where
  "nat_fold n = n mod 65536 + n div 65536"

lemma unat_csum_fold: "unat (csum_fold x) = nat_fold (unat x)"
proof -
  have m: "unat (x AND 0xffff) = unat x mod 65536"
  proof -
    have "x AND 0xffff = take_bit 16 x" by (simp add: take_bit_eq_mask mask_eq_exp_minus_1)
    then show ?thesis by (simp add: take_bit_eq_mod unat_mod)
  qed
  have "unat x div 65536 < 65536" using unat_u32_lt [of x] by (simp add: div_less_iff_less_mult)
  moreover have "unat x mod 65536 < 65536" by simp
  ultimately have "unat x mod 65536 + unat x div 65536 < 4294967296" by linarith
  then show ?thesis
    by (simp add: csum_fold_def nat_fold_def unat_add_lt m unat_drop_bit)
qed

lemma nat_fold_mod: "nat_fold n mod 65535 = n mod 65535"
proof -
  have "65536 * (n div 65536) + n mod 65536 = n" by (rule mult_div_mod_eq)
  then have "n = nat_fold n + 65535 * (n div 65536)" unfolding nat_fold_def by linarith
  then show ?thesis by (metis mod_mult_self2)
qed

lemma nat_fold_pos: "0 < n \<Longrightarrow> 0 < nat_fold n"
  by (cases "n < 65536") (auto simp: nat_fold_def div_greater_zero_iff)

lemma nat_fold2_le: "n < 655360 \<Longrightarrow> nat_fold (nat_fold n) \<le> 65535"
proof -
  assume "n < 655360"
  then have "n div 65536 \<le> 9" "n mod 65536 \<le> 65535" by auto
  then have "nat_fold n \<le> 65544" unfolding nat_fold_def by linarith
  then show ?thesis unfolding nat_fold_def [of "nat_fold n"]
    by (cases "nat_fold n < 65536") (auto simp: mod_if div_if)
qed

lemma unat_sum_halfwords:
  "length ws \<le> 10 \<Longrightarrow> unat (sum_list (map ucast (ws :: u16 list)) :: u32) = sum_list (map unat ws) \<and>
     sum_list (map unat ws) \<le> 65535 * length ws"
proof (induction ws)
  case (Cons w ws)
  then have IH: "unat (sum_list (map ucast ws) :: u32) = sum_list (map unat ws)"
    "sum_list (map unat ws) \<le> 65535 * length ws" by auto
  have "unat w < 65536" by (rule unat_u16_lt)
  moreover have "65535 * length ws \<le> 65535 * 9" using Cons.prems by simp
  ultimately have "unat (ucast w :: u32) + unat (sum_list (map ucast ws) :: u32) < 4294967296"
    using IH by simp
  then show ?case using IH \<open>unat w < 65536\<close> by (simp add: unat_add_lt)
qed simp

lemma unat_csum_of:
  assumes "length h = 20"
  shows "unat (csum_of h) = nat_fold (nat_fold (sum_list (map unat (halfwords h))))"
    and "sum_list (map unat (halfwords h)) < 655360"
  using unat_sum_halfwords [of "halfwords h"] assms
  by (simp_all add: csum_of_def unat_csum_fold length_halfwords)

lemma halfwords_ip_bytes:
  "\<exists>r. halfwords (ip_bytes s d l c) = halfwords (take 10 (ip_bytes s d l 0)) @ [c] @ r \<and>
     halfwords (ip_bytes s d l 0) = halfwords (take 10 (ip_bytes s d l 0)) @ [0] @ r"
proof -
  have "halfwords (ip_bytes s d l x) = halfwords (take 10 (ip_bytes s d l 0)) @ [x] @
      halfwords (drop 12 (ip_bytes s d l 0))" for x
    by (subst ip_bytes_check [symmetric]) (simp add: halfwords_append)
  then show ?thesis by blast
qed

lemma unat_ucast_not:
  assumes "unat (x :: u32) \<le> 65535"
  shows "unat (ucast (NOT x) :: u16) = 65535 - unat x"
proof -
  have "ucast (NOT x) = NOT (ucast x :: u16)"
    by (rule bit_word_eqI) (auto simp: bit_ucast_iff bit_not_iff)
  moreover have "unat (NOT (ucast x :: u16)) = 65535 - unat (ucast x :: u16)"
  proof -
    have "NOT (ucast x :: u16) = 65535 - ucast x" by (simp add: not_eq_complement)
    moreover have "ucast x \<le> (65535 :: u16)" using unat_u16_lt [of "ucast x"] by (simp add: word_le_nat_alt)
    ultimately show ?thesis by (simp add: unat_sub_le del: diff_numeral_special)
  qed
  moreover have "unat (ucast x :: u16) = unat x"
    using assms by (simp add: unsigned_ucast_eq take_bit_nat_eq_self)
  ultimately show ?thesis by simp
qed

lemma ip_bytes_sum_pos: "0 < sum_list (map unat (halfwords (ip_bytes s d l 0)))"
proof -
  have "halfwords (ip_bytes s d l 0) = word16 [0x45, 0] # halfwords (drop 2 (ip_bytes s d l 0))"
    by (simp add: ip_bytes_def)
  moreover have "unat (word16 [0x45, 0]) = 69" by code_simp
  ultimately show ?thesis by simp
qed

lemma ip_bytes_csum_valid: "csum_of (ip_bytes_csum s d l) = 0xffff"
proof -
  define S where "S = sum_list (map unat (halfwords (ip_bytes s d l 0)))"
  define f where "f = nat_fold (nat_fold S)"
  define c :: u16 where "c = ucast (NOT (csum_of (ip_bytes s d l 0)))"
  have u: "unat (csum_of (ip_bytes s d l 0)) = f" and Sl: "S < 655360"
    using unat_csum_of [of "ip_bytes s d l 0"] by (simp_all add: f_def S_def)
  have fl: "f \<le> 65535" using nat_fold2_le [OF Sl] by (simp add: f_def)
  have c: "unat c = 65535 - f" using unat_ucast_not u fl unfolding c_def by metis
  define S' where "S' = sum_list (map unat (halfwords (ip_bytes s d l c)))"
  obtain r where "halfwords (ip_bytes s d l c) = halfwords (take 10 (ip_bytes s d l 0)) @ [c] @ r"
    "halfwords (ip_bytes s d l 0) = halfwords (take 10 (ip_bytes s d l 0)) @ [0] @ r"
    using halfwords_ip_bytes by blast
  then have S': "S' = S + (65535 - f)" by (simp add: S'_def S_def c)
  have u': "unat (csum_of (ip_bytes s d l c)) = nat_fold (nat_fold S')" and S'l: "S' < 655360"
    using unat_csum_of [of "ip_bytes s d l c"] by (simp_all add: S'_def)
  have "f mod 65535 = S mod 65535" by (simp add: f_def nat_fold_mod)
  then have "(S + (65535 - f)) mod 65535 = (f + (65535 - f)) mod 65535" by (metis mod_add_left_eq)
  then have "S' mod 65535 = 0" using fl by (simp add: S')
  then have "nat_fold (nat_fold S') mod 65535 = 0" by (simp add: nat_fold_mod)
  moreover have "0 < nat_fold (nat_fold S')"
    using ip_bytes_sum_pos [of s d l] by (intro nat_fold_pos) (simp add: S' S_def)
  moreover have "nat_fold (nat_fold S') \<le> 65535" by (rule nat_fold2_le [OF S'l])
  ultimately have "nat_fold (nat_fold S') = 65535" by (metis le_neq_implies_less mod_less not_gr_zero)
  with u' have "unat (csum_of (ip_bytes s d l c)) = unat (0xffff :: u32)" by simp
  then show ?thesis unfolding ip_bytes_csum_def c_def [symmetric] by (rule word_unat_eq_iff [THEN iffD2])
qed

end
