(* ===== verification/Xdp_Lb_Props.thy ===== *)
theory Xdp_Lb_Props
  imports Xdp_Lb_Encap
begin

text \<open>
  The properties of the load balancer: memory safety of the whole program, the exact packet it
  sends and how the benchmark undoes it, the statistics, the ring and the connection table.

  \<open>adjust_head_ok\<close> is what the kernel documents for \<^verbatim>\<open>bpf_xdp_adjust_head\<close>: growing the packet by \<open>n\<close> bytes
  puts \<open>n\<close> bytes of unknown content before it, shrinking it drops the first \<open>n\<close> bytes as long as an
  Ethernet header remains, and a call that fails leaves the packet alone.
\<close>

definition adjust_head_ok :: "'w lb_kernel \<Rightarrow> bool" where
  "adjust_head_ok K \<longleftrightarrow>
     (\<forall>n p w ret q w'. bpf_xdp_adjust_head K (- int n) p w = (ret, q, w') \<longrightarrow>
        (if ret = 0 then length q = n + length p \<and> drop n q = p else q = p)) \<and>
     (\<forall>n p w ret q w'. bpf_xdp_adjust_head K (int n) p w = (ret, q, w') \<longrightarrow>
        (if n + 14 \<le> length p then ret = 0 \<and> q = drop n p else ret \<noteq> 0 \<and> q = p))"

lemma adjust_head_grow:
  assumes "adjust_head_ok K" "bpf_xdp_adjust_head K (- int n) p w = (r, q, w')"
  shows "if r = 0 then length q = n + length p \<and> drop n q = p else q = p"
  using assms unfolding adjust_head_ok_def by blast

lemma adjust_head_shrink:
  assumes "adjust_head_ok K" "n + 14 \<le> length p"
  shows "\<exists>w'. bpf_xdp_adjust_head K (int n) p w = (0, drop n p, w')"
proof -
  obtain r q w' where a: "bpf_xdp_adjust_head K (int n) p w = (r, q, w')" by (metis prod_cases3)
  then have "if n + 14 \<le> length p then r = 0 \<and> q = drop n p else r \<noteq> 0 \<and> q = p"
    using assms(1) unfolding adjust_head_ok_def by blast
  then show ?thesis using assms(2) a by simp
qed

section \<open>Parsing stays inside the packet\<close>

lemma ld8_inside: "off < length p \<Longrightarrow> ld8 p off = Some (p ! off)"
  by (simp add: ld8_def)

lemma ld16_inside: "off + 2 \<le> length p \<Longrightarrow> ld16 p off = Some (word16 (take 2 (drop off p)))"
  by (simp add: ld16_def ld_bytes_def)

lemma ld32_inside: "off + 4 \<le> length p \<Longrightarrow> ld32 p off = Some (word32 (take 4 (drop off p)))"
  by (simp add: ld32_def ld_bytes_def)

lemma ld128_inside: "off + 16 \<le> length p \<Longrightarrow> \<exists>a. ld128 p off = Some a"
  by (simp add: ld128_def ld32_inside)

lemmas loads_inside = ld8_inside ld16_inside ld32_inside

text \<open>
  A result of the parser: a break with \<^verbatim>\<open>XDP_DROP\<close> or \<^verbatim>\<open>XDP_PASS\<close>, or a parsed packet whose headers are
  all there.
\<close>

definition parse_ok :: "u8 list \<Rightarrow> (i32 + parsed) option \<Rightarrow> bool \<Rightarrow> bool" where
  "parse_ok p r v6 \<longleftrightarrow>
     (case r of None \<Rightarrow> False
      | Some (Inl a) \<Rightarrow> a = XDP_DROP \<or> a = XDP_PASS
      | Some (Inr l) \<Rightarrow> is_v6 l = v6 \<and> 42 \<le> length p \<and> vaddr (vip_def l) = dst (flow l) \<and>
          vport (vip_def l) = port16_1 (flow l) \<and> vproto (vip_def l) = proto (flow l) \<and>
          (proto (flow l) = IPPROTO_TCP \<or> proto (flow l) = IPPROTO_UDP \<and> \<not> is_syn l \<and> \<not> is_rst l))"

lemma parse_ok_out [simp]:
  "parse_ok p (Some (Inl XDP_DROP)) v" "parse_ok p (Some (Inl XDP_PASS)) v"
  by (simp_all add: parse_ok_def)

lemma parse_l4_ok: "34 \<le> l4 \<Longrightarrow> parse_ok p (parse_l4 p v6 plen pr s d l4) v6"
  by (auto simp: parse_ok_def parse_l4_def loads_inside IPPROTO_TCP_def IPPROTO_UDP_def)

lemma parse_v6_ok: "parse_ok p (parse_v6 p) True"
proof (cases "54 \<le> length p")
  case True
  then obtain s d where "ld128 p 22 = Some s" "ld128 p 38 = Some d"
    using ld128_inside [of 22 p] ld128_inside [of 38 p] by auto
  then show ?thesis using True by (simp add: parse_v6_def loads_inside parse_l4_ok)
qed (simp add: parse_v6_def)

lemma parse_v4_ok: "parse_ok p (parse_v4 p) False"
  by (cases "34 \<le> length p") (simp_all add: parse_v4_def loads_inside parse_l4_ok)

lemma parse_packet_ok:
  "parse_ok p (parse_packet p) (ld16 p 12 = Some (to_be16 ETH_P_IPV6))"
proof (cases "14 \<le> length p")
  case True
  have "to_be16 ETH_P_IPV6 \<noteq> to_be16 ETH_P_IP" by code_simp
  then show ?thesis using True parse_v6_ok [of p] parse_v4_ok [of p]
    by (simp add: parse_packet_def ld16_inside)
qed (simp add: parse_packet_def)

lemma parse_packet_cases:
  obtains (out) a where "parse_packet p = Some (Inl a)" "a = XDP_DROP \<or> a = XDP_PASS"
  | (parsed) l where "parse_packet p = Some (Inr l)" "42 \<le> length p"
      "is_v6 l = (ld16 p 12 = Some (to_be16 ETH_P_IPV6))"
  using parse_packet_ok [of p]
  by (auto simp: parse_ok_def split: option.split_asm sum.split_asm)

section \<open>The encapsulated packet\<close>

text \<open>The packet sent to a real: new Ethernet header, outer IP header, the original without its Ethernet header.\<close>

definition outer_v6 :: "parsed \<Rightarrow> real_definition \<Rightarrow> bool" where
  "outer_v6 l real \<longleftrightarrow> is_v6 l \<or> rflags real AND F_IPV6 \<noteq> 0"

definition outer_ip :: "parsed \<Rightarrow> real_definition \<Rightarrow> u8 list" where
  "outer_ip l real =
     (let sport = port16_0 (flow l); s0 = v128_nth (src (flow l)) 0
      in if outer_v6 l real
         then ip6_bytes (create_encap_ipv6_src sport s0) (rdstv6 real)
                (if is_v6 l then IPPROTO_IPV6 else IPPROTO_IPIP) (payload_len l)
         else ip_bytes_csum (create_encap_ipv4_src sport s0) (rdst real) (payload_len l))"

definition encap_packet :: "parsed \<Rightarrow> real_definition \<Rightarrow> u8 list \<Rightarrow> u8 list \<Rightarrow> u8 list" where
  "encap_packet l real m p =
     eth_bytes m (take 6 p) (if outer_v6 l real then ETH_P_IPV6 else ETH_P_IP) @ outer_ip l real @ drop 14 p"

lemma length_outer_ip: "length (outer_ip l real) = (if outer_v6 l real then 40 else 20)"
  by (simp add: outer_ip_def Let_def ip_bytes_csum_def)

lemma lb_encap_total:
  assumes "length m = 6"
  shows "\<exists>r. lb_encap K l real m p w = Some r"
proof -
  obtain r4 q4 w4 r6 q6 w6 where "bpf_xdp_adjust_head K (-20) p w = (r4, q4, w4)"
    "bpf_xdp_adjust_head K (-40) p w = (r6, q6, w6)" by (metis prod_cases3)
  note encap_v4_closed [OF this(1) assms] encap_v6_closed [OF this(2) assms]
  then show ?thesis by (simp add: lb_encap_def)
qed

lemma lb_encap_packet:
  assumes "adjust_head_ok K" "length m = 6" "42 \<le> length p" "lb_encap K l real m p w = Some (ret, q, w')"
  shows "if ret = 0 then q = encap_packet l real m p else q = p"
proof -
  define n :: nat where "n = (if outer_v6 l real then 40 else 20)"
  obtain r q1 w1 where a: "bpf_xdp_adjust_head K (- int n) p w = (r, q1, w1)" by (metis prod_cases3)
  have ok: "if r = 0 then length q1 = n + length p \<and> drop n q1 = p else q1 = p"
    using adjust_head_grow [OF assms(1) a] .
  have d: "drop (n + 14) q1 = drop 14 p" if "r = 0"
    using ok that by (metis add.commute drop_drop)
  have t: "take 6 (drop n q1) = take 6 p" "length q1 = n + length p" if "r = 0" using ok that by auto
  have "lb_encap K l real m p w =
      (if r \<noteq> 0 then Some (-1, p, w1) else Some (0, encap_packet l real m p, w1))"
  proof (cases "outer_v6 l real")
    case True
    then have n: "n = 40" by (simp add: n_def)
    have e: "lb_encap K l real m p w =
        encap_v6 K (create_encap_ipv6_src (port16_0 (flow l)) (v128_nth (src (flow l)) 0)) (rdstv6 real)
          (if is_v6 l then IPPROTO_IPV6 else IPPROTO_IPIP) (payload_len l) m p w"
      using True by (auto simp: lb_encap_def outer_v6_def)
    from a have a: "bpf_xdp_adjust_head K (-40) p w = (r, q1, w1)" by (simp add: n)
    show ?thesis
      unfolding e encap_v6_closed [OF a assms(2)] encap_packet_def outer_ip_def Let_def
      using True t d ok assms(3) by (simp add: n)
  next
    case False
    then have n: "n = 20" by (simp add: n_def)
    have e: "lb_encap K l real m p w =
        encap_v4 K (create_encap_ipv4_src (port16_0 (flow l)) (v128_nth (src (flow l)) 0)) (rdst real)
          (payload_len l) m p w"
      using False by (simp add: lb_encap_def outer_v6_def)
    from a have a: "bpf_xdp_adjust_head K (-20) p w = (r, q1, w1)" by (simp add: n)
    show ?thesis
      unfolding e encap_v4_closed [OF a assms(2)] encap_packet_def outer_ip_def Let_def
      using False t d ok assms(3) by (simp add: n)
  qed
  with assms(4) show ?thesis by (simp split: if_split_asm)
qed

section \<open>What choosing a real may change\<close>

definition action_key :: "i32 \<Rightarrow> u32" where
  "action_key a = (if a = XDP_TX then STATS_XDP_TX else if a = XDP_PASS then STATS_XDP_PASS else STATS_XDP_DROP)"

definition action_keys :: "u32 set" where
  "action_keys = {STATS_XDP_TX, STATS_XDP_PASS, STATS_XDP_DROP}"

definition stats_frame :: "lb_stats bpf_array \<Rightarrow> lb_stats bpf_array \<Rightarrow> bool" where
  "stats_frame m m' \<longleftrightarrow> max_entries m' = max_entries m \<and> (\<forall>k \<in> action_keys. elems m' k = elems m k)"

lemma stats_frame_refl [simp]: "stats_frame m m"
  by (simp add: stats_frame_def)

lemma stats_frame_trans: "stats_frame a b \<Longrightarrow> stats_frame b c \<Longrightarrow> stats_frame a c"
  by (simp add: stats_frame_def)

lemma stats_frame_update: "k \<notin> action_keys \<Longrightarrow> stats_frame m m' \<Longrightarrow> stats_frame m (arr_update m' k v)"
  by (auto simp: stats_frame_def arr_update_def)

lemma stats_frame_inc [intro]:
  "k \<notin> action_keys \<Longrightarrow> stats_frame m m' \<Longrightarrow> stats_frame m (inc_v1 k m')"
  "k \<notin> action_keys \<Longrightarrow> stats_frame m m' \<Longrightarrow> stats_frame m (inc_v2 k m')"
  "k \<notin> action_keys \<Longrightarrow> stats_frame m m' \<Longrightarrow> stats_frame m (update_stats m' k b)"
  by (auto simp: inc_v1_def inc_v2_def update_stats_def stats_frame_update split: option.split)

lemma not_action_keys [simp]:
  "STATS_LRU \<notin> action_keys" "STATS_LRU_MISS \<notin> action_keys" "STATS_NEW_CONN \<notin> action_keys"
  by (simp_all add: action_keys_def stats_keys)

lemma vip_not_action_key: "k < MAX_VIPS \<Longrightarrow> k \<notin> action_keys"
  by (auto simp: action_keys_def stats_keys word_less_nat_alt)

definition lb_frame :: "'w lb_state \<Rightarrow> 'w lb_state \<Rightarrow> bool" where
  "lb_frame st st' \<longleftrightarrow> pkt st' = pkt st \<and> vip_map st' = vip_map st \<and> ch_rings st' = ch_rings st \<and>
     reals st' = reals st \<and> ctl_array st' = ctl_array st \<and> flow_mask st' = flow_mask st \<and>
     cold_lru st' = cold_lru st \<and> batch_iters st' = batch_iters st \<and> stats_frame (stats st) (stats st')"

lemma lb_frame_refl [simp]: "lb_frame st st"
  by (simp add: lb_frame_def)

lemma lb_frame_trans: "lb_frame a b \<Longrightarrow> lb_frame b c \<Longrightarrow> lb_frame a c"
  by (auto simp: lb_frame_def intro: stats_frame_trans)

lemma is_under_flood_frame: "lb_frame st (snd (is_under_flood K st))"
proof -
  obtain t w where t: "bpf_ktime_get_ns K (world st) = (t, w)" by fastforce
  show ?thesis
    by (simp add: is_under_flood_def t Let_def lb_frame_def stats_frame_update split: option.split)
qed

lemma connection_table_lookup_frame: "lb_frame st (snd (connection_table_lookup K f m st))"
proof -
  obtain t w where t: "bpf_ktime_get_ns K (world st) = (t, w)" by fastforce
  show ?thesis
    by (simp add: connection_table_lookup_def t Let_def lb_frame_def split: option.split)
qed

lemma update_vip_lru_miss_stats_frame: "lb_frame st (update_vip_lru_miss_stats v b i st)"
  by (simp add: update_vip_lru_miss_stats_def lb_frame_def split: option.split)

lemma get_packet_dst_frame: "lb_frame st (snd (get_packet_dst K f v b r st))"
proof -
  obtain fl st1 where f: "is_under_flood K st = (fl, st1)" by fastforce
  have f1: "lb_frame st st1" using is_under_flood_frame [of st K] by (simp add: f)
  have "lb_frame st1 (snd (get_packet_dst K f v b r st))"
    unfolding get_packet_dst_def f prod.case Let_def
    by (auto split: option.split prod.split simp: lb_frame_def)
  then show ?thesis using f1 lb_frame_trans by blast
qed

lemma lb_miss_frame: "lb_frame st (snd (lb_miss K l v st))"
proof -
  define st0 where "st0 = (if proto (flow l) = IPPROTO_TCP
    then st\<lparr>stats := inc_v1 STATS_LRU_MISS (stats st)\<rparr> else st)"
  have f0: "lb_frame st st0" by (auto simp: st0_def lb_frame_def)
  obtain r st1 where g: "get_packet_dst K (flow l) v (is_v6 l) (is_rst l) st0 = (r, st1)" by fastforce
  have f1: "lb_frame st0 st1" using get_packet_dst_frame [of st0 K] by (metis g snd_conv)
  have s2: "lb_frame a (a\<lparr>stats := inc_v2 STATS_LRU (stats a)\<rparr>)" for a :: "'a lb_state"
    by (auto simp: lb_frame_def)
  have "lb_frame st1 (snd (lb_miss K l v st))"
    unfolding lb_miss_def Let_def st0_def [symmetric] g prod.case
    by (auto split: option.split intro: lb_frame_trans [OF update_vip_lru_miss_stats_frame s2])
  then show ?thesis using f0 f1 lb_frame_trans by blast
qed

lemma lb_select_frame: "lb_frame st (snd (lb_select K l v m st))"
proof -
  obtain r st1 where c: "(if flags v AND F_LRU_BYPASS = 0 \<and> \<not> is_syn l
      then connection_table_lookup K (flow l) m st else (None, st)) = (r, st1)" by fastforce
  have f1: "lb_frame st st1"
    using connection_table_lookup_frame [of st K "flow l" m] c by (auto split: if_split_asm)
  show ?thesis
    unfolding lb_select_def Let_def c prod.case
    using f1 lb_frame_trans [OF f1 lb_miss_frame] by (simp split: option.split)
qed

text \<open>The chosen real is the entry of \<^verbatim>\<open>reals\<close> at the chosen position.\<close>

lemma get_packet_dst_real:
  assumes "get_packet_dst K f v b r st = (Some (real, p), st')"
  shows "arr_lookup (ch_rings st) (ch_key b f v) = Some p \<and> arr_lookup (reals st) p = Some real"
proof -
  obtain fl st1 where f: "is_under_flood K st = (fl, st1)" by fastforce
  have "ch_rings st1 = ch_rings st" "reals st1 = reals st"
    using is_under_flood_frame [of st K] by (simp_all add: f lb_frame_def)
  then show ?thesis
    using assms unfolding get_packet_dst_def f prod.case Let_def
    by (auto split: option.split_asm if_split_asm prod.split_asm)
qed

lemma lb_miss_real:
  assumes "lb_miss K l v st = (Some (real, p), st')"
  shows "arr_lookup (ch_rings st) (ch_key (is_v6 l) (flow l) v) = Some p \<and> arr_lookup (reals st) p = Some real"
proof -
  define st0 where "st0 = (if proto (flow l) = IPPROTO_TCP
    then st\<lparr>stats := inc_v1 STATS_LRU_MISS (stats st)\<rparr> else st)"
  obtain r st1 where g: "get_packet_dst K (flow l) v (is_v6 l) (is_rst l) st0 = (r, st1)" by fastforce
  have "r = Some (real, p)"
    using assms unfolding lb_miss_def Let_def st0_def [symmetric] g prod.case
    by (auto split: option.split_asm)
  then show ?thesis using get_packet_dst_real [of K "flow l" v "is_v6 l" "is_rst l" st0] g
    by (simp add: st0_def split: if_split_asm)
qed

lemma lb_select_real:
  assumes "lb_select K l v m st = (Some (real, p), st')"
  shows "arr_lookup (reals st) p = Some real"
proof -
  obtain r st1 where c: "(if flags v AND F_LRU_BYPASS = 0 \<and> \<not> is_syn l
      then connection_table_lookup K (flow l) m st else (None, st)) = (r, st1)" by fastforce
  have f1: "lb_frame st st1"
    using connection_table_lookup_frame [of st K "flow l" m] c by (auto split: if_split_asm)
  obtain t w where t: "bpf_ktime_get_ns K (world st) = (t, w)" by fastforce
  show ?thesis
  proof (cases r)
    case None
    then have "lb_miss K l v st1 = (Some (real, p), st')"
      using assms unfolding lb_select_def Let_def c by simp
    then show ?thesis using lb_miss_real f1 by (fastforce simp: lb_frame_def)
  next
    case (Some x)
    have "r = Some (real, p)" using assms Some unfolding lb_select_def Let_def c by simp
    with c have "connection_table_lookup K (flow l) m st = (Some (real, p), st1)"
      by (simp split: if_split_asm)
    then show ?thesis
      by (auto simp: connection_table_lookup_def t Let_def split: option.split_asm if_split_asm)
  qed
qed

section \<open>Memory safety\<close>

lemma lb_forward_total: "\<exists>a st'. lb_forward K l st = Some (a, st') \<and> a \<in> {XDP_DROP, XDP_PASS, XDP_TX}"
proof -
  have send: "\<exists>a st'. lb_send K l v real p st1 = Some (a, st') \<and> a \<in> {XDP_DROP, XDP_PASS, XDP_TX}"
    for v real p st1
  proof (cases "arr_lookup (ctl_array st1) 0")
    case (Some cval)
    obtain ret q w where "lb_encap K l real (mac_bytes (mac cval)) (pkt st1) (world st1) = Some (ret, q, w)"
      using lb_encap_total [of "mac_bytes (mac cval)" K l real "pkt st1" "world st1"] by auto
    then show ?thesis by (simp add: lb_send_def Some Let_def)
  qed (simp add: lb_send_def)
  show ?thesis using send unfolding lb_forward_def Let_def by (simp split: option.split prod.split)
qed

lemma process_packet_total:
  "\<exists>a st'. process_packet K st = Some (a, st') \<and> a \<in> {XDP_DROP, XDP_PASS, XDP_TX}"
proof (cases rule: parse_packet_cases [of "pkt st"])
  case (out a)
  then show ?thesis by (auto simp: process_packet_def)
next
  case (parsed l)
  obtain a st' where "lb_forward K l st = Some (a, st')" "a \<in> {XDP_DROP, XDP_PASS, XDP_TX}"
    using lb_forward_total [of K l st] by blast
  then show ?thesis by (simp add: process_packet_def parsed)
qed

text \<open>
  C2. Memory safety of the data path. Whatever the packet, the maps and the helpers do,
  \<^verbatim>\<open>process_packet\<close> never reads or writes outside the packet: it returns one of the actions drop, pass
  and transmit.
\<close>

theorem process_packet_safe:
  "\<exists>a st'. process_packet K st = Some (a, st') \<and> a \<in> {XDP_DROP, XDP_PASS, XDP_TX}"
  by (rule process_packet_total)

lemma strip_encap_total: "length e = 14 \<Longrightarrow> \<exists>r st'. strip_encap K e st = Some (r, st')"
proof -
  assume e: "length e = 14"
  show ?thesis
  proof (cases "14 \<le> length (pkt st)")
    case True
    define n where "n = (if word16 (take 2 (drop 12 (pkt st))) = to_be16 ETH_P_IPV6 then int 40 else int 20)"
    obtain r q w where a: "bpf_xdp_adjust_head K n (pkt st) (world st) = (r, q, w)" by (metis prod_cases3)
    show ?thesis
      using True e by (simp add: strip_encap_def ld16_inside n_def [symmetric] a Let_def vcopy8_list st_bytes_def)
  qed (simp add: strip_encap_def)
qed

lemma randomize_src_total: "\<exists>r st'. randomize_src off x st = Some (r, st')"
  by (simp add: randomize_src_def Let_def st32_def st_bytes_def)

lemma xor_saddr_total: "\<exists>st'. xor_saddr off h st = Some st'"
  by (simp add: xor_saddr_def ld32_inside st32_def st_bytes_def)

lemma bench_iter_total:
  assumes "length e = 14"
  shows "\<exists>r st'. bench_iter K e off h x st = Some (r, st')"
proof -
  obtain a st1 where p: "process_packet K st = Some (a, st1)" using process_packet_total by blast
  obtain r st2 where s: "strip_encap K e st1 = Some (r, st2)" using strip_encap_total [OF assms] by blast
  obtain x' st3 where z: "randomize_src off x st2 = Some (x', st3)" using randomize_src_total by blast
  obtain s1 s2 s3 where "xor_saddr off h st1 = Some s1" "xor_saddr off h st2 = Some s2"
    "xor_saddr off h st3 = Some s3" using xor_saddr_total by metis
  then show ?thesis by (simp add: bench_iter_def p s z)
qed

lemma bench_loop_total:
  assumes "length e = 14"
  shows "\<exists>r st'. bench_loop K e off h n x st = Some (r, st')"
proof (induction n arbitrary: x st)
  case (Suc n)
  obtain ok w where m: "may_goto K (world st) = (ok, w)" by fastforce
  obtain r st1 where i: "bench_iter K e off h x (st\<lparr>world := w\<rparr>) = Some (r, st1)"
    using bench_iter_total [OF assms] by blast
  show ?case using Suc.IH by (simp add: m i Let_def split: sum.split)
qed simp

lemma bench_record_sample_total: "\<exists>st'. bench_record_sample K t st = Some st'"
proof -
  define c where "c = unat (bpf_get_smp_processor_id K AND 255)"
  have "bpf_get_smp_processor_id K AND 255 = take_bit 8 (bpf_get_smp_processor_id K)"
    by (simp add: take_bit_eq_mask mask_eq_exp_minus_1)
  then have c: "c < 256"
    unfolding c_def using take_bit_nat_less_exp [of 8 "unat (bpf_get_smp_processor_id K)"]
    by (simp add: unsigned_take_bit_eq)
  have "\<not> 1048576 \<le> c * 4096 + unat (timing_idx st c)" if "\<not> 4096 \<le> timing_idx st c"
    using that c by (simp add: word_le_nat_alt)
  then show ?thesis
    using c by (simp add: bench_record_sample_def BENCH_CPU_MASK_def BENCH_NR_CPUS_def BENCH_NR_SAMPLES_def
        c_def [symmetric] Let_def)
qed

lemma bench_bpf_loop_total:
  assumes "length e = 14"
  shows "\<exists>a st'. bench_bpf_loop K e off h x st = Some (a, st')"
proof -
  obtain t w where t: "bpf_ktime_get_ns K (world st) = (t, w)" by fastforce
  obtain l st1 where l: "bench_loop K e off h (unat (batch_iters st)) x (st\<lparr>world := w\<rparr>) = Some (l, st1)"
    using bench_loop_total [OF assms] by blast
  obtain t' w' where t': "bpf_ktime_get_ns K (world st1) = (t', w')" by fastforce
  obtain st2 where s: "bench_record_sample K (t' - t) (st1\<lparr>world := w'\<rparr>) = Some st2"
    using bench_record_sample_total by blast
  obtain a st3 where p: "process_packet K st2 = Some (a, st3)" using process_packet_total by blast
  show ?thesis by (simp add: bench_bpf_loop_def t l t' s p Let_def split: option.split)
qed

lemma bench_cold_total: "\<exists>h st'. bench_cold K off st = Some (h, st')"
proof -
  obtain st' where "xor_saddr off ((batch_gen st + 1 + bpf_get_smp_processor_id K) * KNUTH_HASH_MULT)
      (st\<lparr>batch_gen := batch_gen st + 1\<rparr>) = Some st'" using xor_saddr_total by blast
  then show ?thesis by (simp add: bench_cold_def Let_def)
qed

lemma save_eth:
  assumes "14 \<le> length p"
  shows "vcopy8 (\<lambda>_. ld8 p) (replicate 14 0) 0 0 14 = Some (take 14 p)"
  using vcopy8_st_bytes [where rd = "\<lambda>_. ld8 p" and len = 14 and dst = 0 and bs = "take 14 p"
      and p = "replicate 14 0"] assms
  by (simp add: ld8_def st_bytes_def)

lemma xdp_lb_bench_total: "\<exists>a st'. xdp_lb_bench K st = Some (a, st')"
proof (cases "14 \<le> length (pkt st)")
  case True
  define off where "off = 14 + (if word16 (take 2 (drop 12 (pkt st))) = to_be16 ETH_P_IPV6 then 8 else 12 :: nat)"
  obtain x st1 where r: "bench_seed K st = (x, st1)" by fastforce
  obtain h st2 where b: "bench_cold K off st1 = Some (h, st2)" using bench_cold_total by blast
  show ?thesis
    using True bench_bpf_loop_total [of "take 14 (pkt st)" K off h x st2]
    by (simp add: xdp_lb_bench_def save_eth ld16_inside off_def [symmetric] r b Let_def)
qed (simp add: xdp_lb_bench_def)

text \<open>
  C6. Memory safety and termination of the whole program: for every packet, state and kernel the
  benchmark program returns, after at most \<^verbatim>\<open>batch_iters\<close> timed iterations, without an access outside
  the packet or the sample arrays.
\<close>

theorem xdp_lb_bench_safe: "\<exists>a st'. xdp_lb_bench K st = Some (a, st')"
  by (rule xdp_lb_bench_total)

section \<open>The packet that is sent\<close>

text \<open>The state after a step of the data path: the packet, the rest of the configuration, the action counters.\<close>

definition config_same :: "'w lb_state \<Rightarrow> 'w lb_state \<Rightarrow> bool" where
  "config_same st st' \<longleftrightarrow> vip_map st' = vip_map st \<and> ch_rings st' = ch_rings st \<and> reals st' = reals st \<and>
     ctl_array st' = ctl_array st \<and> flow_mask st' = flow_mask st \<and> cold_lru st' = cold_lru st \<and>
     batch_iters st' = batch_iters st"

definition sent_packet :: "parsed \<Rightarrow> real_definition \<Rightarrow> 'w lb_state \<Rightarrow> 'w lb_state \<Rightarrow> bool" where
  "sent_packet l real st st' \<longleftrightarrow>
     (\<exists>cval. arr_lookup (ctl_array st) 0 = Some cval \<and> pkt st' = encap_packet l real (mac_bytes (mac cval)) (pkt st))"

lemma lb_send_result:
  assumes "adjust_head_ok K" "42 \<le> length (pkt st)" "lb_send K l v real p st = Some (a, st')"
  shows "(if a = XDP_TX then sent_packet l real st st' else pkt st' = pkt st) \<and> config_same st st'"
proof (cases "arr_lookup (ctl_array st) 0")
  case None
  then show ?thesis using assms(3) by (auto simp: lb_send_def config_same_def XDP_DROP_def XDP_TX_def)
next
  case (Some cval)
  let ?m = "mac_bytes (mac cval)"
  obtain ret q w where e: "lb_encap K l real ?m (pkt st) (world st) = Some (ret, q, w)"
    using lb_encap_total [of ?m K l real "pkt st" "world st"] by auto
  have q: "if ret = 0 then q = encap_packet l real ?m (pkt st) else q = pkt st"
    by (rule lb_encap_packet [OF assms(1) _ assms(2) e]) simp
  have tx: "XDP_DROP \<noteq> XDP_TX" by (simp add: XDP_DROP_def XDP_TX_def)
  show ?thesis
    using assms(3) q tx
    by (auto simp: lb_send_def Some Let_def e config_same_def sent_packet_def split: if_split_asm)
qed

lemma lb_forward_result:
  assumes "adjust_head_ok K" "42 \<le> length (pkt st)" "lb_forward K l st = Some (a, st')"
  shows "(if a = XDP_TX
     then \<exists>v real p. vip_map st (vip_def l) = Some v \<and> arr_lookup (reals st) p = Some real \<and> sent_packet l real st st'
     else pkt st' = pkt st) \<and> config_same st st'"
proof -
  have na: "XDP_PASS \<noteq> XDP_TX" "XDP_DROP \<noteq> XDP_TX" by (simp_all add: XDP_DROP_def XDP_TX_def XDP_PASS_def)
  define st0 where "st0 = st\<lparr>stats := inc_v1 STATS_LRU (stats st)\<rparr>"
  have same0: "pkt st0 = pkt st" "reals st0 = reals st" "config_same st st0" "ctl_array st0 = ctl_array st"
    by (simp_all add: st0_def config_same_def)
  show ?thesis
  proof (cases "\<exists>v m real p st1. vip_map st (vip_def l) = Some v \<and> arr_lookup (stats st) STATS_LRU \<noteq> None \<and>
      lru_mapping st (bpf_get_smp_processor_id K) = Some m \<and> lb_select K l v m st0 = (Some (real, p), st1)")
    case True
    then obtain v m real p st1 where h: "vip_map st (vip_def l) = Some v" "arr_lookup (stats st) STATS_LRU \<noteq> None"
      "lru_mapping st (bpf_get_smp_processor_id K) = Some m" "lb_select K l v m st0 = (Some (real, p), st1)"
      by blast
    have snd: "lb_send K l v real p st1 = Some (a, st')"
      using assms(3) h by (auto simp: lb_forward_def st0_def Let_def)
    have f: "lb_frame st0 st1" using lb_select_frame [of st0 K l v m] by (simp add: h)
    then have "42 \<le> length (pkt st1)" using assms(2) same0 by (simp add: lb_frame_def)
    note r = lb_send_result [OF assms(1) this snd]
    have "arr_lookup (reals st) p = Some real" using lb_select_real [OF h(4)] same0 by simp
    with r f h(1) same0 show ?thesis
      unfolding sent_packet_def config_same_def lb_frame_def by (auto split: if_split_asm)
  next
    case False
    then have "a \<noteq> XDP_TX \<and> lb_frame st0 st' \<or> a \<noteq> XDP_TX \<and> st' = st"
      using assms(3) na unfolding lb_forward_def Let_def st0_def [symmetric]
      by (auto simp: st0_def split: option.split_asm prod.split_asm) (metis lb_select_frame snd_conv)
    then show ?thesis using same0 by (auto simp: lb_frame_def config_same_def)
  qed
qed

lemma process_packet_result:
  assumes "adjust_head_ok K" "process_packet K st = Some (a, st')"
  shows "(if a = XDP_TX
     then \<exists>l v real p. parse_packet (pkt st) = Some (Inr l) \<and> vip_map st (vip_def l) = Some v \<and>
       arr_lookup (reals st) p = Some real \<and> sent_packet l real st st' \<and> 42 \<le> length (pkt st)
     else pkt st' = pkt st) \<and> config_same st st'"
proof (cases rule: parse_packet_cases [of "pkt st"])
  case (out b)
  then show ?thesis
    using assms(2)
    by (auto simp: process_packet_def config_same_def XDP_DROP_def XDP_TX_def XDP_PASS_def)
next
  case (parsed l)
  then obtain st1 where f: "lb_forward K l st = Some (a, st1)" "st' = st1\<lparr>stats := count_action a (stats st1)\<rparr>"
    using assms(2) by (auto simp: process_packet_def bind_eq_Some_conv)
  show ?thesis
    using lb_forward_result [OF assms(1) parsed(2) f(1)] parsed
    by (auto simp: f(2) sent_packet_def config_same_def)
qed

lemma process_packet_tx:
  assumes "adjust_head_ok K" "process_packet K st = Some (XDP_TX, st')"
  obtains l real m where "pkt st' = encap_packet l real m (pkt st)" "length m = 6" "42 \<le> length (pkt st)"
  using process_packet_result [OF assms] unfolding sent_packet_def by (metis length_mac_bytes)

lemma encap_packet_parts:
  assumes "length m = 6" "14 \<le> length p"
  shows "ld16 (encap_packet l real m p) 12 = Some (to_be16 (if outer_v6 l real then ETH_P_IPV6 else ETH_P_IP))"
    and "take (length (outer_ip l real)) (drop 14 (encap_packet l real m p)) = outer_ip l real"
    and "drop (14 + length (outer_ip l real)) (encap_packet l real m p) = drop 14 p"
    and "length (encap_packet l real m p) = length p + length (outer_ip l real)"
  using assms by (simp_all add: encap_packet_def eth_bytes_def ld16_def ld_bytes_def)

text \<open>
  C1. The packet a transmit produces. The packet parsed, its virtual IP is configured, and the new
  packet is: the Ethernet header with the configured destination, the old destination as source and
  the outer protocol; the outer IP header, IPv6 for an IPv6 packet or real, else IPv4 with a header
  checksum that verifies (the folded sum of its halfwords is \<open>0xffff\<close>); and the original packet
  without its Ethernet header, byte for byte. Any other action leaves the packet as it was.
\<close>

theorem process_packet_output:
  assumes "adjust_head_ok K" "process_packet K st = Some (a, st')"
  shows "if a = XDP_TX
    then \<exists>l v real pos cval. parse_packet (pkt st) = Some (Inr l) \<and> vip_map st (vip_def l) = Some v \<and>
      arr_lookup (reals st) pos = Some real \<and> arr_lookup (ctl_array st) 0 = Some cval \<and>
      pkt st' = eth_bytes (mac_bytes (mac cval)) (take 6 (pkt st)) (if outer_v6 l real then ETH_P_IPV6 else ETH_P_IP)
        @ outer_ip l real @ drop 14 (pkt st) \<and>
      (\<not> outer_v6 l real \<longrightarrow> csum_of (take 20 (drop 14 (pkt st'))) = 0xffff)
    else pkt st' = pkt st"
proof (cases "a = XDP_TX")
  case True
  then obtain l v real pos cval where h: "parse_packet (pkt st) = Some (Inr l)" "vip_map st (vip_def l) = Some v"
    "arr_lookup (reals st) pos = Some real" "42 \<le> length (pkt st)" "arr_lookup (ctl_array st) 0 = Some cval"
    "pkt st' = encap_packet l real (mac_bytes (mac cval)) (pkt st)"
    using process_packet_result [OF assms] by (auto simp: sent_packet_def)
  have "csum_of (take 20 (drop 14 (pkt st'))) = 0xffff" if "\<not> outer_v6 l real"
  proof -
    have "take 20 (drop 14 (pkt st')) = outer_ip l real"
      using encap_packet_parts(2) [of "mac_bytes (mac cval)" "pkt st" l real] that h(4)
      by (simp add: h(6) length_outer_ip)
    then show ?thesis using that by (simp add: outer_ip_def Let_def ip_bytes_csum_valid)
  qed
  with h(1-3,5,6) show ?thesis unfolding encap_packet_def if_P [OF True] by blast
next
  case False
  then show ?thesis using process_packet_result [OF assms] by simp
qed

section \<open>Undoing the encapsulation\<close>

lemma strip_encap_packet:
  assumes "adjust_head_ok K" "length m = 6" "14 \<le> length p" "pkt st = encap_packet l real m p"
  shows "\<exists>w'. strip_encap K (take 14 p) st = Some (0, st\<lparr>pkt := p, world := w'\<rparr>)"
proof -
  define n where "n = length (outer_ip l real)"
  have ln: "length (pkt st) = length p + n"
    using encap_packet_parts(4) [of m p l real] assms by (simp add: n_def)
  have ne: "to_be16 ETH_P_IP \<noteq> to_be16 ETH_P_IPV6" by code_simp
  obtain w' where a: "bpf_xdp_adjust_head K (int n) (pkt st) (world st) = (0, drop n (pkt st), w')"
    using adjust_head_shrink [OF assms(1), of n "pkt st" "world st"] ln assms(3) by auto
  have n: "int n = (if outer_v6 l real then 40 else 20)" by (simp add: n_def length_outer_ip)
  have d: "drop 14 (drop n (pkt st)) = drop 14 p"
    using encap_packet_parts(3) [of m p l real] assms by (simp add: n_def add.commute)
  have "vcopy8 (\<lambda>_. ld8 (take 14 p)) (drop n (pkt st)) 0 0 14 = Some p"
    using assms(3) ln d by (simp add: vcopy8_list st_bytes_0)
  moreover have "ld16 (pkt st) 12 = Some (to_be16 (if outer_v6 l real then ETH_P_IPV6 else ETH_P_IP))"
    using encap_packet_parts(1) [OF assms(2,3)] by (simp add: assms(4))
  moreover have "(if to_be16 (if outer_v6 l real then ETH_P_IPV6 else ETH_P_IP) = to_be16 ETH_P_IPV6
      then int 40 else int 20) = int n" using ne n by simp
  ultimately show ?thesis
    using ln assms(3) unfolding strip_encap_def by (intro exI [of _ w']) (simp add: a Let_def)
qed

text \<open>
  C3. Round trip. After a transmit, stripping the encapsulation with the saved Ethernet header
  succeeds and gives back the original packet byte for byte, whichever outer header was used.
\<close>

theorem strip_encap_roundtrip:
  assumes "adjust_head_ok K" "process_packet K st = Some (XDP_TX, st')"
  shows "\<exists>w'. strip_encap K (take 14 (pkt st)) st' = Some (0, st'\<lparr>pkt := pkt st, world := w'\<rparr>)"
proof -
  obtain l real m where "pkt st' = encap_packet l real m (pkt st)" "length m = 6" "42 \<le> length (pkt st)"
    using process_packet_tx [OF assms] .
  then show ?thesis by (intro strip_encap_packet [OF assms(1)]) auto
qed

lemma bench_iter_restores:
  assumes "adjust_head_ok K" "cold_lru st = 0" "bench_iter K (take 14 (pkt st)) off h 0 st = Some (r, st')"
  shows "r = Inr 0 \<and> pkt st' = pkt st \<and> config_same st st'"
proof -
  obtain a st1 where p: "process_packet K st = Some (a, st1)" using process_packet_total by blast
  note res = process_packet_result [OF assms(1) p]
  show ?thesis
  proof (cases "a = XDP_TX")
    case True
    then obtain l real m where e: "pkt st1 = encap_packet l real m (pkt st)" "length m = 6"
      "42 \<le> length (pkt st)" using process_packet_tx [OF assms(1)] p by blast
    obtain w where "strip_encap K (take 14 (pkt st)) st1 = Some (0, st1\<lparr>pkt := pkt st, world := w\<rparr>)"
      using strip_encap_packet [OF assms(1) e(2) _ e(1)] e(3) by auto
    then show ?thesis
      using assms(2,3) res True by (simp add: bench_iter_def p config_same_def) (auto simp: config_same_def)
  next
    case False
    then show ?thesis
      using assms(2,3) res by (simp add: bench_iter_def p config_same_def)
  qed
qed

lemma bench_loop_restores:
  assumes "adjust_head_ok K" "cold_lru st = 0" "e = take 14 (pkt st)"
    "bench_loop K e off h n 0 st = Some (r, st')"
  shows "r = None \<and> pkt st' = pkt st \<and> config_same st st'"
  using assms(2-4)
proof (induction n arbitrary: st)
  case 0
  then show ?case by (simp add: config_same_def)
next
  case (Suc n)
  obtain ok w where m: "may_goto K (world st) = (ok, w)" by fastforce
  let ?st = "st\<lparr>world := w\<rparr>"
  show ?case
  proof (cases ok)
    case True
    obtain r1 st1 where i: "bench_iter K e off h 0 ?st = Some (r1, st1)"
      using bench_iter_total [of e K off h 0 ?st] Suc.prems m True
      by (auto simp: Let_def bind_eq_Some_conv)
    have r1: "r1 = Inr 0 \<and> pkt st1 = pkt st \<and> config_same st st1"
      using bench_iter_restores [OF assms(1), of ?st off h r1 st1] i Suc.prems(1,2)
      by (simp add: config_same_def)
    then have "bench_loop K e off h n 0 st1 = Some (r, st')"
      using Suc.prems(3) by (simp add: m True i Let_def)
    then have "r = None \<and> pkt st' = pkt st1 \<and> config_same st1 st'"
      using r1 Suc.prems by (intro Suc.IH) (auto simp: config_same_def)
    with r1 show ?thesis by (simp add: config_same_def)
  next
    case False
    then show ?thesis using Suc.prems(3) by (auto simp: m Let_def config_same_def)
  qed
qed

lemma record_sample_pkt: "bench_record_sample K t st = Some st' \<Longrightarrow> pkt st' = pkt st \<and> config_same st st'"
  by (auto simp: bench_record_sample_def Let_def config_same_def split: if_split_asm)

text \<open>
  C5. The benchmark measures what it says. With neither source randomisation nor a cold connection
  table, however many timed iterations ran, the result of the program is that of
  \<^verbatim>\<open>process_packet\<close> on the original packet with the original configuration.
\<close>

theorem xdp_lb_bench_result:
  assumes "adjust_head_ok K" "flow_mask st = 0" "cold_lru st = 0" "14 \<le> length (pkt st)"
    and "xdp_lb_bench K st = Some (a, st')"
  shows "\<exists>st0. pkt st0 = pkt st \<and> config_same st st0 \<and> process_packet K st0 = Some (a, st')"
proof -
  define off where "off = 14 + (if word16 (take 2 (drop 12 (pkt st))) = to_be16 ETH_P_IPV6 then 8 else 12 :: nat)"
  have b: "bench_bpf_loop K (take 14 (pkt st)) off 0 0 st = Some (a, st')"
    using assms(2-5)
    by (simp add: xdp_lb_bench_def save_eth ld16_inside off_def [symmetric] bench_seed_def bench_cold_def Let_def)
  obtain t w where t: "bpf_ktime_get_ns K (world st) = (t, w)" by fastforce
  obtain l st1 where l: "bench_loop K (take 14 (pkt st)) off 0 (unat (batch_iters st)) 0 (st\<lparr>world := w\<rparr>) = Some (l, st1)"
    using bench_loop_total [of "take 14 (pkt st)"] assms(4) by fastforce
  have r: "l = None \<and> pkt st1 = pkt st \<and> config_same st st1"
    using bench_loop_restores [OF assms(1) _ _ l] assms(3) by (simp add: config_same_def)
  obtain t' w' where t': "bpf_ktime_get_ns K (world st1) = (t', w')" by fastforce
  obtain st2 where s: "bench_record_sample K (t' - t) (st1\<lparr>world := w'\<rparr>) = Some st2"
    using bench_record_sample_total by blast
  have "process_packet K st2 = Some (a, st')"
    using b r by (simp add: bench_bpf_loop_def t l t' s Let_def)
  then show ?thesis using record_sample_pkt [OF s] r by (auto simp: config_same_def)
qed

section \<open>Statistics\<close>

lemma count_action_inc: "count_action a m = inc_v1 (action_key a) m"
  by (simp add: count_action_def action_key_def)

lemma lb_send_stats:
  assumes "lb_send K l v real p st = Some (a, st')" "vip_num v < MAX_VIPS"
  shows "stats_frame (stats st) (stats st')"
  using assms vip_not_action_key [OF assms(2)]
  by (auto simp: lb_send_def Let_def bind_eq_Some_conv intro!: stats_frame_inc(3) split: option.split_asm)

lemma lb_forward_stats:
  assumes "lb_forward K l st = Some (a, st')" "\<And>d v. vip_map st d = Some v \<Longrightarrow> vip_num v < MAX_VIPS"
  shows "stats_frame (stats st) (stats st')"
proof -
  define st0 where "st0 = st\<lparr>stats := inc_v1 STATS_LRU (stats st)\<rparr>"
  have f0: "stats_frame (stats st) (stats st0)" by (auto simp: st0_def)
  have sel: "stats_frame (stats st) (stats (snd (lb_select K l v m st0)))" for v m
    using lb_select_frame [of st0 K l v m] f0 by (auto simp: lb_frame_def intro: stats_frame_trans)
  have send: "stats_frame (stats st) (stats st')"
    if "lb_select K l v m st0 = (Some (real, p), st1)" "lb_send K l v real p st1 = Some (a, st')"
      "vip_num v < MAX_VIPS" for v m real p st1
    using sel [of v m] lb_send_stats [OF that(2,3)] that(1) by (auto intro: stats_frame_trans)
  show ?thesis
    using assms f0 sel send unfolding lb_forward_def Let_def st0_def [symmetric]
    by (auto split: option.split_asm prod.split_asm) (metis snd_conv)+
qed

text \<open>
  C25. Action accounting. With the declared size of the statistics map and virtual-IP numbers below
  \<^verbatim>\<open>MAX_VIPS\<close>, one call of \<^verbatim>\<open>process_packet\<close> adds one to the counter of the action it returns and leaves
  the counters of the two other actions alone, so the three counters together count the calls.
\<close>

theorem process_packet_counts:
  assumes "max_entries (stats st) = STATS_SIZE" "\<And>d v. vip_map st d = Some v \<Longrightarrow> vip_num v < MAX_VIPS"
    and "process_packet K st = Some (a, st')" "k \<in> {XDP_TX, XDP_PASS, XDP_DROP}"
  shows "v1 (elems (stats st') (action_key k)) =
    v1 (elems (stats st) (action_key k)) + (if k = a then 1 else 0)"
proof -
  have an: "a \<in> {XDP_DROP, XDP_PASS, XDP_TX}" using process_packet_total [of K st] assms(3) by auto
  obtain m1 where f: "stats_frame (stats st) m1" "stats st' = inc_v1 (action_key a) m1"
  proof (cases rule: parse_packet_cases [of "pkt st"])
    case (out b)
    then show ?thesis using assms(3) that [of "stats st"] by (auto simp: process_packet_def count_action_inc)
  next
    case (parsed l)
    then obtain st1 where "lb_forward K l st = Some (a, st1)" "stats st' = inc_v1 (action_key a) (stats st1)"
      using assms(3) by (auto simp: process_packet_def bind_eq_Some_conv count_action_inc)
    then show ?thesis using that lb_forward_stats [of K l st a st1] assms(2) by blast
  qed
  have ak: "unat (action_key x) < STATS_SIZE" "action_key x \<in> action_keys" for x
    by (simp_all add: action_key_def stats_keys STATS_SIZE_def action_keys_def)
  have inj: "action_key k = action_key a \<longleftrightarrow> k = a"
    using assms(4) an by (auto simp: action_key_def stats_keys XDP_TX_def XDP_PASS_def XDP_DROP_def)
  have "elems m1 (action_key k) = elems (stats st) (action_key k)" "max_entries m1 = STATS_SIZE"
    using f(1) ak assms(1) by (auto simp: stats_frame_def)
  then show ?thesis
    using ak [of a] inj by (auto simp: f(2) inc_v1_def arr_lookup_def arr_update_def)
qed

section \<open>The ring\<close>

lemma unat_ch_key:
  assumes "vip_num v < MAX_VIPS"
  shows "unat (ch_key b f v) = 65537 * unat (vip_num v) + unat (flow_hash b f) mod 65537"
proof -
  have v: "unat (vip_num v) < 16" using assms by (simp add: word_less_nat_alt MAX_VIPS_def)
  have m: "unat (CH_RING_SIZE * vip_num v) = 65537 * unat (vip_num v)"
    using v by (simp add: CH_RING_SIZE_def unat_mult_u32)
  have "unat (flow_hash b f mod CH_RING_SIZE) = unat (flow_hash b f) mod 65537"
    by (simp add: unat_mod CH_RING_SIZE_def)
  moreover have "unat (flow_hash b f) mod 65537 < 65537" by simp
  ultimately show ?thesis
    unfolding ch_key_def using v m by (subst unat_add_lt) auto
qed


section \<open>The connection table\<close>

lemma is_under_flood_lru: "lru_mapping (snd (is_under_flood K st)) = lru_mapping st"
proof -
  obtain t w where t: "bpf_ktime_get_ns K (world st) = (t, w)" by fastforce
  show ?thesis by (simp add: is_under_flood_def t Let_def split: option.split)
qed


text \<open>
  C27. Flood protection. New connections are counted in windows of one second: a packet that misses the
  table is under flood exactly if the window is still open and the count, with it, exceeds
  \<^verbatim>\<open>MAX_CONN_RATE\<close>; a packet after the window opens a new one with count 1. Under flood, and for a reset
  or a bypassing virtual IP, the connection table is not written.
\<close>

theorem flood_protection:
  assumes "max_entries (stats st) = STATS_SIZE" "bpf_ktime_get_ns K (world st) = (now, w)"
    and "c = elems (stats st) STATS_NEW_CONN" "is_under_flood K st = (flood, st1)"
  shows "flood = (now - v2 c \<le> ONE_SEC \<and> v1 c + 1 > MAX_CONN_RATE) \<and>
    elems (stats st1) STATS_NEW_CONN =
      (if now - v2 c > ONE_SEC then \<lparr>v1 = 1, v2 = now\<rparr> else c\<lparr>v1 := v1 c + 1\<rparr>) \<and>
    (flood \<or> rst \<or> flags v AND F_LRU_BYPASS \<noteq> 0 \<longrightarrow>
      lru_mapping (snd (get_packet_dst K f v b rst st)) = lru_mapping st)"
proof -
  have "arr_lookup (stats st) STATS_NEW_CONN = Some c"
    using assms(1,3) by (simp add: arr_lookup_def STATS_SIZE_def stats_keys)
  then have "flood = (now - v2 c \<le> ONE_SEC \<and> v1 c + 1 > MAX_CONN_RATE) \<and>
    elems (stats st1) STATS_NEW_CONN =
      (if now - v2 c > ONE_SEC then \<lparr>v1 = 1, v2 = now\<rparr> else c\<lparr>v1 := v1 c + 1\<rparr>)"
    using assms(4) by (auto simp: is_under_flood_def assms(2) Let_def arr_update_def split: if_split_asm)
  moreover have "lru_mapping st1 = lru_mapping st" using is_under_flood_lru [of K st] assms(4) by simp
  ultimately show ?thesis
    unfolding get_packet_dst_def assms(4) prod.case Let_def by (auto split: option.split)
qed




section \<open>Delivery\<close>

text \<open>The maps have their declared sizes, and the rings name reals.\<close>

definition lb_configured :: "'w lb_kernel \<Rightarrow> 'w lb_state \<Rightarrow> bool" where
  "lb_configured K st \<longleftrightarrow> max_entries (stats st) = STATS_SIZE \<and> max_entries (ch_rings st) = CH_RINGS_SIZE \<and>
     max_entries (reals st) = MAX_REALS \<and> max_entries (ctl_array st) = 1 \<and>
     (\<forall>k. unat (elems (ch_rings st) k) < MAX_REALS) \<and> lru_mapping st (bpf_get_smp_processor_id K) \<noteq> None"

lemma get_packet_dst_succeeds:
  assumes "max_entries (ch_rings st) = CH_RINGS_SIZE" "max_entries (reals st) = MAX_REALS"
    and "\<forall>k. unat (elems (ch_rings st) k) < MAX_REALS" "vip_num v < MAX_VIPS"
  shows "fst (get_packet_dst K f v b r st) \<noteq> None"
proof -
  obtain fl st1 where u: "is_under_flood K st = (fl, st1)" by fastforce
  have s: "ch_rings st1 = ch_rings st" "reals st1 = reals st"
    using is_under_flood_frame [of st K] by (simp_all add: u lb_frame_def)
  have v: "unat (vip_num v) < 16" using assms(4) by (simp add: word_less_nat_alt MAX_VIPS_def)
  have "unat (flow_hash b f) mod 65537 < 65537" by simp
  then have "unat (ch_key b f v) < CH_RINGS_SIZE"
    unfolding unat_ch_key [OF assms(4)] CH_RINGS_SIZE_def using v by linarith
  then have c: "arr_lookup (ch_rings st1) (ch_key b f v) = Some (elems (ch_rings st) (ch_key b f v))"
    "arr_lookup (reals st1) (elems (ch_rings st) (ch_key b f v)) =
      Some (elems (reals st) (elems (ch_rings st) (ch_key b f v)))"
    using assms(1-3) by (simp_all add: arr_lookup_def s)
  show ?thesis
    unfolding get_packet_dst_def u prod.case Let_def c by (simp add: c split: prod.split)
qed

lemma lb_select_succeeds:
  assumes "lb_configured K st" "vip_num v < MAX_VIPS"
  shows "fst (lb_select K l v m st) \<noteq> None"
proof -
  obtain r st1 where c: "(if flags v AND F_LRU_BYPASS = 0 \<and> \<not> is_syn l
      then connection_table_lookup K (flow l) m st else (None, st)) = (r, st1)" by fastforce
  have f: "lb_frame st st1"
    using connection_table_lookup_frame [of st K "flow l" m] c by (auto split: if_split_asm)
  define st2 where "st2 = (if proto (flow l) = IPPROTO_TCP
    then st1\<lparr>stats := inc_v1 STATS_LRU_MISS (stats st1)\<rparr> else st1)"
  have "fst (get_packet_dst K (flow l) v (is_v6 l) (is_rst l) st2) \<noteq> None"
    using assms f by (intro get_packet_dst_succeeds) (auto simp: lb_configured_def lb_frame_def st2_def)
  then have "fst (lb_miss K l v st1) \<noteq> None"
    unfolding lb_miss_def Let_def st2_def [symmetric] by (auto split: prod.split option.split)
  then show ?thesis unfolding lb_select_def Let_def c by (simp split: option.split)
qed

lemma lb_encap_succeeds:
  assumes "adjust_head_ok K" "\<And>n p w. 0 < n \<Longrightarrow> fst (bpf_xdp_adjust_head K (- int n) p w) = 0"
    and "length m = 6" "42 \<le> length p"
  shows "\<exists>q w'. lb_encap K l real m p w = Some (0, q, w')"
proof -
  obtain r4 q4 w4 r6 q6 w6 where a: "bpf_xdp_adjust_head K (- int 20) p w = (r4, q4, w4)"
    "bpf_xdp_adjust_head K (- int 40) p w = (r6, q6, w6)" by (metis prod_cases3)
  have z: "r4 = 0" "r6 = 0" using assms(2) [of 20 p w] assms(2) [of 40 p w] unfolding a by simp_all
  have "length q4 = 20 + length p" "length q6 = 40 + length p"
    using adjust_head_grow [OF assms(1) a(1)] adjust_head_grow [OF assms(1) a(2)] z by simp_all
  then show ?thesis
    using assms(3,4) z a encap_v4_closed [of K p w r4 q4 w4 m] encap_v6_closed [of K p w r6 q6 w6 m]
    by (simp add: lb_encap_def)
qed

lemma process_packet_forwards:
  assumes "adjust_head_ok K" "\<And>n p w. 0 < n \<Longrightarrow> fst (bpf_xdp_adjust_head K (- int n) p w) = 0"
    and "lb_configured K st" "parse_packet (pkt st) = Some (Inr l)"
    and "vip_map st (vip_def l) = Some v" "vip_num v < MAX_VIPS"
  shows "\<exists>st'. process_packet K st = Some (XDP_TX, st')"
proof -
  define st0 where "st0 = st\<lparr>stats := inc_v1 STATS_LRU (stats st)\<rparr>"
  obtain m where m: "lru_mapping st (bpf_get_smp_processor_id K) = Some m"
    using assms(3) by (auto simp: lb_configured_def)
  have c0: "lb_configured K st0"
    using assms(3) by (auto simp: lb_configured_def st0_def inc_v1_def split: option.split)
  obtain real p st1 where s: "lb_select K l v m st0 = (Some (real, p), st1)"
    using lb_select_succeeds [OF c0 assms(6), of l m] by (metis not_None_eq prod.collapse)
  have f: "lb_frame st0 st1" using lb_select_frame [of st0 K l v m] by (simp add: s)
  have len: "42 \<le> length (pkt st)"
    using assms(4) by (cases rule: parse_packet_cases [of "pkt st"]) auto
  have ctl: "arr_lookup (ctl_array st1) 0 = Some (elems (ctl_array st) 0)"
    using f c0 by (simp add: lb_frame_def st0_def lb_configured_def arr_lookup_def)
  obtain q w where e: "lb_encap K l real (mac_bytes (mac (elems (ctl_array st) 0))) (pkt st1) (world st1) =
      Some (0, q, w)"
    using lb_encap_succeeds [OF assms(1,2), of "mac_bytes (mac (elems (ctl_array st) 0))" "pkt st1" l real "world st1"]
      len f by (auto simp: lb_frame_def st0_def)
  have "arr_lookup (stats st) STATS_LRU \<noteq> None"
    using assms(3) by (simp add: lb_configured_def arr_lookup_def STATS_SIZE_def stats_keys)
  then have "\<exists>st'. lb_forward K l st = Some (XDP_TX, st')"
    using m s ctl e unfolding lb_forward_def Let_def st0_def [symmetric]
    by (auto simp: assms(5) st0_def lb_send_def Let_def)
  then show ?thesis by (auto simp: process_packet_def assms(4))
qed

text \<open>
  C7. Delivery. With the maps configured, a packet that parses to a configured virtual IP is always
  transmitted when the kernel grants the headroom, whatever the connection table contains.
\<close>

theorem vip_traffic_delivered:
  assumes "adjust_head_ok K" "\<And>n p w. 0 < n \<Longrightarrow> fst (bpf_xdp_adjust_head K (- int n) p w) = 0"
    and "lb_configured K st" "parse_packet (pkt st) = Some (Inr l)"
    and "vip_map st (vip_def l) = Some v" "vip_num v < MAX_VIPS"
  shows "\<exists>st'. process_packet K st = Some (XDP_TX, st')"
  using process_packet_forwards [OF assms] .

end
