(* ===== verification/Xdp_Lb_Examples.thy ===== *)
theory Xdp_Lb_Examples
  imports Xdp_Lb_Props
begin

text \<open>
  A concrete kernel and configuration of the load balancer, and the properties applied to a TCP
  packet to a configured virtual IP.
\<close>

definition plain_kernel :: "u64 lb_kernel" where
  "plain_kernel = \<lparr>
     bpf_xdp_adjust_head = (\<lambda>d p w.
       if d < 0 then (0, replicate (nat (- d)) 0 @ p, w)
       else if nat d + 14 \<le> length p then (0, drop (nat d) p, w) else (- 22, p, w)),
     bpf_ktime_get_ns = (\<lambda>w. (w, w + 1000)),
     bpf_get_prandom_u32 = (\<lambda>w. (7, w)),
     bpf_get_smp_processor_id = 2,
     lru_update_elem = (\<lambda>f e m w. (m(f := Some e), w)),
     may_goto = (\<lambda>w. (True, w))\<rparr>"

text \<open>\<^verbatim>\<open>10.0.0.1:0x1234 -> 10.0.0.2:80\<close>, TCP with the ACK flag.\<close>

definition tcp_packet :: "u8 list" where
  "tcp_packet =
     [2, 0, 0, 0, 0, 1, 2, 0, 0, 0, 0, 2, 8, 0] @
     [0x45, 0, 0, 40, 0, 0, 0, 0, 64, 6, 0, 0, 10, 0, 0, 1, 10, 0, 0, 2] @
     [0x12, 0x34, 0, 80, 0, 0, 0, 1, 0, 0, 0, 2, 0x50, 0x10, 0, 64, 0, 0, 0, 0]"

definition sample_vip :: vip_definition where
  "sample_vip = \<lparr>vaddr = (0x0200000a, 0, 0, 0), vport = 0x5000, vproto = 6\<rparr>"

definition sample_lb :: "u64 lb_state" where
  "sample_lb = \<lparr>pkt = tcp_packet,
     vip_map = (\<lambda>d. if d = sample_vip then Some \<lparr>flags = 0, vip_num = 3\<rparr> else None),
     lru_mapping = (\<lambda>c. if c = 2 then Some (\<lambda>_. None) else None),
     ch_rings = \<lparr>max_entries = CH_RINGS_SIZE, elems = (\<lambda>_. 5)\<rparr>,
     reals = \<lparr>max_entries = MAX_REALS, elems = (\<lambda>_. \<lparr>rdst = 0x0900000a, rdstv6 = (1, 2, 3, 4), rflags = 0\<rparr>)\<rparr>,
     stats = \<lparr>max_entries = STATS_SIZE, elems = (\<lambda>_. \<lparr>v1 = 0, v2 = 0\<rparr>)\<rparr>,
     reals_stats = \<lparr>max_entries = MAX_REALS, elems = (\<lambda>_. \<lparr>v1 = 0, v2 = 0\<rparr>)\<rparr>,
     ctl_array = \<lparr>max_entries = 1, elems = (\<lambda>_. \<lparr>mac = (2, 0, 0, 0, 0, 9)\<rparr>)\<rparr>,
     vip_miss_stats = \<lparr>max_entries = 1, elems = (\<lambda>_. sample_vip)\<rparr>,
     lru_miss_stats = \<lparr>max_entries = MAX_REALS, elems = (\<lambda>_. 0)\<rparr>,
     flow_mask = 0, cold_lru = 0, batch_gen = 0, batch_iters = 4,
     timing_samples = (\<lambda>_. 0), timing_idx = (\<lambda>_. 0), timing_enabled = 1, world = 5000000000\<rparr>"

lemma plain_kernel_ok: "adjust_head_ok plain_kernel"
  by (auto simp: adjust_head_ok_def plain_kernel_def split: if_split_asm)

text \<open>What the parser finds in the packet.\<close>

definition sample_parsed :: parsed where
  "sample_parsed = \<lparr>is_v6 = False, payload_len = 40,
     flow = \<lparr>src = (0x0100000a, 0, 0, 0), dst = (0x0200000a, 0, 0, 0), port16_0 = 0x3412, port16_1 = 0x5000,
       proto = 6\<rparr>,
     vip_def = sample_vip, is_syn = False, is_rst = False\<rparr>"

lemma sample_parse: "parse_packet (pkt sample_lb) = Some (Inr sample_parsed)"
  by (simp add: sample_lb_def parse_packet_def parse_v4_def parse_l4_def tcp_packet_def ld16_def ld_bytes_def
      ld32_def ld8_def to_be16_def ETH_P_IPV6_def ETH_P_IP_def IPPROTO_TCP_def sample_parsed_def
      PCKT_FRAGMENTED_def TCPF_SYN_def TCPF_RST_def sample_vip_def)

lemma plain_kernel_headroom: "0 < n \<Longrightarrow> fst (bpf_xdp_adjust_head plain_kernel (- int n) p w) = 0"
  by (simp add: plain_kernel_def)

lemma sample_vips: "vip_map sample_lb d = Some v \<Longrightarrow> v = \<lparr>flags = 0, vip_num = 3\<rparr>"
  by (simp add: sample_lb_def split: if_split_asm)

lemma sample_facts:
  "lb_configured plain_kernel sample_lb" "vip_map sample_lb (vip_def sample_parsed) = Some \<lparr>flags = 0, vip_num = 3\<rparr>"
  "vip_num \<lparr>flags = 0, vip_num = 3\<rparr> < MAX_VIPS"
  by (simp_all add: lb_configured_def sample_lb_def plain_kernel_def MAX_REALS_def sample_parsed_def MAX_VIPS_def)

theorem vip_traffic_delivered_witness:
  "\<exists>st'. process_packet plain_kernel sample_lb = Some (XDP_TX, st')"
  by (rule vip_traffic_delivered [OF plain_kernel_ok plain_kernel_headroom sample_facts(1) sample_parse
        sample_facts(2,3)])

lemma sample_run: obtains st' where "process_packet plain_kernel sample_lb = Some (XDP_TX, st')"
  using process_packet_forwards [OF plain_kernel_ok plain_kernel_headroom sample_facts(1) sample_parse
        sample_facts(2,3)] by blast

theorem process_packet_output_witness:
  "\<exists>st'. process_packet plain_kernel sample_lb = Some (XDP_TX, st') \<and>
     csum_of (take 20 (drop 14 (pkt st'))) = 0xffff \<and> drop 34 (pkt st') = drop 14 tcp_packet"
proof -
  obtain st' where r: "process_packet plain_kernel sample_lb = Some (XDP_TX, st')" by (rule sample_run)
  obtain l real pos and cval :: ctl_value where l: "parse_packet (pkt sample_lb) = Some (Inr l)" and
    real: "arr_lookup (reals sample_lb) pos = Some real" and
    p: "pkt st' = eth_bytes (mac_bytes (mac cval)) (take 6 (pkt sample_lb))
        (if outer_v6 l real then ETH_P_IPV6 else ETH_P_IP) @ outer_ip l real @ drop 14 (pkt sample_lb)"
      "\<not> outer_v6 l real \<longrightarrow> csum_of (take 20 (drop 14 (pkt st'))) = 0xffff"
    using process_packet_output [OF plain_kernel_ok r] unfolding if_P [OF refl] by blast
  have "rflags real = 0" using real by (auto simp: arr_lookup_def sample_lb_def split: if_split_asm)
  moreover have "\<not> is_v6 l" using l sample_parse by (auto simp: sample_parsed_def)
  ultimately have o: "\<not> outer_v6 l real" by (simp add: outer_v6_def)
  have "pkt sample_lb = tcp_packet" "length tcp_packet = 54" by (simp_all add: sample_lb_def tcp_packet_def)
  then have "drop 34 (pkt st') = drop 14 tcp_packet"
    unfolding p(1) using o by (simp add: eth_bytes_def length_outer_ip)
  then show ?thesis using r p(2) o by blast
qed

theorem strip_encap_roundtrip_witness:
  "\<exists>st' w'. process_packet plain_kernel sample_lb = Some (XDP_TX, st') \<and>
     strip_encap plain_kernel (take 14 tcp_packet) st' = Some (0, st'\<lparr>pkt := tcp_packet, world := w'\<rparr>)"
proof -
  obtain st' where r: "process_packet plain_kernel sample_lb = Some (XDP_TX, st')" by (rule sample_run)
  have "pkt sample_lb = tcp_packet" by (simp add: sample_lb_def)
  then show ?thesis using strip_encap_roundtrip [OF plain_kernel_ok r] r by auto
qed

theorem xdp_lb_bench_result_witness:
  "\<exists>a st' st0. xdp_lb_bench plain_kernel sample_lb = Some (a, st') \<and> pkt st0 = tcp_packet \<and>
     process_packet plain_kernel st0 = Some (a, st')"
proof -
  obtain a st' where r: "xdp_lb_bench plain_kernel sample_lb = Some (a, st')"
    using xdp_lb_bench_total by blast
  have f: "flow_mask sample_lb = 0" "cold_lru sample_lb = 0" "14 \<le> length (pkt sample_lb)"
    "pkt sample_lb = tcp_packet" by (simp_all add: sample_lb_def tcp_packet_def)
  show ?thesis using xdp_lb_bench_result [OF plain_kernel_ok f(1-3) r] r f(4) by auto
qed

theorem process_packet_counts_witness:
  "\<exists>st'. process_packet plain_kernel sample_lb = Some (XDP_TX, st') \<and>
     v1 (elems (stats st') (action_key XDP_TX)) = 1 \<and> v1 (elems (stats st') (action_key XDP_DROP)) = 0"
proof -
  obtain st' where r: "process_packet plain_kernel sample_lb = Some (XDP_TX, st')" by (rule sample_run)
  have m: "max_entries (stats sample_lb) = STATS_SIZE" by (simp add: sample_lb_def)
  have v: "vip_num v < MAX_VIPS" if "vip_map sample_lb d = Some v" for d v
    using sample_vips [OF that] sample_facts(3) by simp
  have z: "v1 (elems (stats sample_lb) k) = 0" for k by (simp add: sample_lb_def)
  have "XDP_DROP \<noteq> XDP_TX" by (simp add: XDP_DROP_def XDP_TX_def)
  moreover have "v1 (elems (stats st') (action_key k)) =
      v1 (elems (stats sample_lb) (action_key k)) + (if k = XDP_TX then 1 else 0)"
    if "k \<in> {XDP_TX, XDP_PASS, XDP_DROP}" for k
    by (rule process_packet_counts [OF m _ r that]) (rule v)
  ultimately show ?thesis using r z by simp
qed


theorem flood_protection_witness:
  "\<not> fst (is_under_flood plain_kernel sample_lb) \<and>
   elems (stats (snd (is_under_flood plain_kernel sample_lb))) STATS_NEW_CONN = \<lparr>v1 = 1, v2 = 5000000000\<rparr>"
proof -
  have m: "max_entries (stats sample_lb) = STATS_SIZE" by (simp add: sample_lb_def)
  have t: "bpf_ktime_get_ns plain_kernel (world sample_lb) = (5000000000, 5000001000)"
    by (simp add: plain_kernel_def sample_lb_def)
  have c: "elems (stats sample_lb) STATS_NEW_CONN = \<lparr>v1 = 0, v2 = 0\<rparr>" by (simp add: sample_lb_def)
  obtain fl st1 where u: "is_under_flood plain_kernel sample_lb = (fl, st1)" by fastforce
  show ?thesis using flood_protection [OF m t refl u] unfolding c u by (simp add: ONE_SEC_def)
qed


end
