(* ===== verification/Qdisc.thy ===== *)
theory Qdisc
  imports Bpf_Prelude "HOL-Library.Multiset"
begin

text \<open>
  The contract between the network stack and a queueing discipline registered through struct-ops
  (\<^verbatim>\<open>struct Qdisc_ops\<close>), interpreted by \<^verbatim>\<open>bpf_fifo\<close> and \<^verbatim>\<open>bpf_fq\<close>. A discipline holds a bag of packets: an
  accepted packet enters it, a dropped one does not, and a packet that is handed out leaves it. The
  operations are partial, \<open>None\<close> being an access to freed memory; on states that satisfy the invariant
  they are defined.

  The lemmas run an arbitrary interleaving of enqueue and dequeue calls.
\<close>

definition NET_XMIT_SUCCESS :: i32 where "NET_XMIT_SUCCESS = 0"
definition NET_XMIT_DROP :: i32 where "NET_XMIT_DROP = 1"

text \<open>The calls of the stack, and what a run of them accepted and handed out, in order.\<close>

datatype 'p qdisc_op = Enq 'p | Deq

fun qdisc_run ::
    "('p \<Rightarrow> 's \<Rightarrow> (i32 \<times> 's) option) \<Rightarrow> ('s \<Rightarrow> ('p option \<times> 's) option) \<Rightarrow> 'p qdisc_op list \<Rightarrow> 's \<Rightarrow>
     ('p list \<times> 'p list \<times> 's) option" where
  "qdisc_run enq deq [] s = Some ([], [], s)"
| "qdisc_run enq deq (Enq p # ops) s =
     (case enq p s of None \<Rightarrow> None
      | Some (r, s') \<Rightarrow>
          (case qdisc_run enq deq ops s' of None \<Rightarrow> None
           | Some (acc, outs, t) \<Rightarrow> Some (if r = NET_XMIT_SUCCESS then p # acc else acc, outs, t)))"
| "qdisc_run enq deq (Deq # ops) s =
     (case deq s of None \<Rightarrow> None
      | Some (r, s') \<Rightarrow>
          (case qdisc_run enq deq ops s' of None \<Rightarrow> None
           | Some (acc, outs, t) \<Rightarrow> Some (acc, (case r of None \<Rightarrow> outs | Some p \<Rightarrow> p # outs), t)))"

locale qdisc =
  fixes inv :: "'s \<Rightarrow> bool"
    and pid :: "'p \<Rightarrow> 'i"
    and packets :: "'s \<Rightarrow> 'i multiset"
    and enqueue :: "'p \<Rightarrow> 's \<Rightarrow> (i32 \<times> 's) option"
    and dequeue :: "'s \<Rightarrow> ('p option \<times> 's) option"
  assumes enqueue_ok: "inv s \<Longrightarrow> \<exists>r s'. enqueue p s = Some (r, s') \<and> inv s' \<and>
        packets s' = (if r = NET_XMIT_SUCCESS then add_mset (pid p) (packets s) else packets s)"
    and dequeue_ok: "inv s \<Longrightarrow> \<exists>r s'. dequeue s = Some (r, s') \<and> inv s' \<and>
        (case r of None \<Rightarrow> packets s' = packets s | Some p \<Rightarrow> packets s = add_mset (pid p) (packets s'))"
begin

lemma run_conserves:
  assumes "inv s"
  shows "\<exists>acc outs t. qdisc_run enqueue dequeue ops s = Some (acc, outs, t) \<and> inv t \<and>
    packets s + image_mset pid (mset acc) = packets t + image_mset pid (mset outs)"
  using assms
proof (induction ops arbitrary: s)
  case (Cons op ops)
  show ?case
  proof (cases op)
    case (Enq p)
    obtain r s' where e: "enqueue p s = Some (r, s')" "inv s'"
      "packets s' = (if r = NET_XMIT_SUCCESS then add_mset (pid p) (packets s) else packets s)"
      using enqueue_ok [OF Cons.prems] by blast
    with Cons.IH [OF e(2)] show ?thesis by (auto simp: Enq)
  next
    case Deq
    obtain r s' where d: "dequeue s = Some (r, s')" "inv s'"
      "case r of None \<Rightarrow> packets s' = packets s | Some p \<Rightarrow> packets s = add_mset (pid p) (packets s')"
      using dequeue_ok [OF Cons.prems] by blast
    with Cons.IH [OF d(2)] show ?thesis by (auto simp: Deq split: option.split_asm)
  qed
qed simp

text \<open>In particular no packet is handed out that was not accepted, and none twice.\<close>

lemma run_outputs:
  assumes "inv s" "qdisc_run enqueue dequeue ops s = Some (acc, outs, t)"
  shows "image_mset pid (mset outs) \<subseteq># packets s + image_mset pid (mset acc)"
  using run_conserves [OF assms(1), of ops] assms(2) by auto

end

end
