(* ===== verification/Qdisc_Fifo.thy ===== *)
theory Qdisc_Fifo
  imports Qdisc
begin

text \<open>
  The FIFO queueing discipline of \<^verbatim>\<open>src/progs/bpf_qdisc_fifo.rs\<close>. The list head \<^verbatim>\<open>q_fifo\<close> is the list of
  its nodes, each holding a packet in its kptr slot; \<^verbatim>\<open>bpf_list_push_back\<close> appends and
  \<^verbatim>\<open>bpf_list_pop_front\<close> takes the first. A packet is identified by its address \<open>skb_id\<close>. The kernel is a
  parameter: the allocator of nodes and the functions that consume or account a packet.
\<close>

section \<open>State\<close>

record sk_buff =
  skb_id :: nat
  cb_pkt_len :: u32

record skb_node =
  skb :: "sk_buff option"

record Qdisc =
  qlen :: u32
  limit :: u32
  backlog :: u32

record 'w fifo_state =
  sch :: Qdisc
  q_fifo :: "skb_node list"
  init_called :: bool
  world :: 'w

record 'w fifo_kernel =
  bpf_obj_new :: "'w \<Rightarrow> bool \<times> 'w"
  bpf_obj_drop :: "'w \<Rightarrow> 'w"
  bpf_qdisc_skb_drop :: "sk_buff \<Rightarrow> 'w \<Rightarrow> 'w"
  bpf_qdisc_bstats_update :: "sk_buff \<Rightarrow> 'w \<Rightarrow> 'w"
  bpf_kfree_skb :: "sk_buff \<Rightarrow> 'w \<Rightarrow> 'w"

definition qdisc_pkt_len :: "sk_buff \<Rightarrow> u32" where
  "qdisc_pkt_len p = cb_pkt_len p"

section \<open>The callbacks\<close>

text \<open>
  \<^verbatim>\<open>bpf_fifo_enqueue\<close>. The node is new, so its slot is empty and the exchange returns null; the drop of
  the exchanged packet is written as in the code.
\<close>

definition bpf_fifo_enqueue :: "'w fifo_kernel \<Rightarrow> sk_buff \<Rightarrow> 'w fifo_state \<Rightarrow> i32 \<times> 'w fifo_state" where
  "bpf_fifo_enqueue K p st =
     (if qlen (sch st) = limit (sch st)
      then (NET_XMIT_DROP, st\<lparr>world := bpf_qdisc_skb_drop K p (world st)\<rparr>)
      else
        let (ok, w) = bpf_obj_new K (world st); st = st\<lparr>world := w\<rparr>
        in if \<not> ok then (NET_XMIT_DROP, st\<lparr>world := bpf_qdisc_skb_drop K p (world st)\<rparr>)
           else
             let skbn = \<lparr>skb = None\<rparr>;
                 pkt_len = qdisc_pkt_len p;
                 st = st\<lparr>sch := (sch st)\<lparr>qlen := qlen (sch st) + 1\<rparr>\<rparr>;
                 old = skb skbn; skbn = skbn\<lparr>skb := Some p\<rparr>;
                 st = (case old of None \<Rightarrow> st
                       | Some o' \<Rightarrow> st\<lparr>world := bpf_qdisc_skb_drop K o' (world st)\<rparr>);
                 st = st\<lparr>q_fifo := q_fifo st @ [skbn]\<rparr>
             in (NET_XMIT_SUCCESS, st\<lparr>sch := (sch st)\<lparr>backlog := backlog (sch st) + pkt_len\<rparr>\<rparr>))"

definition bpf_fifo_dequeue :: "'w fifo_kernel \<Rightarrow> 'w fifo_state \<Rightarrow> sk_buff option \<times> 'w fifo_state" where
  "bpf_fifo_dequeue K st =
     (case q_fifo st of
        [] \<Rightarrow> (None, st)
      | skbn # rest \<Rightarrow>
          let st = st\<lparr>q_fifo := rest, world := bpf_obj_drop K (world st)\<rparr>
          in case skb skbn of
               None \<Rightarrow> (None, st)
             | Some p \<Rightarrow>
                 let st = st\<lparr>sch := (sch st)\<lparr>backlog := backlog (sch st) - qdisc_pkt_len p\<rparr>\<rparr>;
                     st = st\<lparr>world := bpf_qdisc_bstats_update K p (world st)\<rparr>
                 in (Some p, st\<lparr>sch := (sch st)\<lparr>qlen := qlen (sch st) - 1\<rparr>\<rparr>))"

definition bpf_fifo_init :: "'w fifo_state \<Rightarrow> i32 \<times> 'w fifo_state" where
  "bpf_fifo_init st = (0, st\<lparr>sch := (sch st)\<lparr>limit := 1000\<rparr>, init_called := True\<rparr>)"



definition bpf_fifo_destroy :: "'w fifo_state \<Rightarrow> 'w fifo_state" where
  "bpf_fifo_destroy st = st"

section \<open>The invariant\<close>

text \<open>
  The counters describe the list: \<^verbatim>\<open>qlen\<close> is its length, within the limit, \<^verbatim>\<open>backlog\<close> the sum of the packet
  lengths (a wrapping sum), and every node holds a packet.
\<close>

definition fifo_packets :: "'w fifo_state \<Rightarrow> sk_buff list" where
  "fifo_packets st = List.map_filter skb (q_fifo st)"

definition fifo_inv :: "'w fifo_state \<Rightarrow> bool" where
  "fifo_inv st \<longleftrightarrow> unat (qlen (sch st)) = length (q_fifo st) \<and> qlen (sch st) \<le> limit (sch st) \<and>
     backlog (sch st) = sum_list (map qdisc_pkt_len (fifo_packets st)) \<and> (\<forall>n \<in> set (q_fifo st). skb n \<noteq> None)"

lemma map_filter_append: "List.map_filter f (xs @ ys) = List.map_filter f xs @ List.map_filter f ys"
  by (induction xs) (auto simp: List.map_filter_simps split: option.split)

lemma fifo_packets_simps [simp]:
  "fifo_packets (st\<lparr>sch := s\<rparr>) = fifo_packets st" "fifo_packets (st\<lparr>world := w\<rparr>) = fifo_packets st"
  "fifo_packets (st\<lparr>q_fifo := []\<rparr>) = []"
  "fifo_packets (st\<lparr>q_fifo := n # r\<rparr>) =
     (case skb n of None \<Rightarrow> fifo_packets (st\<lparr>q_fifo := r\<rparr>) | Some p \<Rightarrow> p # fifo_packets (st\<lparr>q_fifo := r\<rparr>))"
  by (simp_all add: fifo_packets_def List.map_filter_simps split: option.split)

text \<open>Enqueue appends or drops.\<close>

lemma fifo_enqueue_spec:
  assumes "fifo_inv st" "bpf_fifo_enqueue K p st = (r, st')"
  shows "fifo_inv st' \<and> limit (sch st') = limit (sch st) \<and>
    (if r = NET_XMIT_SUCCESS then fifo_packets st' = fifo_packets st @ [p] else fifo_packets st' = fifo_packets st) \<and>
    (r = NET_XMIT_SUCCESS \<longleftrightarrow> qlen (sch st) \<noteq> limit (sch st) \<and> fst (bpf_obj_new K (world st)))"
proof -
  obtain ok w where o: "bpf_obj_new K (world st) = (ok, w)" by fastforce
  have ne: "NET_XMIT_DROP \<noteq> NET_XMIT_SUCCESS" by (simp add: NET_XMIT_DROP_def NET_XMIT_SUCCESS_def)
  show ?thesis
  proof (cases "qlen (sch st) \<noteq> limit (sch st) \<and> ok")
    case True
    then have lt: "qlen (sch st) < limit (sch st)" using assms(1) unfolding fifo_inv_def by (metis order_le_less)
    show ?thesis
      using True assms o ne unat_inc [OF lt]
      by (auto simp: bpf_fifo_enqueue_def Let_def fifo_inv_def fifo_packets_def map_filter_append
          List.map_filter_simps)
  next
    case False
    then show ?thesis using assms o ne
      by (auto simp: bpf_fifo_enqueue_def Let_def fifo_inv_def split: if_split_asm)
  qed
qed


lemma fifo_dequeue_spec:
  assumes "fifo_inv st" "bpf_fifo_dequeue K st = (r, st')"
  shows "fifo_inv st' \<and> limit (sch st') = limit (sch st) \<and>
    (case r of None \<Rightarrow> fifo_packets st = [] \<and> st' = st | Some p \<Rightarrow> fifo_packets st = p # fifo_packets st')"
proof (cases "q_fifo st")
  case Nil
  then show ?thesis
    using assms by (auto simp: bpf_fifo_dequeue_def fifo_packets_def List.map_filter_simps)
next
  case (Cons n rest)
  obtain q where q: "skb n = Some q" using assms(1) Cons by (auto simp: fifo_inv_def)
  have l: "unat (qlen (sch st)) = Suc (length rest)" using assms(1) Cons by (simp add: fifo_inv_def)
  have "qlen (sch st) - 1 \<le> qlen (sch st)" using unat_pred [OF l] l by (simp add: word_le_nat_alt)
  moreover have "qlen (sch st) \<le> limit (sch st)" using assms(1) by (simp add: fifo_inv_def)
  ultimately have "qlen (sch st) - 1 \<le> limit (sch st)" by simp
  moreover have "r = Some q" "st' = st\<lparr>q_fifo := rest,
      world := bpf_qdisc_bstats_update K q (bpf_obj_drop K (world st)),
      sch := (sch st)\<lparr>backlog := backlog (sch st) - qdisc_pkt_len q, qlen := qlen (sch st) - 1\<rparr>\<rparr>"
    using assms(2) Cons q by (simp_all add: bpf_fifo_dequeue_def Let_def)
  ultimately show ?thesis
    using assms(1) Cons q unat_pred [OF l] by (simp add: fifo_inv_def fifo_packets_def List.map_filter_simps)
qed


interpretation fifo: qdisc fifo_inv skb_id "\<lambda>st. image_mset skb_id (mset (fifo_packets st))"
  "\<lambda>p st. Some (bpf_fifo_enqueue K p st)" "\<lambda>st. Some (bpf_fifo_dequeue K st)"
  for K :: "'w fifo_kernel"
proof (unfold_locales, goal_cases)
  case (1 st p)
  obtain r st' where e: "bpf_fifo_enqueue K p st = (r, st')" by fastforce
  show ?case using fifo_enqueue_spec [OF 1 e] e by auto
next
  case (2 st)
  obtain r st' where d: "bpf_fifo_dequeue K st = (r, st')" by fastforce
  show ?case using fifo_dequeue_spec [OF 2 d] d by (auto split: option.split_asm)
qed

section \<open>Properties\<close>

text \<open>
  C29. First in, first out. For every interleaving of enqueue and dequeue calls, the packets handed
  out followed by the packets still queued are the packets queued at the start followed by the
  accepted ones, in order: nothing is lost, duplicated or reordered. The counters stay exact and the
  queue within its limit.
\<close>

theorem fifo_order:
  assumes "fifo_inv st"
  shows "\<exists>acc outs t. qdisc_run (\<lambda>p st. Some (bpf_fifo_enqueue K p st)) (\<lambda>st. Some (bpf_fifo_dequeue K st)) ops st
      = Some (acc, outs, t) \<and> outs @ fifo_packets t = fifo_packets st @ acc \<and> fifo_inv t"
  using assms
proof (induction ops arbitrary: st)
  case (Cons op ops)
  show ?case
  proof (cases op)
    case (Enq p)
    obtain r st' where e: "bpf_fifo_enqueue K p st = (r, st')" by fastforce
    note s = fifo_enqueue_spec [OF Cons.prems e]
    then show ?thesis using Cons.IH [of st'] e by (auto simp: Enq split: if_split_asm)
  next
    case Deq
    obtain r st' where d: "bpf_fifo_dequeue K st = (r, st')" by fastforce
    note s = fifo_dequeue_spec [OF Cons.prems d]
    then show ?thesis using Cons.IH [of st'] d by (auto simp: Deq split: option.split_asm)
  qed
qed simp


section \<open>An example\<close>

text \<open>A kernel that always allocates and counts the packets it was given back.\<close>

definition counting_kernel :: "nat fifo_kernel" where
  "counting_kernel = \<lparr>bpf_obj_new = (\<lambda>w. (True, w)), bpf_obj_drop = id, bpf_qdisc_skb_drop = (\<lambda>_ w. w + 1),
     bpf_qdisc_bstats_update = (\<lambda>_ w. w), bpf_kfree_skb = (\<lambda>_ w. w + 1)\<rparr>"

definition empty_fifo :: "nat fifo_state" where
  "empty_fifo = \<lparr>sch = \<lparr>qlen = 0, limit = 2, backlog = 0\<rparr>, q_fifo = [], init_called = False, world = 0\<rparr>"

lemma empty_fifo_inv: "fifo_inv empty_fifo"
  by (simp add: fifo_inv_def empty_fifo_def fifo_packets_def List.map_filter_simps)

lemma empty_fifo_packets: "fifo_packets empty_fifo = []"
  by (simp add: empty_fifo_def fifo_packets_def List.map_filter_simps)

theorem fifo_order_witness:
  "\<exists>acc outs t. qdisc_run (\<lambda>p st. Some (bpf_fifo_enqueue counting_kernel p st))
      (\<lambda>st. Some (bpf_fifo_dequeue counting_kernel st))
      [Enq \<lparr>skb_id = 1, cb_pkt_len = 60\<rparr>, Enq \<lparr>skb_id = 2, cb_pkt_len = 90\<rparr>, Deq] empty_fifo = Some (acc, outs, t) \<and>
    outs @ fifo_packets t = acc"
  using fifo_order [OF empty_fifo_inv, of counting_kernel
      "[Enq \<lparr>skb_id = 1, cb_pkt_len = 60\<rparr>, Enq \<lparr>skb_id = 2, cb_pkt_len = 90\<rparr>, Deq]"]
  unfolding empty_fifo_packets append_Nil by blast


end
