(* ===== verification/Qdisc_Fq.thy ===== *)
theory Qdisc_Fq
  imports Qdisc "HOL-Library.Monad_Syntax"
begin

text \<open>
  The fair queueing discipline of \<^verbatim>\<open>src/progs/bpf_qdisc_fq.rs\<close>. A packet is put into the queue of its flow,
  ordered by the time it may be sent; flows take turns by credit, and a flow whose next packet is not
  due is throttled until it is.

  Flow objects live in a heap, \<open>flows\<close>, and are named by addresses. They are reference counted: the
  stash of a map entry holds one reference, membership in \<^verbatim>\<open>fq_new_flows\<close>, \<^verbatim>\<open>fq_old_flows\<close> or
  \<^verbatim>\<open>fq_delayed\<close> another. Dropping the last reference frees the object, and an access to a freed object is
  the result \<open>None\<close>. A list head is the list of its members, a tree root the list of its members in
  order; where \<^verbatim>\<open>bpf_rbtree_add\<close> puts a member among equals is up to the kernel. The locks protect
  single operations of a run that is already serialised by the qdisc lock and have no effect here.

  The kernel parameter \<open>'w fq_kernel\<close> holds the allocators, the map insertions (which may fail), the
  order of \<^verbatim>\<open>bpf_for_each_map_elem\<close>, the tree insertions, the clocks and the functions that consume a packet.
\<close>

section \<open>Constants\<close>

definition TC_PRIO_CONTROL :: u32 where "TC_PRIO_CONTROL = 7"
definition TC_PRIO_MAX :: u32 where "TC_PRIO_MAX = 15"
definition ENOMEM :: i32 where "ENOMEM = 12"
definition E2BIG :: i32 where "E2BIG = 7"
definition TCP_CLOSE :: u8 where "TCP_CLOSE = 7"
definition TCPF_LISTEN :: u32 where "TCPF_LISTEN = push_bit 10 1"
definition TCPF_NEW_SYN_RECV :: u32 where "TCPF_NEW_SYN_RECV = push_bit 12 1"
definition NSEC_PER_USEC :: u64 where "NSEC_PER_USEC = 1000"
definition NSEC_PER_SEC :: u64 where "NSEC_PER_SEC = 1000000000"
definition NUM_QUEUE :: u32 where "NUM_QUEUE = push_bit 20 1"
definition FQ_GC_MAX :: u32 where "FQ_GC_MAX = 8"
definition CLS_RET_PRIO :: i32 where "CLS_RET_PRIO = 0"
definition CLS_RET_NONPRIO :: i32 where "CLS_RET_NONPRIO = 1"
definition CLS_RET_ERR :: i32 where "CLS_RET_ERR = 2"

lemmas cls_rets = CLS_RET_PRIO_def CLS_RET_NONPRIO_def CLS_RET_ERR_def

section \<open>State\<close>

record fq_bpf_data =
  quantum :: u32
  initial_quantum :: u32
  flow_refill_delay :: u32
  flow_plimit :: u32
  horizon :: u64
  orphan_mask :: u32
  timer_slack :: u32
  time_next_delayed_flow :: u64
  unthrottle_latency_ns :: u64
  horizon_drop :: u8
  new_flow_cnt :: u32
  old_flow_cnt :: u32
  ktime_cache :: u64

record sock =
  skc_state :: u8
  skc_hash :: u32

record sk_buff =
  skb_id :: nat
  skb_sk :: "sock option"
  skb_tstamp :: i64
  skb_priority :: u32
  cb_pkt_len :: u32

record skb_node =
  node_tstamp :: u64
  node_skb :: "sk_buff option"

record fq_flow_node =
  credit :: i32
  flow_qlen :: u32
  age :: u64
  time_next_packet :: u64
  queue :: "skb_node list"
  refcount :: nat

record dequeue_nonprio_ctx =
  stop_iter :: bool
  expire :: u64
  ctx_now :: u64

record remove_flows_ctx =
  gc_only :: bool
  reset_cnt :: u32
  reset_max :: u32

record unset_throttled_flows_ctx =
  unset_all :: bool
  utf_now :: u64

text \<open>The fields of \<^verbatim>\<open>struct Qdisc\<close> the program uses, with the two fields of its device.\<close>

record Qdisc =
  qlen :: u32
  limit :: u32
  backlog :: u32
  drops :: u32
  dev_mtu :: u32
  dev_hard_header_len :: u16

text \<open>
  A flow map: \<open>None\<close> is a missing key, \<open>Some None\<close> an entry whose kptr is null, \<open>Some (Some r)\<close> a stashed
  flow. A pointer to a stash is the map with the key.
\<close>

type_synonym flow_heap = "nat \<Rightarrow> fq_flow_node option"
type_synonym flow_map = "u64 \<Rightarrow> nat option option"

datatype map_id = Nonprio | Prio
datatype list_id = NewFlows | OldFlows

record 'w fq_state =
  fq_nonprio_flows :: flow_map
  fq_prio_flows :: flow_map
  flows :: flow_heap
  fq_delayed :: "nat list"
  fq_new_flows :: "nat list"
  fq_old_flows :: "nat list"
  q :: fq_bpf_data
  sch :: Qdisc
  world :: 'w

record 'w fq_kernel =
  flow_obj_new :: "flow_heap \<Rightarrow> 'w \<Rightarrow> nat option \<times> 'w"
  skb_node_new :: "'w \<Rightarrow> bool \<times> 'w"
  map_update_ret :: "flow_map \<Rightarrow> u64 \<Rightarrow> 'w \<Rightarrow> i32 \<times> 'w"
  map_order :: "flow_map \<Rightarrow> 'w \<Rightarrow> u64 list"
  rbtree_add_skb :: "(skb_node \<Rightarrow> skb_node \<Rightarrow> bool) \<Rightarrow> skb_node \<Rightarrow> skb_node list \<Rightarrow> skb_node list"
  rbtree_add_flow :: "(nat \<Rightarrow> nat \<Rightarrow> bool) \<Rightarrow> nat \<Rightarrow> nat list \<Rightarrow> nat list"
  bpf_skb_get_hash :: "sk_buff \<Rightarrow> u32"
  bpf_ktime_get_ns :: "'w \<Rightarrow> u64 \<times> 'w"
  bpf_jiffies64 :: "'w \<Rightarrow> u64 \<times> 'w"
  CONFIG_HZ :: u32
  bpf_qdisc_skb_drop :: "sk_buff \<Rightarrow> 'w \<Rightarrow> 'w"
  bpf_qdisc_bstats_update :: "sk_buff \<Rightarrow> 'w \<Rightarrow> 'w"
  bpf_qdisc_watchdog_schedule :: "u64 \<Rightarrow> u64 \<Rightarrow> 'w \<Rightarrow> 'w"

section \<open>Objects, maps and lists\<close>

definition bpf_obj_drop :: "nat \<Rightarrow> 'w fq_state \<Rightarrow> 'w fq_state option" where
  "bpf_obj_drop r st =
     (case flows st r of
        None \<Rightarrow> None
      | Some f \<Rightarrow>
          if refcount f \<le> 1 then Some (st\<lparr>flows := (flows st)(r := None)\<rparr>)
          else Some (st\<lparr>flows := (flows st)(r := Some (f\<lparr>refcount := refcount f - 1\<rparr>))\<rparr>))"

definition set_flow :: "nat \<Rightarrow> fq_flow_node \<Rightarrow> 'w fq_state \<Rightarrow> 'w fq_state" where
  "set_flow r f st = st\<lparr>flows := (flows st)(r := Some f)\<rparr>"

fun get_map :: "map_id \<Rightarrow> 'w fq_state \<Rightarrow> flow_map" where
  "get_map Nonprio st = fq_nonprio_flows st"
| "get_map Prio st = fq_prio_flows st"

fun set_map :: "map_id \<Rightarrow> flow_map \<Rightarrow> 'w fq_state \<Rightarrow> 'w fq_state" where
  "set_map Nonprio m st = st\<lparr>fq_nonprio_flows := m\<rparr>"
| "set_map Prio m st = st\<lparr>fq_prio_flows := m\<rparr>"

text \<open>Freeing the kptr of a map value.\<close>

definition drop_stash :: "nat option option \<Rightarrow> 'w fq_state \<Rightarrow> 'w fq_state option" where
  "drop_stash e st = (case e of Some (Some r) \<Rightarrow> bpf_obj_drop r st | _ \<Rightarrow> Some st)"

text \<open>Insertion of an empty stash, which frees the stash it replaces, and deletion.\<close>

definition map_update_empty :: "'w fq_kernel \<Rightarrow> map_id \<Rightarrow> u64 \<Rightarrow> 'w fq_state \<Rightarrow> (i32 \<times> 'w fq_state) option" where
  "map_update_empty K m k st =
     (let (ret, w) = map_update_ret K (get_map m st) k (world st); st = st\<lparr>world := w\<rparr>
      in if ret = 0
         then do {
           st' \<leftarrow> drop_stash (get_map m st k) (set_map m ((get_map m st)(k := Some None)) st);
           Some (ret, st')
         }
         else Some (ret, st))"

definition map_delete :: "map_id \<Rightarrow> u64 \<Rightarrow> 'w fq_state \<Rightarrow> 'w fq_state option" where
  "map_delete m k st = drop_stash (get_map m st k) (set_map m ((get_map m st)(k := None)) st)"

text \<open>Wrapper for \<^verbatim>\<open>bpf_kptr_xchg\<close> that expects NULL dst.\<close>

definition bpf_kptr_xchg_back :: "map_id \<Rightarrow> u64 \<Rightarrow> nat \<Rightarrow> 'w fq_state \<Rightarrow> 'w fq_state option" where
  "bpf_kptr_xchg_back m k r st =
     drop_stash (get_map m st k) (set_map m ((get_map m st)(k := Some (Some r))) st)"

definition skbn_tstamp_less :: "skb_node \<Rightarrow> skb_node \<Rightarrow> bool" where
  "skbn_tstamp_less a b = (node_tstamp a < node_tstamp b)"

definition fn_time_next_packet_less :: "flow_heap \<Rightarrow> nat \<Rightarrow> nat \<Rightarrow> bool" where
  "fn_time_next_packet_less h a b =
     (case (h a, h b) of (Some fa, Some fb) \<Rightarrow> time_next_packet fa < time_next_packet fb | _ \<Rightarrow> False)"

fun get_list :: "list_id \<Rightarrow> 'w fq_state \<Rightarrow> nat list" where
  "get_list NewFlows st = fq_new_flows st"
| "get_list OldFlows st = fq_old_flows st"

fun set_list :: "list_id \<Rightarrow> nat list \<Rightarrow> 'w fq_state \<Rightarrow> 'w fq_state" where
  "set_list NewFlows l st = st\<lparr>fq_new_flows := l\<rparr>"
| "set_list OldFlows l st = st\<lparr>fq_old_flows := l\<rparr>"

fun add_cnt :: "list_id \<Rightarrow> u32 \<Rightarrow> 'w fq_state \<Rightarrow> 'w fq_state" where
  "add_cnt NewFlows n st = st\<lparr>q := (q st)\<lparr>new_flow_cnt := new_flow_cnt (q st) + n\<rparr>\<rparr>"
| "add_cnt OldFlows n st = st\<lparr>q := (q st)\<lparr>old_flow_cnt := old_flow_cnt (q st) + n\<rparr>\<rparr>"

definition fq_flows_add_head :: "list_id \<Rightarrow> nat \<Rightarrow> 'w fq_state \<Rightarrow> 'w fq_state" where
  "fq_flows_add_head l r st = add_cnt l 1 (set_list l (r # get_list l st) st)"

definition fq_flows_add_tail :: "list_id \<Rightarrow> nat \<Rightarrow> 'w fq_state \<Rightarrow> 'w fq_state" where
  "fq_flows_add_tail l r st = add_cnt l 1 (set_list l (get_list l st @ [r]) st)"

definition fq_flows_remove_front :: "list_id \<Rightarrow> 'w fq_state \<Rightarrow> nat option \<times> 'w fq_state" where
  "fq_flows_remove_front l st =
     (case get_list l st of
        [] \<Rightarrow> (None, add_cnt l (- 1) st)
      | r # rs \<Rightarrow> (Some r, add_cnt l (- 1) (set_list l rs st)))"

definition fq_flows_is_empty :: "list_id \<Rightarrow> 'w fq_state \<Rightarrow> bool" where
  "fq_flows_is_empty l st = (get_list l st = [])"

section \<open>Flows\<close>

definition fq_flow_is_detached :: "fq_flow_node \<Rightarrow> bool" where
  "fq_flow_is_detached f = (age f \<noteq> 0 \<and> age f \<noteq> - 1)"

definition fq_flow_set_detached :: "'w fq_kernel \<Rightarrow> fq_flow_node \<Rightarrow> 'w \<Rightarrow> fq_flow_node \<times> 'w" where
  "fq_flow_set_detached K f w = (let (jiffies, w) = bpf_jiffies64 K w in (f\<lparr>age := jiffies\<rparr>, w))"

definition sk_listener :: "sock \<Rightarrow> bool" where
  "sk_listener s =
     (push_bit (unat (skc_state s AND 31)) 1 AND (TCPF_LISTEN OR TCPF_NEW_SYN_RECV) \<noteq> 0)"

definition fq_gc_age :: "'w fq_kernel \<Rightarrow> u64" where
  "fq_gc_age K = ucast (3 * CONFIG_HZ K)"

definition fq_gc_candidate :: "'w fq_kernel \<Rightarrow> fq_flow_node \<Rightarrow> 'w \<Rightarrow> bool \<times> 'w" where
  "fq_gc_candidate K f w =
     (let (jiffies, w) = bpf_jiffies64 K w
      in (fq_flow_is_detached f \<and> sint (jiffies - (age f + fq_gc_age K)) > 0, w))"

text \<open>The callback of \<^verbatim>\<open>bpf_for_each_map_elem\<close>; the result is true if the iteration stops.\<close>

definition fq_remove_flows ::
    "'w fq_kernel \<Rightarrow> map_id \<Rightarrow> u64 \<Rightarrow> remove_flows_ctx \<Rightarrow> 'w fq_state \<Rightarrow>
     (bool \<times> remove_flows_ctx \<times> 'w fq_state) option" where
  "fq_remove_flows K m k c st = do {
     (del, st) \<leftarrow>
       (case get_map m st k of
          Some (Some r) \<Rightarrow>
            if \<not> gc_only c then Some (True, st)
            else do {
              f \<leftarrow> flows st r;
              let (cand, w) = fq_gc_candidate K f (world st);
              Some (cand, st\<lparr>world := w\<rparr>)
            }
        | _ \<Rightarrow> Some (False, st));
     (c, st) \<leftarrow>
       (if del then do { st \<leftarrow> map_delete m k st; Some (c\<lparr>reset_cnt := reset_cnt c + 1\<rparr>, st) }
        else Some (c, st));
     Some (\<not> (reset_cnt c < reset_max c), c, st)
   }"

fun for_each_map_elem ::
    "'w fq_kernel \<Rightarrow> map_id \<Rightarrow> u64 list \<Rightarrow> remove_flows_ctx \<Rightarrow> 'w fq_state \<Rightarrow> 'w fq_state option" where
  "for_each_map_elem K m [] c st = Some st"
| "for_each_map_elem K m (k # ks) c st =
     (case fq_remove_flows K m k c st of
        None \<Rightarrow> None
      | Some (stop, c, st) \<Rightarrow> if stop then Some st else for_each_map_elem K m ks c st)"

definition fq_gc :: "'w fq_kernel \<Rightarrow> 'w fq_state \<Rightarrow> 'w fq_state option" where
  "fq_gc K st = for_each_map_elem K Nonprio (map_order K (fq_nonprio_flows st) (world st))
     \<lparr>gc_only = True, reset_cnt = 0, reset_max = FQ_GC_MAX\<rparr> st"

definition fq_new_flow :: "'w fq_kernel \<Rightarrow> map_id \<Rightarrow> u64 \<Rightarrow> 'w fq_state \<Rightarrow> (i32 \<times> 'w fq_state) option" where
  "fq_new_flow K m hash st =
     (let (p, w) = flow_obj_new K (flows st) (world st); st = st\<lparr>world := w\<rparr>
      in case p of
           None \<Rightarrow> Some (- ENOMEM, st)
         | Some r \<Rightarrow>
             let st = set_flow r \<lparr>credit = initial_quantum (q st), flow_qlen = 0, age = 1,
                        time_next_packet = 0, queue = [], refcount = 1\<rparr> st
             in do {
               (ret, st) \<leftarrow> map_update_empty K m hash st;
               st \<leftarrow>
                 (if ret = - ENOMEM \<or> ret = - E2BIG
                  then do {
                    st \<leftarrow> fq_gc K st;
                    (_, st) \<leftarrow> map_update_empty K Nonprio hash st;
                    Some st
                  }
                  else Some st);
               case get_map m st hash of
                 None \<Rightarrow> do { st \<leftarrow> bpf_obj_drop r st; Some (- ENOMEM, st) }
               | Some _ \<Rightarrow> do { st \<leftarrow> bpf_kptr_xchg_back m hash r st; Some (0, st) }
             })"

text \<open>The hash of a packet of normal priority.\<close>

definition fq_hash :: "'w fq_kernel \<Rightarrow> sk_buff \<Rightarrow> fq_bpf_data \<Rightarrow> u64" where
  "fq_hash K p c =
     (case skb_sk p of
        None \<Rightarrow> ucast (bpf_skb_get_hash K p AND orphan_mask c) OR push_bit 32 1
      | Some s \<Rightarrow>
          if sk_listener s then ucast (bpf_skb_get_hash K p AND orphan_mask c) OR push_bit 32 1
          else if skc_state s = TCP_CLOSE then ucast (bpf_skb_get_hash K p AND orphan_mask c) OR push_bit 32 1
          else ucast (skc_hash s))"

text \<open>The class and the stash of a packet.\<close>

definition fq_classify ::
    "'w fq_kernel \<Rightarrow> sk_buff \<Rightarrow> 'w fq_state \<Rightarrow> (i32 \<times> (map_id \<times> u64) \<times> 'w fq_state) option" where
  "fq_classify K p st =
     (let prio = (skb_priority p AND TC_PRIO_MAX = TC_PRIO_CONTROL);
          hash = (if prio then 0 else fq_hash K p (q st));
          m = (if prio then Prio else Nonprio);
          ret = (if prio then CLS_RET_PRIO else CLS_RET_NONPRIO)
      in case get_map m st hash of
           Some _ \<Rightarrow> Some (ret, (m, hash), st)
         | None \<Rightarrow> do {
             (e, st) \<leftarrow> fq_new_flow K Nonprio hash st;
             Some (if sint e < 0 then CLS_RET_ERR else CLS_RET_NONPRIO, (Nonprio, hash), st)
           })"

definition fq_packet_beyond_horizon :: "sk_buff \<Rightarrow> fq_bpf_data \<Rightarrow> bool" where
  "fq_packet_beyond_horizon p c = (sint (skb_tstamp p) > sint (ktime_cache c + horizon c))"

section \<open>Enqueue\<close>

text \<open>The drop label: the packet is freed and counted.\<close>

definition fq_drop :: "'w fq_kernel \<Rightarrow> sk_buff \<Rightarrow> 'w fq_state \<Rightarrow> i32 \<times> 'w fq_state" where
  "fq_drop K p st = (NET_XMIT_DROP, st\<lparr>world := bpf_qdisc_skb_drop K p (world st),
     sch := (sch st)\<lparr>drops := drops (sch st) + 1\<rparr>\<rparr>)"

definition read_clock :: "'w fq_kernel \<Rightarrow> 'w fq_state \<Rightarrow> 'w fq_state" where
  "read_clock K st =
     (let (t, w) = bpf_ktime_get_ns K (world st) in st\<lparr>q := (q st)\<lparr>ktime_cache := t\<rparr>, world := w\<rparr>)"

text \<open>The time a packet may be sent, and the packet with its clamped time stamp; \<open>None\<close> drops it.\<close>

definition fq_time_to_send ::
    "'w fq_kernel \<Rightarrow> sk_buff \<Rightarrow> 'w fq_state \<Rightarrow> (u64 \<times> sk_buff) option \<times> 'w fq_state" where
  "fq_time_to_send K p st =
     (if skb_tstamp p = 0
      then let st = read_clock K st in (Some (ktime_cache (q st), p), st)
      else if \<not> fq_packet_beyond_horizon p (q st) then (Some (skb_tstamp p, p), st)
      else
        let st = read_clock K st
        in if \<not> fq_packet_beyond_horizon p (q st) then (Some (skb_tstamp p, p), st)
           else if horizon_drop (q st) \<noteq> 0 then (None, st)
           else let p = p\<lparr>skb_tstamp := ktime_cache (q st) + horizon (q st)\<rparr>
                in (Some (skb_tstamp p, p), st))"

text \<open>A detached flow is put on \<^verbatim>\<open>fq_new_flows\<close>, with fresh credit after an idle time.\<close>

definition fq_attach :: "'w fq_kernel \<Rightarrow> nat \<Rightarrow> 'w fq_state \<Rightarrow> 'w fq_state option" where
  "fq_attach K r st = do {
     f \<leftarrow> flows st r;
     if fq_flow_is_detached f
     then
       let f = f\<lparr>refcount := refcount f + 1\<rparr>;
           (jiffies, w) = bpf_jiffies64 K (world st); st = st\<lparr>world := w\<rparr>;
           f = (if sint (jiffies - (age f + ucast (flow_refill_delay (q st)))) > 0
                then if sint (credit f) < sint (quantum (q st)) then f\<lparr>credit := quantum (q st)\<rparr> else f
                else f);
           f = f\<lparr>age := 0\<rparr>
       in Some (fq_flows_add_tail NewFlows r (set_flow r f st))
     else Some st
   }"

text \<open>
  From the allocation of the packet node on: the flow \<open>r\<close> is held locally and goes back to its stash on
  every path. The kptr of a new node is null, so the exchange that stores the packet returns null.
\<close>

definition fq_insert ::
    "'w fq_kernel \<Rightarrow> sk_buff \<Rightarrow> u64 \<Rightarrow> map_id \<Rightarrow> u64 \<Rightarrow> nat \<Rightarrow> 'w fq_state \<Rightarrow> (i32 \<times> 'w fq_state) option" where
  "fq_insert K p time_to_send m k r st =
     (let (ok, w) = skb_node_new K (world st); st = st\<lparr>world := w\<rparr>
      in if \<not> ok
         then do { st \<leftarrow> bpf_kptr_xchg_back m k r st; Some (fq_drop K p st) }
         else
           let p = p\<lparr>skb_tstamp := time_to_send\<rparr>;
               st = st\<lparr>sch := (sch st)\<lparr>backlog := backlog (sch st) + cb_pkt_len p\<rparr>\<rparr>;
               skbn = \<lparr>node_tstamp = time_to_send, node_skb = Some p\<rparr>
           in do {
             f \<leftarrow> flows st r;
             let f = f\<lparr>queue := rbtree_add_skb K skbn_tstamp_less skbn (queue f)\<rparr>;
             let f = f\<lparr>flow_qlen := flow_qlen f + 1\<rparr>;
             st \<leftarrow> bpf_kptr_xchg_back m k r (set_flow r f st);
             Some (NET_XMIT_SUCCESS, st\<lparr>sch := (sch st)\<lparr>qlen := qlen (sch st) + 1\<rparr>\<rparr>)
           })"

definition bpf_fq_enqueue :: "'w fq_kernel \<Rightarrow> sk_buff \<Rightarrow> 'w fq_state \<Rightarrow> (i32 \<times> 'w fq_state) option" where
  "bpf_fq_enqueue K p st =
     (if qlen (sch st) \<ge> limit (sch st) then Some (fq_drop K p st)
      else
        let (t, st) = fq_time_to_send K p st
        in case t of
             None \<Rightarrow> Some (fq_drop K p st)
           | Some (time_to_send, p) \<Rightarrow> do {
               (ret, (m, k), st) \<leftarrow> fq_classify K p st;
               if ret = CLS_RET_ERR then Some (fq_drop K p st)
               else
                 (case get_map m st k of
                    Some (Some r) \<Rightarrow>
                      let st = set_map m ((get_map m st)(k := Some None)) st
                      in if ret = CLS_RET_NONPRIO
                         then do {
                           f \<leftarrow> flows st r;
                           if flow_qlen f \<ge> flow_plimit (q st)
                           then do { st \<leftarrow> bpf_kptr_xchg_back m k r st; Some (fq_drop K p st) }
                           else do { st \<leftarrow> fq_attach K r st; fq_insert K p time_to_send m k r st }
                         }
                         else fq_insert K p time_to_send m k r st
                  | _ \<Rightarrow> Some (fq_drop K p st))
             })"

section \<open>Throttling\<close>

text \<open>The callback of \<^verbatim>\<open>bpf_loop\<close>; the result is true if the loop stops.\<close>

definition fq_unset_throttled_flows ::
    "unset_throttled_flows_ctx \<Rightarrow> 'w fq_state \<Rightarrow> (bool \<times> 'w fq_state) option" where
  "fq_unset_throttled_flows c st =
     (case fq_delayed st of
        [] \<Rightarrow> Some (True, st)
      | r # rs \<Rightarrow> do {
          f \<leftarrow> flows st r;
          if \<not> unset_all c \<and> time_next_packet f > utf_now c
          then Some (True, st\<lparr>q := (q st)\<lparr>time_next_delayed_flow := time_next_packet f\<rparr>\<rparr>)
          else
            let st = st\<lparr>fq_delayed := rs\<rparr>;
                st = set_flow r (f\<lparr>age := 0\<rparr>) st
            in Some (False, fq_flows_add_tail OldFlows r st)
        })"

text \<open>\<^verbatim>\<open>bpf_loop(n, fq_unset_throttled_flows, ctx)\<close>.\<close>

fun unset_loop :: "nat \<Rightarrow> unset_throttled_flows_ctx \<Rightarrow> 'w fq_state \<Rightarrow> 'w fq_state option" where
  "unset_loop 0 c st = Some st"
| "unset_loop (Suc n) c st =
     (case fq_unset_throttled_flows c st of
        None \<Rightarrow> None
      | Some (stop, st) \<Rightarrow> if stop then Some st else unset_loop n c st)"

definition fq_flow_set_throttled :: "'w fq_kernel \<Rightarrow> nat \<Rightarrow> 'w fq_state \<Rightarrow> 'w fq_state option" where
  "fq_flow_set_throttled K r st = do {
     f \<leftarrow> flows st r;
     let st = set_flow r (f\<lparr>age := - 1\<rparr>) st;
     let st = (if time_next_delayed_flow (q st) > time_next_packet f
               then st\<lparr>q := (q st)\<lparr>time_next_delayed_flow := time_next_packet f\<rparr>\<rparr> else st);
     Some (st\<lparr>fq_delayed := rbtree_add_flow K (fn_time_next_packet_less (flows st)) r (fq_delayed st)\<rparr>)
   }"

definition fq_check_throttled :: "u64 \<Rightarrow> 'w fq_state \<Rightarrow> 'w fq_state option" where
  "fq_check_throttled now st =
     (if time_next_delayed_flow (q st) > now then Some st
      else
        let sample = now - time_next_delayed_flow (q st);
            lat = unthrottle_latency_ns (q st) - drop_bit 3 (unthrottle_latency_ns (q st));
            lat = lat + drop_bit 3 sample;
            st = st\<lparr>q := (q st)\<lparr>unthrottle_latency_ns := lat, time_next_delayed_flow := - 1\<rparr>\<rparr>
        in unset_loop (unat NUM_QUEUE) \<lparr>unset_all = False, utf_now = now\<rparr> st)"

section \<open>Dequeue\<close>

text \<open>
  The front flow of list \<open>l\<close> has credit: send its first packet if it is due, throttle it if not, and
  move or detach it if its queue is empty.
\<close>

definition fq_serve_flow ::
    "'w fq_kernel \<Rightarrow> list_id \<Rightarrow> nat \<Rightarrow> dequeue_nonprio_ctx \<Rightarrow> 'w fq_state \<Rightarrow>
     (sk_buff option \<times> dequeue_nonprio_ctx \<times> 'w fq_state) option" where
  "fq_serve_flow K l r c st = do {
     f \<leftarrow> flows st r;
     case queue f of
       [] \<Rightarrow>
         if l = NewFlows \<and> \<not> fq_flows_is_empty OldFlows st
         then Some (None, c, fq_flows_add_tail OldFlows r st)
         else
           let (f, w) = fq_flow_set_detached K f (world st);
               st = set_flow r f (st\<lparr>world := w\<rparr>)
           in do { st \<leftarrow> bpf_obj_drop r st; Some (None, c, st) }
     | skbn # rest \<Rightarrow>
         let time_to_send = node_tstamp skbn;
             tnp = (if time_to_send > time_next_packet f then time_to_send else time_next_packet f)
         in if ctx_now c < tnp
            then do {
              st \<leftarrow> fq_flow_set_throttled K r (set_flow r (f\<lparr>time_next_packet := tnp\<rparr>) st);
              Some (None, c, st)
            }
            else
              let f = f\<lparr>queue := rest\<rparr>;
                  f = (case node_skb skbn of
                         None \<Rightarrow> f
                       | Some p \<Rightarrow> f\<lparr>credit := credit f - cb_pkt_len p, flow_qlen := flow_qlen f - 1\<rparr>);
                  st = fq_flows_add_head l r (set_flow r f st)
              in Some (node_skb skbn, c\<lparr>stop_iter := True\<rparr>, st)
   }"

definition fq_dequeue_nonprio_flows ::
    "'w fq_kernel \<Rightarrow> dequeue_nonprio_ctx \<Rightarrow> 'w fq_state \<Rightarrow>
     (sk_buff option \<times> dequeue_nonprio_ctx \<times> 'w fq_state) option" where
  "fq_dequeue_nonprio_flows K c st =
     (if new_flow_cnt (q st) = 0 \<and> old_flow_cnt (q st) = 0
      then
        let c = (if time_next_delayed_flow (q st) \<noteq> - 1 then c\<lparr>expire := time_next_delayed_flow (q st)\<rparr> else c)
        in Some (None, c\<lparr>stop_iter := True\<rparr>, st)
      else
        let l = (if new_flow_cnt (q st) \<noteq> 0 then NewFlows else OldFlows);
            (node, st) = fq_flows_remove_front l st
        in case node of
             None \<Rightarrow> Some (None, c\<lparr>stop_iter := True\<rparr>, st)
           | Some r \<Rightarrow> do {
               f \<leftarrow> flows st r;
               if sint (credit f) \<le> 0
               then Some (None, c, fq_flows_add_tail OldFlows r
                      (set_flow r (f\<lparr>credit := credit f + quantum (q st)\<rparr>) st))
               else fq_serve_flow K l r c st
             })"

text \<open>\<^verbatim>\<open>bpf_for(i, 0, sch->limit)\<close> around it; the packet is that of the last round.\<close>

fun dequeue_loop ::
    "'w fq_kernel \<Rightarrow> nat \<Rightarrow> sk_buff option \<Rightarrow> dequeue_nonprio_ctx \<Rightarrow> 'w fq_state \<Rightarrow>
     (sk_buff option \<times> dequeue_nonprio_ctx \<times> 'w fq_state) option" where
  "dequeue_loop K 0 p c st = Some (p, c, st)"
| "dequeue_loop K (Suc n) p c st =
     (case fq_dequeue_nonprio_flows K c st of
        None \<Rightarrow> None
      | Some (p, c, st) \<Rightarrow> if stop_iter c then Some (p, c, st) else dequeue_loop K n p c st)"

definition fq_dequeue_prio :: "'w fq_state \<Rightarrow> (sk_buff option \<times> 'w fq_state) option" where
  "fq_dequeue_prio st =
     (case fq_prio_flows st 0 of
        Some (Some r) \<Rightarrow>
          let st = set_map Prio ((fq_prio_flows st)(0 := Some None)) st
          in do {
            f \<leftarrow> flows st r;
            let (p, st) = (case queue f of
                             [] \<Rightarrow> (None, st)
                           | skbn # rest \<Rightarrow> (node_skb skbn, set_flow r (f\<lparr>queue := rest\<rparr>) st));
            st \<leftarrow> bpf_kptr_xchg_back Prio 0 r st;
            Some (p, st)
          }
      | _ \<Rightarrow> Some (None, st))"

text \<open>The dequeue label: the counters, and the packet handed out.\<close>

definition fq_hand_out :: "'w fq_kernel \<Rightarrow> sk_buff \<Rightarrow> 'w fq_state \<Rightarrow> sk_buff option \<times> 'w fq_state" where
  "fq_hand_out K p st =
     (Some p, st\<lparr>sch := (sch st)\<lparr>qlen := qlen (sch st) - 1, backlog := backlog (sch st) - cb_pkt_len p\<rparr>,
        world := bpf_qdisc_bstats_update K p (world st)\<rparr>)"

definition bpf_fq_dequeue :: "'w fq_kernel \<Rightarrow> 'w fq_state \<Rightarrow> (sk_buff option \<times> 'w fq_state) option" where
  "bpf_fq_dequeue K st =
     (if qlen (sch st) = 0 then Some (None, st)
      else do {
        (p, st) \<leftarrow> fq_dequeue_prio st;
        case p of
          Some p \<Rightarrow> Some (fq_hand_out K p st)
        | None \<Rightarrow>
            let st = read_clock K st; now = ktime_cache (q st)
            in do {
              st \<leftarrow> fq_check_throttled now st;
              (p, c, st) \<leftarrow> dequeue_loop K (nat (sint (limit (sch st)))) None
                              \<lparr>stop_iter = False, expire = 0, ctx_now = now\<rparr> st;
              case p of
                None \<Rightarrow>
                  Some (None, if expire c \<noteq> 0
                              then st\<lparr>world := bpf_qdisc_watchdog_schedule K (expire c)
                                       (ucast (timer_slack (q st))) (world st)\<rparr>
                              else st)
              | Some p \<Rightarrow> Some (fq_hand_out K p st)
            }
      })"

section \<open>Reset and init\<close>

definition fq_remove_flows_in_list :: "'w fq_state \<Rightarrow> (bool \<times> 'w fq_state) option" where
  "fq_remove_flows_in_list st =
     (case fq_new_flows st of
        r # rs \<Rightarrow> do { st \<leftarrow> bpf_obj_drop r (st\<lparr>fq_new_flows := rs\<rparr>); Some (False, st) }
      | [] \<Rightarrow>
          (case fq_old_flows st of
             r # rs \<Rightarrow> do { st \<leftarrow> bpf_obj_drop r (st\<lparr>fq_old_flows := rs\<rparr>); Some (False, st) }
           | [] \<Rightarrow> Some (True, st)))"

fun remove_list_loop :: "nat \<Rightarrow> 'w fq_state \<Rightarrow> 'w fq_state option" where
  "remove_list_loop 0 st = Some st"
| "remove_list_loop (Suc n) st =
     (case fq_remove_flows_in_list st of
        None \<Rightarrow> None
      | Some (stop, st) \<Rightarrow> if stop then Some st else remove_list_loop n st)"

definition bpf_fq_reset :: "'w fq_kernel \<Rightarrow> 'w fq_state \<Rightarrow> 'w fq_state option" where
  "bpf_fq_reset K st = do {
     let st = st\<lparr>sch := (sch st)\<lparr>qlen := 0, backlog := 0\<rparr>\<rparr>;
     let c = \<lparr>gc_only = False, reset_cnt = 0, reset_max = NUM_QUEUE\<rparr>;
     st \<leftarrow> for_each_map_elem K Nonprio (map_order K (fq_nonprio_flows st) (world st)) c st;
     st \<leftarrow> for_each_map_elem K Prio (map_order K (fq_prio_flows st) (world st)) c st;
     (_, st) \<leftarrow> fq_new_flow K Prio 0 st;
     st \<leftarrow> remove_list_loop (unat NUM_QUEUE) st;
     let st = st\<lparr>q := (q st)\<lparr>new_flow_cnt := 0, old_flow_cnt := 0\<rparr>\<rparr>;
     unset_loop (unat NUM_QUEUE) \<lparr>unset_all = True, utf_now = 0\<rparr> st
   }"

definition bpf_fq_init :: "'w fq_kernel \<Rightarrow> 'w fq_state \<Rightarrow> (i32 \<times> 'w fq_state) option" where
  "bpf_fq_init K st =
     (let psched_mtu = dev_mtu (sch st) + ucast (dev_hard_header_len (sch st))
      in do {
        (ret, st) \<leftarrow> fq_new_flow K Prio 0 st;
        if sint ret < 0 then Some (- ENOMEM, st)
        else Some (0, st\<lparr>sch := (sch st)\<lparr>limit := 10000\<rparr>,
               q := (q st)\<lparr>initial_quantum := 10 * psched_mtu, quantum := 2 * psched_mtu,
                 flow_refill_delay := 40, flow_plimit := 100, horizon := 10 * NSEC_PER_SEC,
                 horizon_drop := 1, orphan_mask := 1024 - 1, timer_slack := ucast (10 * NSEC_PER_USEC),
                 time_next_delayed_flow := - 1, unthrottle_latency_ns := 0, new_flow_cnt := 0,
                 old_flow_cnt := 0\<rparr>\<rparr>)
      })"

definition bpf_fq_destroy :: "'w fq_state \<Rightarrow> 'w fq_state" where
  "bpf_fq_destroy st = st"

end
