(* ===== verification/Fq_Inv.thy ===== *)
theory Fq_Inv
  imports Qdisc_Fq
begin

text \<open>
  The invariant of the fair queue and its preservation by the atomic changes the code makes: a flow
  is updated in place, attached, rotated, detached, throttled, unthrottled, collected or created.

  Every flow object is stashed in exactly one map entry. Its reference count is one, plus one if it is
  on a list or in the tree. The age of a flow of the normal map tells where it is, its packet count is
  the length of its queue, and a flow that is nowhere has no packet.
\<close>

section \<open>What the kernel promises\<close>

text \<open>Insertion into a tree whose order is that of a key.\<close>

definition rb_ok :: "(('a \<Rightarrow> 'a \<Rightarrow> bool) \<Rightarrow> 'a \<Rightarrow> 'a list \<Rightarrow> 'a list) \<Rightarrow> bool" where
  "rb_ok add \<longleftrightarrow>
     (\<forall>lt key n l. (\<forall>a \<in> set (n # l). \<forall>b \<in> set (n # l). lt a b = (key a < (key b :: u64))) \<longrightarrow>
        sorted (map key l) \<longrightarrow>
        mset (add lt n l) = add_mset n (mset l) \<and> sorted (map key (add lt n l)))"

text \<open>
  Allocation gives a fresh address, a map holds at most \<^verbatim>\<open>NUM_QUEUE\<close> entries, an iteration visits every
  key once, tree insertion keeps the order, and the jiffies counter is neither 0 nor all ones.
\<close>

definition fq_kernel_ok :: "'w fq_kernel \<Rightarrow> bool" where
  "fq_kernel_ok K \<longleftrightarrow>
     (\<forall>h w r w'. flow_obj_new K h w = (Some r, w') \<longrightarrow> h r = None) \<and>
     (\<forall>m k w w'. map_update_ret K m k w = (0, w') \<longrightarrow> m k = None \<longrightarrow> card (dom m) < unat NUM_QUEUE) \<and>
     (\<forall>m w. finite (dom m) \<longrightarrow> set (map_order K m w) = dom m \<and> distinct (map_order K m w)) \<and>
     rb_ok (rbtree_add_skb K) \<and> rb_ok (rbtree_add_flow K) \<and>
     (\<forall>w j w'. bpf_jiffies64 K w = (j, w') \<longrightarrow> j \<noteq> 0 \<and> j \<noteq> - 1)"

lemma rb_okD:
  assumes "rb_ok add" "\<And>a b. a \<in> set (n # l) \<Longrightarrow> b \<in> set (n # l) \<Longrightarrow> lt a b = (key a < key b)"
    "sorted (map key l)"
  shows "mset (add lt n l) = add_mset n (mset l) \<and> sorted (map (key :: _ \<Rightarrow> u64) (add lt n l))"
  using assms(1) [unfolded rb_ok_def, rule_format, of n l lt key] assms(2,3) by blast

lemma fq_kernel_okD:
  assumes "fq_kernel_ok K"
  shows "rb_ok (rbtree_add_skb K)" "rb_ok (rbtree_add_flow K)"
    "flow_obj_new K h w = (Some r, w') \<Longrightarrow> h r = None"
    "map_update_ret K m k w = (0, w') \<Longrightarrow> m k = None \<Longrightarrow> card (dom m) < unat NUM_QUEUE"
    "finite (dom m) \<Longrightarrow> set (map_order K m w) = dom m \<and> distinct (map_order K m w)"
    "bpf_jiffies64 K w = (j, w') \<Longrightarrow> j \<noteq> 0 \<and> j \<noteq> - 1"
  using assms unfolding fq_kernel_ok_def by (simp, simp, metis, metis, metis, metis)

section \<open>The invariant\<close>

definition stashed :: "flow_map \<Rightarrow> nat \<Rightarrow> bool" where
  "stashed m r \<longleftrightarrow> (\<exists>k. m k = Some (Some r))"

definition active :: "'w fq_state \<Rightarrow> nat list" where
  "active st = fq_new_flows st @ fq_old_flows st"

text \<open>
  One flow object: \<open>np\<close> says that it is in the normal map, \<open>act\<close> that it is on a list, \<open>thr\<close> that it is in
  the tree of throttled flows.
\<close>

definition flow_ok :: "u32 \<Rightarrow> bool \<Rightarrow> bool \<Rightarrow> bool \<Rightarrow> fq_flow_node \<Rightarrow> bool" where
  "flow_ok plimit np act thr f \<longleftrightarrow>
     refcount f = 1 + of_bool (act \<or> thr) \<and>
     (\<forall>n \<in> set (queue f). node_skb n \<noteq> None) \<and> sorted (map node_tstamp (queue f)) \<and>
     (np \<longrightarrow> unat (flow_qlen f) = length (queue f) \<and> flow_qlen f \<le> plimit \<and>
        (age f = 0 \<longleftrightarrow> act) \<and> (age f = - 1 \<longleftrightarrow> thr) \<and> (\<not> act \<longrightarrow> \<not> thr \<longrightarrow> queue f = []))"

definition heap_ok :: "'w fq_state \<Rightarrow> bool" where
  "heap_ok st \<longleftrightarrow> (\<forall>r f. flows st r = Some f \<longrightarrow>
     flow_ok (flow_plimit (q st)) (stashed (fq_nonprio_flows st) r) (r \<in> set (active st)) (r \<in> set (fq_delayed st)) f)"

text \<open>The two maps; \<open>H\<close> are flows the program holds outside of them.\<close>

definition maps_ok :: "nat set \<Rightarrow> 'w fq_state \<Rightarrow> bool" where
  "maps_ok H st \<longleftrightarrow>
     (\<forall>k k' r. fq_nonprio_flows st k = Some (Some r) \<longrightarrow> fq_nonprio_flows st k' = Some (Some r) \<longrightarrow> k = k') \<and>
     (\<forall>k k' r. fq_prio_flows st k = Some (Some r) \<longrightarrow> fq_prio_flows st k' = Some (Some r) \<longrightarrow> k = k') \<and>
     (\<forall>r. \<not> (stashed (fq_nonprio_flows st) r \<and> stashed (fq_prio_flows st) r)) \<and>
     (\<forall>r \<in> H. \<not> stashed (fq_nonprio_flows st) r \<and> \<not> stashed (fq_prio_flows st) r) \<and>
     dom (flows st) = {r. stashed (fq_nonprio_flows st) r \<or> stashed (fq_prio_flows st) r} \<union> H \<and>
     finite (dom (fq_nonprio_flows st)) \<and> finite (dom (fq_prio_flows st)) \<and> finite H \<and>
     card (dom (fq_nonprio_flows st)) \<le> unat NUM_QUEUE \<and> card (dom (fq_prio_flows st)) \<le> unat NUM_QUEUE"

definition tnp_of :: "flow_heap \<Rightarrow> nat \<Rightarrow> u64" where
  "tnp_of h r = (case h r of None \<Rightarrow> 0 | Some f \<Rightarrow> time_next_packet f)"

text \<open>
  The lists and the tree: their members are flows of the normal map, none twice; the counters are
  the lengths; the tree is ordered by time, and no throttled flow is due before
  \<^verbatim>\<open>time_next_delayed_flow\<close>.
\<close>

definition lists_ok :: "'w fq_state \<Rightarrow> bool" where
  "lists_ok st \<longleftrightarrow>
     distinct (active st @ fq_delayed st) \<and>
     (\<forall>r \<in> set (active st) \<union> set (fq_delayed st). stashed (fq_nonprio_flows st) r) \<and>
     new_flow_cnt (q st) = of_nat (length (fq_new_flows st)) \<and>
     old_flow_cnt (q st) = of_nat (length (fq_old_flows st)) \<and>
     sorted (map (tnp_of (flows st)) (fq_delayed st))"

definition delayed_ok :: "'w fq_state \<Rightarrow> bool" where
  "delayed_ok st \<longleftrightarrow> (\<forall>r \<in> set (fq_delayed st). time_next_delayed_flow (q st) \<le> tnp_of (flows st) r)"

definition fq_str :: "nat set \<Rightarrow> 'w fq_state \<Rightarrow> bool" where
  "fq_str H st \<longleftrightarrow> heap_ok st \<and> maps_ok H st \<and> lists_ok st"

section \<open>The packets\<close>

definition flow_ids :: "fq_flow_node \<Rightarrow> nat multiset" where
  "flow_ids f = mset (map (\<lambda>n. skb_id (the (node_skb n))) (queue f))"

definition flow_bytes :: "fq_flow_node \<Rightarrow> u32" where
  "flow_bytes f = sum_list (map (\<lambda>n. cb_pkt_len (the (node_skb n))) (queue f))"

definition fq_ids :: "'w fq_state \<Rightarrow> nat multiset" where
  "fq_ids st = (\<Sum>r \<in> dom (flows st). flow_ids (the (flows st r)))"

definition fq_bytes :: "'w fq_state \<Rightarrow> u32" where
  "fq_bytes st = (\<Sum>r \<in> dom (flows st). flow_bytes (the (flows st r)))"

text \<open>The counters of the qdisc are exact.\<close>

definition fq_acct :: "'w fq_state \<Rightarrow> bool" where
  "fq_acct st \<longleftrightarrow> unat (qlen (sch st)) = size (fq_ids st) \<and> qlen (sch st) \<le> limit (sch st) \<and>
     backlog (sch st) = fq_bytes st"

definition fq_inv :: "'w fq_state \<Rightarrow> bool" where
  "fq_inv st \<longleftrightarrow> fq_str {} st \<and> delayed_ok st \<and> fq_acct st \<and> (\<exists>r. fq_prio_flows st 0 = Some (Some r))"

lemma maps_ok_finite: "maps_ok H st \<Longrightarrow> finite (dom (flows st))"
proof -
  assume m: "maps_ok H st"
  have st: "{r. stashed x r} \<subseteq> (\<lambda>k. the (the (x k))) ` dom x" for x :: flow_map
    by (force simp: stashed_def)
  have "finite {r. stashed (fq_nonprio_flows st) r}" "finite {r. stashed (fq_prio_flows st) r}"
    using m by (auto simp: maps_ok_def intro: finite_subset [OF st])
  then show ?thesis using m by (simp add: maps_ok_def Collect_disj_eq)
qed

text \<open>The sums when one flow changes.\<close>

lemma sum_heap_upd:
  fixes g :: "fq_flow_node \<Rightarrow> 'a :: comm_monoid_add"
  assumes "finite (dom h)"
  shows "(\<Sum>x \<in> dom (h(r := Some f)). g (the ((h(r := Some f)) x))) + (case h r of None \<Rightarrow> 0 | Some f' \<Rightarrow> g f') =
    (\<Sum>x \<in> dom h. g (the (h x))) + g f"
proof -
  have s: "(\<Sum>x \<in> dom h - {r}. g (the ((h(r := Some f)) x))) = (\<Sum>x \<in> dom h - {r}. g (the (h x)))"
    by (rule sum.cong) auto
  have "(\<Sum>x \<in> dom (h(r := Some f)). g (the ((h(r := Some f)) x))) = g f + (\<Sum>x \<in> dom h - {r}. g (the (h x)))"
    using assms sum.insert_remove [of "dom h" "\<lambda>x. g (the ((h(r := Some f)) x))" r] s by simp
  moreover have "(\<Sum>x \<in> dom h. g (the (h x))) = (case h r of None \<Rightarrow> 0 | Some f' \<Rightarrow> g f') + (\<Sum>x \<in> dom h - {r}. g (the (h x)))"
  proof (cases "h r")
    case None
    then have "dom h - {r} = dom h" by auto
    then show ?thesis using None by simp
  next
    case (Some f')
    then show ?thesis using assms sum.remove [of "dom h" r "\<lambda>x. g (the (h x))"] by auto
  qed
  ultimately show ?thesis by (simp add: ac_simps)
qed

lemma sum_heap_del:
  fixes g :: "fq_flow_node \<Rightarrow> 'a :: comm_monoid_add"
  assumes "finite (dom h)" "h r = Some f"
  shows "(\<Sum>x \<in> dom (h(r := None)). g (the ((h(r := None)) x))) + g f = (\<Sum>x \<in> dom h. g (the (h x)))"
proof -
  have "(\<Sum>x \<in> dom h - {r}. g (the ((h(r := None)) x))) = (\<Sum>x \<in> dom h - {r}. g (the (h x)))"
    by (rule sum.cong) auto
  then show ?thesis
    using assms sum.remove [OF assms(1) domI [of h r f, OF assms(2)], of "\<lambda>x. g (the (h x))"]
    by (simp add: ac_simps)
qed

lemma fq_ids_set_flow:
  assumes "finite (dom (flows st))" "flows st' = (flows st)(r := Some f')"
  shows "fq_ids st' + (case flows st r of None \<Rightarrow> {#} | Some f \<Rightarrow> flow_ids f) = fq_ids st + flow_ids f'"
    and "fq_bytes st' + (case flows st r of None \<Rightarrow> 0 | Some f \<Rightarrow> flow_bytes f) = fq_bytes st + flow_bytes f'"
  unfolding fq_ids_def fq_bytes_def assms(2) by (rule sum_heap_upd [OF assms(1)])+

lemma fq_ids_del_flow:
  assumes "finite (dom (flows st))" "flows st r = Some f" "flows st' = (flows st)(r := None)"
  shows "fq_ids st' + flow_ids f = fq_ids st" and "fq_bytes st' + flow_bytes f = fq_bytes st"
  unfolding fq_ids_def fq_bytes_def assms(3) by (rule sum_heap_del [OF assms(1,2)])+

lemma fq_ids_same: "flows st' = flows st \<Longrightarrow> fq_ids st' = fq_ids st \<and> fq_bytes st' = fq_bytes st"
  by (simp add: fq_ids_def fq_bytes_def)

section \<open>Consequences of the invariant\<close>

lemma fq_str_flow:
  assumes "fq_str H st" "stashed (fq_nonprio_flows st) r \<or> stashed (fq_prio_flows st) r \<or> r \<in> H"
  obtains f where "flows st r = Some f"
    "flow_ok (flow_plimit (q st)) (stashed (fq_nonprio_flows st) r) (r \<in> set (active st)) (r \<in> set (fq_delayed st)) f"
proof -
  have "r \<in> dom (flows st)" using assms by (auto simp: fq_str_def maps_ok_def)
  then obtain f where "flows st r = Some f" by blast
  then show ?thesis using assms(1) that by (auto simp: fq_str_def heap_ok_def)
qed

lemma fq_str_member:
  assumes "fq_str H st" "r \<in> set (active st) \<union> set (fq_delayed st)"
  shows "stashed (fq_nonprio_flows st) r"
  using assms unfolding fq_str_def lists_ok_def by blast

lemma fq_str_finite: "fq_str H st \<Longrightarrow> finite (dom (flows st))"
  by (auto simp: fq_str_def intro: maps_ok_finite)

lemma card_stashed:
  assumes "finite (dom m)"
  shows "card {r. stashed m r} \<le> card (dom m)"
proof -
  have "{r. stashed m r} \<subseteq> (\<lambda>k. the (the (m k))) ` dom m" by (force simp: stashed_def)
  then show ?thesis by (meson assms card_image_le card_mono finite_imageI order_trans)
qed

text \<open>There are at most \<^verbatim>\<open>NUM_QUEUE\<close> flows on the lists and in the tree.\<close>

lemma fq_str_lengths:
  assumes "fq_str H st"
  shows "length (fq_new_flows st) + length (fq_old_flows st) + length (fq_delayed st) \<le> 1048576"
proof -
  let ?l = "active st @ fq_delayed st"
  have d: "distinct ?l" and s: "set ?l \<subseteq> {r. stashed (fq_nonprio_flows st) r}"
    using assms by (auto simp: fq_str_def lists_ok_def)
  have fin: "finite (dom (fq_nonprio_flows st))" and c: "card (dom (fq_nonprio_flows st)) \<le> unat NUM_QUEUE"
    using assms by (auto simp: fq_str_def maps_ok_def)
  have "finite {r. stashed (fq_nonprio_flows st) r}"
    by (rule finite_subset [of _ "(\<lambda>k. the (the (fq_nonprio_flows st k))) ` dom (fq_nonprio_flows st)"])
       (use fin in \<open>force simp: stashed_def\<close>)+
  then have "card (set ?l) \<le> card (dom (fq_nonprio_flows st))"
    using card_mono [OF _ s] card_stashed [OF fin] by (meson order_trans)
  moreover have "length ?l = card (set ?l)" using d by (simp only: distinct_card)
  ultimately have "length ?l \<le> unat NUM_QUEUE" using c by simp
  then show ?thesis by (simp add: active_def NUM_QUEUE_def)
qed

lemma of_nat_eq_0: "n \<le> 1048576 \<Longrightarrow> (of_nat n :: u32) = 0 \<longleftrightarrow> n = 0"
  by (auto simp: word_of_nat_eq_0_iff dest: dvd_imp_le)

section \<open>The generic step\<close>

text \<open>
  One flow of the normal map changes, and with it its place; the maps, the other flows and the
  places of the other flows do not.
\<close>

lemma fq_str_move:
  assumes str: "fq_str H st" "flows st r = Some f" "stashed (fq_nonprio_flows st) r"
    and same: "fq_nonprio_flows st' = fq_nonprio_flows st" "fq_prio_flows st' = fq_prio_flows st"
      "flow_plimit (q st') = flow_plimit (q st)"
    and upd: "flows st' = (flows st)(r := Some f')"
    and others: "\<And>x. x \<noteq> r \<Longrightarrow> x \<in> set (active st') \<longleftrightarrow> x \<in> set (active st)"
      "\<And>x. x \<noteq> r \<Longrightarrow> x \<in> set (fq_delayed st') \<longleftrightarrow> x \<in> set (fq_delayed st)"
    and ok: "flow_ok (flow_plimit (q st)) True (r \<in> set (active st')) (r \<in> set (fq_delayed st')) f'"
    and lists: "distinct (active st' @ fq_delayed st')"
      "new_flow_cnt (q st') = of_nat (length (fq_new_flows st'))"
      "old_flow_cnt (q st') = of_nat (length (fq_old_flows st'))"
      "sorted (map (tnp_of (flows st')) (fq_delayed st'))"
  shows "fq_str H st'"
proof -
  have "heap_ok st'"
    using str ok others same(1,3) unfolding fq_str_def heap_ok_def upd
    by (metis (full_types) fun_upd_apply option.inject)
  moreover have "maps_ok H st'"
    using str(1,2) unfolding fq_str_def maps_ok_def same upd by (auto simp: insert_absorb domI)
  moreover have "stashed (fq_nonprio_flows st) x" if "x \<in> set (active st') \<union> set (fq_delayed st')" for x
    using that others [of x] str(1,3) unfolding fq_str_def lists_ok_def by (cases "x = r") auto
  ultimately show ?thesis using lists unfolding fq_str_def lists_ok_def same by blast
qed

end
