(* ===== verification/Fq_Enqueue.thy ===== *)
theory Fq_Enqueue
  imports Fq_Inv
begin

text \<open>
  The enqueue side of the fair queue: garbage collection, creation of flows, classification,
  attaching a flow and inserting the packet. Every step is defined on states that satisfy the
  invariant and preserves it.
\<close>

section \<open>Attaching a flow\<close>

lemma refill_frame:
  "f' = (if b then if c then f\<lparr>credit := x\<rparr> else f else f)\<lparr>age := 0\<rparr> \<Longrightarrow>
    queue f' = queue f \<and> flow_qlen f' = flow_qlen f \<and> refcount f' = refcount f \<and> age f' = 0 \<and>
    time_next_packet f' = time_next_packet f"
  by (auto split: if_split_asm)

lemma detached_iff:
  assumes "flow_ok pl True act thr f"
  shows "fq_flow_is_detached f \<longleftrightarrow> \<not> act \<and> \<not> thr"
  using assms by (auto simp: flow_ok_def fq_flow_is_detached_def)

lemma fq_attach_ok:
  assumes "fq_str H st" "stashed (fq_nonprio_flows st) r"
  obtains st' f f' where "fq_attach K r st = Some st'" "fq_str H st'"
    "flows st r = Some f" "flows st' = (flows st)(r := Some f')" "queue f' = queue f" "flow_qlen f' = flow_qlen f"
    "time_next_packet f' = time_next_packet f" "r \<in> set (active st') \<union> set (fq_delayed st')"
    "fq_nonprio_flows st' = fq_nonprio_flows st" "fq_prio_flows st' = fq_prio_flows st" "sch st' = sch st"
    "fq_delayed st' = fq_delayed st" "q st' = (q st)\<lparr>new_flow_cnt := new_flow_cnt (q st')\<rparr>"
proof -
  obtain f where f: "flows st r = Some f"
    and ok: "flow_ok (flow_plimit (q st)) True (r \<in> set (active st)) (r \<in> set (fq_delayed st)) f"
    using fq_str_flow [OF assms(1), of r] assms(2) by auto
  show ?thesis
  proof (cases "fq_flow_is_detached f")
    case False
    then have "r \<in> set (active st) \<union> set (fq_delayed st)" using detached_iff [OF ok] by blast
    then show ?thesis using that [of st f f] False f assms(1) by (simp add: fq_attach_def fun_upd_idem)
  next
    case True
    obtain j w where j: "bpf_jiffies64 K (world st) = (j, w)" by fastforce
    define f1 where "f1 = f\<lparr>refcount := refcount f + 1\<rparr>"
    define f' where "f' = (if sint (j - (age f1 + ucast (flow_refill_delay (q st)))) > 0
        then if sint (credit f1) < sint (quantum (q st)) then f1\<lparr>credit := quantum (q st)\<rparr> else f1 else f1)\<lparr>age := 0\<rparr>"
    note fr = refill_frame [OF f'_def]
    define st' where "st' = fq_flows_add_tail NewFlows r (set_flow r f' (st\<lparr>world := w\<rparr>))"
    have e: "fq_attach K r st = Some st'"
      by (simp add: fq_attach_def f True j Let_def st'_def f'_def f1_def)
    have sel: "flows st' = (flows st)(r := Some f')" "fq_new_flows st' = fq_new_flows st @ [r]"
      "fq_old_flows st' = fq_old_flows st" "fq_delayed st' = fq_delayed st"
      "fq_nonprio_flows st' = fq_nonprio_flows st" "fq_prio_flows st' = fq_prio_flows st" "sch st' = sch st"
      "q st' = (q st)\<lparr>new_flow_cnt := new_flow_cnt (q st) + 1\<rparr>"
      by (simp_all add: st'_def fq_flows_add_tail_def set_flow_def)
    have no: "r \<notin> set (active st)" "r \<notin> set (fq_delayed st)" using detached_iff [OF ok] True by auto
    have tnp: "tnp_of (flows st') = tnp_of (flows st)"
      using fr f by (auto simp: sel tnp_of_def f1_def fun_eq_iff)
    have "fq_str H st'"
    proof (rule fq_str_move [OF assms(1) f assms(2), where f' = f'])
      show "flow_ok (flow_plimit (q st)) True (r \<in> set (active st')) (r \<in> set (fq_delayed st')) f'"
        using ok fr no by (simp add: flow_ok_def sel active_def f1_def)
      show "distinct (active st' @ fq_delayed st')"
        using assms(1) no by (auto simp: fq_str_def lists_ok_def active_def sel)
      show "sorted (map (tnp_of (flows st')) (fq_delayed st'))"
        using assms(1) by (simp add: tnp sel(4) fq_str_def lists_ok_def)
    qed (use assms(1) in \<open>auto simp: sel active_def fq_str_def lists_ok_def add.commute\<close>)
    then show ?thesis
      using that [OF e _ f] sel fr by (simp add: f1_def active_def)
  qed
qed

lemma set_map_simps [simp]:
  "flows (set_map m x st) = flows st" "q (set_map m x st) = q st" "sch (set_map m x st) = sch st"
  "world (set_map m x st) = world st" "fq_new_flows (set_map m x st) = fq_new_flows st"
  "fq_old_flows (set_map m x st) = fq_old_flows st" "fq_delayed (set_map m x st) = fq_delayed st"
  "get_map m (set_map m x st) = x"
  by (cases m; simp)+

lemma fq_attach_set_map: "fq_attach K r (set_map m x st) = map_option (set_map m x) (fq_attach K r st)"
proof -
  obtain j w where j: "bpf_jiffies64 K (world st) = (j, w)" by fastforce
  show ?thesis
    by (cases m; cases "flows st r")
       (simp_all add: fq_attach_def j Let_def fq_flows_add_tail_def set_flow_def)
qed

section \<open>Inserting the packet\<close>

text \<open>The flow goes back to the entry it was taken from, so the maps end as they were.\<close>

lemma set_map_back:
  "get_map m st k = Some (Some r) \<Longrightarrow>
     bpf_kptr_xchg_back m k r (set_map m ((get_map m st)(k := Some None)) st) = Some st"
  by (cases m; cases st) (auto simp: bpf_kptr_xchg_back_def drop_stash_def fun_upd_idem_iff)

lemma set_flow_simps [simp]:
  "flows (set_flow r f st) = (flows st)(r := Some f)" "q (set_flow r f st) = q st" "sch (set_flow r f st) = sch st"
  "world (set_flow r f st) = world st" "fq_new_flows (set_flow r f st) = fq_new_flows st"
  "fq_old_flows (set_flow r f st) = fq_old_flows st" "fq_delayed (set_flow r f st) = fq_delayed st"
  "fq_nonprio_flows (set_flow r f st) = fq_nonprio_flows st" "fq_prio_flows (set_flow r f st) = fq_prio_flows st"
  "(set_flow r f st)\<lparr>sch := s\<rparr> = set_flow r f (st\<lparr>sch := s\<rparr>)"
  by (simp_all add: set_flow_def)

lemma set_map_commute:
  "set_flow r f (set_map m x st) = set_map m x (set_flow r f st)"
  "(set_map m x st)\<lparr>world := w\<rparr> = set_map m x (st\<lparr>world := w\<rparr>)"
  "(set_map m x st)\<lparr>sch := s\<rparr> = set_map m x (st\<lparr>sch := s\<rparr>)"
  by (cases m; simp add: set_flow_def)+

lemma get_map_simps [simp]:
  "get_map m (set_flow r f st) = get_map m st" "get_map m (st\<lparr>world := w\<rparr>) = get_map m st"
  "get_map m (st\<lparr>sch := s\<rparr>) = get_map m st" "get_map m (st\<lparr>q := c\<rparr>) = get_map m st"
  by (cases m; simp add: set_flow_def)+

lemma fq_insert_eq:
  assumes k: "get_map m st k = Some (Some r)" and f: "flows st r = Some f"
    and o: "skb_node_new K (world st) = (ok, w)"
  shows "fq_insert K p t m k r (set_map m ((get_map m st)(k := Some None)) st) =
    (if \<not> ok then Some (fq_drop K p (st\<lparr>world := w\<rparr>))
     else
       let p = p\<lparr>skb_tstamp := t\<rparr>;
           n = \<lparr>node_tstamp = t, node_skb = Some p\<rparr>;
           f' = f\<lparr>queue := rbtree_add_skb K skbn_tstamp_less n (queue f), flow_qlen := flow_qlen f + 1\<rparr>
       in Some (NET_XMIT_SUCCESS, set_flow r f' (st\<lparr>world := w, sch := (sch st)\<lparr>backlog := backlog (sch st) + cb_pkt_len p,
            qlen := qlen (sch st) + 1\<rparr>\<rparr>)))"
proof (cases ok)
  case False
  have "bpf_kptr_xchg_back m k r (set_map m ((get_map m st)(k := Some None)) (st\<lparr>world := w\<rparr>)) = Some (st\<lparr>world := w\<rparr>)"
    using set_map_back [of m "st\<lparr>world := w\<rparr>" k r] k by simp
  then show ?thesis using False o by (simp add: fq_insert_def set_map_commute Let_def)
next
  case True
  define s1 where "s1 = set_flow r (f\<lparr>queue := rbtree_add_skb K skbn_tstamp_less
      \<lparr>node_tstamp = t, node_skb = Some (p\<lparr>skb_tstamp := t\<rparr>)\<rparr> (queue f), flow_qlen := flow_qlen f + 1\<rparr>)
      (st\<lparr>world := w, sch := (sch st)\<lparr>backlog := backlog (sch st) + cb_pkt_len p\<rparr>\<rparr>)"
  have "bpf_kptr_xchg_back m k r (set_map m ((get_map m st)(k := Some None)) s1) = Some s1"
    using set_map_back [of m s1 k r] k by (simp add: s1_def)
  then show ?thesis
    using True o f by (simp add: fq_insert_def set_map_commute Let_def s1_def)
qed

text \<open>A new node enters the queue of a flow.\<close>

lemma kernel_rb_skb:
  assumes "fq_kernel_ok K" "sorted (map node_tstamp l)"
  shows "mset (rbtree_add_skb K skbn_tstamp_less n l) = add_mset n (mset l)"
    and "sorted (map node_tstamp (rbtree_add_skb K skbn_tstamp_less n l))"
  using rb_okD [OF fq_kernel_okD(1) [OF assms(1)], of n l skbn_tstamp_less node_tstamp] assms(2)
  by (simp_all add: skbn_tstamp_less_def)

lemma flow_insert:
  assumes "fq_kernel_ok K" "flow_ok pl np act thr f" "node_skb n = Some p"
    and np: "np \<Longrightarrow> flow_qlen f < pl \<and> (act \<or> thr)"
    and f': "f' = f\<lparr>queue := rbtree_add_skb K skbn_tstamp_less n (queue f), flow_qlen := flow_qlen f + 1\<rparr>"
  shows "flow_ok pl np act thr f' \<and> flow_ids f' = add_mset (skb_id p) (flow_ids f) \<and>
    flow_bytes f' = flow_bytes f + cb_pkt_len p"
proof -
  have s: "sorted (map node_tstamp (queue f))" using assms(2) by (simp add: flow_ok_def)
  note rb = kernel_rb_skb [OF assms(1) s, of n]
  have set: "set (queue f') = insert n (set (queue f))"
    using rb(1) unfolding f' by (simp flip: set_mset_mset)
  have len: "length (queue f') = Suc (length (queue f))"
    using rb(1) unfolding f' by (simp flip: size_mset)
  have "flow_ids f' = add_mset (skb_id p) (flow_ids f)"
    using rb(1) assms(3) by (simp add: flow_ids_def f')
  moreover have "flow_bytes f' = flow_bytes f + cb_pkt_len p"
  proof -
    have "sum_mset (mset (map g (queue f'))) = sum_mset (mset (map g (queue f))) + g n"
      for g :: "skb_node \<Rightarrow> u32" using rb(1) by (simp add: f' add.commute)
    then show ?thesis using assms(3) by (simp add: flow_bytes_def flip: sum_mset_sum_list)
  qed
  moreover have "flow_ok pl np act thr f'"
  proof (cases np)
    case True
    then show ?thesis
      using assms(2,3) np set len rb(2) unat_inc [of "flow_qlen f" pl] by (auto simp: flow_ok_def f')
  next
    case False
    then show ?thesis using assms(2,3) set rb(2) by (auto simp: flow_ok_def f')
  qed
  ultimately show ?thesis by blast
qed

section \<open>Flows come and go\<close>

lemma stashed_upd_null: "m k = None \<or> m k = Some None \<Longrightarrow> stashed (m(k := Some None)) x = stashed m x"
  unfolding stashed_def fun_upd_apply by (metis option.distinct(1) option.inject)

lemma stashed_upd: "m k = None \<or> m k = Some None \<Longrightarrow> stashed (m(k := Some (Some r))) x \<longleftrightarrow> x = r \<or> stashed m x"
  unfolding stashed_def fun_upd_apply by (metis option.distinct(1) option.inject)

lemma stashed_del:
  assumes "m k = Some (Some r)" "\<And>k'. m k' = Some (Some r) \<Longrightarrow> k' = k"
  shows "stashed (m(k := None)) x \<longleftrightarrow> x \<noteq> r \<and> stashed m x"
  unfolding stashed_def fun_upd_apply using assms by (metis option.distinct(1) option.inject)

text \<open>What the creation of a flow and the collection of others leave alone.\<close>

definition same_queues :: "'w fq_state \<Rightarrow> 'w fq_state \<Rightarrow> bool" where
  "same_queues st st' \<longleftrightarrow> fq_ids st' = fq_ids st \<and> fq_bytes st' = fq_bytes st \<and> q st' = q st \<and> sch st' = sch st \<and>
     fq_new_flows st' = fq_new_flows st \<and> fq_old_flows st' = fq_old_flows st \<and> fq_delayed st' = fq_delayed st \<and>
     (\<forall>x \<in> set (fq_delayed st). tnp_of (flows st') x = tnp_of (flows st) x)"

lemma same_queues_refl [simp]: "same_queues st st"
  by (simp add: same_queues_def)

lemma same_queues_trans [trans]: "same_queues a b \<Longrightarrow> same_queues b c \<Longrightarrow> same_queues a c"
  by (simp add: same_queues_def)

lemma same_queues_delayed: "same_queues st st' \<Longrightarrow> delayed_ok st \<Longrightarrow> delayed_ok st'"
  by (simp add: same_queues_def delayed_ok_def)

lemma same_queues_lists:
  assumes "same_queues st st'" "lists_ok st"
    "\<And>x. x \<in> set (active st) \<union> set (fq_delayed st) \<Longrightarrow> stashed (fq_nonprio_flows st') x"
  shows "lists_ok st'"
proof -
  have "map (tnp_of (flows st')) (fq_delayed st) = map (tnp_of (flows st)) (fq_delayed st)"
    using assms(1) by (simp add: same_queues_def)
  then show ?thesis using assms unfolding lists_ok_def same_queues_def active_def by metis
qed

lemma fq_str_unlisted:
  assumes "fq_str H st" "\<not> stashed (fq_nonprio_flows st) r"
  shows "r \<notin> set (active st)" "r \<notin> set (fq_delayed st)"
  using assms unfolding fq_str_def lists_ok_def by blast+

text \<open>A fresh flow.\<close>

lemma fq_str_alloc:
  assumes "fq_str H st" "flows st r = None" "queue f = []" "refcount f = 1"
  shows "fq_str (insert r H) (set_flow r f st) \<and> same_queues st (set_flow r f st) \<and> r \<notin> H"
proof -
  have ns: "\<not> stashed (fq_nonprio_flows st) r" "\<not> stashed (fq_prio_flows st) r" "r \<notin> H"
    using assms(1,2) unfolding fq_str_def maps_ok_def by blast+
  note nl = fq_str_unlisted [OF assms(1) ns(1)]
  have fin: "finite (dom (flows st))" by (rule fq_str_finite [OF assms(1)])
  have sq: "same_queues st (set_flow r f st)"
    using fq_ids_set_flow [OF fin, of "set_flow r f st" r f] assms nl
    by (auto simp: same_queues_def flow_ids_def flow_bytes_def tnp_of_def)
  have "heap_ok (set_flow r f st)"
    using assms ns nl by (auto simp: fq_str_def heap_ok_def flow_ok_def active_def)
  moreover have "maps_ok (insert r H) (set_flow r f st)"
    using assms(1) ns unfolding fq_str_def maps_ok_def by auto
  moreover have "lists_ok (set_flow r f st)"
    by (rule same_queues_lists [OF sq]) (use assms(1) in \<open>auto simp: fq_str_def lists_ok_def\<close>)
  ultimately show ?thesis using sq ns by (simp add: fq_str_def)
qed

text \<open>The held flow is freed.\<close>

lemma fq_str_free:
  assumes "fq_str (insert r H) st" "r \<notin> H" "flows st r = Some f" "queue f = []"
    and st': "st' = st\<lparr>flows := (flows st)(r := None)\<rparr>"
  shows "fq_str H st' \<and> same_queues st st'"
proof -
  have ns: "\<not> stashed (fq_nonprio_flows st) r" "\<not> stashed (fq_prio_flows st) r"
    using assms(1) unfolding fq_str_def maps_ok_def by blast+
  note nl = fq_str_unlisted [OF assms(1) ns(1)]
  have sq: "same_queues st st'"
    using fq_ids_del_flow [OF fq_str_finite [OF assms(1)] assms(3), of st'] assms(4) nl
    by (auto simp: same_queues_def flow_ids_def flow_bytes_def tnp_of_def st')
  have "heap_ok st'" using assms(1) by (auto simp: fq_str_def heap_ok_def active_def st')
  moreover have "maps_ok H st'"
    using assms(1,2) ns unfolding fq_str_def maps_ok_def st' by auto
  moreover have "lists_ok st'"
    by (rule same_queues_lists [OF sq]) (use assms(1) in \<open>auto simp: fq_str_def lists_ok_def st'\<close>)
  ultimately show ?thesis using sq by (simp add: fq_str_def)
qed

text \<open>An empty entry enters a map.\<close>

lemma fq_str_empty_entry:
  assumes "fq_str H st" "get_map m st k = None" "card (dom (get_map m st)) < unat NUM_QUEUE"
    and st': "st' = set_map m ((get_map m st)(k := Some None)) st"
  shows "fq_str H st' \<and> same_queues st st'"
proof -
  have s: "stashed (fq_nonprio_flows st') x = stashed (fq_nonprio_flows st) x"
      "stashed (fq_prio_flows st') x = stashed (fq_prio_flows st) x" for x
    using assms(2) by (cases m; simp add: st' stashed_upd_null)+
  have sq: "same_queues st st'" using fq_ids_same [of st' st] by (simp add: same_queues_def st')
  have "heap_ok st'" using assms(1) unfolding fq_str_def heap_ok_def s by (simp add: st' active_def)
  moreover have "maps_ok H st'"
    using assms(1,2,3) unfolding fq_str_def maps_ok_def s by (cases m) (auto simp: st' card_insert_if)
  moreover have "lists_ok st'"
    by (rule same_queues_lists [OF sq]) (use assms(1) in \<open>auto simp: s fq_str_def lists_ok_def\<close>)
  ultimately show ?thesis using sq by (simp add: fq_str_def)
qed

text \<open>The held flow is stashed in an empty entry.\<close>

lemma fq_str_stash:
  assumes "fq_str (insert r H) st" "r \<notin> H" "get_map m st k = Some None"
    and f: "flows st r = Some f" "queue f = []" "flow_qlen f = 0" "age f = 1"
    and st': "st' = set_map m ((get_map m st)(k := Some (Some r))) st"
  shows "fq_str H st' \<and> same_queues st st'"
proof -
  have ns: "\<not> stashed (fq_nonprio_flows st) r" "\<not> stashed (fq_prio_flows st) r"
    using assms(1) unfolding fq_str_def maps_ok_def by blast+
  note nl = fq_str_unlisted [OF assms(1) ns(1)]
  have s: "stashed (fq_nonprio_flows st') x \<longleftrightarrow> m = Nonprio \<and> x = r \<or> stashed (fq_nonprio_flows st) x"
      "stashed (fq_prio_flows st') x \<longleftrightarrow> m = Prio \<and> x = r \<or> stashed (fq_prio_flows st) x" for x
    using assms(3) by (cases m; simp add: st' stashed_upd)+
  have sq: "same_queues st st'" using fq_ids_same [of st' st] by (simp add: same_queues_def st')
  have "flow_ok (flow_plimit (q st)) False False False f"
    using assms(1) f(1) ns nl unfolding fq_str_def heap_ok_def by (metis (full_types))
  then have "flow_ok (flow_plimit (q st)) np False False f" for np
    using f by (simp add: flow_ok_def)
  then have "flow_ok (flow_plimit (q st)) (stashed (fq_nonprio_flows st') x) (x \<in> set (active st)) (x \<in> set (fq_delayed st)) g"
    if "flows st x = Some g" for x g
    using assms(1) f(1) nl that s(1) [of x] unfolding fq_str_def heap_ok_def by (cases "x = r") auto
  then have "heap_ok st'" by (simp add: heap_ok_def st' active_def)
  moreover have nk: "fq_nonprio_flows st k' \<noteq> Some (Some r)" "fq_prio_flows st k' \<noteq> Some (Some r)" for k'
    using ns by (auto simp: stashed_def)
  have "maps_ok H st'"
    using assms(1-3) ns nk unfolding fq_str_def maps_ok_def s
    by (cases m) (auto simp: st' insert_absorb domI)
  moreover have "lists_ok st'"
    by (rule same_queues_lists [OF sq]) (use assms(1) in \<open>auto simp: s fq_str_def lists_ok_def\<close>)
  ultimately show ?thesis using sq by (simp add: fq_str_def)
qed

section \<open>Garbage collection\<close>

lemma maps_ok_del:
  assumes "maps_ok H st" "fq_nonprio_flows st k = Some (Some r)"
  shows "maps_ok H (st\<lparr>fq_nonprio_flows := (fq_nonprio_flows st)(k := None), flows := (flows st)(r := None)\<rparr>)"
proof -
  let ?m = "fq_nonprio_flows st"
  define m' h' where "m' = ?m(k := None)" and "h' = (flows st)(r := None)"
  note mo = assms(1) [unfolded maps_ok_def]
  have r: "stashed ?m r" using assms(2) by (auto simp: stashed_def)
  have inj: "k' = k" if "?m k' = Some (Some r)" for k' using assms that unfolding maps_ok_def by blast
  have s: "stashed m' x \<longleftrightarrow> x \<noteq> r \<and> stashed ?m x" for x
    unfolding m'_def by (rule stashed_del [of ?m k r x, OF assms(2) inj])
  have rH: "r \<notin> H" "\<not> stashed (fq_prio_flows st) r" using r assms(1) unfolding maps_ok_def by blast+
  have fin: "finite (dom m')" using mo by (simp add: m'_def)
  have "card (dom m') \<le> card (dom ?m)" unfolding m'_def by simp (rule card_Diff1_le)
  then have c: "card (dom m') \<le> unat NUM_QUEUE" using mo by linarith
  have m': "m' a = Some x \<Longrightarrow> ?m a = Some x" for a x by (simp add: m'_def split: if_split_asm)
  have d: "dom h' = dom (flows st) - {r}" by (simp add: h'_def)
  have "dom (flows st) - {r} = {x. stashed m' x \<or> stashed (fq_prio_flows st) x} \<union> H"
    using mo rH unfolding s by blast
  then show ?thesis
    unfolding m'_def [symmetric] h'_def [symmetric] maps_ok_def
    using mo m' fin c rH by (simp add: s d)
qed

text \<open>A collected flow is detached, so it has no packet and only the reference of its stash.\<close>

lemma fq_gc_delete:
  assumes "fq_str H st" "fq_nonprio_flows st k = Some (Some r)" "flows st r = Some f" "fq_flow_is_detached f"
  obtains st' where "map_delete Nonprio k st = Some st'" "fq_str H st'" "same_queues st st'"
    "fq_prio_flows st' = fq_prio_flows st" "fq_nonprio_flows st' = (fq_nonprio_flows st)(k := None)"
    "flows st' = (flows st)(r := None)"
proof -
  have r: "stashed (fq_nonprio_flows st) r" using assms(2) by (auto simp: stashed_def)
  then have fo: "flow_ok (flow_plimit (q st)) True (r \<in> set (active st)) (r \<in> set (fq_delayed st)) f"
    using assms(1,3) unfolding fq_str_def heap_ok_def by (metis (full_types))
  have nl: "r \<notin> set (active st)" "r \<notin> set (fq_delayed st)" using detached_iff [OF fo] assms(4) by blast+
  have qf: "queue f = []" and rc: "refcount f = 1" using fo nl by (simp_all add: flow_ok_def)
  define st' where "st' = st\<lparr>fq_nonprio_flows := (fq_nonprio_flows st)(k := None), flows := (flows st)(r := None)\<rparr>"
  have inj: "k' = k" if "fq_nonprio_flows st k' = Some (Some r)" for k'
    using assms(1,2) that unfolding fq_str_def maps_ok_def by blast
  have s: "stashed (fq_nonprio_flows st') x \<longleftrightarrow> x \<noteq> r \<and> stashed (fq_nonprio_flows st) x" for x
    using stashed_del [of "fq_nonprio_flows st" k r x, OF assms(2) inj] by (simp add: st'_def)
  have sq: "same_queues st st'"
    using fq_ids_del_flow [OF fq_str_finite [OF assms(1)] assms(3), of st'] qf nl
    by (auto simp: same_queues_def flow_ids_def flow_bytes_def tnp_of_def st'_def)
  have "heap_ok st'"
    using assms(1) unfolding fq_str_def heap_ok_def s by (auto simp: st'_def active_def)
  moreover have "maps_ok H st'"
    using maps_ok_del [of H st k r] assms(1,2) by (simp add: fq_str_def st'_def)
  moreover have "lists_ok st'"
    by (rule same_queues_lists [OF sq]) (use assms(1) nl in \<open>auto simp: s fq_str_def lists_ok_def\<close>)
  moreover have "map_delete Nonprio k st = Some st'"
    using assms(2,3) rc by (simp add: map_delete_def drop_stash_def bpf_obj_drop_def st'_def)
  ultimately show ?thesis using that [of st'] sq by (simp add: fq_str_def st'_def)
qed

text \<open>The iteration; a key that is absent stays absent, and a held flow is not touched.\<close>

lemma fq_str_world [simp]: "fq_str H (st\<lparr>world := w\<rparr>) = fq_str H st"
  by (simp add: fq_str_def heap_ok_def maps_ok_def lists_ok_def active_def)

lemma same_queues_world [simp]: "same_queues st (st'\<lparr>world := w\<rparr>) = same_queues st st'"
  by (simp add: same_queues_def fq_ids_def fq_bytes_def)

definition gc_rel :: "nat set \<Rightarrow> 'w fq_state \<Rightarrow> 'w fq_state \<Rightarrow> bool" where
  "gc_rel H st st' \<longleftrightarrow> fq_str H st' \<and> same_queues st st' \<and> fq_prio_flows st' = fq_prio_flows st \<and>
     (\<forall>k. fq_nonprio_flows st' k = None \<or> fq_nonprio_flows st' k = fq_nonprio_flows st k) \<and>
     (\<forall>r \<in> H. flows st' r = flows st r)"

lemma gc_rel_trans: "gc_rel H a b \<Longrightarrow> gc_rel H b c \<Longrightarrow> gc_rel H a c"
  unfolding gc_rel_def using same_queues_trans by metis

lemma fq_remove_flows_gc:
  assumes "fq_str H st" "gc_only c"
  obtains stop c' st' where "fq_remove_flows K Nonprio k c st = Some (stop, c', st')" "gc_only c'" "gc_rel H st st'"
proof (cases "\<exists>r. fq_nonprio_flows st k = Some (Some r)")
  case False
  then have "fq_remove_flows K Nonprio k c st = Some (\<not> (reset_cnt c < reset_max c), c, st)"
    by (cases "fq_nonprio_flows st k") (auto simp: fq_remove_flows_def)
  then show ?thesis using that assms by (auto simp: gc_rel_def)
next
  case True
  then obtain r where r: "fq_nonprio_flows st k = Some (Some r)" by blast
  obtain f where f: "flows st r = Some f" using fq_str_flow [OF assms(1), of r] r by (auto simp: stashed_def)
  obtain cand w where cw: "fq_gc_candidate K f (world st) = (cand, w)" by fastforce
  show ?thesis
  proof (cases cand)
    case False
    then have "fq_remove_flows K Nonprio k c st = Some (\<not> (reset_cnt c < reset_max c), c, st\<lparr>world := w\<rparr>)"
      using r f cw assms(2) by (simp add: fq_remove_flows_def)
    then show ?thesis using that assms by (simp add: gc_rel_def)
  next
    case True
    then have d: "fq_flow_is_detached f" using cw by (auto simp: fq_gc_candidate_def split: prod.split_asm)
    obtain st' where st': "map_delete Nonprio k (st\<lparr>world := w\<rparr>) = Some st'" "fq_str H st'"
      "same_queues (st\<lparr>world := w\<rparr>) st'" "fq_prio_flows st' = fq_prio_flows st"
      "fq_nonprio_flows st' = (fq_nonprio_flows st)(k := None)" "flows st' = (flows st)(r := None)"
      by (rule fq_gc_delete [of H "st\<lparr>world := w\<rparr>" k r f]) (use assms(1) r f d in simp_all)
    have "r \<notin> H" using assms(1) r unfolding fq_str_def maps_ok_def stashed_def by blast
    then have "gc_rel H st st'"
      using st' same_queues_trans [of st "st\<lparr>world := w\<rparr>" st'] by (auto simp: gc_rel_def)
    then show ?thesis using that r f cw True st' assms(2) by (simp add: fq_remove_flows_def)
  qed
qed

lemma for_each_gc:
  "fq_str H st \<Longrightarrow> gc_only c \<Longrightarrow> \<exists>st'. for_each_map_elem K Nonprio ks c st = Some st' \<and> gc_rel H st st'"
proof (induction ks arbitrary: c st)
  case Nil
  then show ?case by (simp add: gc_rel_def)
next
  case (Cons k ks)
  obtain stop c' st' where s: "fq_remove_flows K Nonprio k c st = Some (stop, c', st')" "gc_only c'" "gc_rel H st st'"
    by (rule fq_remove_flows_gc [OF Cons.prems])
  have "fq_str H st'" using s(3) by (simp add: gc_rel_def)
  then show ?case using Cons.IH [of st' c'] s gc_rel_trans [OF s(3)] by auto
qed

lemma fq_gc_ok: "fq_str H st \<Longrightarrow> \<exists>st'. fq_gc K st = Some st' \<and> gc_rel H st st'"
  unfolding fq_gc_def by (rule for_each_gc) simp_all

section \<open>New flows\<close>

lemma map_update_empty_ok:
  assumes "fq_kernel_ok K" "fq_str H st" "get_map m st k = None"
  obtains ret st' where "map_update_empty K m k st = Some (ret, st')" "fq_str H st'" "same_queues st st'"
    "flows st' = flows st" "get_map m st' k = None \<or> get_map m st' k = Some None"
    "\<And>m'. m' \<noteq> m \<Longrightarrow> get_map m' st' = get_map m' st" "ret \<noteq> 0 \<Longrightarrow> get_map m st' = get_map m st"
proof -
  obtain ret w where u: "map_update_ret K (get_map m st) k (world st) = (ret, w)" by fastforce
  define st' where "st' = (if ret = 0 then set_map m ((get_map m st)(k := Some None)) (st\<lparr>world := w\<rparr>) else st\<lparr>world := w\<rparr>)"
  have e: "map_update_empty K m k st = Some (ret, st')"
    using assms(3) u by (simp add: map_update_empty_def st'_def drop_stash_def)
  have "fq_str H st' \<and> same_queues st st'"
  proof (cases "ret = 0")
    case True
    have "card (dom (get_map m st)) < unat NUM_QUEUE"
      using fq_kernel_okD(4) [OF assms(1)] u assms(3) True by blast
    then have "fq_str H st' \<and> same_queues (st\<lparr>world := w\<rparr>) st'"
      by (intro fq_str_empty_entry [where m = m and k = k]) (use assms(2,3) True in \<open>simp_all add: st'_def\<close>)
    then show ?thesis using same_queues_trans [of st "st\<lparr>world := w\<rparr>" st'] by simp
  qed (simp add: st'_def assms(2))
  moreover have "get_map m' st' = get_map m' st" if "m' \<noteq> m" for m'
    using that by (cases m; cases m') (auto simp: st'_def)
  ultimately show ?thesis using that [OF e] assms(3) by (simp add: st'_def)
qed

text \<open>
  The retry after a failed insertion keeps the empty entry if there is one and collects flows; it
  always inserts into the normal map.
\<close>

lemma fq_new_flow_retry:
  assumes "fq_kernel_ok K" "fq_str H st" "fq_nonprio_flows st k = None"
  obtains st1 ret st' where "fq_gc K st = Some st1" "map_update_empty K Nonprio k st1 = Some (ret, st')"
    "fq_str H st'" "same_queues st st'" "\<And>r. r \<in> H \<Longrightarrow> flows st' r = flows st r"
    "fq_prio_flows st' = fq_prio_flows st" "fq_nonprio_flows st' k = None \<or> fq_nonprio_flows st' k = Some None"
proof -
  obtain st1 where g: "fq_gc K st = Some st1" "gc_rel H st st1" using fq_gc_ok [OF assms(2)] by blast
  have n: "get_map Nonprio st1 k = None" using g(2) assms(3) by (auto simp: gc_rel_def dest: spec [of _ k])
  have s1: "fq_str H st1" using g(2) by (simp add: gc_rel_def)
  obtain ret st' where u: "map_update_empty K Nonprio k st1 = Some (ret, st')" "fq_str H st'" "same_queues st1 st'"
    "flows st' = flows st1" "get_map Nonprio st' k = None \<or> get_map Nonprio st' k = Some None"
    "\<And>m'. m' \<noteq> Nonprio \<Longrightarrow> get_map m' st' = get_map m' st1"
    by (rule map_update_empty_ok [OF assms(1) s1 n]) blast
  show ?thesis
    using that [OF g(1) u(1,2)] u(3-5) u(6) [of Prio] g(2) same_queues_trans [of st st1 st'] by (simp add: gc_rel_def)
qed

definition fq_retry :: "'w fq_kernel \<Rightarrow> i32 \<Rightarrow> u64 \<Rightarrow> 'w fq_state \<Rightarrow> 'w fq_state option" where
  "fq_retry K ret k st = (if ret = - ENOMEM \<or> ret = - E2BIG
     then do { st \<leftarrow> fq_gc K st; (_, st) \<leftarrow> map_update_empty K Nonprio k st; Some st } else Some st)"

lemma fq_new_flow_insert:
  assumes "fq_kernel_ok K" "fq_str {r} st" "flows st r = Some f" "get_map m st k = None" "fq_nonprio_flows st k = None"
  obtains ret st1 st' where "map_update_empty K m k st = Some (ret, st1)" "fq_retry K ret k st1 = Some st'"
    "fq_str {r} st'" "same_queues st st'" "flows st' r = Some f" "get_map m st' k = None \<or> get_map m st' k = Some None"
    "m = Nonprio \<Longrightarrow> fq_prio_flows st' = fq_prio_flows st"
proof -
  obtain ret s2 where u: "map_update_empty K m k st = Some (ret, s2)" "fq_str {r} s2" "same_queues st s2"
    "flows s2 = flows st" "get_map m s2 k = None \<or> get_map m s2 k = Some None"
    "\<And>m'. m' \<noteq> m \<Longrightarrow> get_map m' s2 = get_map m' st" "ret \<noteq> 0 \<Longrightarrow> get_map m s2 = get_map m st"
    by (rule map_update_empty_ok [OF assms(1,2,4)]) blast
  show ?thesis
  proof (cases "ret = - ENOMEM \<or> ret = - E2BIG")
    case False
    then show ?thesis using that [OF u(1), of s2] u(2-5) u(6) [of Prio] assms(3) by (simp add: fq_retry_def)
  next
    case True
    then have "ret \<noteq> 0" by (auto simp: ENOMEM_def E2BIG_def)
    then have n: "get_map m' s2 = get_map m' st" for m' using u(6,7) by (cases "m' = m") auto
    have k2: "fq_nonprio_flows s2 k = None" using n [of Nonprio] assms(5) by simp
    obtain s3 ret' st' where s3: "fq_gc K s2 = Some s3" "map_update_empty K Nonprio k s3 = Some (ret', st')"
      "fq_str {r} st'" "same_queues s2 st'" "\<And>x. x \<in> {r} \<Longrightarrow> flows st' x = flows s2 x"
      "fq_prio_flows st' = fq_prio_flows s2" "fq_nonprio_flows st' k = None \<or> fq_nonprio_flows st' k = Some None"
      by (rule fq_new_flow_retry [OF assms(1) u(2) k2]) blast
    have "get_map m st' k = None \<or> get_map m st' k = Some None"
      using s3(6,7) n [of Prio] assms(4) by (cases m) auto
    moreover have "fq_prio_flows st' = fq_prio_flows st" using s3(6) n [of Prio] by simp
    ultimately show ?thesis
      using that [OF u(1), of st'] True s3(1-4) s3(5) [of r] u(4) assms(3) same_queues_trans [OF u(3)]
      by (simp add: fq_retry_def)
  qed
qed

lemma fq_new_flow_ok:
  assumes "fq_kernel_ok K" "fq_str {} st" "get_map m st k = None" "fq_nonprio_flows st k = None"
  obtains e st' where "fq_new_flow K m k st = Some (e, st')" "fq_str {} st'" "same_queues st st'"
    "sint e < 0 \<or> e = 0 \<and> (\<exists>r f. get_map m st' k = Some (Some r) \<and> flows st' r = Some f \<and> queue f = [])"
    "m = Nonprio \<Longrightarrow> fq_prio_flows st' = fq_prio_flows st"
proof -
  obtain p w where a: "flow_obj_new K (flows st) (world st) = (p, w)" by fastforce
  have neg: "sint (- ENOMEM) < 0" by (simp add: ENOMEM_def)
  show ?thesis
  proof (cases p)
    case None
    then show ?thesis using that [of "- ENOMEM" "st\<lparr>world := w\<rparr>"] a neg assms(2) by (simp add: fq_new_flow_def)
  next
    case (Some r)
    define f where "f = \<lparr>credit = initial_quantum (q st), flow_qlen = 0, age = 1, time_next_packet = 0, queue = [], refcount = 1\<rparr>"
    define s1 where "s1 = set_flow r f (st\<lparr>world := w\<rparr>)"
    have "flows st r = None" using fq_kernel_okD(3) [OF assms(1)] a Some by blast
    then have s1: "fq_str {r} s1" "same_queues st s1"
      using fq_str_alloc [of "{}" "st\<lparr>world := w\<rparr>" r f] same_queues_trans [of st "st\<lparr>world := w\<rparr>" s1] assms(2)
      by (simp_all add: s1_def f_def)
    have k1: "get_map m s1 k = None" "fq_nonprio_flows s1 k = None" using assms(3,4) by (simp_all add: s1_def)
    obtain ret s2 s3 where u: "map_update_empty K m k s1 = Some (ret, s2)" and s3:
      "fq_retry K ret k s2 = Some s3" "fq_str {r} s3" "same_queues s1 s3" "flows s3 r = Some f"
      "get_map m s3 k = None \<or> get_map m s3 k = Some None" "m = Nonprio \<Longrightarrow> fq_prio_flows s3 = fq_prio_flows s1"
      by (rule fq_new_flow_insert [OF assms(1) s1(1) _ k1, of f]) (simp_all add: s1_def)
    have sq: "same_queues st s3" using s1(2) s3(3) same_queues_trans by blast
    have e: "fq_new_flow K m k st = (case get_map m s3 k of
        None \<Rightarrow> do { st \<leftarrow> bpf_obj_drop r s3; Some (- ENOMEM, st) }
      | Some _ \<Rightarrow> do { st \<leftarrow> bpf_kptr_xchg_back m k r s3; Some (0, st) })"
      using a Some u s3(1) by (simp add: fq_new_flow_def f_def s1_def fq_retry_def)
    show ?thesis
    proof (cases "get_map m s3 k")
      case None
      define s4 where "s4 = s3\<lparr>flows := (flows s3)(r := None)\<rparr>"
      have "fq_str {} s4 \<and> same_queues s3 s4"
        by (rule fq_str_free [OF s3(2) _ s3(4) _ s4_def]) (simp_all add: f_def)
      moreover have "bpf_obj_drop r s3 = Some s4" using s3(4) by (simp add: bpf_obj_drop_def s4_def f_def)
      ultimately show ?thesis
        using that [of "- ENOMEM" s4] e None neg same_queues_trans [OF sq] s3(6) by (simp add: s4_def s1_def)
    next
      case (Some x)
      then have x: "get_map m s3 k = Some None" using s3(5) by auto
      define s4 where "s4 = set_map m ((get_map m s3)(k := Some (Some r))) s3"
      have "fq_str {} s4 \<and> same_queues s3 s4"
        by (rule fq_str_stash [OF s3(2) _ x s3(4) _ _ _ s4_def]) (simp_all add: f_def)
      moreover have "bpf_kptr_xchg_back m k r s3 = Some s4"
        using x by (simp add: bpf_kptr_xchg_back_def drop_stash_def s4_def)
      ultimately show ?thesis
        using that [of 0 s4] e x same_queues_trans [OF sq] s3(4,6) by (auto simp: s4_def f_def s1_def)
    qed
  qed
qed

section \<open>Changes that keep the invariant\<close>

text \<open>One flow changes in place, of whichever map.\<close>

lemma fq_str_upd:
  assumes "fq_str H st" "flows st r = Some f"
    and ok: "flow_ok (flow_plimit (q st)) (stashed (fq_nonprio_flows st) r) (r \<in> set (active st)) (r \<in> set (fq_delayed st)) f'"
    and tnp: "time_next_packet f' = time_next_packet f"
  shows "fq_str H (set_flow r f' st) \<and> tnp_of (flows (set_flow r f' st)) = tnp_of (flows st)"
proof -
  have t: "tnp_of (flows (set_flow r f' st)) = tnp_of (flows st)"
    using assms(2) tnp by (auto simp: tnp_of_def)
  have "heap_ok (set_flow r f' st)"
    using assms(1) ok by (auto simp: fq_str_def heap_ok_def active_def)
  moreover have "maps_ok H (set_flow r f' st)"
    using assms(1,2) by (auto simp: fq_str_def maps_ok_def insert_absorb domI)
  moreover have "lists_ok (set_flow r f' st)"
    using assms(1) unfolding fq_str_def lists_ok_def t by (simp add: active_def)
  ultimately show ?thesis using t by (simp add: fq_str_def)
qed

lemma fq_inv_cong:
  assumes "fq_inv st" "fq_str {} st'" "same_queues st st'" "fq_prio_flows st' = fq_prio_flows st"
  shows "fq_inv st'"
proof -
  have "delayed_ok st'" using same_queues_delayed [OF assms(3)] assms(1) by (simp add: fq_inv_def)
  then show ?thesis using assms by (auto simp: fq_inv_def fq_acct_def same_queues_def)
qed

text \<open>Drops, the clock and the world do not matter.\<close>

lemma fq_inv_frame [simp]:
  "fq_inv (st\<lparr>world := w\<rparr>) = fq_inv st"
  "fq_inv (st\<lparr>sch := (sch st)\<lparr>drops := d\<rparr>\<rparr>) = fq_inv st"
  "fq_inv (st\<lparr>world := w, sch := (sch st)\<lparr>drops := d\<rparr>\<rparr>) = fq_inv st"
  "fq_inv (st\<lparr>q := (q st)\<lparr>ktime_cache := t\<rparr>\<rparr>) = fq_inv st"
  by (simp_all add: fq_inv_def fq_str_def heap_ok_def maps_ok_def lists_ok_def active_def delayed_ok_def fq_acct_def
      fq_ids_def fq_bytes_def)

lemma fq_ids_frame [simp]:
  "fq_ids (st\<lparr>world := w\<rparr>) = fq_ids st" "fq_ids (st\<lparr>sch := s\<rparr>) = fq_ids st" "fq_ids (st\<lparr>q := c\<rparr>) = fq_ids st"
  "fq_bytes (st\<lparr>world := w\<rparr>) = fq_bytes st" "fq_bytes (st\<lparr>sch := s\<rparr>) = fq_bytes st" "fq_bytes (st\<lparr>q := c\<rparr>) = fq_bytes st"
  by (simp_all add: fq_ids_def fq_bytes_def)

lemma fq_str_set_flow_frame [simp]:
  "fq_str H (set_flow r f (st\<lparr>world := w, sch := s\<rparr>)) = fq_str H (set_flow r f st)"
  by (simp add: fq_str_def heap_ok_def maps_ok_def lists_ok_def active_def)

lemma fq_drop_ok:
  "fq_inv st \<Longrightarrow> fq_drop K p st = (ret, st') \<Longrightarrow>
     ret = NET_XMIT_DROP \<and> fq_inv st' \<and> fq_ids st' = fq_ids st \<and> drops (sch st') = drops (sch st) + 1"
  by (auto simp: fq_drop_def)

lemma read_clock_frame [simp]:
  "fq_inv (read_clock K st) = fq_inv st" "fq_ids (read_clock K st) = fq_ids st" "sch (read_clock K st) = sch st"
  "get_map m (read_clock K st) = get_map m st" "flows (read_clock K st) = flows st"
proof -
  obtain t w where "bpf_ktime_get_ns K (world st) = (t, w)" by fastforce
  then have r: "read_clock K st = st\<lparr>q := (q st)\<lparr>ktime_cache := t\<rparr>, world := w\<rparr>" by (simp add: read_clock_def)
  show "fq_inv (read_clock K st) = fq_inv st" "fq_ids (read_clock K st) = fq_ids st" "sch (read_clock K st) = sch st"
    "get_map m (read_clock K st) = get_map m st" "flows (read_clock K st) = flows st"
    unfolding r by simp_all
qed

lemma fq_time_to_send_frame:
  "fq_time_to_send K p st = (t, st') \<Longrightarrow>
     fq_inv st' = fq_inv st \<and> fq_ids st' = fq_ids st \<and> sch st' = sch st \<and> (\<forall>m. get_map m st' = get_map m st) \<and>
     (case t of None \<Rightarrow> True | Some (_, p') \<Rightarrow> skb_id p' = skb_id p)"
  by (auto simp: fq_time_to_send_def Let_def split: if_split_asm)

section \<open>Classification and enqueue\<close>

lemma fq_classify_ok:
  assumes "fq_kernel_ok K" "fq_inv st"
  obtains ret m k st' where "fq_classify K p st = Some (ret, (m, k), st')" "fq_inv st'" "same_queues st st'"
    "ret = CLS_RET_ERR \<or> ret = CLS_RET_PRIO \<and> m = Prio \<or> ret = CLS_RET_NONPRIO \<and> m = Nonprio"
proof -
  define prio where "prio = (skb_priority p AND TC_PRIO_MAX = TC_PRIO_CONTROL)"
  define hash where "hash = (if prio then 0 else fq_hash K p (q st))"
  define m where "m = (if prio then Prio else Nonprio)"
  have c: "fq_classify K p st =
      (case get_map m st hash of
         Some _ \<Rightarrow> Some (if prio then CLS_RET_PRIO else CLS_RET_NONPRIO, (m, hash), st)
       | None \<Rightarrow> do { (e, st) \<leftarrow> fq_new_flow K Nonprio hash st;
           Some (if sint e < 0 then CLS_RET_ERR else CLS_RET_NONPRIO, (Nonprio, hash), st) })"
    unfolding fq_classify_def prio_def hash_def m_def Let_def by (rule refl)
  show ?thesis
  proof (cases "get_map m st hash")
    case (Some x)
    then show ?thesis using that c assms(2) by (cases prio) (simp_all add: m_def)
  next
    case None
    have "\<not> prio" using None assms(2) by (auto simp: fq_inv_def m_def hash_def)
    then have n: "fq_nonprio_flows st hash = None" "get_map Nonprio st hash = None" using None by (simp_all add: m_def)
    have str: "fq_str {} st" using assms(2) by (simp add: fq_inv_def)
    obtain e st' where e: "fq_new_flow K Nonprio hash st = Some (e, st')" "fq_str {} st'" "same_queues st st'"
      "fq_prio_flows st' = fq_prio_flows st"
      by (rule fq_new_flow_ok [OF assms(1) str n(2,1)]) blast
    then show ?thesis using that c None fq_inv_cong [OF assms(2)] by simp
  qed
qed

lemma fq_attach_inv:
  assumes "fq_inv st" "fq_nonprio_flows st k = Some (Some r)"
  obtains st' f f' where "fq_attach K r st = Some st'" "fq_inv st'" "fq_ids st' = fq_ids st" "sch st' = sch st"
    "q st' = (q st)\<lparr>new_flow_cnt := new_flow_cnt (q st')\<rparr>" "\<And>m. get_map m st' = get_map m st"
    "flows st r = Some f" "flows st' r = Some f'" "flow_qlen f' = flow_qlen f"
    "r \<in> set (active st') \<union> set (fq_delayed st')"
proof -
  have str: "fq_str {} st" and s: "stashed (fq_nonprio_flows st) r" using assms by (auto simp: fq_inv_def stashed_def)
  obtain st' f f' where a: "fq_attach K r st = Some st'" "fq_str {} st'"
    "flows st r = Some f" "flows st' = (flows st)(r := Some f')" "queue f' = queue f" "flow_qlen f' = flow_qlen f"
    "time_next_packet f' = time_next_packet f" "r \<in> set (active st') \<union> set (fq_delayed st')"
    "fq_nonprio_flows st' = fq_nonprio_flows st" "fq_prio_flows st' = fq_prio_flows st" "sch st' = sch st"
    "fq_delayed st' = fq_delayed st" "q st' = (q st)\<lparr>new_flow_cnt := new_flow_cnt (q st')\<rparr>"
    by (rule fq_attach_ok [OF str s])
  have ids: "fq_ids st' = fq_ids st" "fq_bytes st' = fq_bytes st"
    using fq_ids_set_flow [OF fq_str_finite [OF str] a(4)] a(3,5) by (simp_all add: flow_ids_def flow_bytes_def)
  have "tnp_of (flows st') = tnp_of (flows st)" using a(3,4,7) by (auto simp: tnp_of_def)
  moreover have "time_next_delayed_flow (q st') = time_next_delayed_flow (q st)" by (subst a(13)) simp
  ultimately have "fq_inv st'"
    using assms(1) a(2,10-12) ids by (auto simp: fq_inv_def delayed_ok_def fq_acct_def)
  moreover have "get_map m st' = get_map m st" for m using a(9,10) by (cases m) simp_all
  ultimately show ?thesis using that a ids by simp
qed

lemma fq_insert_ok:
  assumes "fq_kernel_ok K" "fq_inv st" "get_map m st k = Some (Some r)" "flows st r = Some f" "qlen (sch st) < limit (sch st)"
    and np: "m = Nonprio \<Longrightarrow> flow_qlen f < flow_plimit (q st) \<and> r \<in> set (active st) \<union> set (fq_delayed st)"
  shows "\<exists>ret st'. fq_insert K p t m k r (set_map m ((get_map m st)(k := Some None)) st) = Some (ret, st') \<and>
    fq_inv st' \<and> fq_ids st' = (if ret = NET_XMIT_SUCCESS then add_mset (skb_id p) (fq_ids st) else fq_ids st)"
proof -
  obtain ok w where o: "skb_node_new K (world st) = (ok, w)" by fastforce
  note eq = fq_insert_eq [OF assms(3,4) o]
  show ?thesis
  proof (cases ok)
    case False
    obtain ret st' where d: "fq_drop K p (st\<lparr>world := w\<rparr>) = (ret, st')" by fastforce
    then show ?thesis using fq_drop_ok [OF _ d] False assms(2)
      by (simp add: eq NET_XMIT_DROP_def NET_XMIT_SUCCESS_def)
  next
    case True
    let ?np = "stashed (fq_nonprio_flows st) r"
    have str: "fq_str {} st" using assms(2) by (simp add: fq_inv_def)
    have m: "?np \<longleftrightarrow> m = Nonprio"
      using str assms(3) unfolding fq_str_def maps_ok_def by (cases m) (auto simp: stashed_def)
    define n where "n = \<lparr>node_tstamp = t, node_skb = Some (p\<lparr>skb_tstamp := t\<rparr>)\<rparr>"
    define f' where "f' = f\<lparr>queue := rbtree_add_skb K skbn_tstamp_less n (queue f), flow_qlen := flow_qlen f + 1\<rparr>"
    define s1 where "s1 = st\<lparr>world := w, sch := (sch st)\<lparr>backlog := backlog (sch st) + cb_pkt_len p, qlen := qlen (sch st) + 1\<rparr>\<rparr>"
    have e: "fq_insert K p t m k r (set_map m ((get_map m st)(k := Some None)) st) = Some (NET_XMIT_SUCCESS, set_flow r f' s1)"
      unfolding eq using True by (simp add: f'_def n_def s1_def Let_def)
    have fo: "flow_ok (flow_plimit (q st)) ?np (r \<in> set (active st)) (r \<in> set (fq_delayed st)) f"
      using str assms(4) unfolding fq_str_def heap_ok_def by blast
    have npc: "?np \<Longrightarrow> flow_qlen f < flow_plimit (q st) \<and> (r \<in> set (active st) \<or> r \<in> set (fq_delayed st))"
      using np m by auto
    note ins = flow_insert [OF assms(1) fo _ npc f'_def, of "p\<lparr>skb_tstamp := t\<rparr>"]
    have i: "flow_ok (flow_plimit (q st)) ?np (r \<in> set (active st)) (r \<in> set (fq_delayed st)) f'"
      "flow_ids f' = add_mset (skb_id p) (flow_ids f)" "flow_bytes f' = flow_bytes f + cb_pkt_len p"
      using ins by (simp_all add: n_def)
    have "fq_str {} (set_flow r f' st) \<and> tnp_of (flows (set_flow r f' st)) = tnp_of (flows st)"
      by (rule fq_str_upd [OF str assms(4) i(1)]) (simp add: f'_def)
    then have str': "fq_str {} (set_flow r f' s1)" and tnp: "tnp_of (flows (set_flow r f' s1)) = tnp_of (flows st)"
      by (simp_all add: s1_def)
    have sum: "fq_ids (set_flow r f' s1) = add_mset (skb_id p) (fq_ids st)"
        "fq_bytes (set_flow r f' s1) = fq_bytes st + cb_pkt_len p"
      using fq_ids_set_flow [OF fq_str_finite [OF str], of "set_flow r f' s1" r f'] assms(4) i(2,3)
      by (simp_all add: s1_def)
    have "fq_acct (set_flow r f' s1)"
      using assms(2) unat_inc [OF assms(5)] sum by (simp add: fq_inv_def fq_acct_def s1_def)
    then have "fq_inv (set_flow r f' s1)"
      using assms(2) str' tnp by (simp add: fq_inv_def delayed_ok_def s1_def)
    then show ?thesis using e sum by auto
  qed
qed

text \<open>From the classified flow on.\<close>

lemma fq_enqueue_flow:
  assumes "fq_kernel_ok K" "fq_inv st" "get_map m st k = Some (Some r)" "qlen (sch st) < limit (sch st)"
    and ret: "ret = CLS_RET_PRIO \<and> m = Prio \<or> ret = CLS_RET_NONPRIO \<and> m = Nonprio"
    and s0: "s0 = set_map m ((get_map m st)(k := Some None)) st"
  shows "\<exists>ret' st'. (if ret = CLS_RET_NONPRIO
       then do {
         f \<leftarrow> flows s0 r;
         if flow_qlen f \<ge> flow_plimit (q s0)
         then do { st \<leftarrow> bpf_kptr_xchg_back m k r s0; Some (fq_drop K p st) }
         else do { st \<leftarrow> fq_attach K r s0; fq_insert K p t m k r st }
       }
       else fq_insert K p t m k r s0) = Some (ret', st') \<and>
    fq_inv st' \<and> fq_ids st' = (if ret' = NET_XMIT_SUCCESS then add_mset (skb_id p) (fq_ids st) else fq_ids st)"
proof -
  have str: "fq_str {} st" using assms(2) by (simp add: fq_inv_def)
  have "stashed (fq_nonprio_flows st) r \<or> stashed (fq_prio_flows st) r"
    using assms(3) by (cases m) (auto simp: stashed_def)
  then obtain f where f: "flows st r = Some f" using fq_str_flow [OF str, of r] by blast
  have bk: "bpf_kptr_xchg_back m k r s0 = Some st" unfolding s0 by (rule set_map_back [OF assms(3)])
  show ?thesis
  proof (cases m)
    case Prio
    then show ?thesis using fq_insert_ok [OF assms(1-3) f assms(4)] ret s0 by (auto simp: cls_rets)
  next
    case Nonprio
    then have r: "ret = CLS_RET_NONPRIO" using ret by simp
    have f0: "flows s0 r = Some f" "q s0 = q st" using f by (simp_all add: s0)
    show ?thesis
    proof (cases "flow_qlen f \<ge> flow_plimit (q st)")
      case True
      obtain ret' st' where d: "fq_drop K p st = (ret', st')" by fastforce
      show ?thesis using fq_drop_ok [OF assms(2) d] r True f0 bk d by (simp add: NET_XMIT_DROP_def NET_XMIT_SUCCESS_def)
    next
      case False
      have nk: "fq_nonprio_flows st k = Some (Some r)" using assms(3) Nonprio by simp
      obtain st1 g f1 where a: "fq_attach K r st = Some st1" "fq_inv st1" "fq_ids st1 = fq_ids st" "sch st1 = sch st"
        "q st1 = (q st)\<lparr>new_flow_cnt := new_flow_cnt (q st1)\<rparr>" "\<And>m. get_map m st1 = get_map m st"
        "flows st r = Some g" "flows st1 r = Some f1" "flow_qlen f1 = flow_qlen g"
        "r \<in> set (active st1) \<union> set (fq_delayed st1)"
        by (rule fq_attach_inv [where K = K, OF assms(2) nk]) blast
      have pl: "flow_plimit (q st1) = flow_plimit (q st)" by (subst a(5)) simp
      have s1: "fq_attach K r s0 = Some (set_map m ((get_map m st1)(k := Some None)) st1)"
        unfolding s0 fq_attach_set_map a(1) by (simp add: a(6))
      have "\<exists>ret' st'. fq_insert K p t m k r (set_map m ((get_map m st1)(k := Some None)) st1) = Some (ret', st') \<and>
          fq_inv st' \<and> fq_ids st' = (if ret' = NET_XMIT_SUCCESS then add_mset (skb_id p) (fq_ids st1) else fq_ids st1)"
        by (rule fq_insert_ok [OF assms(1) a(2) _ a(8)])
           (use assms(3,4) a(4,6,7,9,10) pl False f in auto)
      then show ?thesis using r False f0 s1 unfolding a(3) by (simp split del: if_split)
    qed
  qed
qed

lemma bpf_fq_enqueue_ok:
  assumes "fq_kernel_ok K" "fq_inv st"
  shows "\<exists>ret st'. bpf_fq_enqueue K p st = Some (ret, st') \<and> fq_inv st' \<and>
    fq_ids st' = (if ret = NET_XMIT_SUCCESS then add_mset (skb_id p) (fq_ids st) else fq_ids st)"
proof -
  have dr: "\<exists>ret st'. Some (fq_drop K p' s) = Some (ret, st') \<and> fq_inv st' \<and>
      fq_ids st' = (if ret = NET_XMIT_SUCCESS then add_mset i (fq_ids s) else fq_ids s)"
    if "fq_inv s" for p' i and s :: "'a fq_state"
    using fq_drop_ok [OF that, of K p' "fst (fq_drop K p' s)" "snd (fq_drop K p' s)"]
    by (cases "fq_drop K p' s") (simp add: NET_XMIT_DROP_def NET_XMIT_SUCCESS_def)
  show ?thesis
  proof (cases "qlen (sch st) \<ge> limit (sch st)")
    case True
    then show ?thesis using dr [OF assms(2), of p "skb_id p"] by (simp add: bpf_fq_enqueue_def)
  next
    case False
    obtain t st1 where t: "fq_time_to_send K p st = (t, st1)" by fastforce
    note fr = fq_time_to_send_frame [OF t]
    then have i1: "fq_inv st1" "fq_ids st1 = fq_ids st" "sch st1 = sch st" using assms(2) by simp_all
    show ?thesis
    proof (cases t)
      case None
      then have "bpf_fq_enqueue K p st = Some (fq_drop K p st1)" using False t by (simp add: bpf_fq_enqueue_def)
      then show ?thesis using dr [OF i1(1), of p "skb_id p"] unfolding i1(2) by (simp only:)
    next
      case (Some tp)
      obtain u p' where tp: "tp = (u, p')" by fastforce
      have id: "skb_id p' = skb_id p" using fr Some tp by simp
      obtain ret m k st2 where c: "fq_classify K p' st1 = Some (ret, (m, k), st2)" "fq_inv st2" "same_queues st1 st2"
        "ret = CLS_RET_ERR \<or> ret = CLS_RET_PRIO \<and> m = Prio \<or> ret = CLS_RET_NONPRIO \<and> m = Nonprio"
        by (rule fq_classify_ok [OF assms(1) i1(1)])
      have i2: "fq_ids st2 = fq_ids st" "sch st2 = sch st" using c(3) i1 by (simp_all add: same_queues_def)
      show ?thesis
      proof (cases "ret = CLS_RET_ERR \<or> \<not> (\<exists>r. get_map m st2 k = Some (Some r))")
        case True
        then have "bpf_fq_enqueue K p st = Some (fq_drop K p' st2)"
          using False t Some tp c(1) by (auto simp: bpf_fq_enqueue_def split: option.split)
        then show ?thesis using dr [OF c(2), of p' "skb_id p"] unfolding i2(1) by (simp only:)
      next
        case ne: False
        then obtain r where r: "get_map m st2 k = Some (Some r)" by blast
        have ret: "ret = CLS_RET_PRIO \<and> m = Prio \<or> ret = CLS_RET_NONPRIO \<and> m = Nonprio" using c(4) ne by blast
        have lim: "qlen (sch st2) < limit (sch st2)" using False i2 by simp
        show ?thesis using fq_enqueue_flow [OF assms(1) c(2) r lim ret refl, of p' u, unfolded i2(1) id] False t Some tp c(1) r ne i2 id
          by (simp add: bpf_fq_enqueue_def Let_def split del: if_split)
      qed
    qed
  qed
qed

end
