(* ===== verification/Fq_Dequeue.thy ===== *)
theory Fq_Dequeue
  imports Fq_Enqueue
begin

text \<open>
  The dequeue side of the fair queue: waking throttled flows, one round over the front flow, the loop
  of rounds, the control flow and the counters. Every step is defined on states that satisfy the
  invariant and preserves it; a round takes at most one packet, from the head of the queue of one flow.
\<close>

section \<open>Queues\<close>

definition queues_of :: "flow_heap \<Rightarrow> nat \<Rightarrow> skb_node list option" where
  "queues_of h r = map_option queue (h r)"

lemma queues_of_upd [simp]: "queues_of (h(r := Some f)) = (queues_of h)(r := Some (queue f))"
  by (auto simp: queues_of_def)

lemma queues_of_same:
  "h r = Some f \<Longrightarrow> queue f' = queue f \<Longrightarrow> queues_of (h(r := Some f')) = queues_of h"
  by (auto simp: queues_of_def)

lemma fq_ids_queues_of:
  "fq_ids s = (\<Sum>r \<in> dom (queues_of (flows s)). mset (map (\<lambda>n. skb_id (the (node_skb n))) (the (queues_of (flows s) r))))"
  "fq_bytes s = (\<Sum>r \<in> dom (queues_of (flows s)). sum_list (map (\<lambda>n. cb_pkt_len (the (node_skb n))) (the (queues_of (flows s) r))))"
  unfolding fq_ids_def fq_bytes_def flow_ids_def flow_bytes_def
  by (rule sum.cong; auto simp: queues_of_def dom_def)+

lemma fq_ids_queues:
  assumes "queues_of (flows st') = queues_of (flows st)"
  shows "fq_ids st' = fq_ids st" "fq_bytes st' = fq_bytes st"
  unfolding fq_ids_queues_of assms by (rule refl)+

text \<open>What the steps of a dequeue leave alone.\<close>

definition deq_kept :: "'w fq_state \<Rightarrow> 'w fq_state \<Rightarrow> bool" where
  "deq_kept st st' \<longleftrightarrow> sch st' = sch st \<and> fq_nonprio_flows st' = fq_nonprio_flows st \<and> fq_prio_flows st' = fq_prio_flows st"

lemma deq_kept_refl [simp]: "deq_kept st st"
  by (simp add: deq_kept_def)

lemma deq_kept_trans: "deq_kept a b \<Longrightarrow> deq_kept b c \<Longrightarrow> deq_kept a c"
  by (simp add: deq_kept_def)

text \<open>No throttled flow is due at time \<open>now\<close>, nor is the timer.\<close>

definition woken :: "u64 \<Rightarrow> 'w fq_state \<Rightarrow> bool" where
  "woken now st \<longleftrightarrow> now < time_next_delayed_flow (q st) \<and> (\<forall>r \<in> set (fq_delayed st). now < tnp_of (flows st) r)"

section \<open>Moving a flow\<close>

lemma tnp_other: "r \<notin> set d \<Longrightarrow> map (tnp_of (h(r := x))) d = map (tnp_of h) d"
  by (auto simp: tnp_of_def)

lemma fq_str_front:
  assumes "fq_str H st" "get_list l st = r # rs"
  obtains f where "flows st r = Some f" "stashed (fq_nonprio_flows st) r" "r \<notin> set (fq_delayed st)"
    "flow_ok (flow_plimit (q st)) True True False f"
proof -
  have a: "r \<in> set (active st)" using assms(2) by (cases l) (auto simp: active_def)
  then have s: "stashed (fq_nonprio_flows st) r" using fq_str_member [OF assms(1)] by blast
  have d: "r \<notin> set (fq_delayed st)" using assms(1) a unfolding fq_str_def lists_ok_def by auto
  obtain f where "flows st r = Some f"
    "flow_ok (flow_plimit (q st)) (stashed (fq_nonprio_flows st) r) (r \<in> set (active st)) (r \<in> set (fq_delayed st)) f"
    using fq_str_flow [OF assms(1), of r] s by blast
  then show ?thesis using that s d a by simp
qed

lemma fq_str_place:
  assumes str: "fq_str H st" "get_list l st = r # rs" "flows st r = Some f"
    and same: "fq_nonprio_flows st' = fq_nonprio_flows st" "fq_prio_flows st' = fq_prio_flows st"
      "flow_plimit (q st') = flow_plimit (q st)" "fq_delayed st' = fq_delayed st"
    and upd: "flows st' = (flows st)(r := Some f')"
    and act: "distinct (active st')" "set (active st') - {r} = set (active st) - {r}"
    and ok: "flow_ok (flow_plimit (q st)) True (r \<in> set (active st')) False f'"
    and cnt: "new_flow_cnt (q st') = of_nat (length (fq_new_flows st'))" "old_flow_cnt (q st') = of_nat (length (fq_old_flows st'))"
  shows "fq_str H st'"
proof -
  obtain f where s: "stashed (fq_nonprio_flows st) r" and d: "r \<notin> set (fq_delayed st)"
    using fq_str_front [OF str(1,2)] by blast
  have l: "distinct (active st @ fq_delayed st)" "sorted (map (tnp_of (flows st)) (fq_delayed st))"
    using str(1) by (simp_all add: fq_str_def lists_ok_def)
  have o: "x \<in> set (active st') \<longleftrightarrow> x \<in> set (active st)" if "x \<noteq> r" for x using act(2) that by blast
  show ?thesis
  proof (rule fq_str_move [OF str(1,3) s same(1-3) upd o _ _ _ cnt])
    show "flow_ok (flow_plimit (q st)) True (r \<in> set (active st')) (r \<in> set (fq_delayed st')) f'"
      using ok d same(4) by simp
    show "distinct (active st' @ fq_delayed st')" using l(1) act d o same(4) by auto
    show "sorted (map (tnp_of (flows st')) (fq_delayed st'))"
      unfolding same(4) upd tnp_other [OF d] by (rule l(2))
  qed (simp_all add: same(4))
qed

section \<open>Waking throttled flows\<close>

lemma fq_unset_step:
  assumes "fq_str H st" "fq_delayed st = r # rs"
  obtains f where "flows st r = Some f" "tnp_of (flows st) r = time_next_packet f"
    "fq_str H (fq_flows_add_tail OldFlows r (set_flow r (f\<lparr>age := 0\<rparr>) (st\<lparr>fq_delayed := rs\<rparr>)))"
proof -
  have s: "stashed (fq_nonprio_flows st) r" using fq_str_member [OF assms(1)] assms(2) by simp
  have l: "distinct (active st @ fq_delayed st)" "sorted (map (tnp_of (flows st)) (fq_delayed st))"
    using assms(1) by (simp_all add: fq_str_def lists_ok_def)
  have n: "r \<notin> set (active st)" "r \<notin> set rs" using l(1) assms(2) by auto
  obtain f where f: "flows st r = Some f"
    "flow_ok (flow_plimit (q st)) (stashed (fq_nonprio_flows st) r) (r \<in> set (active st)) (r \<in> set (fq_delayed st)) f"
    using fq_str_flow [OF assms(1), of r] s by blast
  let ?st = "fq_flows_add_tail OldFlows r (set_flow r (f\<lparr>age := 0\<rparr>) (st\<lparr>fq_delayed := rs\<rparr>))"
  have sel: "fq_nonprio_flows ?st = fq_nonprio_flows st" "fq_prio_flows ?st = fq_prio_flows st"
    "fq_new_flows ?st = fq_new_flows st" "fq_old_flows ?st = fq_old_flows st @ [r]" "fq_delayed ?st = rs"
    "flows ?st = (flows st)(r := Some (f\<lparr>age := 0\<rparr>))" "q ?st = (q st)\<lparr>old_flow_cnt := old_flow_cnt (q st) + 1\<rparr>"
    by (simp_all add: fq_flows_add_tail_def)
  have "fq_str H ?st"
  proof (rule fq_str_move [OF assms(1) f(1) s sel(1,2) _ sel(6)])
    show "flow_ok (flow_plimit (q st)) True (r \<in> set (active ?st)) (r \<in> set (fq_delayed ?st)) (f\<lparr>age := 0\<rparr>)"
      using f(2) s n assms(2) unfolding active_def sel by (simp add: flow_ok_def)
    show "distinct (active ?st @ fq_delayed ?st)" using l(1) n assms(2) unfolding active_def sel by auto
    show "sorted (map (tnp_of (flows ?st)) (fq_delayed ?st))"
      using l(2) assms(2) unfolding sel tnp_other [OF n(2)] by simp
  qed (use assms in \<open>simp_all only: sel active_def fq_str_def lists_ok_def, auto simp: add.commute\<close>)
  then show ?thesis using that [OF f(1)] f(1) by (simp add: tnp_of_def)
qed

text \<open>The loop wakes every flow that is due, and leaves the time of the first that is not.\<close>

lemma unset_loop_ok:
  assumes "fq_str {} st" "length (fq_delayed st) \<le> n" "time_next_delayed_flow (q st) = - 1"
  shows "\<exists>st'. unset_loop n \<lparr>unset_all = False, utf_now = now\<rparr> st = Some st' \<and> fq_str {} st' \<and> delayed_ok st' \<and>
    deq_kept st st' \<and> queues_of (flows st') = queues_of (flows st) \<and> (now \<noteq> - 1 \<longrightarrow> woken now st')"
  using assms
proof (induction n arbitrary: st)
  case 0
  then show ?case by (simp add: delayed_ok_def woken_def word_order.not_eq_extremum)
next
  case (Suc n)
  show ?case
  proof (cases "fq_delayed st")
    case Nil
    then show ?thesis using Suc.prems
      by (simp add: fq_unset_throttled_flows_def delayed_ok_def woken_def word_order.not_eq_extremum)
  next
    case (Cons r rs)
    obtain f where f: "flows st r = Some f" "tnp_of (flows st) r = time_next_packet f" and
      str: "fq_str {} (fq_flows_add_tail OldFlows r (set_flow r (f\<lparr>age := 0\<rparr>) (st\<lparr>fq_delayed := rs\<rparr>)))" (is "fq_str _ ?st")
      by (rule fq_unset_step [OF Suc.prems(1) Cons])
    show ?thesis
    proof (cases "time_next_packet f > now")
      case True
      let ?s = "st\<lparr>q := (q st)\<lparr>time_next_delayed_flow := time_next_packet f\<rparr>\<rparr>"
      have so: "sorted (map (tnp_of (flows st)) (r # rs))" using Suc.prems(1) Cons by (simp add: fq_str_def lists_ok_def)
      then have le: "time_next_packet f \<le> tnp_of (flows st) x" if "x \<in> set (r # rs)" for x using that f(2) by auto
      have "fq_str {} ?s" using Suc.prems(1) by (simp add: fq_str_def heap_ok_def maps_ok_def lists_ok_def active_def)
      moreover have "delayed_ok ?s" using le Cons by (simp add: delayed_ok_def)
      moreover have "woken now ?s"
        using order_less_le_trans [OF True le] True Cons by (auto simp: woken_def)
      ultimately show ?thesis using Cons f True
        by (simp add: fq_unset_throttled_flows_def deq_kept_def)
    next
      case False
      have q: "queues_of (flows ?st) = queues_of (flows st)"
        using queues_of_same [of "flows st" r f "f\<lparr>age := 0\<rparr>"] f(1) by (simp add: fq_flows_add_tail_def)
      have k: "deq_kept st ?st" by (simp add: deq_kept_def fq_flows_add_tail_def)
      have "length (fq_delayed ?st) \<le> n" "time_next_delayed_flow (q ?st) = - 1"
        using Suc.prems(2,3) Cons by (simp_all add: fq_flows_add_tail_def)
      from Suc.IH [OF str this] q k show ?thesis using Cons f False
        by (auto simp: fq_unset_throttled_flows_def intro: deq_kept_trans [OF k])
    qed
  qed
qed

lemma fq_check_throttled_ok:
  assumes "fq_str {} st" "delayed_ok st"
  obtains st' where "fq_check_throttled now st = Some st'" "fq_str {} st'" "delayed_ok st'" "deq_kept st st'"
    "queues_of (flows st') = queues_of (flows st)" "now \<noteq> - 1 \<Longrightarrow> woken now st'"
proof (cases "time_next_delayed_flow (q st) > now")
  case True
  then have "woken now st" using assms(2) by (auto simp: delayed_ok_def woken_def)
  then show ?thesis using that [of st] True assms by (simp add: fq_check_throttled_def)
next
  case False
  obtain lat where e: "fq_check_throttled now st = unset_loop (unat NUM_QUEUE) \<lparr>unset_all = False, utf_now = now\<rparr>
      (st\<lparr>q := (q st)\<lparr>unthrottle_latency_ns := lat, time_next_delayed_flow := - 1\<rparr>\<rparr>)" (is "_ = unset_loop _ _ ?s")
    using False by (simp add: fq_check_throttled_def Let_def)
  have "fq_str {} ?s" using assms(1) by (simp add: fq_str_def heap_ok_def maps_ok_def lists_ok_def active_def)
  moreover have "length (fq_delayed ?s) \<le> unat NUM_QUEUE"
    using fq_str_lengths [OF assms(1)] by (simp add: NUM_QUEUE_def)
  ultimately obtain st' where "unset_loop (unat NUM_QUEUE) \<lparr>unset_all = False, utf_now = now\<rparr> ?s = Some st'" "fq_str {} st'"
    "delayed_ok st'" "deq_kept ?s st'" "queues_of (flows st') = queues_of (flows ?s)" "now \<noteq> - 1 \<longrightarrow> woken now st'"
    using unset_loop_ok [of ?s "unat NUM_QUEUE" now] by auto
  then show ?thesis using that [of st'] e by (simp add: deq_kept_def)
qed

section \<open>One round\<close>

text \<open>The front flow of list \<open>l\<close>, whose other members are \<open>rs\<close>, is taken off.\<close>

definition taken :: "list_id \<Rightarrow> nat list \<Rightarrow> 'w fq_state \<Rightarrow> 'w fq_state" where
  "taken l rs st = add_cnt l (- 1) (set_list l rs st)"

lemma taken_simps [simp]:
  "flows (taken l rs st) = flows st" "sch (taken l rs st) = sch st" "world (taken l rs st) = world st"
  "fq_nonprio_flows (taken l rs st) = fq_nonprio_flows st" "fq_prio_flows (taken l rs st) = fq_prio_flows st"
  "fq_delayed (taken l rs st) = fq_delayed st" "flow_plimit (q (taken l rs st)) = flow_plimit (q st)"
  "time_next_delayed_flow (q (taken l rs st)) = time_next_delayed_flow (q st)" "quantum (q (taken l rs st)) = quantum (q st)"
  by (cases l; simp add: taken_def)+

lemma fq_flows_add_simps [simp]:
  "flows (fq_flows_add_tail l r st) = flows st" "flows (fq_flows_add_head l r st) = flows st"
  "sch (fq_flows_add_tail l r st) = sch st" "sch (fq_flows_add_head l r st) = sch st"
  "fq_nonprio_flows (fq_flows_add_tail l r st) = fq_nonprio_flows st" "fq_nonprio_flows (fq_flows_add_head l r st) = fq_nonprio_flows st"
  "fq_prio_flows (fq_flows_add_tail l r st) = fq_prio_flows st" "fq_prio_flows (fq_flows_add_head l r st) = fq_prio_flows st"
  "fq_delayed (fq_flows_add_tail l r st) = fq_delayed st" "fq_delayed (fq_flows_add_head l r st) = fq_delayed st"
  "flow_plimit (q (fq_flows_add_tail l r st)) = flow_plimit (q st)" "flow_plimit (q (fq_flows_add_head l r st)) = flow_plimit (q st)"
  "time_next_delayed_flow (q (fq_flows_add_tail l r st)) = time_next_delayed_flow (q st)"
  "time_next_delayed_flow (q (fq_flows_add_head l r st)) = time_next_delayed_flow (q st)"
  by (cases l; simp add: fq_flows_add_tail_def fq_flows_add_head_def)+

text \<open>It goes to the tail of the old flows, back to the head of \<open>l\<close>, or nowhere.\<close>

lemma fq_str_relist:
  assumes "fq_str H st" "get_list l st = r # rs" "flow_ok (flow_plimit (q st)) True True False f'"
  shows "fq_str H (fq_flows_add_tail OldFlows r (set_flow r f' (taken l rs st)))" (is "fq_str H ?a")
    and "fq_str H (fq_flows_add_head l r (set_flow r f' (taken l rs st)))" (is "fq_str H ?b")
proof -
  obtain f where f: "flows st r = Some f" using fq_str_front [OF assms(1,2)] by blast
  have d: "distinct (active st)" "new_flow_cnt (q st) = of_nat (length (fq_new_flows st))"
      "old_flow_cnt (q st) = of_nat (length (fq_old_flows st))"
    using assms(1) by (simp_all add: fq_str_def lists_ok_def)
  have a: "distinct (active ?a) \<and> set (active ?a) = set (active st) \<and> r \<in> set (active st)"
    using d(1) assms(2) by (cases l) (auto simp: active_def fq_flows_add_tail_def taken_def)
  have b: "active ?b = active st"
    using assms(2) by (cases l) (simp_all add: active_def fq_flows_add_head_def taken_def)
  show "fq_str H ?a"
    by (rule fq_str_place [OF assms(1,2) f, where f' = f'])
       (use d(2,3) a assms(2,3) in \<open>cases l; simp add: fq_flows_add_tail_def taken_def\<close>)+
  show "fq_str H ?b"
    by (rule fq_str_place [OF assms(1,2) f, where f' = f'])
       (use d a assms(2,3) in \<open>(simp add: b; fail) | (cases l; simp add: fq_flows_add_head_def taken_def)\<close>)+
qed

lemma fq_str_detach:
  assumes "fq_str H st" "get_list l st = r # rs" "flow_ok (flow_plimit (q st)) True False False f'"
  shows "fq_str H (set_flow r f' (taken l rs st))" (is "fq_str H ?a")
proof -
  obtain f where f: "flows st r = Some f" using fq_str_front [OF assms(1,2)] by blast
  have d: "distinct (active st)" "new_flow_cnt (q st) = of_nat (length (fq_new_flows st))"
      "old_flow_cnt (q st) = of_nat (length (fq_old_flows st))"
    using assms(1) by (simp_all add: fq_str_def lists_ok_def)
  have a: "distinct (active ?a) \<and> set (active ?a) = set (active st) - {r} \<and> r \<in> set (active st)"
    using d(1) assms(2) by (cases l) (auto simp: active_def taken_def)
  show ?thesis
    by (rule fq_str_place [OF assms(1,2) f, where f' = f'])
       (use d(2,3) a assms(2,3) in \<open>cases l; simp add: taken_def\<close>)+
qed

lemma delayed_ok_other:
  assumes "delayed_ok st" "r \<notin> set (fq_delayed st)" "fq_delayed st' = fq_delayed st" "flows st' = (flows st)(r := x)"
    "time_next_delayed_flow (q st') = time_next_delayed_flow (q st)"
  shows "delayed_ok st' \<and> woken now st' = woken now st"
  using assms by (auto simp: delayed_ok_def woken_def tnp_of_def)

text \<open>It is throttled: it enters the tree at the place of its time.\<close>

lemma rb_flow_add:
  assumes "fq_kernel_ok K" "sorted (map (tnp_of h) l)" "\<And>x. x \<in> set (r # l) \<Longrightarrow> h x \<noteq> None"
  shows "mset (rbtree_add_flow K (fn_time_next_packet_less h) r l) = add_mset r (mset l)"
    "sorted (map (tnp_of h) (rbtree_add_flow K (fn_time_next_packet_less h) r l))"
proof -
  have "fn_time_next_packet_less h a b = (tnp_of h a < tnp_of h b)" if "a \<in> set (r # l)" "b \<in> set (r # l)" for a b
    using assms(3) [OF that(1)] assms(3) [OF that(2)] by (auto simp: fn_time_next_packet_less_def tnp_of_def)
  from rb_okD [OF fq_kernel_okD(2) [OF assms(1)] this assms(2)]
  show "mset (rbtree_add_flow K (fn_time_next_packet_less h) r l) = add_mset r (mset l)"
    "sorted (map (tnp_of h) (rbtree_add_flow K (fn_time_next_packet_less h) r l))" by blast+
qed

lemma fq_throttle_ok:
  assumes "fq_kernel_ok K" "fq_str H st" "delayed_ok st" "get_list l st = r # rs" "flows st r = Some f"
  obtains st' where "fq_flow_set_throttled K r (set_flow r (f\<lparr>time_next_packet := t\<rparr>) (taken l rs st)) = Some st'"
    "fq_str H st'" "delayed_ok st'" "deq_kept st st'" "queues_of (flows st') = queues_of (flows st)"
    "\<And>now. now < t \<Longrightarrow> woken now st \<Longrightarrow> woken now st'"
proof -
  obtain g where g: "flows st r = Some g" "stashed (fq_nonprio_flows st) r" "r \<notin> set (fq_delayed st)"
    "flow_ok (flow_plimit (q st)) True True False g" using fq_str_front [OF assms(2,4)] by blast
  then have fo: "flow_ok (flow_plimit (q st)) True True False f" using assms(5) by simp
  define f' where "f' = f\<lparr>time_next_packet := t, age := - 1\<rparr>"
  define h where "h = (flows st)(r := Some f')"
  define dl where "dl = rbtree_add_flow K (fn_time_next_packet_less h) r (fq_delayed st)"
  define tnd where "tnd = (if time_next_delayed_flow (q st) > t then t else time_next_delayed_flow (q st))"
  define s1 where "s1 = taken l rs st"
  define st' where "st' = s1\<lparr>flows := h, q := (q s1)\<lparr>time_next_delayed_flow := tnd\<rparr>, fq_delayed := dl\<rparr>"
  have e: "fq_flow_set_throttled K r (set_flow r (f\<lparr>time_next_packet := t\<rparr>) (taken l rs st)) = Some st'"
    by (simp add: fq_flow_set_throttled_def Let_def st'_def s1_def h_def f'_def tnd_def dl_def set_flow_def)
  have l: "distinct (active st @ fq_delayed st)" "sorted (map (tnp_of (flows st)) (fq_delayed st))"
      "new_flow_cnt (q st) = of_nat (length (fq_new_flows st))" "old_flow_cnt (q st) = of_nat (length (fq_old_flows st))"
    using assms(2) by (simp_all add: fq_str_def lists_ok_def)
  have "flows st x \<noteq> None" if "x \<in> set (fq_delayed st)" for x
    using fq_str_flow [OF assms(2), of x] fq_str_member [OF assms(2), of x] that by auto
  then have ne: "h x \<noteq> None" if "x \<in> set (r # fq_delayed st)" for x using that by (cases "x = r") (auto simp: h_def)
  have "sorted (map (tnp_of h) (fq_delayed st))" using l(2) unfolding h_def tnp_other [OF g(3)] by simp
  from rb_flow_add [OF assms(1) this ne]
  have m: "mset dl = add_mset r (mset (fq_delayed st))" and so: "sorted (map (tnp_of h) dl)"
    unfolding dl_def by blast+
  have sd: "set dl = insert r (set (fq_delayed st))" using arg_cong [OF m, of set_mset] by simp
  have "distinct (r # fq_delayed st)" using l(1) g(3) by auto
  then have dd: "distinct dl" using m by (metis mset.simps(2) mset_eq_imp_distinct_iff)
  have act: "distinct (active st') \<and> set (active st') = set (active st) - {r} \<and> r \<in> set (active st)"
    using l(1) assms(4) by (cases l) (auto simp: active_def taken_def st'_def s1_def)
  have "fq_str H st'"
  proof (rule fq_str_move [OF assms(2) g(1,2)])
    show "flows st' = (flows st)(r := Some f')" by (simp add: st'_def h_def)
    show "flow_ok (flow_plimit (q st)) True (r \<in> set (active st')) (r \<in> set (fq_delayed st')) f'"
      using fo act sd by (simp add: flow_ok_def f'_def st'_def)
    show "distinct (active st' @ fq_delayed st')" using act dd sd l(1) by (auto simp: st'_def)
    show "sorted (map (tnp_of (flows st')) (fq_delayed st'))" using so by (simp add: st'_def)
    show "new_flow_cnt (q st') = of_nat (length (fq_new_flows st'))" "old_flow_cnt (q st') = of_nat (length (fq_old_flows st'))"
      using l(3,4) assms(4) by (cases l; simp add: st'_def s1_def taken_def)+
  qed (use act sd in \<open>auto simp: st'_def s1_def\<close>)
  moreover have "delayed_ok st'"
    using assms(3) sd by (auto simp: delayed_ok_def st'_def tnd_def tnp_of_def h_def f'_def intro: order_trans less_imp_le)
  moreover have "woken now st'" if "now < t" "woken now st" for now
    using that sd by (auto simp: woken_def st'_def tnd_def tnp_of_def h_def f'_def)
  moreover have "deq_kept st st'" by (simp add: deq_kept_def st'_def s1_def)
  moreover have "queues_of (flows st') = queues_of (flows st)"
    using queues_of_same [of "flows st" r f f'] assms(5) by (simp add: st'_def h_def f'_def)
  ultimately show ?thesis using that e by blast
qed

section \<open>The loop\<close>

text \<open>A round or a sequence of rounds took \<open>p\<close>: the head of the queue of one normal flow, and it was due.\<close>

definition took :: "u64 \<Rightarrow> sk_buff option \<Rightarrow> 'w fq_state \<Rightarrow> 'w fq_state \<Rightarrow> bool" where
  "took now p st st' \<longleftrightarrow>
     (case p of
        None \<Rightarrow> queues_of (flows st') = queues_of (flows st)
      | Some pk \<Rightarrow> \<exists>r n rest. stashed (fq_nonprio_flows st) r \<and> queues_of (flows st) r = Some (n # rest) \<and>
          node_skb n = Some pk \<and> node_tstamp n \<le> now \<and> queues_of (flows st') = (queues_of (flows st))(r := Some rest))"

definition round_ok :: "u64 \<Rightarrow> sk_buff option \<Rightarrow> 'w fq_state \<Rightarrow> 'w fq_state \<Rightarrow> bool" where
  "round_ok now p st st' \<longleftrightarrow> fq_str {} st' \<and> delayed_ok st' \<and> deq_kept st st' \<and> took now p st st' \<and>
     (woken now st \<longrightarrow> woken now st')"

lemma flow_send:
  assumes "flow_ok pl True True False f" "queue f = n # rest" "node_skb n = Some p"
  shows "flow_ok pl True True False (f\<lparr>queue := rest, credit := c, flow_qlen := flow_qlen f - 1\<rparr>)"
proof -
  have l: "unat (flow_qlen f) = Suc (length rest)" using assms(1,2) by (simp add: flow_ok_def)
  note u = unat_pred [OF l]
  have "flow_qlen f - 1 \<le> pl" using assms(1) l u by (simp add: flow_ok_def word_le_nat_alt)
  then show ?thesis using assms(1,2) u by (auto simp: flow_ok_def)
qed

lemma fq_serve_rotate:
  assumes "fq_str {} st" "delayed_ok st" "get_list l st = r # rs" "flows st r = Some f" "queue f = []"
    and "l = NewFlows" "\<not> fq_flows_is_empty OldFlows (taken l rs st)"
  shows "\<exists>st'. fq_serve_flow K l r c (taken l rs st) = Some (None, c, st') \<and> round_ok (ctx_now c) None st st'"
proof -
  obtain g where f: "flows st r = Some g" "r \<notin> set (fq_delayed st)" "flow_ok (flow_plimit (q st)) True True False g"
    using fq_str_front [OF assms(1,3)] by blast
  then have fo: "flow_ok (flow_plimit (q st)) True True False f" using assms(4) by simp
  let ?t = "fq_flows_add_tail OldFlows r (taken l rs st)"
  have "set_flow r f (taken l rs st) = taken l rs st"
    using assms(4) by (cases l) (simp_all add: set_flow_def taken_def fun_upd_idem)
  then have "fq_str {} ?t" using fq_str_relist(1) [OF assms(1,3) fo] by simp
  moreover have "delayed_ok ?t \<and> woken (ctx_now c) ?t = woken (ctx_now c) st"
    by (rule delayed_ok_other [OF assms(2) f(2), where x = "Some f"]) (simp_all add: assms(4) fun_upd_idem)
  ultimately have "round_ok (ctx_now c) None st ?t" by (simp add: round_ok_def deq_kept_def took_def)
  then show ?thesis using assms(4-7) by (simp add: fq_serve_flow_def)
qed

lemma fq_serve_detach:
  assumes "fq_kernel_ok K" "fq_str {} st" "delayed_ok st" "get_list l st = r # rs" "flows st r = Some f" "queue f = []"
    and "\<not> (l = NewFlows \<and> \<not> fq_flows_is_empty OldFlows (taken l rs st))"
  shows "\<exists>st'. fq_serve_flow K l r c (taken l rs st) = Some (None, c, st') \<and> round_ok (ctx_now c) None st st'"
proof -
  obtain g where f: "flows st r = Some g" "r \<notin> set (fq_delayed st)" "flow_ok (flow_plimit (q st)) True True False g"
    using fq_str_front [OF assms(2,4)] by blast
  then have fo: "flow_ok (flow_plimit (q st)) True True False f" using assms(5) by simp
  obtain j w where j: "bpf_jiffies64 K (world st) = (j, w)" by fastforce
  then have jn: "j \<noteq> 0" "j \<noteq> - 1" using fq_kernel_okD(6) [OF assms(1)] by blast+
  define f' where "f' = f\<lparr>age := j, refcount := refcount f - 1\<rparr>"
  let ?t = "(set_flow r f' (taken l rs st))\<lparr>world := w\<rparr>"
  have "flow_ok (flow_plimit (q st)) True False False f'" using fo assms(6) jn by (simp add: flow_ok_def f'_def)
  then have "fq_str {} ?t" using fq_str_detach [OF assms(2,4)] by simp
  moreover have "delayed_ok ?t \<and> woken (ctx_now c) ?t = woken (ctx_now c) st"
    by (rule delayed_ok_other [OF assms(3) f(2), where x = "Some f'"]) simp_all
  moreover have "queues_of (flows ?t) = queues_of (flows st)"
    using queues_of_same [of "flows st" r f f'] assms(5) by (simp add: f'_def)
  ultimately have "round_ok (ctx_now c) None st ?t" by (simp add: round_ok_def deq_kept_def took_def)
  moreover have "refcount f = 2" using fo by (simp add: flow_ok_def)
  then have "fq_serve_flow K l r c (taken l rs st) = Some (None, c, ?t)"
    using assms(5-7) j
    by (auto simp: fq_serve_flow_def fq_flow_set_detached_def bpf_obj_drop_def set_flow_def f'_def)
  ultimately show ?thesis by blast
qed

lemma fq_serve_send:
  assumes "fq_str {} st" "delayed_ok st" "get_list l st = r # rs" "flows st r = Some f" "queue f = n # rest"
    and "node_tstamp n \<le> ctx_now c" "time_next_packet f \<le> ctx_now c"
  shows "\<exists>pk st'. fq_serve_flow K l r c (taken l rs st) = Some (Some pk, c\<lparr>stop_iter := True\<rparr>, st') \<and>
    round_ok (ctx_now c) (Some pk) st st'"
proof -
  obtain g where f: "flows st r = Some g" "stashed (fq_nonprio_flows st) r" "r \<notin> set (fq_delayed st)"
    "flow_ok (flow_plimit (q st)) True True False g" using fq_str_front [OF assms(1,3)] by blast
  then have fo: "flow_ok (flow_plimit (q st)) True True False f" using assms(4) by simp
  obtain pk where pk: "node_skb n = Some pk" using fo assms(5) by (auto simp: flow_ok_def)
  define f' where "f' = f\<lparr>queue := rest, credit := credit f - cb_pkt_len pk, flow_qlen := flow_qlen f - 1\<rparr>"
  let ?t = "fq_flows_add_head l r (set_flow r f' (taken l rs st))"
  have "fq_serve_flow K l r c (taken l rs st) = Some (Some pk, c\<lparr>stop_iter := True\<rparr>, ?t)"
    using assms(4-7) pk by (simp add: fq_serve_flow_def f'_def Let_def not_less [symmetric])
  moreover have "took (ctx_now c) (Some pk) st ?t"
  proof -
    have "queues_of (flows st) r = Some (n # rest)" using assms(4,5) by (simp add: queues_of_def)
    moreover have "queues_of (flows ?t) = (queues_of (flows st))(r := Some rest)" by (simp add: f'_def)
    ultimately show ?thesis using f(2) pk assms(6) unfolding took_def option.case by blast
  qed
  moreover have "fq_str {} ?t"
    using fq_str_relist(2) [OF assms(1,3) flow_send [OF fo assms(5) pk]] by (simp add: f'_def)
  moreover have "delayed_ok ?t \<and> woken (ctx_now c) ?t = woken (ctx_now c) st"
    by (rule delayed_ok_other [OF assms(2) f(3), where x = "Some f'"]) simp_all
  ultimately show ?thesis by (auto simp: round_ok_def deq_kept_def)
qed

lemma fq_serve_flow_ok:
  assumes "fq_kernel_ok K" "fq_str {} st" "delayed_ok st" "get_list l st = r # rs"
  obtains p c' st' where "fq_serve_flow K l r c (taken l rs st) = Some (p, c', st')" "round_ok (ctx_now c) p st st'"
    "ctx_now c' = ctx_now c" "stop_iter c' \<longleftrightarrow> stop_iter c \<or> p \<noteq> None" "expire c' = expire c"
proof -
  obtain f where f: "flows st r = Some f" using fq_str_front [OF assms(2,4)] by blast
  show ?thesis
  proof (cases "queue f")
    case Nil
    have "\<exists>st'. fq_serve_flow K l r c (taken l rs st) = Some (None, c, st') \<and> round_ok (ctx_now c) None st st'"
      using fq_serve_rotate [OF assms(2-4) f Nil] fq_serve_detach [OF assms f Nil] by blast
    then show ?thesis using that by fastforce
  next
    case (Cons n rest)
    define t where "t = (if node_tstamp n > time_next_packet f then node_tstamp n else time_next_packet f)"
    show ?thesis
    proof (cases "ctx_now c < t")
      case True
      obtain st' where "fq_flow_set_throttled K r (set_flow r (f\<lparr>time_next_packet := t\<rparr>) (taken l rs st)) = Some st'"
        "fq_str {} st'" "delayed_ok st'" "deq_kept st st'" "queues_of (flows st') = queues_of (flows st)"
        "\<And>now. now < t \<Longrightarrow> woken now st \<Longrightarrow> woken now st'"
        by (rule fq_throttle_ok [OF assms f]) blast
      then show ?thesis using that [of None c st'] True f Cons
        by (simp add: fq_serve_flow_def round_ok_def took_def t_def Let_def)
    next
      case False
      then have "node_tstamp n \<le> ctx_now c" "time_next_packet f \<le> ctx_now c" by (auto simp: t_def split: if_split_asm)
      from fq_serve_send [OF assms(2-4) f Cons this, of K] obtain pk st' where
        "fq_serve_flow K l r c (taken l rs st) = Some (Some pk, c\<lparr>stop_iter := True\<rparr>, st')" "round_ok (ctx_now c) (Some pk) st st'"
        by blast
      then show ?thesis using that by simp
    qed
  qed
qed

text \<open>A flow without credit gets its quantum and goes to the end of the old flows.\<close>

lemma fq_refill_ok:
  assumes "fq_str {} st" "delayed_ok st" "get_list l st = r # rs"
    and "flows st r = Some f" "r \<notin> set (fq_delayed st)" "flow_ok (flow_plimit (q st)) True True False f"
  shows "round_ok now None st (fq_flows_add_tail OldFlows r
    (set_flow r (f\<lparr>credit := credit f + quantum (q st)\<rparr>) (taken l rs st)))"
proof -
  define f' where "f' = f\<lparr>credit := credit f + quantum (q st)\<rparr>"
  let ?t = "fq_flows_add_tail OldFlows r (set_flow r f' (taken l rs st))"
  have "flow_ok (flow_plimit (q st)) True True False f'" using assms(6) by (simp add: flow_ok_def f'_def)
  then have "fq_str {} ?t" using fq_str_relist(1) [OF assms(1,3)] by blast
  moreover have "delayed_ok ?t \<and> woken now ?t = woken now st"
    by (rule delayed_ok_other [OF assms(2,5), where x = "Some f'"]) simp_all
  moreover have "queues_of (flows ?t) = queues_of (flows st)"
    using queues_of_same [of "flows st" r f f'] assms(4) by (simp add: f'_def)
  ultimately have "round_ok now None st ?t" by (simp add: round_ok_def deq_kept_def took_def)
  then show ?thesis by (simp add: f'_def)
qed

lemma fq_round_eq:
  assumes "\<not> (new_flow_cnt (q st) = 0 \<and> old_flow_cnt (q st) = 0)"
    and "get_list (if new_flow_cnt (q st) \<noteq> 0 then NewFlows else OldFlows) st = r # rs" "flows st r = Some f"
  shows "fq_dequeue_nonprio_flows K c st =
    (let l = if new_flow_cnt (q st) \<noteq> 0 then NewFlows else OldFlows
     in if sint (credit f) \<le> 0
        then Some (None, c, fq_flows_add_tail OldFlows r
               (set_flow r (f\<lparr>credit := credit f + quantum (q st)\<rparr>) (taken l rs st)))
        else fq_serve_flow K l r c (taken l rs st))"
proof -
  define l where "l = (if new_flow_cnt (q st) \<noteq> 0 then NewFlows else OldFlows)"
  have "fq_flows_remove_front l st = (Some r, taken l rs st)"
    using assms(2) by (simp add: fq_flows_remove_front_def taken_def l_def)
  then show ?thesis
    unfolding fq_dequeue_nonprio_flows_def if_not_P [OF assms(1)] l_def [symmetric] Let_def using assms(3) by simp
qed

lemma fq_round_ok:
  assumes "fq_kernel_ok K" "fq_str {} st" "delayed_ok st" "\<not> stop_iter c"
  obtains p c' st' where "fq_dequeue_nonprio_flows K c st = Some (p, c', st')" "round_ok (ctx_now c) p st st'"
    "ctx_now c' = ctx_now c" "p \<noteq> None \<Longrightarrow> stop_iter c'"
    "stop_iter c' \<Longrightarrow> p = None \<Longrightarrow> active st' = [] \<and>
       expire c' = (if time_next_delayed_flow (q st') \<noteq> - 1 then time_next_delayed_flow (q st') else expire c)"
    "\<not> stop_iter c' \<Longrightarrow> expire c' = expire c"
proof -
  have len: "length (fq_new_flows st) \<le> 1048576" "length (fq_old_flows st) \<le> 1048576"
    using fq_str_lengths [OF assms(2)] by auto
  have z: "new_flow_cnt (q st) = 0 \<longleftrightarrow> fq_new_flows st = []" "old_flow_cnt (q st) = 0 \<longleftrightarrow> fq_old_flows st = []"
    using assms(2) of_nat_eq_0 [OF len(1)] of_nat_eq_0 [OF len(2)] by (simp_all add: fq_str_def lists_ok_def)
  show ?thesis
  proof (cases "fq_new_flows st = [] \<and> fq_old_flows st = []")
    case True
    let ?c = "(if time_next_delayed_flow (q st) \<noteq> - 1 then c\<lparr>expire := time_next_delayed_flow (q st)\<rparr> else c)\<lparr>stop_iter := True\<rparr>"
    have "fq_dequeue_nonprio_flows K c st = Some (None, ?c, st)"
      using True z by (simp add: fq_dequeue_nonprio_flows_def)
    then show ?thesis using that [of None ?c st] assms(2,3) True
      by (simp add: round_ok_def took_def active_def)
  next
    case False
    define l where "l = (if new_flow_cnt (q st) \<noteq> 0 then NewFlows else OldFlows)"
    obtain r rs where l: "get_list l st = r # rs"
      using False z by (cases "fq_new_flows st"; cases "fq_old_flows st") (auto simp: l_def)
    obtain f where f: "flows st r = Some f" "r \<notin> set (fq_delayed st)" "flow_ok (flow_plimit (q st)) True True False f"
      using fq_str_front [OF assms(2) l] by blast
    have e: "fq_dequeue_nonprio_flows K c st =
        (if sint (credit f) \<le> 0
         then Some (None, c, fq_flows_add_tail OldFlows r
                (set_flow r (f\<lparr>credit := credit f + quantum (q st)\<rparr>) (taken l rs st)))
         else fq_serve_flow K l r c (taken l rs st))"
      unfolding l_def using fq_round_eq [OF _ l [unfolded l_def] f(1)] False z by (simp add: Let_def)
    show ?thesis
    proof (cases "sint (credit f) \<le> 0")
      case True
      then show ?thesis using that [OF _ fq_refill_ok [OF assms(2,3) l f]] e assms(4) by simp
    next
      case False
      obtain p c' st' where s: "fq_serve_flow K l r c (taken l rs st) = Some (p, c', st')" "round_ok (ctx_now c) p st st'"
        "ctx_now c' = ctx_now c" "stop_iter c' \<longleftrightarrow> stop_iter c \<or> p \<noteq> None" "expire c' = expire c"
        by (rule fq_serve_flow_ok [OF assms(1-3) l])
      then show ?thesis using that [of p c' st'] e False assms(4) by simp
    qed
  qed
qed

lemma took_after:
  assumes "queues_of (flows st1) = queues_of (flows st)" "deq_kept st st1" "took now p st1 st2"
  shows "took now p st st2"
  using assms unfolding took_def deq_kept_def by (cases p) auto

text \<open>
  The loop. If it ends without a packet before its rounds are used up, the lists are empty and the
  timer is that of the first throttled flow.
\<close>

lemma dequeue_loop_ok:
  assumes "fq_kernel_ok K" "fq_str {} st" "delayed_ok st" "\<not> stop_iter c" "p0 = None"
  shows "\<exists>p c' st'. dequeue_loop K n p0 c st = Some (p, c', st') \<and> round_ok (ctx_now c) p st st' \<and>
    (stop_iter c' \<longrightarrow> p = None \<longrightarrow> active st' = [] \<and>
       expire c' = (if time_next_delayed_flow (q st') \<noteq> - 1 then time_next_delayed_flow (q st') else expire c))"
  using assms
proof (induction n arbitrary: st c p0)
  case 0
  then show ?case by (simp add: round_ok_def took_def)
next
  case (Suc n)
  obtain p1 c1 st1 where r: "fq_dequeue_nonprio_flows K c st = Some (p1, c1, st1)" "round_ok (ctx_now c) p1 st st1"
    "ctx_now c1 = ctx_now c" "p1 \<noteq> None \<Longrightarrow> stop_iter c1"
    "stop_iter c1 \<Longrightarrow> p1 = None \<Longrightarrow> active st1 = [] \<and>
       expire c1 = (if time_next_delayed_flow (q st1) \<noteq> - 1 then time_next_delayed_flow (q st1) else expire c)"
    "\<not> stop_iter c1 \<Longrightarrow> expire c1 = expire c"
    by (rule fq_round_ok [OF Suc.prems(1-4)]) blast
  show ?case
  proof (cases "stop_iter c1")
    case True
    then show ?thesis using r by auto
  next
    case False
    then have n: "p1 = None" using r(4) by blast
    have s1: "fq_str {} st1" "delayed_ok st1" and k: "deq_kept st st1" and q: "queues_of (flows st1) = queues_of (flows st)"
      using r(2) n by (simp_all add: round_ok_def took_def)
    from Suc.IH [OF Suc.prems(1) s1 False n] obtain p c' st' where i: "dequeue_loop K n p1 c1 st1 = Some (p, c', st')"
      "round_ok (ctx_now c) p st1 st'" "stop_iter c' \<longrightarrow> p = None \<longrightarrow> active st' = [] \<and>
         expire c' = (if time_next_delayed_flow (q st') \<noteq> - 1 then time_next_delayed_flow (q st') else expire c)"
      using r(3) r(6) [OF False] by auto
    have "round_ok (ctx_now c) p st st'"
      using i(2) r(2) k q took_after [OF q k] deq_kept_trans [OF k] by (auto simp: round_ok_def)
    then show ?thesis using i r(1) False by auto
  qed
qed

section \<open>The whole dequeue\<close>

text \<open>The sums after the head of one queue was taken.\<close>

lemma took_sums:
  assumes "finite (dom (flows st))" "queues_of (flows st) r = Some (n # rest)" "node_skb n = Some p"
    "queues_of (flows st') = (queues_of (flows st))(r := Some rest)"
  shows "fq_ids st = add_mset (skb_id p) (fq_ids st') \<and> fq_bytes st = fq_bytes st' + cb_pkt_len p"
proof -
  obtain f where f: "flows st r = Some f" "queue f = n # rest" using assms(2) by (auto simp: queues_of_def)
  let ?s = "set_flow r (f\<lparr>queue := rest\<rparr>) st"
  have "queues_of (flows st') = queues_of (flows ?s)" using assms(4) by simp
  then have "fq_ids st' = fq_ids ?s" "fq_bytes st' = fq_bytes ?s" by (rule fq_ids_queues)+
  moreover note fq_ids_set_flow [OF assms(1), of ?s r "f\<lparr>queue := rest\<rparr>"]
  ultimately show ?thesis using f assms(3) by (simp add: flow_ids_def flow_bytes_def algebra_simps)
qed

lemma fq_hand_out_ok:
  assumes "fq_inv st" "fq_str {} st'" "delayed_ok st'" "sch st' = sch st" "fq_prio_flows st' = fq_prio_flows st"
    "fq_ids st = add_mset (skb_id p) (fq_ids st')" "fq_bytes st = fq_bytes st' + cb_pkt_len p"
    and h: "fq_hand_out K p st' = (p', st'')"
  shows "p' = Some p \<and> fq_inv st'' \<and> fq_ids st'' = fq_ids st' \<and> flows st'' = flows st'"
proof -
  have l: "unat (qlen (sch st)) = Suc (size (fq_ids st'))" using assms(1,6) by (simp add: fq_inv_def fq_acct_def)
  note u = unat_pred [OF l]
  have le: "qlen (sch st) - 1 \<le> limit (sch st)"
    using assms(1) l u by (simp add: fq_inv_def fq_acct_def word_le_nat_alt)
  define s1 where "s1 = (sch st')\<lparr>qlen := qlen (sch st') - 1, backlog := backlog (sch st') - cb_pkt_len p\<rparr>"
  have e: "p' = Some p" "st'' = st'\<lparr>sch := s1, world := bpf_qdisc_bstats_update K p (world st')\<rparr>"
    using h by (simp_all add: fq_hand_out_def s1_def)
  have "fq_str {} st''"
    using assms(2) unfolding e by (simp add: fq_str_def heap_ok_def maps_ok_def lists_ok_def active_def)
  moreover have "delayed_ok st''" using assms(3) unfolding e by (simp add: delayed_ok_def)
  moreover have ids: "fq_ids st'' = fq_ids st'" "fq_bytes st'' = fq_bytes st'" unfolding e by simp_all
  then have "fq_acct st''"
    using assms(1,4,7) u le by (simp add: fq_acct_def fq_inv_def) (simp add: e s1_def)
  ultimately show ?thesis using ids assms(1,5) by (simp add: fq_inv_def) (simp add: e)
qed

lemma fq_dequeue_prio_ok:
  assumes "fq_str {} st" "fq_prio_flows st 0 = Some (Some r)"
  obtains f where "flows st r = Some f" "fq_dequeue_prio st = Some
      (case queue f of [] \<Rightarrow> (None, st) | n # rest \<Rightarrow> (node_skb n, set_flow r (f\<lparr>queue := rest\<rparr>) st))"
    "\<And>n rest. queue f = n # rest \<Longrightarrow> node_skb n \<noteq> None \<and> fq_str {} (set_flow r (f\<lparr>queue := rest\<rparr>) st) \<and>
       tnp_of (flows (set_flow r (f\<lparr>queue := rest\<rparr>) st)) = tnp_of (flows st)"
proof -
  let ?np = "stashed (fq_nonprio_flows st) r"
  have s: "stashed (fq_prio_flows st) r" using assms(2) by (auto simp: stashed_def)
  then have np: "\<not> ?np" using assms(1) unfolding fq_str_def maps_ok_def by blast
  obtain f where f: "flows st r = Some f" "flow_ok (flow_plimit (q st)) ?np (r \<in> set (active st)) (r \<in> set (fq_delayed st)) f"
    using fq_str_flow [OF assms(1), of r] s by blast
  have bk: "bpf_kptr_xchg_back Prio 0 r (set_map Prio ((fq_prio_flows s1)(0 := Some None)) s1) = Some s1"
    if "fq_prio_flows s1 0 = Some (Some r)" for s1 :: "'a fq_state"
    using set_map_back [of Prio s1 0 r] that by simp
  have sf: "set_flow r g (st\<lparr>fq_prio_flows := m\<rparr>) = (set_flow r g st)\<lparr>fq_prio_flows := m\<rparr>" for g m
    by (simp add: set_flow_def)
  have "fq_dequeue_prio st = Some
      (case queue f of [] \<Rightarrow> (None, st) | n # rest \<Rightarrow> (node_skb n, set_flow r (f\<lparr>queue := rest\<rparr>) st))"
    using assms(2) f(1) bk [of st] bk [of "set_flow r g st" for g]
    by (cases "queue f") (simp_all add: fq_dequeue_prio_def sf)
  moreover have "node_skb n \<noteq> None \<and> fq_str {} (set_flow r (f\<lparr>queue := rest\<rparr>) st) \<and>
       tnp_of (flows (set_flow r (f\<lparr>queue := rest\<rparr>) st)) = tnp_of (flows st)" if "queue f = n # rest" for n rest
    using fq_str_upd [OF assms(1) f(1), of "f\<lparr>queue := rest\<rparr>"] f(2) np that by (simp add: flow_ok_def)
  ultimately show ?thesis using that f(1) by blast
qed

text \<open>
  What a dequeue hands out: the head of the control queue, or the head of the queue of a normal flow
  if the control queue is empty and the packet is due.
\<close>

definition handed_out :: "u64 \<Rightarrow> sk_buff option \<Rightarrow> 'w fq_state \<Rightarrow> 'w fq_state \<Rightarrow> bool" where
  "handed_out now p st st' \<longleftrightarrow>
     (case p of
        None \<Rightarrow> queues_of (flows st') = queues_of (flows st)
      | Some pk \<Rightarrow> \<exists>c r n rest. fq_prio_flows st 0 = Some (Some c) \<and>
          (r = c \<or> stashed (fq_nonprio_flows st) r \<and> queues_of (flows st) c = Some [] \<and> node_tstamp n \<le> now) \<and>
          queues_of (flows st) r = Some (n # rest) \<and> node_skb n = Some pk \<and>
          queues_of (flows st') = (queues_of (flows st))(r := Some rest))"

lemma handed_out_sums:
  assumes "finite (dom (flows st))" "handed_out now (Some p) st st'"
  shows "fq_ids st = add_mset (skb_id p) (fq_ids st') \<and> fq_bytes st = fq_bytes st' + cb_pkt_len p"
  using assms(2) took_sums [OF assms(1)] unfolding handed_out_def option.case by blast

text \<open>The part after the control queue: waking flows and the rounds.\<close>

lemma fq_dequeue_normal:
  assumes "fq_kernel_ok K" "fq_inv st" "bpf_ktime_get_ns K (world st) = (now, w)"
  obtains s1 p c s2 where "fq_check_throttled now (read_clock K st) = Some s1"
    "dequeue_loop K (nat (sint (limit (sch st)))) None \<lparr>stop_iter = False, expire = 0, ctx_now = now\<rparr> s1 = Some (p, c, s2)"
    "sch s1 = sch st" "fq_str {} s2" "delayed_ok s2" "deq_kept st s2" "took now p st s2"
    "now \<noteq> - 1 \<Longrightarrow> woken now s2"
    "stop_iter c \<Longrightarrow> p = None \<Longrightarrow> active s2 = [] \<and>
       expire c = (if time_next_delayed_flow (q s2) \<noteq> - 1 then time_next_delayed_flow (q s2) else 0)"
proof -
  let ?s = "st\<lparr>q := (q st)\<lparr>ktime_cache := now\<rparr>, world := w\<rparr>"
  let ?c = "\<lparr>stop_iter = False, expire = 0, ctx_now = now\<rparr>"
  have rc: "read_clock K st = ?s" using assms(3) by (simp add: read_clock_def)
  have "fq_str {} ?s" "delayed_ok ?s"
    using assms(2) by (simp_all add: fq_inv_def fq_str_def heap_ok_def maps_ok_def lists_ok_def active_def delayed_ok_def)
  then obtain s1 where s1: "fq_check_throttled now ?s = Some s1" "fq_str {} s1" "delayed_ok s1" "deq_kept ?s s1"
    "queues_of (flows s1) = queues_of (flows ?s)" "now \<noteq> - 1 \<Longrightarrow> woken now s1"
    by (rule fq_check_throttled_ok) blast
  have k: "deq_kept st s1" "sch s1 = sch st" "queues_of (flows s1) = queues_of (flows st)" using s1(4,5) by (simp_all add: deq_kept_def)
  obtain p c s2 where l: "dequeue_loop K (nat (sint (limit (sch st)))) None ?c s1 = Some (p, c, s2)" "round_ok now p s1 s2"
    "stop_iter c \<longrightarrow> p = None \<longrightarrow> active s2 = [] \<and>
       expire c = (if time_next_delayed_flow (q s2) \<noteq> - 1 then time_next_delayed_flow (q s2) else 0)"
    using dequeue_loop_ok [OF assms(1) s1(2,3), of ?c None "nat (sint (limit (sch st)))"] by auto
  show ?thesis
    using that [of s1 p c s2] rc s1(1,6) l k(2) took_after [OF k(3,1)] deq_kept_trans [OF k(1)]
    by (simp add: round_ok_def)
qed

lemma fq_hand_out_finishes:
  assumes "fq_inv st" "finite (dom (flows st))"
    and "fq_str {} s" "delayed_ok s" "sch s = sch st" "fq_prio_flows s = fq_prio_flows st" "handed_out now (Some p) st s"
  shows "\<exists>p' st'. Some (fq_hand_out K p s) = Some (p', st') \<and> fq_inv st' \<and> handed_out now p' st st'"
proof -
  obtain p' st' where h: "fq_hand_out K p s = (p', st')" by fastforce
  have "p' = Some p \<and> fq_inv st' \<and> fq_ids st' = fq_ids s \<and> flows st' = flows s"
    using fq_hand_out_ok [OF assms(1,3-6) _ _ h] handed_out_sums [OF assms(2,7)] by blast
  then show ?thesis using h assms(7) by (simp add: handed_out_def)
qed

lemma bpf_fq_dequeue_ok:
  assumes "fq_kernel_ok K" "fq_inv st"
  shows "\<exists>p st'. bpf_fq_dequeue K st = Some (p, st') \<and> fq_inv st' \<and>
    handed_out (fst (bpf_ktime_get_ns K (world st))) p st st'"
proof (cases "qlen (sch st) = 0")
  case True
  then show ?thesis using assms(2) by (simp add: bpf_fq_dequeue_def handed_out_def)
next
  case False
  obtain r where r: "fq_prio_flows st 0 = Some (Some r)" using assms(2) by (auto simp: fq_inv_def)
  have str: "fq_str {} st" "delayed_ok st" using assms(2) by (simp_all add: fq_inv_def)
  note fin = fq_str_finite [OF str(1)]
  obtain f where f: "flows st r = Some f" and d: "fq_dequeue_prio st = Some
      (case queue f of [] \<Rightarrow> (None, st) | n # rest \<Rightarrow> (node_skb n, set_flow r (f\<lparr>queue := rest\<rparr>) st))"
    and pr: "\<And>n rest. queue f = n # rest \<Longrightarrow> node_skb n \<noteq> None \<and> fq_str {} (set_flow r (f\<lparr>queue := rest\<rparr>) st) \<and>
       tnp_of (flows (set_flow r (f\<lparr>queue := rest\<rparr>) st)) = tnp_of (flows st)"
    by (rule fq_dequeue_prio_ok [OF str(1) r]) blast
  obtain now w where t: "bpf_ktime_get_ns K (world st) = (now, w)" by fastforce
  note fin' = fq_hand_out_finishes [OF assms(2) fin]
  have "\<exists>p st'. bpf_fq_dequeue K st = Some (p, st') \<and> fq_inv st' \<and> handed_out now p st st'"
  proof (cases "queue f")
    case (Cons n rest)
    let ?s = "set_flow r (f\<lparr>queue := rest\<rparr>) st"
    obtain p where p: "node_skb n = Some p" using pr [OF Cons] by blast
    have h: "handed_out now (Some p) st ?s" using r f Cons p by (auto simp: handed_out_def queues_of_def)
    have "delayed_ok ?s" using pr [OF Cons] str(2) by (simp add: delayed_ok_def)
    from fin' [OF _ this _ _ h] show ?thesis using pr [OF Cons] False d Cons p by (simp add: bpf_fq_dequeue_def)
  next
    case Nil
    obtain s1 p c s2 where l: "fq_check_throttled now (read_clock K st) = Some s1"
      "dequeue_loop K (nat (sint (limit (sch st)))) None \<lparr>stop_iter = False, expire = 0, ctx_now = now\<rparr> s1 = Some (p, c, s2)"
      "sch s1 = sch st" "fq_str {} s2" "delayed_ok s2" "deq_kept st s2" "took now p st s2"
      by (rule fq_dequeue_normal [OF assms t])
    have "ktime_cache (q (read_clock K st)) = now" using t by (simp add: read_clock_def)
    then have e: "bpf_fq_dequeue K st = (case p of
        None \<Rightarrow> Some (None, if expire c \<noteq> 0 then s2\<lparr>world := bpf_qdisc_watchdog_schedule K (expire c)
          (ucast (timer_slack (q s2))) (world s2)\<rparr> else s2)
      | Some p \<Rightarrow> Some (fq_hand_out K p s2))"
      using False d Nil l(1-3) by (simp add: bpf_fq_dequeue_def Let_def)
    have k: "sch s2 = sch st" "fq_prio_flows s2 = fq_prio_flows st" using l(6) by (simp_all add: deq_kept_def)
    have "queues_of (flows st) r = Some []" using f Nil by (simp add: queues_of_def)
    then have h: "handed_out now p st s2" using l(7) r unfolding handed_out_def took_def by (cases p) auto
    show ?thesis
    proof (cases p)
      case None
      have "fq_inv s2"
        using assms(2) l(4,5) k fq_ids_queues [of s2 st] h None by (simp add: fq_inv_def fq_acct_def handed_out_def)
      then show ?thesis using e None h by (auto simp: handed_out_def)
    next
      case (Some pk)
      then show ?thesis using fin' [OF l(4,5) k, of now pk] e h by simp
    qed
  qed
  then show ?thesis using t by simp
qed

end
