(* ===== verification/Fq_Props.thy ===== *)
theory Fq_Props
  imports Fq_Dequeue
begin

text \<open>
  The properties of the fair queue: it is a queueing discipline in the sense of the contract, packets
  are not released early, waiting packets are not forgotten, accepted packets are queued in order,
  control packets pass at once; and the state a reset leaves behind.
\<close>

section \<open>The contract\<close>

interpretation fq: qdisc "\<lambda>st. fq_kernel_ok K \<and> fq_inv st" skb_id fq_ids "bpf_fq_enqueue K" "bpf_fq_dequeue K"
  for K :: "'w fq_kernel"
proof (unfold_locales, goal_cases)
  case (1 st p)
  then show ?case using bpf_fq_enqueue_ok [of K st p] by blast
next
  case (2 st)
  then obtain p st' where d: "bpf_fq_dequeue K st = Some (p, st')" "fq_inv st'"
    "handed_out (fst (bpf_ktime_get_ns K (world st))) p st st'"
    using bpf_fq_dequeue_ok [of K st] by blast
  have "finite (dom (flows st))" using 2 by (auto simp: fq_inv_def intro: fq_str_finite)
  then have "case p of None \<Rightarrow> fq_ids st' = fq_ids st | Some pk \<Rightarrow> fq_ids st = add_mset (skb_id pk) (fq_ids st')"
    using d(3) handed_out_sums [of st _ _ st'] fq_ids_queues(1) [of st' st]
    by (cases p) (auto simp: handed_out_def)
  then show ?case using 2 d(1,2) by blast
qed

section \<open>Initialisation\<close>

text \<open>The state before the first \<^verbatim>\<open>init\<close>: maps and lists are empty and the configuration is zero.\<close>

definition fq_blank :: "'w fq_state \<Rightarrow> bool" where
  "fq_blank st \<longleftrightarrow> fq_nonprio_flows st = (\<lambda>_. None) \<and> fq_prio_flows st = (\<lambda>_. None) \<and> flows st = (\<lambda>_. None) \<and>
     fq_delayed st = [] \<and> fq_new_flows st = [] \<and> fq_old_flows st = [] \<and> flow_plimit (q st) = 0 \<and>
     new_flow_cnt (q st) = 0 \<and> old_flow_cnt (q st) = 0 \<and> qlen (sch st) = 0 \<and> backlog (sch st) = 0"

lemma flow_ok_plimit: "flow_ok pl np act thr f \<Longrightarrow> pl \<le> pl' \<Longrightarrow> flow_ok pl' np act thr f"
  by (auto simp: flow_ok_def)

lemma fq_init_ok:
  assumes "fq_kernel_ok K" "fq_blank st"
  obtains ret st' where "bpf_fq_init K st = Some (ret, st')"
    "ret = - ENOMEM \<or> ret = 0 \<and> fq_inv st' \<and> fq_ids st' = {#} \<and> limit (sch st') = 10000"
proof -
  have str: "fq_str {} st"
    using assms(2) by (auto simp: fq_blank_def fq_str_def heap_ok_def maps_ok_def lists_ok_def active_def stashed_def)
  have k: "get_map Prio st 0 = None" "fq_nonprio_flows st 0 = None" using assms(2) by (simp_all add: fq_blank_def)
  obtain e s1 where n: "fq_new_flow K Prio 0 st = Some (e, s1)" "fq_str {} s1" "same_queues st s1"
    "sint e < 0 \<or> e = 0 \<and> (\<exists>r f. get_map Prio s1 0 = Some (Some r) \<and> flows s1 r = Some f \<and> queue f = [])"
    by (rule fq_new_flow_ok [OF assms(1) str k]) blast
  show ?thesis
  proof (cases "sint e < 0")
    case True
    then show ?thesis using that n(1) by (simp add: bpf_fq_init_def)
  next
    case False
    then have p: "\<exists>r. fq_prio_flows s1 0 = Some (Some r)" using n(4) by auto
    have bl: "fq_ids s1 = {#}" "fq_bytes s1 = 0" "q s1 = q st" "sch s1 = sch st" "active s1 = []" "fq_delayed s1 = []"
      using n(3) assms(2) by (simp_all add: same_queues_def fq_blank_def fq_ids_def fq_bytes_def active_def)
    obtain st' where i: "bpf_fq_init K st = Some (0, st')" and
      s: "fq_nonprio_flows st' = fq_nonprio_flows s1" "fq_prio_flows st' = fq_prio_flows s1" "flows st' = flows s1"
        "fq_new_flows st' = fq_new_flows s1" "fq_old_flows st' = fq_old_flows s1" "fq_delayed st' = fq_delayed s1"
        "sch st' = (sch s1)\<lparr>limit := 10000\<rparr>" "flow_plimit (q st') = 100" "new_flow_cnt (q st') = 0" "old_flow_cnt (q st') = 0"
      using n(1) False by (auto simp: bpf_fq_init_def)
    have "flow_plimit (q s1) \<le> 100" using bl(3) assms(2) by (simp add: fq_blank_def)
    then have "heap_ok st'"
      using n(2) flow_ok_plimit [of "flow_plimit (q s1)" _ _ _ _ 100] by (simp add: fq_str_def heap_ok_def s active_def)
    moreover have "maps_ok {} st'" using n(2) by (simp add: fq_str_def maps_ok_def s)
    moreover have "lists_ok st'" using bl(5,6) by (simp add: lists_ok_def s active_def)
    ultimately have "fq_inv st'"
      using bl p assms(2) fq_ids_same [of st' s1]
      by (simp add: fq_inv_def fq_str_def delayed_ok_def fq_acct_def s fq_blank_def)
    then show ?thesis using that i fq_ids_same [of st' s1] bl(1) s by simp
  qed
qed

section \<open>Acceptance\<close>

lemma fq_ids_ne:
  assumes "fq_str H st" "flows st r = Some f" "queue f \<noteq> []"
  shows "fq_ids st \<noteq> {#}"
proof -
  have "flow_ids f \<noteq> {#}" using assms(3) by (simp add: flow_ids_def)
  moreover have "fq_ids st = flow_ids f + (\<Sum>x \<in> dom (flows st) - {r}. flow_ids (the (flows st x)))"
    unfolding fq_ids_def using sum.remove [OF fq_str_finite [OF assms(1)], of r "\<lambda>x. flow_ids (the (flows st x))"] assms(2)
    by (simp add: domI)
  ultimately show ?thesis by simp
qed

text \<open>The flow after \<^verbatim>\<open>bpf_fq_enqueue\<close> has decided on it, whatever the detached state was.\<close>

lemma fq_accept_flow:
  assumes "fq_kernel_ok K" "fq_inv st" "get_map m st k = Some (Some r)" "flows st r = Some f"
    and ret: "ret = CLS_RET_PRIO \<and> m = Prio \<or> ret = CLS_RET_NONPRIO \<and> m = Nonprio"
    and pl: "m = Nonprio \<Longrightarrow> flow_qlen f < flow_plimit (q st)"
    and node: "\<And>w. fst (skb_node_new K w)"
    and s0: "s0 = set_map m ((get_map m st)(k := Some None)) st"
    and n: "n = \<lparr>node_tstamp = t, node_skb = Some (p\<lparr>skb_tstamp := t\<rparr>)\<rparr>"
  shows "\<exists>st'. (if ret = CLS_RET_NONPRIO
       then do {
         f \<leftarrow> flows s0 r;
         if flow_qlen f \<ge> flow_plimit (q s0)
         then do { st \<leftarrow> bpf_kptr_xchg_back m k r s0; Some (fq_drop K p st) }
         else do { st \<leftarrow> fq_attach K r s0; fq_insert K p t m k r st }
       }
       else fq_insert K p t m k r s0) = Some (NET_XMIT_SUCCESS, st') \<and>
    queues_of (flows st') = (queues_of (flows st))(r := Some (rbtree_add_skb K skbn_tstamp_less n (queue f))) \<and>
    sch st' = (sch st)\<lparr>backlog := backlog (sch st) + cb_pkt_len p, qlen := qlen (sch st) + 1\<rparr> \<and>
    fq_nonprio_flows st' = fq_nonprio_flows st \<and> fq_prio_flows st' = fq_prio_flows st"
proof -
  have ins: "\<exists>st'. fq_insert K p t m k r (set_map m ((get_map m s)(k := Some None)) s) = Some (NET_XMIT_SUCCESS, st') \<and>
      queues_of (flows st') = (queues_of (flows s))(r := Some (rbtree_add_skb K skbn_tstamp_less n (queue g))) \<and>
      sch st' = (sch s)\<lparr>backlog := backlog (sch s) + cb_pkt_len p, qlen := qlen (sch s) + 1\<rparr> \<and>
      fq_nonprio_flows st' = fq_nonprio_flows s \<and> fq_prio_flows st' = fq_prio_flows s"
    if "get_map m s k = Some (Some r)" "flows s r = Some g" for s :: "'a fq_state" and g
  proof -
    obtain w where w: "skb_node_new K (world s) = (True, w)" using node [of "world s"] by (metis prod.collapse)
    show ?thesis using fq_insert_eq [OF that w, of p t] by (simp add: Let_def n)
  qed
  show ?thesis
  proof (cases m)
    case Prio
    then show ?thesis using ret ins [OF assms(3,4)] s0 by (auto simp: cls_rets)
  next
    case Nonprio
    have str: "fq_str {} st" and s: "stashed (fq_nonprio_flows st) r"
      using assms(2,3) Nonprio by (auto simp: fq_inv_def stashed_def)
    obtain st1 g f1 where a: "fq_attach K r st = Some st1" "flows st r = Some g" "flows st1 = (flows st)(r := Some f1)"
      "queue f1 = queue g" "fq_nonprio_flows st1 = fq_nonprio_flows st" "fq_prio_flows st1 = fq_prio_flows st" "sch st1 = sch st"
      by (rule fq_attach_ok [where K = K, OF str s]) blast
    have mp: "get_map m st1 = get_map m st" using a(5,6) by (cases m) simp_all
    have at: "fq_attach K r s0 = Some (set_map m ((get_map m st1)(k := Some None)) st1)"
      unfolding s0 fq_attach_set_map a(1) by (simp add: mp)
    have g: "get_map m st1 k = Some (Some r)" "flows st1 r = Some f1" using mp assms(3) a(3) by simp_all
    have q: "queues_of (flows st1) = queues_of (flows st)" using a(3,4) queues_of_same [of "flows st" r g f1] a(2) by simp
    have "flows s0 r = Some f" "q s0 = q st" using assms(4) by (simp_all add: s0)
    moreover have "\<not> flow_qlen f \<ge> flow_plimit (q st)" using pl Nonprio by simp
    moreover have "queue f1 = queue f" using a(2,4) assms(4) by simp
    ultimately show ?thesis using ins [OF g] ret Nonprio at q a(5-7) by (auto simp: cls_rets)
  qed
qed

lemma fq_enqueue_eq:
  assumes "qlen (sch st) < limit (sch st)" "fq_time_to_send K p st = (Some (t, p'), st1)"
    "fq_classify K p' st1 = Some (ret, (m, k), st2)" "ret \<noteq> CLS_RET_ERR" "get_map m st2 k = Some (Some r)"
    and s0: "s0 = set_map m ((get_map m st2)(k := Some None)) st2"
  shows "bpf_fq_enqueue K p st = (if ret = CLS_RET_NONPRIO
       then do {
         f \<leftarrow> flows s0 r;
         if flow_qlen f \<ge> flow_plimit (q s0)
         then do { st \<leftarrow> bpf_kptr_xchg_back m k r s0; Some (fq_drop K p' st) }
         else do { st \<leftarrow> fq_attach K r s0; fq_insert K p' t m k r st }
       }
       else fq_insert K p' t m k r s0)"
proof -
  have "\<not> limit (sch st) \<le> qlen (sch st)" using assms(1) by simp
  then show ?thesis using assms(2-5) unfolding s0 by (simp add: bpf_fq_enqueue_def Let_def)
qed

section \<open>Properties\<close>

text \<open>
  C10. The fair queue is memory safe and loses nothing. Once \<^verbatim>\<open>bpf_fq_init\<close> has succeeded, every sequence
  of enqueue and dequeue calls runs without an access to a freed flow, and the accepted packets are
  the packets handed out and the packets still queued, each once. The packet counter is exact and
  never exceeds the limit. Garbage collection, throttling and the reference counts of the flows are
  part of the run.
\<close>

theorem fq_conserves:
  assumes "fq_kernel_ok K" "fq_blank st" "bpf_fq_init K st = Some (0, st0)"
  shows "\<exists>acc outs t. qdisc_run (bpf_fq_enqueue K) (bpf_fq_dequeue K) ops st0 = Some (acc, outs, t) \<and>
    image_mset skb_id (mset acc) = image_mset skb_id (mset outs) + fq_ids t \<and>
    unat (qlen (sch t)) = size (fq_ids t) \<and> qlen (sch t) \<le> limit (sch t) \<and> backlog (sch t) = fq_bytes t"
proof -
  have ne: "(0 :: i32) \<noteq> - ENOMEM" by (simp add: ENOMEM_def)
  obtain ret st' where "bpf_fq_init K st = Some (ret, st')"
    "ret = - ENOMEM \<or> ret = 0 \<and> fq_inv st' \<and> fq_ids st' = {#} \<and> limit (sch st') = 10000"
    by (rule fq_init_ok [OF assms(1,2)])
  then have i: "fq_inv st0" "fq_ids st0 = {#}" using assms(3) ne by auto
  obtain acc outs t where r: "qdisc_run (bpf_fq_enqueue K) (bpf_fq_dequeue K) ops st0 = Some (acc, outs, t)"
    "fq_inv t" "fq_ids st0 + image_mset skb_id (mset acc) = fq_ids t + image_mset skb_id (mset outs)"
    using fq.run_conserves [of K st0 ops] assms(1) i(1) by blast
  have "fq_acct t" using r(2) by (simp add: fq_inv_def)
  then show ?thesis using r i(2) by (simp add: fq_acct_def add.commute)
qed

text \<open>
  C11. No packet is released early. A dequeue hands out the first control packet if there is one;
  otherwise the packet it hands out was the first of the queue of a normal flow, its time stamp is
  not after the clock reading of this call and not after that of any other packet of its flow. All
  other packets stay where they are.
\<close>

theorem fq_no_early_release:
  assumes "fq_kernel_ok K" "fq_inv st" "bpf_fq_dequeue K st = Some (Some p, st')"
    "fq_prio_flows st 0 = Some (Some c)" "queues_of (flows st) c = Some cq"
  shows "if cq \<noteq> [] then node_skb (hd cq) = Some p \<and> queues_of (flows st') = (queues_of (flows st))(c := Some (tl cq))
    else \<exists>r n rest. stashed (fq_nonprio_flows st) r \<and> queues_of (flows st) r = Some (n # rest) \<and> node_skb n = Some p \<and>
      node_tstamp n \<le> fst (bpf_ktime_get_ns K (world st)) \<and> (\<forall>n' \<in> set rest. node_tstamp n \<le> node_tstamp n') \<and>
      queues_of (flows st') = (queues_of (flows st))(r := Some rest)"
proof -
  have so: "sorted (map node_tstamp l)" if "queues_of (flows st) r = Some l" for r l
    using assms(2) that by (auto simp: queues_of_def fq_inv_def fq_str_def heap_ok_def flow_ok_def)
  have "handed_out (fst (bpf_ktime_get_ns K (world st))) (Some p) st st'"
    using bpf_fq_dequeue_ok [OF assms(1,2)] assms(3) by auto
  then obtain r n rest where
    h: "r = c \<or> stashed (fq_nonprio_flows st) r \<and> queues_of (flows st) c = Some [] \<and> node_tstamp n \<le> fst (bpf_ktime_get_ns K (world st))"
      "queues_of (flows st) r = Some (n # rest)" "node_skb n = Some p" "queues_of (flows st') = (queues_of (flows st))(r := Some rest)"
    using assms(4) unfolding handed_out_def option.case by auto
  show ?thesis
  proof (cases "cq = []")
    case True
    then have "r \<noteq> c" using h(2) assms(5) by auto
    then show ?thesis using h so [OF h(2)] True by auto
  next
    case False
    then have "r = c" using h(1) assms(5) by auto
    then show ?thesis using h(2-4) assms(5) False by simp
  qed
qed


text \<open>
  C24. Acceptance. A packet is accepted if the qdisc is below its limit, its time stamp is acceptable,
  its flow exists or can be created, the flow is below the limit per flow (control packets have
  none), and a node can be allocated. It is then in the queue of its flow at its time to send, the
  queue is still ordered by time, all other queues are as they were, and the counters are increased.
\<close>

theorem fq_accept:
  assumes "fq_kernel_ok K" "fq_inv st" "qlen (sch st) < limit (sch st)" "fq_time_to_send K p st = (Some (t, p'), st1)"
    and cls: "fq_classify K p' st1 = Some (ret, (m, k), st2)" "ret \<noteq> CLS_RET_ERR"
    and flow: "get_map m st2 k = Some (Some r)" "flows st2 r = Some f" "m = Nonprio \<longrightarrow> flow_qlen f < flow_plimit (q st2)"
    and node: "\<forall>w. fst (skb_node_new K w)"
  shows "\<exists>st' l. bpf_fq_enqueue K p st = Some (NET_XMIT_SUCCESS, st') \<and> fq_inv st' \<and>
    queues_of (flows st') = (queues_of (flows st2))(r := Some l) \<and> sorted (map node_tstamp l) \<and>
    mset l = add_mset \<lparr>node_tstamp = t, node_skb = Some (p'\<lparr>skb_tstamp := t\<rparr>)\<rparr> (mset (queue f)) \<and>
    qlen (sch st') = qlen (sch st) + 1 \<and> backlog (sch st') = backlog (sch st) + cb_pkt_len p'"
proof -
  note fr = fq_time_to_send_frame [OF assms(4)]
  then have i1: "fq_inv st1" using assms(2) by simp
  obtain ret' m' k' st2' where c: "fq_classify K p' st1 = Some (ret', (m', k'), st2')" "fq_inv st2'" "same_queues st1 st2'"
    "ret' = CLS_RET_ERR \<or> ret' = CLS_RET_PRIO \<and> m' = Prio \<or> ret' = CLS_RET_NONPRIO \<and> m' = Nonprio"
    by (rule fq_classify_ok [OF assms(1) i1])
  then have i2: "fq_inv st2" and rm: "ret = CLS_RET_PRIO \<and> m = Prio \<or> ret = CLS_RET_NONPRIO \<and> m = Nonprio"
    and sc: "sch st2 = sch st" using cls fr by (auto simp: same_queues_def)
  let ?n = "\<lparr>node_tstamp = t, node_skb = Some (p'\<lparr>skb_tstamp := t\<rparr>)\<rparr>"
  have pl: "m = Nonprio \<Longrightarrow> flow_qlen f < flow_plimit (q st2)" and nd: "\<And>w. fst (skb_node_new K w)"
    using flow(3) node by auto
  note eq = fq_enqueue_eq [OF assms(3,4) cls flow(1) refl]
  obtain st' where e: "bpf_fq_enqueue K p st = Some (NET_XMIT_SUCCESS, st')"
      "queues_of (flows st') = (queues_of (flows st2))(r := Some (rbtree_add_skb K skbn_tstamp_less ?n (queue f)))"
      "sch st' = (sch st2)\<lparr>backlog := backlog (sch st2) + cb_pkt_len p', qlen := qlen (sch st2) + 1\<rparr>"
    using fq_accept_flow [OF assms(1) i2 flow(1,2) rm pl nd refl refl, of p' t] unfolding eq by blast
  have "sorted (map node_tstamp (queue f))"
    using i2 flow(2) by (auto simp: fq_inv_def fq_str_def heap_ok_def flow_ok_def)
  note rb = kernel_rb_skb [OF assms(1) this, of ?n]
  have "fq_inv st'" using bpf_fq_enqueue_ok [OF assms(1,2), of p] e(1) by auto
  then show ?thesis using e rb sc by (intro exI [of _ st'] exI) auto
qed

text \<open>
  C30. A control packet passes through at once: if it is accepted into an empty control queue, the
  next dequeue hands it out, whatever other packets wait, and the queues are then as they were.
\<close>

theorem fq_control_roundtrip:
  assumes "fq_kernel_ok K" "fq_inv st" "skb_priority p AND TC_PRIO_MAX = TC_PRIO_CONTROL"
    "fq_prio_flows st 0 = Some (Some c)" "queues_of (flows st) c = Some []"
    "bpf_fq_enqueue K p st = Some (NET_XMIT_SUCCESS, st1)"
  shows "\<exists>t st2. bpf_fq_dequeue K st1 = Some (Some (p\<lparr>skb_tstamp := t\<rparr>), st2) \<and> fq_inv st2 \<and>
    queues_of (flows st2) = queues_of (flows st)"
proof -
  have ne: "NET_XMIT_DROP \<noteq> NET_XMIT_SUCCESS" by (simp add: NET_XMIT_DROP_def NET_XMIT_SUCCESS_def)
  have nd: "Some (fq_drop K p' s) \<noteq> Some (NET_XMIT_SUCCESS, st1)" for p' s using ne by (simp add: fq_drop_def)
  have lim: "qlen (sch st) < limit (sch st)"
    using assms(6) nd by (cases "limit (sch st) \<le> qlen (sch st)") (auto simp: bpf_fq_enqueue_def)
  obtain tp s1 where tp: "fq_time_to_send K p st = (tp, s1)" by fastforce
  have "\<not> limit (sch st) \<le> qlen (sch st)" using lim by simp
  then obtain t p' where tp': "tp = Some (t, p')" using assms(6) nd tp by (cases tp) (auto simp: bpf_fq_enqueue_def)
  note fr = fq_time_to_send_frame [OF tp [unfolded tp']]
  have p': "\<exists>x. p' = p\<lparr>skb_tstamp := x\<rparr>"
    using tp tp' by (auto simp: fq_time_to_send_def Let_def split: if_split_asm intro: exI [of _ "skb_tstamp p"])
  have mp: "get_map Prio s1 0 = Some (Some c)" "fq_prio_flows s1 0 = Some (Some c)" using fr assms(4) by (metis get_map.simps(2))+
  have cl: "fq_classify K p' s1 = Some (CLS_RET_PRIO, (Prio, 0), s1)"
    using assms(3) p' mp(2) by (auto simp: fq_classify_def)
  have "fq_inv s1" using fr assms(2) by simp
  have fl: "flows s1 = flows st" using tp by (auto simp: fq_time_to_send_def Let_def split: if_split_asm)
  obtain f where f: "flows st c = Some f" "queue f = []" using assms(5) by (auto simp: queues_of_def)
  have ins: "fq_insert K p' t Prio 0 c (set_map Prio ((get_map Prio s1)(0 := Some None)) s1) = Some (NET_XMIT_SUCCESS, st1)"
    using fq_enqueue_eq [OF lim tp [unfolded tp'] cl _ mp(1) refl] assms(6) by (simp add: cls_rets)
  obtain ok w where nw: "skb_node_new K (world s1) = (ok, w)" by fastforce
  let ?n = "\<lparr>node_tstamp = t, node_skb = Some (p'\<lparr>skb_tstamp := t\<rparr>)\<rparr>"
  have "ok" using ins nd nw fq_insert_eq [OF mp(1) _ nw, of f p' t] fl f(1) by (cases ok) (simp, simp, blast)
  then have q1: "queues_of (flows st1) = (queues_of (flows st))(c := Some (rbtree_add_skb K skbn_tstamp_less ?n []))"
      "fq_prio_flows st1 0 = Some (Some c)"
    using ins nw fq_insert_eq [OF mp(1) _ nw, of f p' t] fl f mp(2) by (auto simp: Let_def)
  have "mset (rbtree_add_skb K skbn_tstamp_less ?n []) = {#?n#}" using kernel_rb_skb(1) [OF assms(1), of "[]" ?n] by simp
  then have one: "rbtree_add_skb K skbn_tstamp_less ?n [] = [?n]" by simp
  have i1: "fq_inv st1" using bpf_fq_enqueue_ok [OF assms(1,2), of p] assms(6) by auto
  obtain r st2 where d: "bpf_fq_dequeue K st1 = Some (r, st2)" "fq_inv st2"
    "handed_out (fst (bpf_ktime_get_ns K (world st1))) r st1 st2" using bpf_fq_dequeue_ok [OF assms(1) i1] by blast
  have qc: "queues_of (flows st1) c = Some [?n]" using q1(1) one by simp
  have "r = Some (p'\<lparr>skb_tstamp := t\<rparr>)"
  proof -
    have "fq_str {} st1" "fq_acct st1" using i1 by (simp_all add: fq_inv_def)
    obtain g where g: "flows st1 c = Some g" "fq_dequeue_prio st1 = Some
      (case queue g of [] \<Rightarrow> (None, st1) | n # rest \<Rightarrow> (node_skb n, set_flow c (g\<lparr>queue := rest\<rparr>) st1))"
      by (rule fq_dequeue_prio_ok [OF \<open>fq_str {} st1\<close> q1(2)])
    have "queue g = [?n]" using g(1) qc by (simp add: queues_of_def)
    moreover have "qlen (sch st1) \<noteq> 0"
      using fq_ids_ne [OF \<open>fq_str {} st1\<close> g(1)] \<open>queue g = [?n]\<close> \<open>fq_acct st1\<close> by (auto simp: fq_acct_def)
    ultimately show ?thesis using d(1) g(2) by (simp add: bpf_fq_dequeue_def fq_hand_out_def)
  qed
  moreover have "queues_of (flows st2) = queues_of (flows st)"
    using d(3) calculation q1 qc one assms(5) unfolding handed_out_def by (auto simp: fun_upd_idem_iff)
  ultimately show ?thesis using d p' by auto
qed

end
