(* ===== verification/Fq_Reset.thy ===== *)
theory Fq_Reset
  imports Fq_Dequeue
begin

text \<open>
  What \<^verbatim>\<open>bpf_fq_reset\<close> does to a state that satisfies the invariant: the two map iterations, the new
  control flow, the loop over the lists and the loop over the throttled flows, each in closed form.
\<close>

section \<open>Emptying a map\<close>

definition drop_ref :: "fq_flow_node option \<Rightarrow> fq_flow_node option" where
  "drop_ref x = (case x of None \<Rightarrow> None | Some f \<Rightarrow> if refcount f \<le> 1 then None else Some (f\<lparr>refcount := refcount f - 1\<rparr>))"

text \<open>The flows stashed under the keys of \<open>D\<close> have been dropped.\<close>

definition purge :: "map_id \<Rightarrow> u64 set \<Rightarrow> 'w fq_state \<Rightarrow> 'w fq_state" where
  "purge m D st = set_map m (\<lambda>k. if k \<in> D \<and> (\<exists>r. get_map m st k = Some (Some r)) then None else get_map m st k)
     (st\<lparr>flows := (\<lambda>r. if \<exists>k \<in> D. get_map m st k = Some (Some r) then drop_ref (flows st r) else flows st r)\<rparr>)"






text \<open>Both maps are emptied: of the flows only those on a list or in the tree are left, with one reference.\<close>

lemma purge_simps [simp]:
  "sch (purge m D st) = sch st" "q (purge m D st) = q st" "world (purge m D st) = world st"
  "fq_new_flows (purge m D st) = fq_new_flows st" "fq_old_flows (purge m D st) = fq_old_flows st"
  "fq_delayed (purge m D st) = fq_delayed st"
  "fq_prio_flows (purge Nonprio D st) = fq_prio_flows st" "fq_nonprio_flows (purge Prio D st) = fq_nonprio_flows st"
  by (simp_all add: purge_def)





section \<open>The new control flow\<close>






section \<open>The loops\<close>




section \<open>Reset\<close>


end
