(* ===== verification/Fq_Examples.thy ===== *)
theory Fq_Examples
  imports Fq_Props Fq_Reset
begin

text \<open>
  A concrete kernel for the fair queue, a run on it, and the properties at that run. The world holds
  the next address of the allocator and the clock.
\<close>

section \<open>A kernel\<close>

fun rb_ins :: "('a \<Rightarrow> 'a \<Rightarrow> bool) \<Rightarrow> 'a \<Rightarrow> 'a list \<Rightarrow> 'a list" where
  "rb_ins lt n [] = [n]"
| "rb_ins lt n (x # xs) = (if lt n x then n # x # xs else x # rb_ins lt n xs)"

lemma mset_rb_ins: "mset (rb_ins lt n l) = add_mset n (mset l)"
  by (induction l) auto

lemma set_rb_ins: "set (rb_ins lt n l) = insert n (set l)"
  using arg_cong [OF mset_rb_ins, of set_mset lt n l] by simp

lemma sorted_rb_ins:
  "(\<forall>a \<in> set (n # l). \<forall>b \<in> set (n # l). lt a b = (key a < (key b :: u64))) \<Longrightarrow> sorted (map key l) \<Longrightarrow>
     sorted (map key (rb_ins lt n l))"
proof (induction l)
  case (Cons x xs)
  have "sorted (map key (rb_ins lt n xs))" using Cons by simp
  moreover have "lt n x = (key n < key x)" using Cons.prems(1) by simp
  ultimately show ?case using Cons.prems(2) by (auto simp: set_rb_ins)
qed simp

lemma rb_ok_ins: "rb_ok rb_ins"
  unfolding rb_ok_def by (intro allI impI conjI mset_rb_ins) (rule sorted_rb_ins)

record fq_world =
  next_addr :: nat
  clock :: u64
  watchdog :: "u64 option"

definition sample_kernel :: "fq_world fq_kernel" where
  "sample_kernel = \<lparr>
     flow_obj_new = (\<lambda>h w. if h (next_addr w) = None then (Some (next_addr w), w\<lparr>next_addr := next_addr w + 1\<rparr>) else (None, w)),
     skb_node_new = (\<lambda>w. (True, w)),
     map_update_ret = (\<lambda>m k w. (if m k \<noteq> None \<or> card (dom m) < unat NUM_QUEUE then 0 else - E2BIG, w)),
     map_order = (\<lambda>m w. sorted_list_of_set (dom m)),
     rbtree_add_skb = rb_ins, rbtree_add_flow = rb_ins,
     bpf_skb_get_hash = (\<lambda>p. 5),
     bpf_ktime_get_ns = (\<lambda>w. (clock w, w)), bpf_jiffies64 = (\<lambda>w. (1000, w)), CONFIG_HZ = 250,
     bpf_qdisc_skb_drop = (\<lambda>p w. w), bpf_qdisc_bstats_update = (\<lambda>p w. w),
     bpf_qdisc_watchdog_schedule = (\<lambda>t s w. w\<lparr>watchdog := Some t\<rparr>)\<rparr>"

lemma sample_kernel_ok: "fq_kernel_ok sample_kernel"
  unfolding fq_kernel_ok_def sample_kernel_def
  by (auto simp: rb_ok_ins E2BIG_def split: if_split_asm)

definition blank_fq :: "fq_world fq_state" where
  "blank_fq = \<lparr>fq_nonprio_flows = (\<lambda>_. None), fq_prio_flows = (\<lambda>_. None), flows = (\<lambda>_. None), fq_delayed = [],
     fq_new_flows = [], fq_old_flows = [],
     q = \<lparr>quantum = 0, initial_quantum = 0, flow_refill_delay = 0, flow_plimit = 0, horizon = 0, orphan_mask = 0,
       timer_slack = 0, time_next_delayed_flow = 0, unthrottle_latency_ns = 0, horizon_drop = 0, new_flow_cnt = 0,
       old_flow_cnt = 0, ktime_cache = 0\<rparr>,
     sch = \<lparr>qlen = 0, limit = 0, backlog = 0, drops = 0, dev_mtu = 1500, dev_hard_header_len = 14\<rparr>,
     world = \<lparr>next_addr = 0, clock = 100, watchdog = None\<rparr>\<rparr>"

lemma blank_fq: "fq_blank blank_fq"
  by (simp add: fq_blank_def blank_fq_def)

section \<open>A run\<close>

text \<open>After \<^verbatim>\<open>bpf_fq_init\<close>.\<close>

definition control_flow :: fq_flow_node where
  "control_flow = \<lparr>credit = 0, flow_qlen = 0, age = 1, time_next_packet = 0, queue = [], refcount = 1\<rparr>"

definition sample_conf :: fq_bpf_data where
  "sample_conf = \<lparr>quantum = 3028, initial_quantum = 15140, flow_refill_delay = 40, flow_plimit = 100,
     horizon = 10000000000, orphan_mask = 1023, timer_slack = 10000, time_next_delayed_flow = - 1,
     unthrottle_latency_ns = 0, horizon_drop = 1, new_flow_cnt = 0, old_flow_cnt = 0, ktime_cache = 0\<rparr>"

definition init_fq :: "fq_world fq_state" where
  "init_fq = blank_fq\<lparr>fq_prio_flows := (\<lambda>_. None)(0 := Some (Some 0)), flows := (\<lambda>_. None)(0 := Some control_flow),
     q := sample_conf, sch := (sch blank_fq)\<lparr>limit := 10000\<rparr>, world := (world blank_fq)\<lparr>next_addr := 1\<rparr>\<rparr>"

lemma sample_init: "bpf_fq_init sample_kernel blank_fq = Some (0, init_fq)"
  by (simp add: bpf_fq_init_def fq_new_flow_def sample_kernel_def blank_fq_def map_update_empty_def drop_stash_def
      bpf_kptr_xchg_back_def init_fq_def sample_conf_def control_flow_def NUM_QUEUE_def NSEC_PER_SEC_def NSEC_PER_USEC_def
      ENOMEM_def E2BIG_def set_flow_def)

text \<open>A packet for time 5000 is enqueued at time 100: its flow is created and made active.\<close>

definition late_packet :: sk_buff where
  "late_packet = \<lparr>skb_id = 7, skb_sk = None, skb_tstamp = 5000, skb_priority = 0, cb_pkt_len = 60\<rparr>"

definition late_node :: skb_node where
  "late_node = \<lparr>node_tstamp = 5000, node_skb = Some late_packet\<rparr>"

definition late_flow :: fq_flow_node where
  "late_flow = \<lparr>credit = 15140, flow_qlen = 1, age = 0, time_next_packet = 0, queue = [late_node], refcount = Suc (Suc 0)\<rparr>"

definition busy_fq :: "fq_world fq_state" where
  "busy_fq = init_fq\<lparr>fq_nonprio_flows := (\<lambda>_. None)(4294967301 := Some (Some 1)),
     flows := (flows init_fq)(1 := Some late_flow), fq_new_flows := [1], q := sample_conf\<lparr>new_flow_cnt := 1\<rparr>,
     sch := (sch init_fq)\<lparr>qlen := 1, backlog := 60\<rparr>, world := (world init_fq)\<lparr>next_addr := 2\<rparr>\<rparr>"

lemmas sample_defs = sample_kernel_def blank_fq_def init_fq_def control_flow_def sample_conf_def late_packet_def late_node_def
  late_flow_def busy_fq_def

lemma late_classify:
  "fq_classify sample_kernel late_packet init_fq = Some (CLS_RET_NONPRIO, (Nonprio, 4294967301),
     init_fq\<lparr>fq_nonprio_flows := (\<lambda>_. None)(4294967301 := Some (Some 1)),
       flows := (flows init_fq)(1 := Some (late_flow\<lparr>flow_qlen := 0, age := 1, queue := [], refcount := 1\<rparr>)),
       world := (world init_fq)\<lparr>next_addr := 2\<rparr>\<rparr>)"
  by (simp add: fq_classify_def fq_new_flow_def map_update_empty_def drop_stash_def bpf_kptr_xchg_back_def
      fq_hash_def TC_PRIO_MAX_def TC_PRIO_CONTROL_def NUM_QUEUE_def ENOMEM_def E2BIG_def sample_defs set_flow_def)

lemma sample_enqueue: "bpf_fq_enqueue sample_kernel late_packet init_fq = Some (NET_XMIT_SUCCESS, busy_fq)"
proof -
  have t: "fq_time_to_send sample_kernel late_packet init_fq = (Some (5000, late_packet), init_fq)"
    by (simp add: fq_time_to_send_def fq_packet_beyond_horizon_def sample_defs)
  have l: "qlen (sch init_fq) < limit (sch init_fq)" by (simp add: sample_defs)
  show ?thesis
    by (subst fq_enqueue_eq [OF l t late_classify _ _ refl, of 1])
       (simp_all add: cls_rets fq_attach_def fq_insert_def fq_flow_is_detached_def
        fq_flows_add_tail_def bpf_kptr_xchg_back_def drop_stash_def set_flow_def skbn_tstamp_less_def sample_defs)
qed

text \<open>A dequeue at time 100 finds it not due: the flow is throttled and the watchdog set.\<close>

definition throttled_fq :: "fq_world fq_state" where
  "throttled_fq = busy_fq\<lparr>flows := (flows init_fq)(1 := Some (late_flow\<lparr>age := - 1, time_next_packet := 5000\<rparr>)),
     fq_new_flows := [], fq_delayed := [1],
     q := sample_conf\<lparr>time_next_delayed_flow := 5000, ktime_cache := 100\<rparr>\<rparr>"

definition waiting_fq :: "fq_world fq_state" where
  "waiting_fq = throttled_fq\<lparr>world := (world throttled_fq)\<lparr>watchdog := Some 5000\<rparr>\<rparr>"

lemmas sample_defs' = sample_defs throttled_fq_def waiting_fq_def

lemma dequeue_loop_pos:
  "0 < n \<Longrightarrow> dequeue_loop K n p c st =
     (case fq_dequeue_nonprio_flows K c st of
        None \<Rightarrow> None
      | Some (p, c, st) \<Rightarrow> if stop_iter c then Some (p, c, st) else dequeue_loop K (n - 1) p c st)"
  by (cases n) (auto split: option.split)

lemma sample_rounds:
  "fq_check_throttled 100 (read_clock sample_kernel busy_fq) = Some (read_clock sample_kernel busy_fq)"
  "dequeue_loop sample_kernel (nat (sint (limit (sch busy_fq)))) None \<lparr>stop_iter = False, expire = 0, ctx_now = 100\<rparr>
     (read_clock sample_kernel busy_fq) = Some (None, \<lparr>stop_iter = True, expire = 5000, ctx_now = 100\<rparr>, throttled_fq)"
proof -
  show "fq_check_throttled 100 (read_clock sample_kernel busy_fq) = Some (read_clock sample_kernel busy_fq)"
    by (simp add: fq_check_throttled_def read_clock_def sample_defs)
  have 1: "fq_dequeue_nonprio_flows sample_kernel \<lparr>stop_iter = False, expire = 0, ctx_now = 100\<rparr> (read_clock sample_kernel busy_fq) =
      Some (None, \<lparr>stop_iter = False, expire = 0, ctx_now = 100\<rparr>, throttled_fq)"
    by (simp add: fq_dequeue_nonprio_flows_def fq_flows_remove_front_def fq_serve_flow_def fq_flow_set_throttled_def
        read_clock_def set_flow_def sample_defs')
  have 2: "fq_dequeue_nonprio_flows sample_kernel \<lparr>stop_iter = False, expire = 0, ctx_now = 100\<rparr> throttled_fq =
      Some (None, \<lparr>stop_iter = True, expire = 5000, ctx_now = 100\<rparr>, throttled_fq)"
    by (simp add: fq_dequeue_nonprio_flows_def sample_defs')
  have "nat (sint (limit (sch busy_fq))) = 10000" by (simp add: sample_defs)
  then show "dequeue_loop sample_kernel (nat (sint (limit (sch busy_fq)))) None \<lparr>stop_iter = False, expire = 0, ctx_now = 100\<rparr>
     (read_clock sample_kernel busy_fq) = Some (None, \<lparr>stop_iter = True, expire = 5000, ctx_now = 100\<rparr>, throttled_fq)"
    using 1 2 by (simp add: dequeue_loop_pos)
qed

lemma sample_dequeue: "bpf_fq_dequeue sample_kernel busy_fq = Some (None, waiting_fq)"
proof -
  have "fq_dequeue_prio busy_fq = Some (None, busy_fq)"
    by (simp add: fq_dequeue_prio_def bpf_kptr_xchg_back_def drop_stash_def sample_defs)
  moreover have "qlen (sch busy_fq) \<noteq> 0" "ktime_cache (q (read_clock sample_kernel busy_fq)) = 100"
    "sch (read_clock sample_kernel busy_fq) = sch busy_fq"
    by (simp_all add: read_clock_def sample_defs)
  moreover have "throttled_fq\<lparr>world := bpf_qdisc_watchdog_schedule sample_kernel 5000 x (world throttled_fq)\<rparr> = waiting_fq" for x
    by (simp add: sample_defs')
  ultimately show ?thesis using sample_rounds by (simp add: bpf_fq_dequeue_def)
qed

lemma sample_inv: "fq_inv init_fq" "fq_inv busy_fq" "fq_inv waiting_fq"
proof -
  show i: "fq_inv init_fq"
    using fq_init_ok [OF sample_kernel_ok blank_fq] sample_init by (auto simp: ENOMEM_def elim: meta_mp)
  then show b: "fq_inv busy_fq"
    using bpf_fq_enqueue_ok [OF sample_kernel_ok i, of late_packet] sample_enqueue by auto
  then show "fq_inv waiting_fq"
    using bpf_fq_dequeue_ok [OF sample_kernel_ok b] sample_dequeue by auto
qed

section \<open>The properties at the run\<close>

theorem fq_conserves_witness:
  "\<exists>acc outs t. qdisc_run (bpf_fq_enqueue sample_kernel) (bpf_fq_dequeue sample_kernel) [Enq late_packet, Deq, Enq late_packet] init_fq =
     Some (acc, outs, t) \<and> image_mset skb_id (mset acc) = image_mset skb_id (mset outs) + fq_ids t"
  using fq_conserves [OF sample_kernel_ok blank_fq sample_init] by blast

lemma busy_queues: "fq_prio_flows busy_fq 0 = Some (Some 0)" "queues_of (flows busy_fq) 0 = Some []" "qlen (sch busy_fq) \<noteq> 0"
  by (simp_all add: queues_of_def sample_defs)



theorem fq_accept_witness:
  "\<exists>st'. bpf_fq_enqueue sample_kernel late_packet init_fq = Some (NET_XMIT_SUCCESS, st') \<and> fq_inv st' \<and> qlen (sch st') = 1"
proof -
  have t: "fq_time_to_send sample_kernel late_packet init_fq = (Some (5000, late_packet), init_fq)"
    by (simp add: fq_time_to_send_def fq_packet_beyond_horizon_def sample_defs)
  have l: "qlen (sch init_fq) < limit (sch init_fq)" "qlen (sch init_fq) = 0" by (simp_all add: sample_defs)
  have ne: "CLS_RET_NONPRIO \<noteq> CLS_RET_ERR" and nd: "\<forall>w. fst (skb_node_new sample_kernel w)" and pl: "flow_plimit (q init_fq) = 100"
    by (simp_all add: cls_rets sample_defs)
  show ?thesis
    using fq_accept [OF sample_kernel_ok sample_inv(1) l(1) t late_classify ne _ _ _ nd, of 1
        "late_flow\<lparr>flow_qlen := 0, age := 1, queue := [], refcount := 1\<rparr>"] l(2) pl by auto
qed

text \<open>A control packet while the other flow waits.\<close>

definition control_packet :: sk_buff where
  "control_packet = \<lparr>skb_id = 8, skb_sk = None, skb_tstamp = 0, skb_priority = 7, cb_pkt_len = 40\<rparr>"

lemma waiting_queues: "fq_prio_flows waiting_fq 0 = Some (Some 0)" "queues_of (flows waiting_fq) 0 = Some []"
  by (simp_all add: queues_of_def sample_defs')

lemma control_enqueue: "\<exists>st1. bpf_fq_enqueue sample_kernel control_packet waiting_fq = Some (NET_XMIT_SUCCESS, st1)"
proof -
  have t: "fq_time_to_send sample_kernel control_packet waiting_fq = (Some (100, control_packet), waiting_fq)"
    by (simp add: fq_time_to_send_def read_clock_def control_packet_def sample_defs')
  have c: "fq_classify sample_kernel control_packet waiting_fq = Some (CLS_RET_PRIO, (Prio, 0), waiting_fq)"
    by (simp add: fq_classify_def control_packet_def TC_PRIO_MAX_def TC_PRIO_CONTROL_def sample_defs')
  have l: "qlen (sch waiting_fq) < limit (sch waiting_fq)" by (simp add: sample_defs')
  have g: "get_map Prio waiting_fq 0 = Some (Some 0)" "flows waiting_fq 0 = Some control_flow"
    "skb_node_new sample_kernel (world waiting_fq) = (True, world waiting_fq)" by (simp_all add: sample_defs')
  show ?thesis
    using fq_enqueue_eq [OF l t c _ g(1) refl] fq_insert_eq [OF g, of control_packet 100] by (simp add: cls_rets Let_def)
qed

theorem fq_control_roundtrip_witness:
  "\<exists>st1 t st2. bpf_fq_enqueue sample_kernel control_packet waiting_fq = Some (NET_XMIT_SUCCESS, st1) \<and>
     bpf_fq_dequeue sample_kernel st1 = Some (Some (control_packet\<lparr>skb_tstamp := t\<rparr>), st2) \<and>
     queues_of (flows st2) = queues_of (flows waiting_fq)"
proof -
  have "skb_priority control_packet AND TC_PRIO_MAX = TC_PRIO_CONTROL"
    by (simp add: control_packet_def TC_PRIO_MAX_def TC_PRIO_CONTROL_def)
  then show ?thesis
    using control_enqueue fq_control_roundtrip [OF sample_kernel_ok sample_inv(3) _ waiting_queues] by blast
qed

text \<open>At time 6000 the packet is due.\<close>

definition due_fq :: "fq_world fq_state" where
  "due_fq = busy_fq\<lparr>world := (world busy_fq)\<lparr>clock := 6000\<rparr>\<rparr>"

lemma due_dequeue: "\<exists>st'. bpf_fq_dequeue sample_kernel due_fq = Some (Some late_packet, st')"
proof -
  have p: "fq_dequeue_prio due_fq = Some (None, due_fq)"
    by (simp add: fq_dequeue_prio_def bpf_kptr_xchg_back_def drop_stash_def sample_defs due_fq_def)
  have k: "fq_check_throttled 6000 (read_clock sample_kernel due_fq) = Some (read_clock sample_kernel due_fq)"
    by (simp add: fq_check_throttled_def read_clock_def sample_defs due_fq_def)
  have "\<exists>st'. fq_dequeue_nonprio_flows sample_kernel \<lparr>stop_iter = False, expire = 0, ctx_now = 6000\<rparr> (read_clock sample_kernel due_fq) =
      Some (Some late_packet, \<lparr>stop_iter = True, expire = 0, ctx_now = 6000\<rparr>, st')"
    by (simp add: fq_dequeue_nonprio_flows_def fq_flows_remove_front_def fq_serve_flow_def
        read_clock_def set_flow_def sample_defs due_fq_def)
  moreover have "nat (sint (limit (sch due_fq))) = 10000" "qlen (sch due_fq) \<noteq> 0" "ktime_cache (q (read_clock sample_kernel due_fq)) = 6000"
    by (simp_all add: read_clock_def sample_defs due_fq_def)
  ultimately show ?thesis using p k
    by (auto simp: bpf_fq_dequeue_def dequeue_loop_pos fq_hand_out_def)
qed

theorem fq_no_early_release_witness:
  "\<exists>st' r n rest. bpf_fq_dequeue sample_kernel due_fq = Some (Some late_packet, st') \<and>
     queues_of (flows due_fq) r = Some (n # rest) \<and> node_skb n = Some late_packet \<and> node_tstamp n \<le> 6000"
proof -
  obtain st' where d: "bpf_fq_dequeue sample_kernel due_fq = Some (Some late_packet, st')" using due_dequeue by blast
  have i: "fq_inv due_fq" using sample_inv(2) by (simp add: due_fq_def)
  have f: "fq_prio_flows due_fq 0 = Some (Some 0)" "queues_of (flows due_fq) 0 = Some []"
    "fst (bpf_ktime_get_ns sample_kernel (world due_fq)) = 6000"
    using busy_queues by (simp_all add: due_fq_def sample_kernel_def)
  show ?thesis using fq_no_early_release [OF sample_kernel_ok i d f(1,2)] d f(3) by auto
qed

end
