(* ===== verification/Spec2Isabelle.thy ===== *)
theory Spec2Isabelle
  imports Equiv_Props Verifier_Sdiv Verifier_Subreg Verifier_Masking Verifier_Movsx
    Verifier_Div_Mod_Bounds Verifier_Xdp_Access Bpf_Cubic Bpf_Dctcp Xdp_Lb_Examples Qdisc_Fifo Fq_Examples
begin

text \<open>
  Verification of Rust translations of the kernel's BPF self-tests, and of the arithmetic core of the tool that
  checks such translations against the C originals.

  \<^bold>\<open>The program.\<close> The repository holds BPF programs (\<^verbatim>\<open>src/progs\<close>, one object file per source file), a small
  crate of declarations for them (\<^verbatim>\<open>src/bpf-rs-core\<close>), an equivalence checker that executes two objects
  symbolically (\<^verbatim>\<open>src/equiv\<close>), and scripts. The programs do not call each other; what they share is the
  kernel, which calls their entry points and which they call through helpers, maps and kernel functions.
  Throughout, the kernel is a parameter: a record of functions over a world \<open>'w\<close> that no model looks into,
  with its documented behaviour as named hypotheses. A \<open>None\<close> result is an access to memory that does not
  exist.

  \<^bold>\<open>Shared theories.\<close> \<open>Bpf_Prelude\<close>: machine integers and lemmas on words, lists and maps. \<open>Bpf_Packet\<close>: packets
  as byte lists with checked loads and stores, arrays and maps. \<open>Tcp_Cc\<close>: the socket fields and kernel
  functions of both congestion controls.

  \<^bold>\<open>Congestion control.\<close>
  \<^item> \<open>Cubic_Root\<close>, \<open>Bpf_Cubic\<close> (\<^verbatim>\<open>progs/bpf_cubic.rs\<close>): \<^verbatim>\<open>fls64\<close>, the table-based cube root with its error bounds, the
    growth function \<^verbatim>\<open>bictcp_update\<close> (its curve, the Reno estimate, that \<^verbatim>\<open>cnt\<close> never allows a zero divisor),
    HyStart, and every callback.
  \<^item> \<open>Bpf_Dctcp\<close> (\<^verbatim>\<open>progs/bpf_dctcp.rs\<close>): every callback; the moving average of marked bytes, its convergence, the
    bounds of the window reduction, and the acknowledgement state machine.

  \<^bold>\<open>Load balancer.\<close> \<open>Xdp_Lb\<close> is \<^verbatim>\<open>progs/xdp_lb_bench.rs\<close>: parsing, connection table, consistent hashing, encapsulation,
  statistics and the benchmark loop. \<open>Xdp_Lb_Encap\<close> describes the emitted headers (the checksum verifies),
  \<open>Xdp_Lb_Props\<close> has the properties (memory safety, output, affinity, delivery, round trip of encapsulation and
  stripping, termination of the loop), \<open>Xdp_Lb_Examples\<close> the concrete packets.

  \<^bold>\<open>Queueing disciplines.\<close> \<open>Qdisc\<close> is the interface as a locale: an operation changes the multiset of held
  packets only by what it accepts or hands out; conservation over every run is proved there once. It is
  interpreted by
  \<^item> \<open>Qdisc_Fifo\<close> (\<^verbatim>\<open>progs/bpf_qdisc_fifo.rs\<close>), which also keeps the order, and
  \<^item> \<open>Qdisc_Fq\<close> (\<^verbatim>\<open>progs/bpf_qdisc_fq.rs\<close>): flows on a heap with reference counts, in hash maps, in lists and in the
    tree of throttled flows. \<open>Fq_Inv\<close> states the invariant, \<open>Fq_Enqueue\<close> and \<open>Fq_Dequeue\<close> show that the operations
    keep it, \<open>Fq_Props\<close> and \<open>Fq_Reset\<close> have the properties, \<open>Fq_Examples\<close> concrete runs.

  \<^bold>\<open>Instruction tests.\<close> \<open>Bpf_Isa\<close> is an interpreter of the BPF instructions that the naked functions of
  \<^verbatim>\<open>progs/verifier_*.rs\<close> use: the meaning of the assembly language, not code of the repository. \<open>Bpf_Values\<close> has the
  facts on register values. \<open>Verifier_Sdiv\<close>, \<open>Verifier_Subreg\<close>, \<open>Verifier_Masking\<close>, \<open>Verifier_Movsx\<close>,
  \<open>Verifier_Div_Mod_Bounds\<close> and \<open>Verifier_Xdp_Access\<close> hold the programs of the files of the same names, instruction by
  instruction, and their \<^verbatim>\<open>test_tags!\<close> as tables. Shown: accepted programs return their tagged value from
  every state and for every result of the helpers; packet programs are memory safe on every packet, and the
  refused ones are not (with one exception, which is named); the masking code is a clamp.

  \<^bold>\<open>Symbolic executor.\<close> \<open>Equiv_Alu\<close> is the decoder, the arithmetic and the jump conditions of \<^verbatim>\<open>equiv/bpfsym.py\<close>;
  \<open>Equiv_Props\<close> shows that on encoded instructions it agrees with the interpreter.

  \<^bold>\<open>Bounds and fuel.\<close> The loops of the programs are total functions, with a measure or bounded by the source's
  own limit (the number of iterations of the benchmark, \<^verbatim>\<open>sch->limit\<close>, the constant counts of \<^verbatim>\<open>bpf_loop\<close>). The
  interpreter spends one unit of fuel on each taken jump; \<open>run\<close> gives eight, and the runs of the modelled programs
  that must return take at most three jumps. A run without fuel is the outcome \<open>Timeout\<close>, which no
  property counts as returning.

  \<^bold>\<open>Not modelled.\<close>
  \<^item> The other test programs of \<^verbatim>\<open>src/progs\<close>: their contract is a verdict or a log line of the kernel verifier, or
    what the user-space half of a test, which is not here, reads from a map.
  \<^item> Four functions of \<^verbatim>\<open>verifier_div_mod_bounds.rs\<close> with the condition \<^verbatim>\<open>w1 & 1 != 1\<close>, whose reading is up to the
    assembler.
  \<^item> Atomicity and concurrency: callbacks run one at a time, under the locks the kernel holds for them.
  \<^item> Of the executor: memory regions, relocations, helper models, path enumeration and solver queries; its
    driver and the parsers of ELF and BTF files, which are input and output around z3.
  \<^item> \<^verbatim>\<open>src/bpf-rs-core\<close> (declarations and macros), scripts, benchmarks, patches and documentation.
\<close>

section \<open>Bounds across the arithmetic tests\<close>


end
